(* ===== verification/Prelude.thy ===== *)
theory Prelude
  imports Main "HOL-Library.Multiset" "HOL-Library.Char_ord" "HOL-Library.List_Lexorder"
    "HOL-Library.Product_Lexorder" "HOL-Library.Sublist"
begin

section \<open>Shared vocabulary of the development\<close>

text \<open>
  What every component theory uses: the exceptions of the Python code as a datatype, the result
  type \<open>py_exn + 'a\<close> with its sequencing combinators, the insertion-ordered dictionary keys of
  Python, integer ceiling division, decimal text, and the lemma collections
  \<open>res_simps\<close> (results) and \<open>py_simps\<close> (dictionary and sorting helpers).

  Strings are HOL strings: sequences of code points below 256, so that Python's \<open>len\<close>, its
  comparison of strings and its comparison of tuples are \<open>length\<close> and the lexicographic orders
  of \<open>List_Lexorder\<close> and \<open>Product_Lexorder\<close>.
\<close>

named_theorems res_simps
named_theorems py_simps

subsection \<open>Exceptions as values\<close>

text \<open>
  \<open>RaiseContractValue\<close> is \<open>ContractValueError\<close> of \<open>domain/types.py\<close>; \<open>RaiseViolation\<close> carries the
  product error code and the field of a \<open>ContractViolation\<close>; \<open>RaiseProblem\<close> the code and the field
  of a \<open>PlanningProblemError\<close>; \<open>RaiseInput\<close> the field of a
  \<open>ProblemScheduleValidationInputError\<close>; \<open>RaiseCapability\<close> the code and the sorted names of a
  \<open>CapabilityContractError\<close>; \<open>RaiseDomain\<close> the class, the code (or message) and the field of an
  exception of a domain service.
\<close>

datatype py_exn =
    RaiseContractValue
  | RaiseValue
  | RaiseKey
  | RaiseType
  | RaiseOverflow
  | RaiseViolation string string
  | RaiseCapability string "string list"
  | RaiseProblem string string
  | RaiseInput string
  | RaiseDomain string string string

type_synonym 'a res = "py_exn + 'a"

definition bind_res :: "'a res \<Rightarrow> ('a \<Rightarrow> 'b res) \<Rightarrow> 'b res" where
  "bind_res m f = (case m of Inl e \<Rightarrow> Inl e | Inr x \<Rightarrow> f x)"

definition require_or :: "bool \<Rightarrow> py_exn \<Rightarrow> unit res" where
  "require_or b e = (if b then Inr () else Inl e)"

fun map_res :: "('a \<Rightarrow> 'b res) \<Rightarrow> 'a list \<Rightarrow> 'b list res" where
  "map_res f [] = Inr []"
| "map_res f (x # xs) = bind_res (f x) (\<lambda>y. bind_res (map_res f xs) (\<lambda>ys. Inr (y # ys)))"

text \<open>A loop that appends what its body produces, and stops at the first exception.\<close>

definition collect_res :: "('a \<Rightarrow> 'b list res) \<Rightarrow> 'a list \<Rightarrow> 'b list res" where
  "collect_res f xs = bind_res (map_res f xs) (\<lambda>yss. Inr (concat yss))"

text \<open>A loop of checks, the body given the index \<open>enumerate\<close> supplies.\<close>

fun check_from :: "nat \<Rightarrow> (nat \<Rightarrow> 'a \<Rightarrow> unit res) \<Rightarrow> 'a list \<Rightarrow> unit res" where
  "check_from i f [] = Inr ()"
| "check_from i f (x # xs) = bind_res (f i x) (\<lambda>_. check_from (Suc i) f xs)"

definition check_each :: "(nat \<Rightarrow> 'a \<Rightarrow> unit res) \<Rightarrow> 'a list \<Rightarrow> unit res" where
  "check_each f xs = check_from 0 f xs"

fun check_seq :: "unit res list \<Rightarrow> unit res" where
  "check_seq [] = Inr ()"
| "check_seq (m # ms) = bind_res m (\<lambda>_. check_seq ms)"

text \<open>A loop that returns \<open>False\<close> at the first row its test rejects.\<close>

fun all_res :: "('a \<Rightarrow> bool res) \<Rightarrow> 'a list \<Rightarrow> bool res" where
  "all_res f [] = Inr True"
| "all_res f (x # xs) = bind_res (f x) (\<lambda>b. if b then all_res f xs else Inr False)"

definition is_ok :: "'a res \<Rightarrow> bool" where
  "is_ok m = (case m of Inl _ \<Rightarrow> False | Inr _ \<Rightarrow> True)"

lemma bind_res_simps [simp]:
  "bind_res (Inl e) f = Inl e" "bind_res (Inr x) f = f x"
  by (simp_all add: bind_res_def)

lemma bind_res_Inr_iff [res_simps]:
  "bind_res m f = Inr y \<longleftrightarrow> (\<exists>x. m = Inr x \<and> f x = Inr y)"
  by (cases m) auto

lemma bind_res_Inl_iff [res_simps]:
  "bind_res m f = Inl e \<longleftrightarrow> m = Inl e \<or> (\<exists>x. m = Inr x \<and> f x = Inl e)"
  by (cases m) auto

text \<open>A computation that may raise, or end with a failure value, or go on.\<close>

lemma bind_outcome_iff:
  "bind_res m (\<lambda>out. case out of Inl f \<Rightarrow> Inr (Inl f) | Inr x \<Rightarrow> k x) = Inr (Inr y)
     \<longleftrightarrow> (\<exists>x. m = Inr (Inr x) \<and> k x = Inr (Inr y))"
proof (cases m)
  case (Inr out)
  then show ?thesis by (cases out) auto
qed simp

lemma bind_res_cong [fundef_cong]:
  "m = m' \<Longrightarrow> (\<And>x. m' = Inr x \<Longrightarrow> f x = g x) \<Longrightarrow> bind_res m f = bind_res m' g"
  by (cases m') auto

lemma require_or_simps [simp]:
  "require_or True e = Inr ()" "require_or False e = Inl e"
  by (simp_all add: require_or_def)

lemma require_or_Inr_iff [res_simps]: "require_or b e = Inr u \<longleftrightarrow> b"
  by (simp add: require_or_def)

lemma is_ok_simps [simp]: "is_ok (Inr x)" "\<not> is_ok (Inl e)"
  by (simp_all add: is_ok_def)

lemma is_ok_iff: "is_ok m \<longleftrightarrow> (\<exists>x. m = Inr x)"
  by (cases m) auto

lemma map_res_Inr_iff:
  "map_res f xs = Inr ys \<longleftrightarrow> list_all2 (\<lambda>x y. f x = Inr y) xs ys"
proof (induction xs arbitrary: ys)
  case Nil
  then show ?case by auto
next
  case (Cons x xs)
  then show ?case by (cases ys) (auto simp: res_simps)
qed

lemma map_res_mem:
  assumes "map_res f xs = Inr ys" and "y \<in> set ys"
  shows "\<exists>x \<in> set xs. f x = Inr y"
proof -
  have "list_all2 (\<lambda>x y. f x = Inr y) xs ys" using assms(1) by (simp add: map_res_Inr_iff)
  then show ?thesis using assms(2) by (induction rule: list_all2_induct) auto
qed

lemma map_res_total:
  "(\<And>x. x \<in> set xs \<Longrightarrow> f x = Inr (g x)) \<Longrightarrow> map_res f xs = Inr (map g xs)"
  by (induction xs) auto

lemma collect_res_total:
  "(\<And>x. x \<in> set xs \<Longrightarrow> f x = Inr (g x)) \<Longrightarrow> collect_res f xs = Inr (concat (map g xs))"
  by (simp add: collect_res_def map_res_total)

lemma collect_res_Inr_iff:
  "collect_res f xs = Inr ys \<longleftrightarrow>
     (\<forall>x \<in> set xs. is_ok (f x)) \<and> ys = concat (map (\<lambda>x. projr (f x)) xs)"
proof -
  have "map_res f xs = Inr zs \<longleftrightarrow> (\<forall>x \<in> set xs. is_ok (f x)) \<and> zs = map (\<lambda>x. projr (f x)) xs"
    for zs
  proof (induction xs arbitrary: zs)
    case Nil
    then show ?case by auto
  next
    case (Cons x xs)
    then show ?case by (cases "f x") (auto simp: res_simps)
  qed
  then show ?thesis by (auto simp: collect_res_def res_simps)
qed

lemma collect_res_mem:
  assumes "collect_res f xs = Inr ys" and "y \<in> set ys"
  obtains x zs where "x \<in> set xs" "f x = Inr zs" "y \<in> set zs"
  using assms by (auto simp: collect_res_Inr_iff is_ok_iff)

lemma collect_res_empty_iff:
  "collect_res f xs = Inr [] \<longleftrightarrow> (\<forall>x \<in> set xs. f x = Inr [])"
  by (auto simp: collect_res_Inr_iff is_ok_iff) (metis sum.sel(2))

lemma collect_res_Inl: "collect_res f xs = Inl e \<Longrightarrow> \<exists>x \<in> set xs. f x = Inl e"
proof (unfold collect_res_def)
  have "map_res f xs = Inl e \<Longrightarrow> \<exists>x \<in> set xs. f x = Inl e"
    by (induction xs) (auto simp: res_simps)
  then show "bind_res (map_res f xs) (\<lambda>yss. Inr (concat yss)) = Inl e \<Longrightarrow> \<exists>x \<in> set xs. f x = Inl e"
    by (auto simp: res_simps)
qed

lemma check_from_ok_iff:
  "check_from i f xs = Inr u \<longleftrightarrow> (\<forall>k < length xs. f (i + k) (xs ! k) = Inr ())"
proof (induction xs arbitrary: i)
  case Nil
  then show ?case by simp
next
  case (Cons x xs)
  have "(\<forall>k < length (x # xs). f (i + k) ((x # xs) ! k) = Inr ())
      \<longleftrightarrow> f i x = Inr () \<and> (\<forall>k < length xs. f (Suc i + k) (xs ! k) = Inr ())"
    by (auto simp: less_Suc_eq_0_disj)
  with Cons.IH [of "Suc i"] show ?case by (auto simp: res_simps)
qed

lemma check_each_ok_iff:
  "check_each f xs = Inr u \<longleftrightarrow> (\<forall>k < length xs. f k (xs ! k) = Inr ())"
  by (simp add: check_each_def check_from_ok_iff)

lemma check_each_okD:
  assumes "check_each f xs = Inr u" and "x \<in> set xs"
  shows "\<exists>i. f i x = Inr ()"
  using assms by (auto simp: check_each_ok_iff in_set_conv_nth)

lemma check_each_okI:
  "(\<And>i x. x \<in> set xs \<Longrightarrow> f i x = Inr ()) \<Longrightarrow> check_each f xs = Inr ()"
  by (simp add: check_each_ok_iff)

lemma check_seq_ok_iff [res_simps]: "check_seq ms = Inr u \<longleftrightarrow> (\<forall>m \<in> set ms. m = Inr ())"
  by (induction ms) (auto simp: res_simps)

declare check_seq.simps [simp del]

lemma all_res_True_iff: "all_res f xs = Inr True \<longleftrightarrow> (\<forall>x \<in> set xs. f x = Inr True)"
  by (induction xs) (auto simp: res_simps)

lemma all_res_total:
  "(\<And>x. x \<in> set xs \<Longrightarrow> f x = Inr (P x)) \<Longrightarrow> all_res f xs = Inr (list_all P xs)"
  by (induction xs) auto

subsection \<open>Dictionaries and sets built from lists\<close>

text \<open>\<open>list(dict.fromkeys(xs))\<close>: the distinct elements in the order of first occurrence.\<close>

definition first_seen :: "'a list \<Rightarrow> 'a list" where
  "first_seen xs = rev (remdups (rev xs))"

text \<open>\<open>sorted(set(xs))\<close>.\<close>

definition sorted_ids :: "'a::linorder list \<Rightarrow> 'a list" where
  "sorted_ids xs = sort (remdups xs)"

lemma sort_key_Nil_iff: "sort_key k xs = [] \<longleftrightarrow> xs = []"
  by (metis length_0_conv length_sort)

lemma set_first_seen [simp]: "set (first_seen xs) = set xs"
  by (simp add: first_seen_def)

lemma distinct_first_seen [simp]: "distinct (first_seen xs)"
  by (simp add: first_seen_def)

lemma set_sorted_ids [simp]: "set (sorted_ids xs) = set xs"
  by (simp add: sorted_ids_def)

lemma sorted_ids_sorted [simp]: "sorted (sorted_ids xs)" "distinct (sorted_ids xs)"
  by (simp_all add: sorted_ids_def)

lemma find_Some_set: "find P xs = Some x \<Longrightarrow> x \<in> set xs \<and> P x"
  by (auto simp: find_Some_iff)

text \<open>
  Where keys are unique, the last entry a dictionary comprehension keeps for a key is the only
  one, so looking the key up in either direction finds it.
\<close>

definition last_with :: "('a \<Rightarrow> bool) \<Rightarrow> 'a list \<Rightarrow> 'a option" where
  "last_with P xs = find P (rev xs)"

lemma last_with_Some: "last_with P xs = Some x \<Longrightarrow> x \<in> set xs \<and> P x"
  by (auto simp: last_with_def dest: find_Some_set)

lemma last_with_None_iff: "last_with P xs = None \<longleftrightarrow> (\<forall>x \<in> set xs. \<not> P x)"
  by (auto simp: last_with_def find_None_iff)

lemma last_with_key:
  assumes "distinct (map k xs)" and "x \<in> set xs"
  shows "last_with (\<lambda>y. k y = k x) xs = Some x"
proof -
  have "last_with (\<lambda>y. k y = k x) xs \<noteq> None"
    using assms(2) by (auto simp: last_with_None_iff)
  then obtain y where y: "last_with (\<lambda>y. k y = k x) xs = Some y" by blast
  then have "y \<in> set xs" "k y = k x" by (auto dest: last_with_Some)
  with assms have "y = x" by (meson distinct_map inj_onD)
  with y show ?thesis by simp
qed

subsection \<open>Integer division and decimal text\<close>

text \<open>\<open>(s + t - 1) // t\<close> and \<open>-(-s // t)\<close>, the two ceilings the code uses.\<close>

definition ceil_ticks :: "int \<Rightarrow> int \<Rightarrow> int" where
  "ceil_ticks seconds tick_seconds = (seconds + tick_seconds - 1) div tick_seconds"

definition ceil_div :: "int \<Rightarrow> int \<Rightarrow> int" where
  "ceil_div value divisor = - ((- value) div divisor)"

lemma le_int_div_iff: "0 < d \<Longrightarrow> q \<le> a div d \<longleftrightarrow> q * d \<le> (a::int)"
proof
  assume d: "0 < d" and "q \<le> a div d"
  then have "q * d \<le> (a div d) * d" by (simp add: mult_right_mono)
  also have "\<dots> \<le> a" using d by (simp add: minus_mod_eq_div_mult [symmetric])
  finally show "q * d \<le> a" .
next
  assume d: "0 < d" and "q * d \<le> a"
  then have "(q * d) div d \<le> a div d" by (intro zdiv_mono1)
  with d show "q \<le> a div d" by simp
qed

lemma int_div_less_iff: "0 < d \<Longrightarrow> a div d < q \<longleftrightarrow> a < q * (d::int)"
  using le_int_div_iff [of d q a] by linarith

lemma ceil_div_le_iff: "0 < d \<Longrightarrow> ceil_div v d \<le> q \<longleftrightarrow> v \<le> q * d"
proof -
  assume d: "0 < d"
  have "ceil_div v d \<le> q \<longleftrightarrow> - q \<le> (- v) div d" by (auto simp: ceil_div_def)
  also have "\<dots> \<longleftrightarrow> v \<le> q * d" using d by (simp add: le_int_div_iff)
  finally show ?thesis .
qed

lemma ceil_ticks_le_iff: "0 < d \<Longrightarrow> ceil_ticks v d \<le> q \<longleftrightarrow> v \<le> q * d"
proof -
  assume d: "0 < d"
  have "ceil_ticks v d \<le> q \<longleftrightarrow> \<not> q + 1 \<le> (v + d - 1) div d" by (auto simp: ceil_ticks_def)
  also have "\<dots> \<longleftrightarrow> v \<le> q * d" using d by (auto simp: le_int_div_iff algebra_simps)
  finally show ?thesis .
qed

lemma ceil_ticks_eq_ceil_div: "0 < d \<Longrightarrow> ceil_ticks v d = ceil_div v d"
  by (metis ceil_div_le_iff ceil_ticks_le_iff order_antisym order_refl)

lemma ceil_div_pos: "0 < d \<Longrightarrow> 0 < v \<Longrightarrow> 0 < ceil_div v d"
  using ceil_div_le_iff [of d v 0] by simp

text \<open>\<open>str(n)\<close> for integers.\<close>

definition digit_char :: "nat \<Rightarrow> char" where
  "digit_char n = char_of (48 + n)"

fun show_nat :: "nat \<Rightarrow> string" where
  "show_nat n = (if n < 10 then [digit_char n] else show_nat (n div 10) @ [digit_char (n mod 10)])"

declare show_nat.simps [simp del]

definition show_int :: "int \<Rightarrow> string" where
  "show_int i = (if i < 0 then ''-'' @ show_nat (nat (- i)) else show_nat (nat i))"

text \<open>\<open>f"{name}[{index}]"\<close>.\<close>

definition indexed :: "string \<Rightarrow> nat \<Rightarrow> string" where
  "indexed name i = name @ ''['' @ show_nat i @ '']''"

text \<open>\<open>str.isspace\<close> on the code points below 256.\<close>

definition is_space :: "char \<Rightarrow> bool" where
  "is_space c = (let n = of_char c :: nat in
     (9 \<le> n \<and> n \<le> 13) \<or> (28 \<le> n \<and> n \<le> 32) \<or> n = 133 \<or> n = 160)"

end
