(* ===== verification/Instants.thy ===== *)
theory Instants
  imports Prelude
begin

section \<open>Domain values: instants, durations and identifiers\<close>

text \<open>
  \<open>domain/types.py\<close>: the value helpers of the contracts. A UTC \<open>datetime\<close> is the number of
  microseconds since \<open>0001-01-01T00:00:00Z\<close>; the proleptic Gregorian calendar of Python's
  \<open>datetime\<close> (\<open>ymd2ord\<close>, \<open>ord2ymd\<close>) converts it to and from text. Adding a \<open>timedelta\<close> raises
  \<open>OverflowError\<close> outside the years 1 to 9999, which \<open>add_seconds\<close> keeps as a value.

  \<open>parse_utc_instant\<close> covers every shape the documentation of \<open>datetime.fromisoformat\<close> lists for
  Python 3.12: dashed, undashed and week dates, times down to the hour, the minute or the second,
  with a fraction after a point or a comma. Texts that are none of these are rejected.

  The main results are the round trip of \<open>format_utc_instant\<close> and \<open>parse_utc_instant\<close> on whole
  seconds and the arithmetic of \<open>add_seconds\<close>.
\<close>

type_synonym instant = int

definition micros :: int where
  "micros = 1000000"

definition day_seconds :: int where
  "day_seconds = 86400"

subsection \<open>The calendar of Python's datetime\<close>

definition is_leap :: "int \<Rightarrow> bool" where
  "is_leap y = (y mod 4 = 0 \<and> (y mod 100 \<noteq> 0 \<or> y mod 400 = 0))"

definition month_lengths :: "int list" where
  "month_lengths = [31, 28, 31, 30, 31, 30, 31, 31, 30, 31, 30, 31]"

definition month_offsets :: "int list" where
  "month_offsets = [0, 31, 59, 90, 120, 151, 181, 212, 243, 273, 304, 334]"

definition days_in_month :: "bool \<Rightarrow> int \<Rightarrow> int" where
  "days_in_month leap m = month_lengths ! nat (m - 1) + (if m = 2 \<and> leap then 1 else 0)"

definition days_before_month :: "bool \<Rightarrow> int \<Rightarrow> int" where
  "days_before_month leap m = month_offsets ! nat (m - 1) + (if m > 2 \<and> leap then 1 else 0)"

definition days_before_year :: "int \<Rightarrow> int" where
  "days_before_year year = (let y = year - 1 in y * 365 + y div 4 - y div 100 + y div 400)"

definition ymd2ord :: "int \<Rightarrow> int \<Rightarrow> int \<Rightarrow> int" where
  "ymd2ord y m d = days_before_year y + days_before_month (is_leap y) m + d"

definition month_day :: "bool \<Rightarrow> int \<Rightarrow> int \<times> int" where
  "month_day leap n =
     (let m = (n + 50) div 32; pre = days_before_month leap m
      in if pre > n then (m - 1, n - (pre - days_in_month leap (m - 1)) + 1)
         else (m, n - pre + 1))"

definition ord2ymd :: "int \<Rightarrow> int \<times> int \<times> int" where
  "ord2ymd ordinal =
     (let n = ordinal - 1;
          n400 = n div 146097; r400 = n mod 146097;
          n100 = r400 div 36524; r100 = r400 mod 36524;
          n4 = r100 div 1461; r4 = r100 mod 1461;
          n1 = r4 div 365; r1 = r4 mod 365;
          year = n400 * 400 + 1 + n100 * 100 + n4 * 4 + n1
      in if n1 = 4 \<or> n100 = 4 then (year - 1, 12, 31)
         else (year, month_day (n1 = 3 \<and> (n4 \<noteq> 24 \<or> n100 = 3)) r1))"

definition max_ordinal :: int where
  "max_ordinal = 3652059"

definition instant_bound :: instant where
  "instant_bound = max_ordinal * day_seconds * micros"

definition representable :: "instant \<Rightarrow> bool" where
  "representable t = (0 \<le> t \<and> t < instant_bound)"

subsection \<open>Text\<close>

definition digits2 :: "int \<Rightarrow> string" where
  "digits2 n = [digit_char (nat (n div 10)), digit_char (nat (n mod 10))]"

definition digits4 :: "int \<Rightarrow> string" where
  "digits4 n = digits2 (n div 100) @ digits2 (n mod 100)"

definition digit_value :: "char \<Rightarrow> int option" where
  "digit_value c =
     (let n = of_char c :: nat in if 48 \<le> n \<and> n \<le> 57 then Some (int (n - 48)) else None)"

fun number_from :: "int \<Rightarrow> string \<Rightarrow> int option" where
  "number_from acc [] = Some acc"
| "number_from acc (c # cs) =
     (case digit_value c of None \<Rightarrow> None | Some d \<Rightarrow> number_from (acc * 10 + d) cs)"

definition number_of_text :: "string \<Rightarrow> int option" where
  "number_of_text s = (if s = [] then None else number_from 0 s)"

text \<open>A fraction of a second: six digits count, shorter ones are padded, further ones dropped.\<close>

definition fraction_micros :: "string \<Rightarrow> int option" where
  "fraction_micros s =
     (case s of
        [] \<Rightarrow> Some 0
      | c # f \<Rightarrow>
          if (c = CHR ''.'' \<or> c = CHR '','') \<and> f \<noteq> [] \<and> number_of_text f \<noteq> None
          then number_of_text (take 6 (f @ ''00000'')) else None)"

definition make_instant :: "int \<Rightarrow> int \<Rightarrow> int \<Rightarrow> int \<Rightarrow> int \<Rightarrow> int \<Rightarrow> int \<Rightarrow> instant option" where
  "make_instant y mo d h mi s us =
     (if 1 \<le> y \<and> y \<le> 9999 \<and> 1 \<le> mo \<and> mo \<le> 12 \<and> 1 \<le> d \<and> d \<le> days_in_month (is_leap y) mo
        \<and> 0 \<le> h \<and> h \<le> 23 \<and> 0 \<le> mi \<and> mi \<le> 59 \<and> 0 \<le> s \<and> s \<le> 59
      then Some (((ymd2ord y mo d - 1) * day_seconds + h * 3600 + mi * 60 + s) * micros + us)
      else None)"

text \<open>
  \<open>datetime.fromisoformat(text + "+00:00")\<close>: a date, any separator character, a time. The date is
  \<open>YYYY-MM-DD\<close>, \<open>YYYYMMDD\<close>, \<open>YYYY-Www[-D]\<close> or \<open>YYYYWww[D]\<close>, the time \<open>HH[:MM[:SS[.f]]]\<close> or
  \<open>HH[MM[SS[.f]]]\<close> with a point or a comma. \<open>separator_at\<close> is the position CPython splits at.
\<close>

definition is_digit :: "char \<Rightarrow> bool" where
  "is_digit c = (digit_value c \<noteq> None)"

definition separator_at :: "string \<Rightarrow> nat" where
  "separator_at w =
     (if w ! 4 = CHR ''-'' then
        (if w ! 5 = CHR ''W'' then
           (if w ! 8 = CHR ''-'' \<and> 10 < length w \<and> \<not> is_digit (w ! 10) then 10 else 8)
         else 10)
      else if w ! 4 = CHR ''W'' then
        (let pos = 7 + length (takeWhile is_digit (drop 7 w))
         in if pos < 9 then pos else if even pos then 7 else 8)
      else 8)"

definition iso_week1_monday :: "int \<Rightarrow> int" where
  "iso_week1_monday year =
     (let first_day = ymd2ord year 1 1; first_weekday = (first_day + 6) mod 7
      in first_day - first_weekday + (if 3 < first_weekday then 7 else 0))"

definition iso_to_ymd :: "int \<Rightarrow> int \<Rightarrow> int \<Rightarrow> (int \<times> int \<times> int) option" where
  "iso_to_ymd year week day =
     (let first_weekday = (ymd2ord year 1 1 + 6) mod 7;
          long = (first_weekday = 3 \<or> first_weekday = 2 \<and> is_leap year)
      in if 1 \<le> year \<and> 1 \<le> week \<and> week \<le> (if long then 53 else 52) \<and> 1 \<le> day \<and> day \<le> 7
         then Some (ord2ymd (iso_week1_monday year + (week - 1) * 7 + day - 1))
         else None)"

definition iso_calendar :: "string \<Rightarrow> string \<Rightarrow> string \<Rightarrow> (int \<times> int \<times> int) option" where
  "iso_calendar year week day =
     (case (number_of_text year, number_of_text week, if day = [] then Some 1 else number_of_text day) of
        (Some y, Some w, Some d) \<Rightarrow> iso_to_ymd y w d
      | _ \<Rightarrow> None)"

definition iso_civil :: "string \<Rightarrow> string \<Rightarrow> string \<Rightarrow> (int \<times> int \<times> int) option" where
  "iso_civil year month day =
     (case (number_of_text year, number_of_text month, number_of_text day) of
        (Some y, Some m, Some d) \<Rightarrow> Some (y, m, d)
      | _ \<Rightarrow> None)"

definition iso_date :: "string \<Rightarrow> (int \<times> int \<times> int) option" where
  "iso_date s =
     (if s ! 4 = CHR ''-'' then
        (if s ! 5 = CHR ''W'' then iso_calendar (take 4 s) (take 2 (drop 6 s)) (drop 9 s)
         else if s ! 7 = CHR ''-'' then iso_civil (take 4 s) (take 2 (drop 5 s)) (drop 8 s)
         else None)
      else if s ! 4 = CHR ''W'' then iso_calendar (take 4 s) (take 2 (drop 5 s)) (drop 7 s)
      else iso_civil (take 4 s) (take 2 (drop 4 s)) (drop 6 s))"

definition iso_clock :: "string \<Rightarrow> string \<Rightarrow> string \<Rightarrow> string \<Rightarrow> (int \<times> int \<times> int \<times> int) option" where
  "iso_clock hour minute second fraction =
     (case (number_of_text hour, number_of_text minute, number_of_text second, fraction_micros fraction) of
        (Some h, Some m, Some s, Some us) \<Rightarrow> Some (h, m, s, us)
      | _ \<Rightarrow> None)"

definition iso_time :: "string \<Rightarrow> (int \<times> int \<times> int \<times> int) option" where
  "iso_time t =
     (if length t < 2 then None
      else if length t = 2 then iso_clock t ''00'' ''00'' []
      else if t ! 2 = CHR '':'' then
        (if length t = 5 then iso_clock (take 2 t) (drop 3 t) ''00'' []
         else if 8 \<le> length t \<and> t ! 5 = CHR '':''
         then iso_clock (take 2 t) (take 2 (drop 3 t)) (take 2 (drop 6 t)) (drop 8 t)
         else None)
      else if length t = 4 then iso_clock (take 2 t) (drop 2 t) ''00'' []
      else if 6 \<le> length t then iso_clock (take 2 t) (take 2 (drop 2 t)) (take 2 (drop 4 t)) (drop 6 t)
      else None)"

definition fromisoformat :: "string \<Rightarrow> instant option" where
  "fromisoformat v =
     (let n = separator_at (v @ ''+00:00'')
      in if length v \<le> n then None
         else case (iso_date (take n v), iso_time (drop (n + 1) v)) of
                (Some (y, mo, d), Some (h, mi, s, us)) \<Rightarrow> make_instant y mo d h mi s us
              | _ \<Rightarrow> None)"

definition parse_utc_instant :: "string \<Rightarrow> instant res" where
  "parse_utc_instant value =
     (if value = [] \<or> last value \<noteq> CHR ''Z'' then Inl RaiseContractValue
      else (case fromisoformat (butlast value) of
              None \<Rightarrow> Inl RaiseContractValue
            | Some t \<Rightarrow> Inr t))"

definition format_utc_instant :: "instant \<Rightarrow> string" where
  "format_utc_instant t =
     (let seconds = t div micros; day = seconds div day_seconds; r = seconds mod day_seconds
      in case ord2ymd (day + 1) of (y, m, d) \<Rightarrow>
           digits4 y @ ''-'' @ digits2 m @ ''-'' @ digits2 d @ ''T''
           @ digits2 (r div 3600) @ '':'' @ digits2 (r mod 3600 div 60) @ '':'' @ digits2 (r mod 60) @ ''Z'')"

subsection \<open>Arithmetic on instants\<close>

text \<open>\<open>t + timedelta(seconds=s)\<close>.\<close>

definition add_seconds :: "instant \<Rightarrow> int \<Rightarrow> instant res" where
  "add_seconds t s =
     (if representable (t + s * micros) then Inr (t + s * micros) else Inl RaiseOverflow)"

text \<open>
  \<open>int((later - earlier).total_seconds())\<close>: the quotient rounded towards zero. (The source goes
  through a double, which is exact below \<open>2 ^ 33\<close> seconds; the model is exact throughout.)
\<close>

definition trunc_seconds :: "instant \<Rightarrow> instant \<Rightarrow> int" where
  "trunc_seconds later earlier =
     (let d = later - earlier in if 0 \<le> d then d div micros else - ((- d) div micros))"

text \<open>\<open>_exact_seconds\<close>: raises on a fractional difference.\<close>

definition exact_seconds :: "instant \<Rightarrow> instant \<Rightarrow> int res" where
  "exact_seconds later earlier =
     (if (later - earlier) mod micros \<noteq> 0 then Inl RaiseValue else Inr ((later - earlier) div micros))"

subsection \<open>Durations and identifiers\<close>

definition canonical_id :: "string \<Rightarrow> string res" where
  "canonical_id value =
     (if value = [] \<or> 256 < length value then Inl RaiseContractValue
      else if list_ex (\<lambda>c. is_space c \<or> (of_char c :: nat) < 32 \<or> (of_char c :: nat) = 127) value
      then Inl RaiseContractValue else Inr value)"

definition require_duration_seconds :: "int \<Rightarrow> bool \<Rightarrow> int res" where
  "require_duration_seconds value allow_zero =
     (if value < (if allow_zero then 0 else 1) then Inl RaiseContractValue else Inr value)"

definition require_tick_seconds :: "int \<Rightarrow> int res" where
  "require_tick_seconds value = (if value \<le> 0 then Inl RaiseContractValue else Inr value)"

definition duration_to_ticks :: "int \<Rightarrow> int \<Rightarrow> int res" where
  "duration_to_ticks duration_seconds tick_seconds =
     bind_res (require_duration_seconds duration_seconds True) (\<lambda>duration.
     bind_res (require_tick_seconds tick_seconds) (\<lambda>tick.
     Inr ((duration + tick - 1) div tick)))"

subsection \<open>The calendar inverts\<close>

definition month_day_ok :: "bool \<Rightarrow> int \<Rightarrow> bool" where
  "month_day_ok leap n =
     (case month_day leap n of (m, d) \<Rightarrow>
        1 \<le> m \<and> m \<le> 12 \<and> 1 \<le> d \<and> d \<le> days_in_month leap m
        \<and> days_before_month leap m + d = n + 1)"

lemma month_day_ok_table:
  "list_all (month_day_ok False) [0..364]" "list_all (month_day_ok True) [0..365]"
  by code_simp+

lemma month_day_ok: "0 \<le> n \<Longrightarrow> n < 365 + (if leap then 1 else 0) \<Longrightarrow> month_day_ok leap n"
  using month_day_ok_table by (cases leap) (auto simp: list_all_iff)

text \<open>The decomposition of \<open>year - 1\<close> into centuries, leap cycles and years.\<close>

lemma mod_zero_at_top: "1 \<le> (w::int) \<Longrightarrow> w \<le> m \<Longrightarrow> w mod m = 0 \<longleftrightarrow> w = m"
  by (cases "w = m") (simp_all add: mod_pos_pos_trivial)

lemma year_parts:
  fixes a b c e :: int
  assumes "0 \<le> b" "b \<le> 3" "0 \<le> c" "c \<le> 24" "0 \<le> e" "e \<le> 3"
  defines "y \<equiv> a * 400 + 1 + b * 100 + c * 4 + e"
  shows "days_before_year y = a * 146097 + b * 36524 + c * 1461 + e * 365"
    and "is_leap y = (e = 3 \<and> (c \<noteq> 24 \<or> b = 3))"
proof -
  have "(y - 1) div 4 = a * 100 + b * 25 + c"
    using assms(1-6) by (intro int_div_pos_eq [where r = e]) (auto simp: y_def)
  moreover have "(y - 1) div 100 = a * 4 + b"
    using assms(1-6) by (intro int_div_pos_eq [where r = "c * 4 + e"]) (auto simp: y_def)
  moreover have "(y - 1) div 400 = a"
    using assms(1-6) by (intro int_div_pos_eq [where r = "b * 100 + c * 4 + e"]) (auto simp: y_def)
  ultimately show "days_before_year y = a * 146097 + b * 36524 + c * 1461 + e * 365"
    by (simp add: days_before_year_def y_def)
  have y: "y = (e + 1) + 4 * (a * 100 + b * 25 + c)"
    "y = (c * 4 + e + 1) + 100 * (a * 4 + b)" "y = (b * 100 + c * 4 + e + 1) + 400 * a"
    by (auto simp: y_def)
  have "y mod 4 = (e + 1) mod 4" by (subst y(1)) (simp only: mod_mult_self2)
  moreover have "y mod 100 = (c * 4 + e + 1) mod 100" by (subst y(2)) (simp only: mod_mult_self2)
  moreover have "y mod 400 = (b * 100 + c * 4 + e + 1) mod 400"
    by (subst y(3)) (simp only: mod_mult_self2)
  ultimately have "y mod 4 = 0 \<longleftrightarrow> e + 1 = 4" "y mod 100 = 0 \<longleftrightarrow> c * 4 + e + 1 = 100"
    "y mod 400 = 0 \<longleftrightarrow> b * 100 + c * 4 + e + 1 = 400"
    using assms(1-6) by (auto simp: mod_zero_at_top)
  then show "is_leap y = (e = 3 \<and> (c \<noteq> 24 \<or> b = 3))"
    using assms(1-6) unfolding is_leap_def by auto
qed

lemma ord2ymd_last_day:
  fixes a b c :: int
  assumes "0 \<le> b" "b \<le> 3" "0 \<le> c" "c \<le> 24" "c \<noteq> 24 \<or> b = 3"
  shows "ymd2ord (a * 400 + 1 + b * 100 + c * 4 + 3) 12 31 = a * 146097 + b * 36524 + c * 1461 + 1461"
  using assms year_parts [of b c 3 a]
  by (simp add: ymd2ord_def days_before_month_def month_offsets_def)

definition civil_ok :: "int \<Rightarrow> int \<times> int \<times> int \<Rightarrow> bool" where
  "civil_ok n = (\<lambda>(y, m, d). 1 \<le> m \<and> m \<le> 12 \<and> 1 \<le> d \<and> d \<le> days_in_month (is_leap y) m
     \<and> ymd2ord y m d = n)"

text \<open>The quotients \<open>ord2ymd\<close> computes, with their bounds.\<close>

lemma ord2ymd_parts:
  fixes n :: int
  obtains a b c e r1 :: int where
    "n - 1 = a * 146097 + b * 36524 + c * 1461 + e * 365 + r1"
    "0 \<le> b" "b \<le> 4" "0 \<le> c" "c \<le> 24" "0 \<le> e" "e \<le> 4" "0 \<le> r1" "r1 < 365"
    "b = 4 \<longrightarrow> c = 0 \<and> e = 0 \<and> r1 = 0" "e = 4 \<longrightarrow> r1 = 0 \<and> c \<noteq> 24 \<and> b \<noteq> 4"
    "ord2ymd n = (let y = a * 400 + 1 + b * 100 + c * 4 + e in
       if e = 4 \<or> b = 4 then (y - 1, 12, 31)
       else (y, month_day (e = 3 \<and> (c \<noteq> 24 \<or> b = 3)) r1))"
proof -
  define k where "k = n - 1"
  define a where "a = k div 146097"
  define r400 where "r400 = k mod 146097"
  define b where "b = r400 div 36524"
  define r100 where "r100 = r400 mod 36524"
  define c where "c = r100 div 1461"
  define r4 where "r4 = r100 mod 1461"
  define e where "e = r4 div 365"
  define r1 where "r1 = r4 mod 365"
  have ks: "k = a * 146097 + r400" "r400 = b * 36524 + r100" "r100 = c * 1461 + r4"
    "r4 = e * 365 + r1"
    by (simp_all add: a_def r400_def b_def r100_def c_def r4_def e_def r1_def)
  have rs: "0 \<le> r400" "r400 < 146097" "0 \<le> r100" "r100 < 36524" "0 \<le> r4" "r4 < 1461"
    "0 \<le> r1" "r1 < 365"
    by (simp_all add: r400_def r100_def r4_def r1_def)
  have pos: "0 \<le> b" "0 \<le> c" "0 \<le> e"
    using rs by (simp_all add: b_def c_def e_def pos_imp_zdiv_nonneg_iff)
  have "ord2ymd n = (let y = a * 400 + 1 + b * 100 + c * 4 + e in
      if e = 4 \<or> b = 4 then (y - 1, 12, 31)
      else (y, month_day (e = 3 \<and> (c \<noteq> 24 \<or> b = 3)) r1))"
    by (simp add: ord2ymd_def Let_def k_def a_def r400_def b_def r100_def c_def r4_def e_def r1_def)
  moreover have "n - 1 = a * 146097 + b * 36524 + c * 1461 + e * 365 + r1"
    using ks by (simp add: k_def)
  moreover have "b \<le> 4" "c \<le> 24" "e \<le> 4" using ks rs by linarith+
  moreover have "c = 0 \<and> e = 0 \<and> r1 = 0" if "b = 4" using that ks rs pos by linarith
  moreover have "r1 = 0 \<and> c \<noteq> 24 \<and> b \<noteq> 4" if "e = 4" using that ks rs pos by linarith
  ultimately show thesis using that pos rs by blast
qed

lemma ord2ymd_civil_ok: "civil_ok n (ord2ymd n)"
proof -
  obtain a b c e r1 where k: "n - 1 = a * 146097 + b * 36524 + c * 1461 + e * 365 + r1"
    and bounds: "0 \<le> b" "b \<le> 4" "0 \<le> c" "c \<le> 24" "0 \<le> e" "e \<le> 4" "0 \<le> r1" "r1 < 365"
    and b4: "b = 4 \<longrightarrow> c = 0 \<and> e = 0 \<and> r1 = 0"
    and e4: "e = 4 \<longrightarrow> r1 = 0 \<and> c \<noteq> 24 \<and> b \<noteq> 4"
    and unf: "ord2ymd n = (let y = a * 400 + 1 + b * 100 + c * 4 + e in
       if e = 4 \<or> b = 4 then (y - 1, 12, 31)
       else (y, month_day (e = 3 \<and> (c \<noteq> 24 \<or> b = 3)) r1))"
    by (rule ord2ymd_parts [where n = n])
  let ?y = "a * 400 + 1 + b * 100 + c * 4 + e"
  consider "e = 4" | "b = 4" | "e \<le> 3" "b \<le> 3" using bounds by linarith
  then show ?thesis
  proof cases
    case 1
    with e4 bounds have "b \<le> 3" "c \<noteq> 24" "r1 = 0" by auto
    then have "ymd2ord (a * 400 + 1 + b * 100 + c * 4 + 3) 12 31
        = a * 146097 + b * 36524 + c * 1461 + 1461"
      using bounds by (intro ord2ymd_last_day) auto
    moreover have "ord2ymd n = (a * 400 + 1 + b * 100 + c * 4 + 3, 12, 31)"
      using 1 by (simp add: unf Let_def)
    ultimately show ?thesis using 1 k \<open>r1 = 0\<close>
      by (simp only: civil_ok_def) (simp add: days_in_month_def month_lengths_def)
  next
    case 2
    with b4 have "c = 0" "e = 0" "r1 = 0" by auto
    then have "ord2ymd n = (400 + a * 400, 12, 31)" using 2 by (simp add: unf Let_def)
    then show ?thesis using 2 k \<open>c = 0\<close> \<open>e = 0\<close> \<open>r1 = 0\<close> ord2ymd_last_day [of 3 24 a]
      by (simp only: civil_ok_def) (simp add: days_in_month_def month_lengths_def)
  next
    case 3
    then have yp: "days_before_year ?y = a * 146097 + b * 36524 + c * 1461 + e * 365"
      "is_leap ?y = (e = 3 \<and> (c \<noteq> 24 \<or> b = 3))"
      using year_parts [of b c e a] bounds by auto
    have "month_day_ok (is_leap ?y) r1" using bounds by (auto intro: month_day_ok)
    with yp 3 k show ?thesis
      by (auto simp: civil_ok_def unf Let_def month_day_ok_def ymd2ord_def)
  qed
qed

lemma ord2ymd_year:
  assumes "1 \<le> n" "n \<le> max_ordinal"
  shows "1 \<le> fst (ord2ymd n) \<and> fst (ord2ymd n) \<le> 9999"
proof -
  obtain a b c e r1 where k: "n - 1 = a * 146097 + b * 36524 + c * 1461 + e * 365 + r1"
    and bounds: "0 \<le> b" "b \<le> 4" "0 \<le> c" "c \<le> 24" "0 \<le> e" "e \<le> 4" "0 \<le> r1" "r1 < 365"
    and b4: "b = 4 \<longrightarrow> c = 0 \<and> e = 0 \<and> r1 = 0"
    and e4: "e = 4 \<longrightarrow> r1 = 0 \<and> c \<noteq> 24 \<and> b \<noteq> 4"
    and unf: "ord2ymd n = (let y = a * 400 + 1 + b * 100 + c * 4 + e in
       if e = 4 \<or> b = 4 then (y - 1, 12, 31)
       else (y, month_day (e = 3 \<and> (c \<noteq> 24 \<or> b = 3)) r1))"
    by (rule ord2ymd_parts [where n = n])
  have n: "0 \<le> n - 1" "n - 1 < 3652059" using assms by (auto simp: max_ordinal_def)
  have fin: "b * 36524 + c * 1461 + e * 365 + r1 \<le> 146096"
  proof (cases "b = 4 \<or> e = 4")
    case True
    then show ?thesis using b4 e4 bounds by fastforce
  next
    case False
    then have "b \<le> 3" "e \<le> 3" using bounds by auto
    then show ?thesis using bounds by linarith
  qed
  have "0 \<le> a" "a \<le> 24" using k n fin bounds by linarith+
  then have "a \<le> 23 \<or> a = 24" by linarith
  then show ?thesis
  proof
    assume "a \<le> 23"
    then show ?thesis using \<open>0 \<le> a\<close> bounds b4 e4 by (auto simp: unf Let_def)
  next
    assume a: "a = 24"
    then have r: "b * 36524 + c * 1461 + e * 365 + r1 \<le> 145730" using k n by linarith
    then have b: "b \<le> 3" using bounds by linarith
    have "b * 100 + c * 4 + e \<le> 398 \<or> e = 4"
    proof (cases "b = 3 \<and> c = 24")
      case True
      then show ?thesis using r bounds by auto
    next
      case False
      then have "b \<le> 2 \<or> c \<le> 23" using b bounds by linarith
      then show ?thesis using b bounds by auto
    qed
    then show ?thesis using a b bounds e4 by (auto simp: unf Let_def)
  qed
qed

subsection \<open>Round trip of the text form\<close>

lemma digit_value_digit_char [simp]: "n < 10 \<Longrightarrow> digit_value (digit_char n) = Some (int n)"
  by (simp add: digit_value_def digit_char_def Let_def)

lemma number_from_digits2:
  assumes "0 \<le> n" "n < 100"
  shows "number_from acc (digits2 n @ cs) = number_from (acc * 100 + n) cs"
proof -
  have "nat (n div 10) < 10" "nat (n mod 10) < 10" "0 \<le> n div 10" using assms by auto
  then show ?thesis by (simp add: digits2_def algebra_simps)
qed

lemma number_of_digits2 [simp]: "0 \<le> n \<Longrightarrow> n < 100 \<Longrightarrow> number_of_text (digits2 n) = Some n"
  using number_from_digits2 [of n 0 "[]"] by (simp add: number_of_text_def digits2_def)

lemma number_of_digits4 [simp]:
  assumes "0 \<le> n" "n < 10000"
  shows "number_of_text (digits4 n) = Some n"
proof -
  have "0 \<le> n div 100" "n div 100 < 100" using assms by auto
  then have "number_from 0 (digits4 n) = Some n"
    using number_from_digits2 [of "n mod 100" "n div 100" "[]"]
    by (simp add: digits4_def number_from_digits2)
  then show ?thesis by (simp add: number_of_text_def digits4_def digits2_def)
qed

lemma length_digits [simp]: "length (digits2 n) = 2" "length (digits4 n) = 4"
  by (simp_all add: digits2_def digits4_def)

text \<open>Reading a text of fixed-width fields back field by field.\<close>

lemma iso_date_fields:
  assumes "length Y = 4" "length Mo = 2" "length D = 2" "Mo ! 0 \<noteq> CHR ''W''"
  shows "iso_date (Y @ ''-'' @ Mo @ ''-'' @ D) = iso_civil Y Mo D"
  using assms by (simp add: iso_date_def nth_append)

lemma iso_time_fields:
  assumes "length H = 2" "length Mi = 2" "length S = 2"
  shows "iso_time (H @ '':'' @ Mi @ '':'' @ S) = iso_clock H Mi S []"
  using assms by (simp add: iso_time_def nth_append)

lemma fromisoformat_fields:
  assumes date: "length date = 10" "date ! 4 = CHR ''-''" "date ! 5 \<noteq> CHR ''W''"
    and some: "iso_date date = Some (y, mo, d)" "iso_time time = Some (h, mi, s, us)"
  shows "fromisoformat (date @ ''T'' @ time) = make_instant y mo d h mi s us"
proof -
  have "separator_at (date @ rest) = 10" for rest using date by (simp add: separator_at_def nth_append)
  then show ?thesis using date some by (simp add: fromisoformat_def)
qed

lemma time_fields:
  assumes "0 \<le> r" "r < day_seconds"
  shows "0 \<le> r div 3600" "r div 3600 \<le> 23" "0 \<le> r mod 3600 div 60" "r mod 3600 div 60 \<le> 59"
    "0 \<le> r mod 60" "r mod 60 \<le> 59" "r div 3600 * 3600 + r mod 3600 div 60 * 60 + r mod 60 = r"
proof -
  have "r mod 3600 mod 60 = r mod 60" by (simp add: mod_mod_cancel)
  then show "r div 3600 * 3600 + r mod 3600 div 60 * 60 + r mod 60 = r"
    using div_mult_mod_eq [of "r mod 3600" 60] div_mult_mod_eq [of r 3600] by linarith
  show "0 \<le> r mod 60" "r mod 60 \<le> 59" using pos_mod_bound [of 60 r] by auto
  show "0 \<le> r div 3600" "r div 3600 \<le> 23" using assms by (auto simp: day_seconds_def)
  have "0 \<le> r mod 3600" "r mod 3600 < 3600" by simp_all
  then show "0 \<le> r mod 3600 div 60" "r mod 3600 div 60 \<le> 59"
    using zdiv_mono1 [of "r mod 3600" 3599 60] by (simp_all add: pos_imp_zdiv_nonneg_iff)
qed

lemma make_instant_civil:
  assumes "civil_ok (day + 1) (y, m, d)" "1 \<le> y" "y \<le> 9999"
    and "0 \<le> h" "h \<le> 23" "0 \<le> mi" "mi \<le> 59" "0 \<le> s" "s \<le> 59"
    and "h * 3600 + mi * 60 + s = r"
  shows "make_instant y m d h mi s us = Some ((day * day_seconds + r) * micros + us)"
  using assms by (auto simp: make_instant_def civil_ok_def)

lemma make_instant_ord2ymd:
  assumes "0 \<le> day" "day < max_ordinal" "0 \<le> r" "r < day_seconds"
    and "ord2ymd (day + 1) = (y, m, d)"
  shows "make_instant y m d (r div 3600) (r mod 3600 div 60) (r mod 60) us
    = Some ((day * day_seconds + r) * micros + us)"
proof (rule make_instant_civil)
  show "civil_ok (day + 1) (y, m, d)" using ord2ymd_civil_ok [of "day + 1"] assms(5) by simp
  show "1 \<le> y" "y \<le> 9999" using ord2ymd_year [of "day + 1"] assms(1,2,5) by simp_all
qed (fact time_fields [OF assms(3,4)])+

lemma month_cases: "1 \<le> m \<Longrightarrow> m \<le> (12::int) \<Longrightarrow> m \<in> {1, 2, 3, 4, 5, 6, 7, 8, 9, 10, 11, 12}"
  by simp arith

lemma days_in_month_le: "1 \<le> m \<Longrightarrow> m \<le> 12 \<Longrightarrow> days_in_month l m \<le> 31"
  by (drule (1) month_cases) (auto simp: days_in_month_def month_lengths_def)

text \<open>The text of fields within their widths reads back as \<open>make_instant\<close> of the fields.\<close>

lemma fromisoformat_digits:
  assumes f: "0 \<le> y" "y < 10000" "0 \<le> m" "m < 100" "0 \<le> d" "d < 100" "0 \<le> h" "h < 100"
    "0 \<le> mi" "mi < 100" "0 \<le> s" "s < 100"
  shows "fromisoformat (digits4 y @ ''-'' @ digits2 m @ ''-'' @ digits2 d @ ''T''
    @ digits2 h @ '':'' @ digits2 mi @ '':'' @ digits2 s) = make_instant y m d h mi s 0"
proof -
  let ?date = "digits4 y @ ''-'' @ digits2 m @ ''-'' @ digits2 d"
  let ?time = "digits2 h @ '':'' @ digits2 mi @ '':'' @ digits2 s"
  have w: "digits2 m ! 0 \<noteq> CHR ''W''"
    using number_of_digits2 [OF f(3,4)] by (auto simp: digits2_def number_of_text_def digit_value_def)
  have "iso_date ?date = Some (y, m, d)"
    using f by (subst iso_date_fields) (simp_all add: w iso_civil_def)
  moreover have "iso_time ?time = Some (h, mi, s, 0)"
    using f by (subst iso_time_fields) (simp_all add: iso_clock_def fraction_micros_def)
  moreover have "length ?date = 10" "?date ! 4 = CHR ''-''" "?date ! 5 \<noteq> CHR ''W''"
    using w by (simp_all add: nth_append)
  ultimately show ?thesis using fromisoformat_fields [of ?date y m d ?time] by simp
qed

lemma format_parts:
  assumes "representable t" and "t mod micros = 0"
  obtains y m d h mi s where "0 \<le> y" "y < 10000" "0 \<le> m" "m < 100" "0 \<le> d" "d < 100" "0 \<le> h" "h < 100"
    "0 \<le> mi" "mi < 100" "0 \<le> s" "s < 100" "make_instant y m d h mi s 0 = Some t"
    "format_utc_instant t = digits4 y @ ''-'' @ digits2 m @ ''-'' @ digits2 d @ ''T''
      @ digits2 h @ '':'' @ digits2 mi @ '':'' @ digits2 s @ ''Z''"
proof -
  define day where "day = t div micros div day_seconds"
  define r where "r = t div micros mod day_seconds"
  have r: "0 \<le> r" "r < day_seconds" by (simp_all add: r_def day_seconds_def)
  have "t div micros < max_ordinal * day_seconds"
    using assms(1) by (simp add: representable_def instant_bound_def micros_def int_div_less_iff)
  then have day: "0 \<le> day" "day < max_ordinal"
    using assms(1) by (simp_all add: day_def representable_def day_seconds_def micros_def
        int_div_less_iff pos_imp_zdiv_nonneg_iff)
  have t: "t = (day * day_seconds + r) * micros"
    using assms(2) by (simp add: day_def r_def minus_mod_eq_div_mult [symmetric])
  obtain y m d where ymd: "ord2ymd (day + 1) = (y, m, d)" by (metis prod_cases3)
  have yr: "0 \<le> y" "y < 10000" using ord2ymd_year [of "day + 1"] day ymd by auto
  have "1 \<le> m" "m \<le> 12" "1 \<le> d" "d \<le> days_in_month (is_leap y) m"
    using ord2ymd_civil_ok [of "day + 1"] ymd by (auto simp: civil_ok_def)
  then have md: "0 \<le> m" "m < 100" "0 \<le> d" "d < 100"
    using days_in_month_le [of m "is_leap y"] by auto
  note tf = time_fields [OF r]
  have f: "format_utc_instant t = digits4 y @ ''-'' @ digits2 m @ ''-'' @ digits2 d @ ''T''
      @ digits2 (r div 3600) @ '':'' @ digits2 (r mod 3600 div 60) @ '':'' @ digits2 (r mod 60) @ ''Z''"
    by (simp add: format_utc_instant_def Let_def ymd flip: day_def r_def)
  have mk: "make_instant y m d (r div 3600) (r mod 3600 div 60) (r mod 60) 0 = Some t"
    using make_instant_ord2ymd [OF day r ymd, of 0] t by simp
  have "r div 3600 < 100" "r mod 3600 div 60 < 100" "r mod 60 < 100"
    using order.strict_trans1 [OF tf(2)] order.strict_trans1 [OF tf(4)] order.strict_trans1 [OF tf(6)] by simp_all
  then show ?thesis by (intro that [OF yr md tf(1) _ tf(3) _ tf(5) _ mk f])
qed

lemma parse_format_instant:
  assumes "representable t" and "t mod micros = 0"
  shows "parse_utc_instant (format_utc_instant t) = Inr t"
proof (rule format_parts [OF assms])
  fix y m d h mi s
  assume b: "0 \<le> y" "y < 10000" "0 \<le> m" "m < 100" "0 \<le> d" "d < 100" "0 \<le> h" "h < 100"
    "0 \<le> mi" "mi < 100" "0 \<le> s" "s < 100" and t: "make_instant y m d h mi s 0 = Some t"
    and f: "format_utc_instant t = digits4 y @ ''-'' @ digits2 m @ ''-'' @ digits2 d @ ''T''
      @ digits2 h @ '':'' @ digits2 mi @ '':'' @ digits2 s @ ''Z''"
  show ?thesis using fromisoformat_digits [OF b] t unfolding parse_utc_instant_def f by (simp add: butlast_append)
qed

text \<open>A fraction of a second is not written.\<close>

lemma format_truncates: "format_utc_instant (t - t mod micros) = format_utc_instant t"
proof -
  have "(t - t mod micros) div micros = t div micros" by (simp add: minus_mod_eq_div_mult micros_def)
  then show ?thesis by (simp only: format_utc_instant_def)
qed

lemma parse_format_truncates:
  assumes "representable t"
  shows "parse_utc_instant (format_utc_instant t) = Inr (t - t mod micros)"
proof -
  have "0 \<le> t - t mod micros" "t - t mod micros \<le> t"
    using assms by (simp_all add: representable_def minus_mod_eq_div_mult micros_def pos_imp_zdiv_nonneg_iff)
  then have "representable (t - t mod micros)" using assms by (simp add: representable_def)
  then have "parse_utc_instant (format_utc_instant (t - t mod micros)) = Inr (t - t mod micros)"
    by (rule parse_format_instant) (simp add: minus_mod_eq_div_mult)
  then show ?thesis by (simp only: format_truncates)
qed

text \<open>The basic format of ISO 8601, without hyphens and colons.\<close>

lemma digits2_digits:
  assumes "0 \<le> n" "n < 100" "c \<in> set (digits2 n)" shows "is_digit c"
proof -
  have "0 \<le> n div 10" "n div 10 < 10" "0 \<le> n mod 10" "n mod 10 < 10" using assms by auto
  then show ?thesis using assms(3) by (auto simp: digits2_def is_digit_def)
qed

lemma digits4_digits: "0 \<le> n \<Longrightarrow> n < 10000 \<Longrightarrow> c \<in> set (digits4 n) \<Longrightarrow> is_digit c"
  by (auto simp: digits4_def intro: digits2_digits [of "n div 100"] digits2_digits [of "n mod 100"])

lemma fromisoformat_basic:
  assumes b: "0 \<le> y" "y < 10000" "0 \<le> m" "m < 100" "0 \<le> d" "d < 100" "0 \<le> h" "h < 100"
    "0 \<le> mi" "mi < 100" "0 \<le> s" "s < 100"
  shows "fromisoformat (digits4 y @ digits2 m @ digits2 d @ ''T'' @ digits2 h @ digits2 mi @ digits2 s) = make_instant y m d h mi s 0"
proof -
  let ?date = "digits4 y @ digits2 m @ digits2 d"
  let ?time = "digits2 h @ digits2 mi @ digits2 s"
  have dig: "is_digit (digits2 n ! 0)" if "0 \<le> n" "n < 100" for n
    by (rule digits2_digits [OF that]) (simp add: digits2_def)
  have nd: "\<not> is_digit CHR ''-''" "\<not> is_digit CHR ''W''" "\<not> is_digit CHR '':''" by (simp_all add: is_digit_def digit_value_def)
  have 4: "(?date @ z) ! 4 \<noteq> CHR ''-''" "(?date @ z) ! 4 \<noteq> CHR ''W''" for z
    using dig [OF b(3,4)] nd by (auto simp: nth_append)
  have sep: "separator_at (?date @ z) = 8" for z using 4 [of z] by (simp add: separator_at_def)
  have "iso_date ?date = Some (y, m, d)"
    using 4 [of "[]"] b by (simp add: iso_date_def iso_civil_def)
  moreover have "?time ! 2 \<noteq> CHR '':''" using dig [OF b(9,10)] nd by (auto simp: nth_append)
  then have "iso_time ?time = Some (h, mi, s, 0)"
    using b by (simp add: iso_time_def iso_clock_def fraction_micros_def)
  moreover have "length ?date = 8" by simp
  ultimately show ?thesis using sep by (simp add: fromisoformat_def)
qed

lemma parse_basic_format:
  assumes "representable t" and "t mod micros = 0"
  shows "parse_utc_instant (filter (\<lambda>c. c \<noteq> CHR ''-'' \<and> c \<noteq> CHR '':'') (format_utc_instant t)) = Inr t"
proof (rule format_parts [OF assms])
  fix y m d h mi s
  assume b: "0 \<le> y" "y < 10000" "0 \<le> m" "m < 100" "0 \<le> d" "d < 100" "0 \<le> h" "h < 100"
    "0 \<le> mi" "mi < 100" "0 \<le> s" "s < 100" and t: "make_instant y m d h mi s 0 = Some t"
    and f: "format_utc_instant t = digits4 y @ ''-'' @ digits2 m @ ''-'' @ digits2 d @ ''T''
      @ digits2 h @ '':'' @ digits2 mi @ '':'' @ digits2 s @ ''Z''"
  let ?P = "\<lambda>c. c \<noteq> CHR ''-'' \<and> c \<noteq> CHR '':''"
  have nd: "is_digit c \<Longrightarrow> ?P c" for c by (auto simp: is_digit_def digit_value_def)
  have two: "filter ?P (digits2 n) = digits2 n" if "0 \<le> n" "n < 100" for n
    using digits2_digits [OF that] nd by (simp add: filter_id_conv)
  have "filter ?P (digits4 y) = digits4 y" using digits4_digits [OF b(1,2)] nd by (simp add: filter_id_conv)
  then have "filter ?P (format_utc_instant t) = (digits4 y @ digits2 m @ digits2 d @ ''T'' @ digits2 h @ digits2 mi @ digits2 s) @ ''Z''"
    using b unfolding f by (simp add: two)
  then show ?thesis using fromisoformat_basic [OF b] t by (simp add: parse_utc_instant_def butlast_append)
qed

lemma number_from_bounds:
  "number_from acc cs = Some n \<Longrightarrow> acc * 10 ^ length cs \<le> n \<and> n < (acc + 1) * 10 ^ length cs"
proof (induction cs arbitrary: acc)
  case Nil
  then show ?case by simp
next
  case (Cons c cs)
  then obtain v where v: "digit_value c = Some v" by (auto split: option.splits)
  then have "0 \<le> v" "v \<le> 9" by (auto simp: digit_value_def Let_def split: if_splits)
  have n: "(acc * 10 + v) * 10 ^ length cs \<le> n" "n < (acc * 10 + v + 1) * 10 ^ length cs"
    using Cons v by auto
  have p: "acc * 10 ^ length (c # cs) = (acc * 10) * 10 ^ length cs"
    "(acc + 1) * 10 ^ length (c # cs) = (acc * 10 + 10) * 10 ^ length cs"
    by (simp_all add: algebra_simps)
  have "(acc * 10) * 10 ^ length cs \<le> (acc * 10 + v) * 10 ^ length cs"
    using \<open>0 \<le> v\<close> by (intro mult_right_mono) auto
  moreover have "(acc * 10 + v + 1) * 10 ^ length cs \<le> (acc * 10 + 10) * 10 ^ length cs"
    using \<open>v \<le> 9\<close> by (intro mult_right_mono) auto
  ultimately show ?case using n unfolding p by linarith
qed

lemma fraction_micros_bounds: "fraction_micros s = Some us \<Longrightarrow> 0 \<le> us \<and> us < micros"
proof -
  assume a: "fraction_micros s = Some us"
  show ?thesis
  proof (cases s)
    case Nil
    with a show ?thesis by (simp add: fraction_micros_def micros_def)
  next
    case (Cons c f)
    with a have "f \<noteq> []" and n: "number_of_text (take 6 (f @ ''00000'')) = Some us"
      by (auto simp: fraction_micros_def split: if_splits)
    define g where "g = take 6 (f @ ''00000'')"
    have "length g = 6" using \<open>f \<noteq> []\<close> by (cases f) (auto simp: g_def)
    moreover have "number_from 0 g = Some us"
      using n by (auto simp: number_of_text_def g_def split: if_splits)
    ultimately show ?thesis using number_from_bounds [of 0 g us] by (simp add: micros_def)
  qed
qed

lemma days_before_year_mono: "y \<le> z \<Longrightarrow> days_before_year y \<le> days_before_year z"
proof -
  assume "y \<le> z"
  then have "(z - 1) div 100 \<le> ((y - 1) + (z - y) * 100) div 100" by (intro zdiv_mono1) auto
  then have "(z - 1) div 100 - (y - 1) div 100 \<le> z - y" by simp
  moreover have "(y - 1) div 4 \<le> (z - 1) div 4" "(y - 1) div 400 \<le> (z - 1) div 400"
    using \<open>y \<le> z\<close> by (auto intro: zdiv_mono1)
  ultimately show ?thesis using \<open>y \<le> z\<close> by (simp add: days_before_year_def Let_def)
qed

lemma day_of_year_bounds:
  assumes "1 \<le> m" "m \<le> 12" "1 \<le> d" "d \<le> days_in_month leap m"
  shows "1 \<le> days_before_month leap m + d \<and> days_before_month leap m + d \<le> 365 + (if leap then 1 else 0)"
proof -
  have "m \<in> {1, 2, 3, 4, 5, 6, 7, 8, 9, 10, 11, 12}" using assms(1,2) by (rule month_cases)
  with assms(3,4) show ?thesis
    by (auto simp: days_in_month_def days_before_month_def month_lengths_def month_offsets_def)
qed

lemma make_instant_representable:
  assumes "make_instant y mo d h mi s us = Some t" "0 \<le> us" "us < micros"
  shows "representable t"
proof -
  have f: "1 \<le> y" "y \<le> 9999" "1 \<le> mo" "mo \<le> 12" "1 \<le> d" "d \<le> days_in_month (is_leap y) mo"
    "0 \<le> h" "h \<le> 23" "0 \<le> mi" "mi \<le> 59" "0 \<le> s" "s \<le> 59"
    and t: "t = ((ymd2ord y mo d - 1) * day_seconds + h * 3600 + mi * 60 + s) * micros + us"
    using assms(1) by (auto simp: make_instant_def split: if_splits)
  have doy: "1 \<le> days_before_month (is_leap y) mo + d"
    "days_before_month (is_leap y) mo + d \<le> 365 + (if is_leap y then 1 else 0)"
    using day_of_year_bounds [OF f(3-6)] by auto
  have "1 \<le> ymd2ord y mo d"
    using days_before_year_mono [of 1 y] f doy by (simp add: ymd2ord_def days_before_year_def)
  moreover have "ymd2ord y mo d \<le> max_ordinal"
  proof (cases "y = 9999")
    case True
    then show ?thesis using doy
      by (simp add: ymd2ord_def days_before_year_def max_ordinal_def is_leap_def)
  next
    case False
    then have "days_before_year y \<le> days_before_year 9998"
      using f by (intro days_before_year_mono) auto
    also have "\<dots> + 366 \<le> max_ordinal" by (simp add: days_before_year_def max_ordinal_def)
    finally show ?thesis using doy by (simp add: ymd2ord_def split: if_splits)
  qed
  ultimately show ?thesis using f assms(2,3)
    by (simp add: representable_def t instant_bound_def day_seconds_def micros_def)
qed

lemma iso_time_micros:
  assumes "iso_time t = Some (h, mi, s, us)"
  shows "0 \<le> us \<and> us < micros"
proof -
  have "0 \<le> us \<and> us < micros" if "iso_clock a b c f = Some (h, mi, s, us)" for a b c f
    using that by (auto simp: iso_clock_def split: option.splits dest: fraction_micros_bounds)
  then show ?thesis using assms by (auto simp: iso_time_def split: if_splits)
qed

lemma parse_representable: "parse_utc_instant s = Inr t \<Longrightarrow> representable t"
  by (auto simp: parse_utc_instant_def fromisoformat_def Let_def split: if_splits option.splits prod.splits
      dest: iso_time_micros intro: make_instant_representable)

end
