(* ===== verification/Dag.thy ===== *)
theory Dag
  imports Prelude
begin

section \<open>The precedence-graph check\<close>

text \<open>
  The loop of \<open>_validate_dag_v2\<close> (and of \<open>_validate_dag\<close>) in \<open>planning/problem/hashing.py\<close>: a
  topological sweep that keeps the in-degree of every node, a sorted list of ready nodes and a
  count of visited ones. The result is that the sweep visits every node exactly when the edge
  relation is acyclic.
\<close>

subsection \<open>The algorithm\<close>

text \<open>\<open>indegree[successor] -= 1\<close> on the association list of in-degrees.\<close>

fun decrement :: "'a \<Rightarrow> ('a \<times> int) list \<Rightarrow> ('a \<times> int) list" where
  "decrement k [] = []"
| "decrement k ((k', v) # al) = (k', if k' = k then v - 1 else v) # decrement k al"

fun relax :: "'a::linorder list \<Rightarrow> ('a \<times> int) list \<Rightarrow> 'a list \<Rightarrow> ('a \<times> int) list \<times> 'a list" where
  "relax [] indegree ready = (indegree, ready)"
| "relax (s # ss) indegree ready =
     (let indegree' = decrement s indegree
      in if map_of indegree' s = Some 0 then relax ss indegree' (sort (ready @ [s]))
         else relax ss indegree' ready)"

fun positive_count :: "('a \<times> int) list \<Rightarrow> nat" where
  "positive_count [] = 0"
| "positive_count ((_, v) # al) = (if 0 < v then 1 else 0) + positive_count al"

lemma positive_count_decrement: "positive_count (decrement k al) \<le> positive_count al"
  by (induction k al rule: decrement.induct) auto

lemma positive_count_decrement_zero:
  "map_of (decrement k al) k = Some 0 \<Longrightarrow> Suc (positive_count (decrement k al)) \<le> positive_count al"
proof (induction k al rule: decrement.induct)
  case (1 k)
  then show ?case by simp
next
  case (2 k k' v al)
  then show ?case using positive_count_decrement [of k al] by (auto split: if_splits)
qed

lemma relax_measure:
  "relax ss indegree ready = (indegree', ready') \<Longrightarrow>
     length ready' + positive_count indegree' \<le> length ready + positive_count indegree"
proof (induction ss arbitrary: indegree ready)
  case Nil
  then show ?case by simp
next
  case (Cons s ss)
  show ?case
  proof (cases "map_of (decrement s indegree) s = Some 0")
    case True
    with Cons.prems Cons.IH [of "decrement s indegree" "sort (ready @ [s])"]
    have "length ready' + positive_count indegree'
        \<le> Suc (length ready) + positive_count (decrement s indegree)"
      by (simp add: Let_def)
    with positive_count_decrement_zero [OF True] show ?thesis by linarith
  next
    case False
    with Cons.prems Cons.IH [of "decrement s indegree" ready] positive_count_decrement [of s indegree]
    show ?thesis by (fastforce simp: Let_def)
  qed
qed

function sweep :: "('a::linorder \<Rightarrow> 'a list) \<Rightarrow> ('a \<times> int) list \<Rightarrow> 'a list \<Rightarrow> nat \<Rightarrow> nat" where
  "sweep successors indegree [] visited = visited"
| "sweep successors indegree (node # ready) visited =
     (case relax (sort (successors node)) indegree ready of
        (indegree', ready') \<Rightarrow> sweep successors indegree' ready' (Suc visited))"
  by pat_completeness auto
termination
  by (relation "measure (\<lambda>(_, indegree, ready, _). length ready + positive_count indegree)")
    (auto simp: less_Suc_eq_le dest!: sym relax_measure)

definition successors_of :: "('a \<times> 'a) list \<Rightarrow> 'a \<Rightarrow> 'a list" where
  "successors_of edges n = map snd (filter (\<lambda>e. fst e = n) edges)"

definition indegree_of :: "('a \<times> 'a) list \<Rightarrow> 'a list \<Rightarrow> ('a \<times> int) list" where
  "indegree_of edges nodes = map (\<lambda>n. (n, int (length (filter (\<lambda>e. snd e = n) edges)))) nodes"

text \<open>\<open>visited != len(node_ids)\<close> is the rejection.\<close>

definition visits_all :: "'a::linorder list \<Rightarrow> ('a \<times> 'a) list \<Rightarrow> bool" where
  "visits_all node_ids edges =
     (let indegree = indegree_of edges node_ids;
          ready = sort (map fst (filter (\<lambda>(_, d). d = 0) indegree))
      in sweep (successors_of edges) indegree ready 0 = length node_ids)"

subsection \<open>One relaxation\<close>

lemma map_of_decrement:
  "map_of (decrement k al) n = map_option (\<lambda>v. if n = k then v - 1 else v) (map_of al n)"
  by (induction k al rule: decrement.induct) auto

text \<open>
  With the in-degrees given by a function \<open>f\<close> on the nodes, relaxing the successors \<open>ss\<close> subtracts
  their multiplicity and makes ready exactly those that reach zero.
\<close>

lemma relax_correct:
  assumes "relax ss indegree ready = (indegree', ready')"
    and "\<And>n. n \<in> N \<Longrightarrow> map_of indegree n = Some (f n)"
    and "set ss \<subseteq> N" and "\<And>n. n \<in> N \<Longrightarrow> int (count_list ss n) \<le> f n"
    and "distinct ready" and "set ready \<inter> set ss = {}"
  shows "(\<forall>n \<in> N. map_of indegree' n = Some (f n - int (count_list ss n)))
    \<and> set ready' = set ready \<union> {n \<in> set ss. f n = int (count_list ss n)} \<and> distinct ready'"
  using assms
proof (induction ss arbitrary: indegree ready f)
  case Nil
  then show ?case by auto
next
  case (Cons s ss)
  let ?g = "\<lambda>n. if n = s then f n - 1 else f n"
  let ?ready = "if f s = 1 then sort (ready @ [s]) else ready"
  have "s \<in> N" using Cons.prems(3) by simp
  then have ms: "map_of (decrement s indegree) s = Some (f s - 1)"
    using Cons.prems(2) by (simp add: map_of_decrement)
  have step: "relax ss (decrement s indegree) ?ready = (indegree', ready')"
    using Cons.prems(1) ms by (auto simp: Let_def split: if_splits)
  have le: "int (count_list ss n) \<le> ?g n" if "n \<in> N" for n
    using Cons.prems(4) [OF that] by (auto split: if_splits)
  have fresh: "s \<notin> set ss" if "f s = 1"
    using le [OF \<open>s \<in> N\<close>] that by (simp add: count_list_0_iff)
  have mem: "(f s = 1 \<and> n = s) \<or> (n \<in> set ss \<and> ?g n = int (count_list ss n)) \<longleftrightarrow>
      n \<in> set (s # ss) \<and> f n = int (count_list (s # ss) n)" for n
    using fresh by (auto simp: count_list_0_iff)
  have "(\<forall>n \<in> N. map_of indegree' n = Some (?g n - int (count_list ss n)))
      \<and> set ready' = set ?ready \<union> {n \<in> set ss. ?g n = int (count_list ss n)} \<and> distinct ready'"
  proof (rule Cons.IH [OF step])
    show "map_of (decrement s indegree) n = Some (?g n)" if "n \<in> N" for n
      using Cons.prems(2) [OF that] by (simp add: map_of_decrement)
  qed (use Cons.prems le fresh in auto)
  moreover have "set ?ready = set ready \<union> {n. f s = 1 \<and> n = s}" by auto
  moreover have "set ready \<union> {n. f s = 1 \<and> n = s} \<union> {n \<in> set ss. ?g n = int (count_list ss n)}
      = set ready \<union> {n \<in> set (s # ss). f n = int (count_list (s # ss) n)}"
    using mem by blast
  moreover have "?g n - int (count_list ss n) = f n - int (count_list (s # ss) n)" for n by simp
  ultimately show ?case by simp
qed

subsection \<open>The sweep\<close>

definition open_preds :: "('a \<times> 'a) list \<Rightarrow> 'a set \<Rightarrow> 'a \<Rightarrow> ('a \<times> 'a) list" where
  "open_preds edges done n = filter (\<lambda>(u, v). v = n \<and> u \<notin> done) edges"

text \<open>
  \<open>swept\<close> relates the visited nodes, in order, to the loop's variables: in-degrees count the
  predecessors not visited yet, visited and ready nodes are those with none left, and every
  visited node comes after its predecessors.
\<close>

definition swept :: "'a list \<Rightarrow> ('a \<times> 'a) list \<Rightarrow> 'a list \<Rightarrow> ('a \<times> int) list \<Rightarrow> 'a list \<Rightarrow> bool" where
  "swept nodes edges V indegree ready \<longleftrightarrow>
     distinct (V @ ready)
     \<and> (\<forall>n \<in> set nodes. map_of indegree n = Some (int (length (open_preds edges (set V) n))))
     \<and> set V \<union> set ready = {n \<in> set nodes. open_preds edges (set V) n = []}
     \<and> (\<forall>i < length V. \<forall>u. (u, V ! i) \<in> set edges \<longrightarrow> u \<in> set (take i V))"

lemma open_preds_insert:
  "int (length (open_preds edges (insert u D) n))
     = int (length (open_preds edges D n)) - (if u \<in> D then 0 else int (count_list (successors_of edges u) n))"
  by (induction edges) (auto simp: open_preds_def successors_of_def)

lemma count_successors_le:
  "u \<notin> D \<Longrightarrow> count_list (successors_of edges u) n \<le> length (open_preds edges D n)"
  by (induction edges) (auto simp: open_preds_def successors_of_def)

lemma count_list_sort [simp]: "count_list (sort xs) n = count_list xs n"
  by (metis count_mset mset_sort)

lemma open_preds_Nil_iff: "open_preds edges D n = [] \<longleftrightarrow> (\<forall>u. (u, n) \<in> set edges \<longrightarrow> u \<in> D)"
  by (auto simp: open_preds_def filter_empty_conv)

lemma swept_step:
  assumes inv: "swept nodes edges V indegree (node # ready)"
    and r: "relax (sort (successors_of edges node)) indegree ready = (indegree', ready')"
    and closed: "\<And>u v. (u, v) \<in> set edges \<Longrightarrow> v \<in> set nodes"
  shows "swept nodes edges (V @ [node]) indegree' ready'"
proof -
  let ?f = "\<lambda>n. int (length (open_preds edges (set V) n))"
  let ?ss = "sort (successors_of edges node)"
  have node: "node \<notin> set V" "node \<in> set nodes" "open_preds edges (set V) node = []"
    and rd: "distinct ready" "node \<notin> set ready" "set ready \<inter> set V = {}"
    and known: "set V \<union> set (node # ready) = {n \<in> set nodes. open_preds edges (set V) n = []}"
    using inv by (auto simp: swept_def)
  have ss: "set ?ss \<subseteq> set nodes" using closed by (auto simp: successors_of_def)
  have fresh: "open_preds edges (set V) n \<noteq> []" if "n \<in> set ?ss" for n
    using that node(1) by (auto simp: successors_of_def open_preds_Nil_iff)
  have pos: "0 < count_list ?ss n" if "n \<in> set ?ss" for n
    using that by (metis count_list_0_iff gr0I)
  have res: "(\<forall>n \<in> set nodes. map_of indegree' n = Some (?f n - int (count_list ?ss n)))
    \<and> set ready' = set ready \<union> {n \<in> set ?ss. ?f n = int (count_list ?ss n)} \<and> distinct ready'"
  proof (rule relax_correct [OF r])
    show "map_of indegree n = Some (?f n)" if "n \<in> set nodes" for n
      using inv that by (auto simp: swept_def)
    show "int (count_list ?ss n) \<le> ?f n" for n
      using count_successors_le [OF node(1), of edges n] by simp
    have "open_preds edges (set V) n = []" if "n \<in> set ready" for n
      using known that by auto
    then show "set ready \<inter> set ?ss = {}" using fresh by (metis disjoint_iff)
  qed (use rd ss in auto)
  have cnt: "int (length (open_preds edges (set (V @ [node])) n)) = ?f n - int (count_list ?ss n)" for n
    using open_preds_insert [of edges node "set V" n] node(1) by simp
  have nil: "open_preds edges (set (V @ [node])) n = [] \<longleftrightarrow> ?f n = int (count_list ?ss n)" for n
  proof -
    have "open_preds edges (set (V @ [node])) n = [] \<longleftrightarrow>
        int (length (open_preds edges (set (V @ [node])) n)) = 0" by simp
    also have "\<dots> \<longleftrightarrow> ?f n = int (count_list ?ss n)" by (simp only: cnt right_minus_eq)
    finally show ?thesis .
  qed
  have "n \<in> set nodes \<and> open_preds edges (set (V @ [node])) n = [] \<longleftrightarrow>
      n \<in> set nodes \<and> open_preds edges (set V) n = [] \<or> n \<in> set ?ss \<and> ?f n = int (count_list ?ss n)" for n
  proof (cases "n \<in> set ?ss")
    case True
    then show ?thesis using nil [of n] ss fresh by blast
  next
    case False
    then have "count_list ?ss n = 0" by (simp add: count_list_0_iff)
    then show ?thesis using nil [of n] False by simp
  qed
  then have "set (V @ [node]) \<union> set ready' = {n \<in> set nodes. open_preds edges (set (V @ [node])) n = []}"
    using known res by auto
  moreover have "distinct ((V @ [node]) @ ready')"
  proof -
    have "n \<notin> set V \<and> n \<noteq> node" if "n \<in> set ?ss" for n using fresh [OF that] known by auto
    then show ?thesis using res inv rd node(1) by (auto simp: swept_def)
  qed
  moreover have "\<forall>i < length (V @ [node]). \<forall>u. (u, (V @ [node]) ! i) \<in> set edges \<longrightarrow> u \<in> set (take i (V @ [node]))"
    using inv node(3) by (auto simp: swept_def nth_append less_Suc_eq open_preds_Nil_iff)
  ultimately show ?thesis using res cnt by (auto simp: swept_def)
qed

lemma sweep_swept:
  assumes "swept nodes edges V indegree ready"
    and "\<And>u v. (u, v) \<in> set edges \<Longrightarrow> v \<in> set nodes"
  shows "\<exists>V' indegree'. sweep (successors_of edges) indegree ready (length V) = length V'
     \<and> swept nodes edges V' indegree' []"
  using assms
proof (induction "successors_of edges" indegree ready "length V" arbitrary: V rule: sweep.induct)
  case (1 indegree V)
  then show ?case by auto
next
  case (2 indegree node ready V)
  obtain i r where ir: "relax (sort (successors_of edges node)) indegree ready = (i, r)" by fastforce
  have "swept nodes edges (V @ [node]) i r" using swept_step [OF 2(2) ir] 2(3) by blast
  with 2(1) [OF ir [symmetric], of "V @ [node]"] 2(3) ir show ?case by auto
qed

theorem visits_all_iff_acyclic:
  assumes "distinct nodes" and "set edges \<subseteq> set nodes \<times> set nodes"
  shows "visits_all nodes edges \<longleftrightarrow> acyclic (set edges)"
proof -
  let ?indegree = "indegree_of edges nodes"
  let ?ready = "sort (map fst (filter (\<lambda>(_, d). d = 0) ?indegree))"
  have closed: "v \<in> set nodes" if "(u, v) \<in> set edges" for u v using that assms(2) by auto
  have op: "open_preds edges {} n = filter (\<lambda>e. snd e = n) edges" for n
    by (auto simp: open_preds_def intro: filter_cong)
  have start: "swept nodes edges [] ?indegree ?ready"
  proof -
    have "map_of ?indegree n = Some (int (length (open_preds edges {} n)))" if "n \<in> set nodes" for n
      using that by (simp add: indegree_of_def op map_of_map_restrict)
    moreover have "set ?ready = {n \<in> set nodes. open_preds edges {} n = []}"
      by (auto simp: indegree_of_def op image_iff)
    moreover have "distinct ?ready"
      using assms(1) by (simp add: indegree_of_def filter_map comp_def)
    ultimately show ?thesis by (simp add: swept_def)
  qed
  obtain V i where V: "sweep (successors_of edges) ?indegree ?ready 0 = length V"
    and sw: "swept nodes edges V i []"
    using sweep_swept [OF start closed] by fastforce
  have Vs: "set V = {n \<in> set nodes. open_preds edges (set V) n = []}" "distinct V"
    using sw by (auto simp: swept_def)
  have "length V = length nodes \<longleftrightarrow> set V = set nodes"
  proof
    assume "length V = length nodes"
    moreover have "set V \<subseteq> set nodes" using Vs(1) by blast
    ultimately show "set V = set nodes"
      using Vs(2) assms(1) by (simp add: card_subset_eq distinct_card)
  qed (use Vs(2) assms(1) in \<open>metis distinct_card\<close>)
  moreover have "acyclic (set edges)" if V: "set V = set nodes"
  proof -
    define rank where "rank n = (LEAST k. k < length V \<and> V ! k = n)" for n
    have rank: "rank n < length V" "V ! rank n = n" if "n \<in> set nodes" for n
    proof -
      obtain k where "k < length V \<and> V ! k = n" using \<open>n \<in> set nodes\<close> V by (metis in_set_conv_nth)
      then have "rank n < length V \<and> V ! rank n = n" unfolding rank_def by (rule LeastI)
      then show "rank n < length V" "V ! rank n = n" by auto
    qed
    have "rank u < rank v" if e: "(u, v) \<in> set edges" for u v
    proof -
      have uv: "u \<in> set nodes" "v \<in> set nodes" using e assms(2) by auto
      have "u \<in> set (take (rank v) V)" using sw e rank [OF uv(2)] by (auto simp: swept_def)
      then obtain k where "k < rank v" "V ! k = u" "k < length V" by (auto simp: in_set_conv_nth)
      moreover from this have "rank u \<le> k" unfolding rank_def by (intro Least_le) auto
      ultimately show ?thesis by simp
    qed
    then have "set edges \<subseteq> measure rank" by auto
    then show ?thesis by (meson wf_acyclic wf_measure wf_subset)
  qed
  moreover have "set V = set nodes" if a: "acyclic (set edges)"
  proof (rule ccontr)
    assume "set V \<noteq> set nodes"
    then obtain x where x: "x \<in> set nodes - set V" using Vs(1) by blast
    have "wf (set edges)" using a by (simp add: finite_acyclic_wf)
    then obtain n where n: "n \<in> set nodes - set V"
      and m: "\<And>u. (u, n) \<in> set edges \<Longrightarrow> u \<notin> set nodes - set V"
      using wfE_min [OF _ x] by metis
    have "u \<in> set V" if "(u, n) \<in> set edges" for u using m [OF that] that assms(2) by blast
    then have "n \<in> set V" using n Vs(1) by (auto simp: open_preds_Nil_iff)
    with n show False by simp
  qed
  ultimately show ?thesis by (auto simp: visits_all_def Let_def V)
qed

end
