(* ===== verification/Problem.thy ===== *)
theory Problem
  imports Instants Dag
begin

section \<open>PlanningProblem v2: documents and contract\<close>

text \<open>
  The solver-neutral planning problem: the documents of \<open>planning/problem/contracts.py\<close> as records,
  the semantic contract \<open>validate_planning_problem_v2_contract\<close> of \<open>domain/validation.py\<close>, the
  capability contract of \<open>domain/capabilities.py\<close>, and \<open>validate_built_problem_v2\<close> of
  \<open>planning/problem/hashing.py\<close>, which runs them with the version and precedence-graph checks.

  Timestamps are kept as the text the documents carry and parsed where the code parses them. The
  exact-field checks on the JSON objects are the record types themselves; what they check beyond
  the fields' presence, that a \<open>RUNNING\<close> operation has the three execution facts and a
  \<open>NOT_STARTED\<close> one none, is \<open>validate_exact_shape_v2\<close>.

  The lemmas read off what an accepted problem guarantees: every timestamp parses, identifiers
  are unique, references resolve, durations are positive and the precedence graph is acyclic.
\<close>

subsection \<open>Documents\<close>

record option_doc =
  o_resource_id :: string
  o_setup_seconds :: int
  o_cycle_seconds_per_unit :: int
  o_final_duration_seconds :: int
  o_duration_source :: string
  o_source_version :: string

datatype op_status = NOT_STARTED | RUNNING

record operation_doc =
  op_id :: string
  op_demand_order_id :: string
  op_status :: op_status
  op_release_at_utc :: string
  op_material_ready_at_utc :: string
  op_required_capabilities :: "string list"
  op_resource_options :: "option_doc list"
  op_actual_start_at_utc :: "string option"
  op_assigned_resource_id :: "string option"
  op_remaining_seconds :: "int option"

record demand_doc =
  d_demand_order_id :: string
  d_due_at_utc :: string
  d_due_source_system :: string
  d_due_source_version :: string
  d_due_source_record_id :: string
  d_priority_weight :: int
  d_priority_source_system :: string
  d_priority_source_version :: string
  d_priority_source_record_id :: string

record resource_doc =
  r_resource_id :: string
  r_resource_code :: string
  r_resource_type :: string
  r_status :: string
  r_factory_id :: string
  r_workshop_id :: string
  r_production_line_id :: string
  r_resource_group_id :: string
  r_calendar_id :: string
  r_capabilities :: "string list"
  r_capacity :: int

record anchor_doc =
  a_operation_id :: string
  a_execution_fact_id :: string
  a_resource_id :: string
  a_actual_start_at_utc :: string
  a_actual_end_at_utc :: string
  a_source_system :: string
  a_source_version :: string
  a_source_record_id :: string

record edge_doc =
  e_precedence_edge_id :: string
  e_predecessor :: string
  e_successor :: string
  e_min_lag_seconds :: int
  e_transport_lag_seconds :: int
  e_max_lag_seconds :: "int option"

datatype lock_type = HARD_LOCK | SOFT_LOCK

record lock_doc =
  l_lock_id :: string
  l_operation_id :: string
  l_lock_type :: lock_type
  l_resource_id :: string
  l_start_at_utc :: string
  l_end_at_utc :: string
  l_source_system :: string
  l_source_version :: string
  l_source_record_id :: string

record interval_doc =
  u_calendar_id :: string
  u_resource_id :: string
  u_start_utc :: string
  u_end_utc :: string

record problem =
  p_problem_version :: string
  p_schema_set_version :: string
  p_snapshot_id :: string
  p_builder_version :: string
  p_problem_hash :: string
  p_canonicalization_version :: string
  p_hash_projection_version :: string
  p_tick_seconds :: int
  p_horizon_start_utc :: string
  p_horizon_end_utc :: string
  p_demands :: "demand_doc list"
  p_resources :: "resource_doc list"
  p_operations :: "operation_doc list"
  p_anchors :: "anchor_doc list"
  p_edges :: "edge_doc list"
  p_locks :: "lock_doc list"
  p_intervals :: "interval_doc list"
  p_required_capabilities :: "string list"

subsection \<open>Capabilities\<close>

datatype capability_status = V1_SUPPORTED | UNSUPPORTED | DEFERRED

definition v1_supported_names :: "string list" where
  "v1_supported_names =
     [''SINGLE_FACTORY_MULTI_WORKSHOP'', ''DAG_ROUTING'', ''ALTERNATIVE_RESOURCE'',
      ''MACHINE_CALENDAR'', ''RELEASE_AND_MATERIAL_GATE'', ''RUNNING_OPERATION'',
      ''HARD_SOFT_LOCK'', ''APPROVAL_AND_PUBLICATION'', ''DYNAMIC_REPLANNING'']"

definition unsupported_names :: "string list" where
  "unsupported_names =
     [''SECONDARY_CAPACITY'', ''SEQUENCE_DEPENDENT_SETUP'', ''BATCH_PROCESSING'', ''SPLIT_MERGE'',
      ''MATERIAL_COMPETITION'', ''PREEMPTIVE_OPERATION'', ''BUFFER_CAPACITY'',
      ''ALTERNATIVE_MATERIAL'', ''MULTI_FACTORY'']"

definition deferred_names :: "string list" where
  "deferred_names = [''AI_DURATION_PREDICTION'', ''REALITY_CALIBRATION'']"

text \<open>\<open>CAPABILITY_STATUS_BY_NAME\<close>; \<open>None\<close> for a name that is not registered.\<close>

definition capability_status :: "string \<Rightarrow> capability_status option" where
  "capability_status name =
     (if name \<in> set v1_supported_names then Some V1_SUPPORTED
      else if name \<in> set unsupported_names then Some UNSUPPORTED
      else if name \<in> set deferred_names then Some DEFERRED else None)"

definition require_v1_capability_contract :: "string list \<Rightarrow> string list res" where
  "require_v1_capability_contract required =
     (let duplicates = sorted_ids (filter (\<lambda>n. 1 < count_list required n) required);
          unknown = filter (\<lambda>n. capability_status n = None) required;
          blocked = filter (\<lambda>n. capability_status n \<noteq> Some V1_SUPPORTED) required
      in if duplicates \<noteq> [] then Inl (RaiseCapability ''DUPLICATE_CAPABILITY'' duplicates)
         else if unknown \<noteq> [] then Inl (RaiseCapability ''INVALID_CAPABILITY_DECLARATION'' (sort unknown))
         else if blocked \<noteq> [] then Inl (RaiseCapability ''UNSUPPORTED_CAPABILITY'' (sort blocked))
         else Inr required)"

subsection \<open>Helpers of the contract\<close>

definition violation_utc :: "string \<Rightarrow> string \<Rightarrow> instant res" where
  "violation_utc value field =
     (case parse_utc_instant value of
        Inl _ \<Rightarrow> Inl (RaiseViolation ''INVALID_TIME'' field)
      | Inr t \<Rightarrow> Inr t)"

definition check_utc :: "string \<Rightarrow> string \<Rightarrow> unit res" where
  "check_utc value field = bind_res (violation_utc value field) (\<lambda>_. Inr ())"

definition check_unique :: "string list \<Rightarrow> string \<Rightarrow> unit res" where
  "check_unique values field =
     require_or (distinct values) (RaiseViolation ''DUPLICATE_ID'' field)"

definition check_non_empty :: "string \<Rightarrow> string \<Rightarrow> unit res" where
  "check_non_empty value field =
     require_or (list_ex (\<lambda>c. \<not> is_space c) value) (RaiseViolation ''INVALID_REFERENCE'' field)"

definition check_reference :: "bool \<Rightarrow> string \<Rightarrow> unit res" where
  "check_reference b field = require_or b (RaiseViolation ''INVALID_REFERENCE'' field)"

text \<open>A \<open>try\<close> block that turns \<open>ContractValueError\<close> into a violation.\<close>

definition check_duration :: "'a res list \<Rightarrow> string \<Rightarrow> string \<Rightarrow> unit res" where
  "check_duration ms code field =
     require_or (list_all is_ok ms) (RaiseViolation code field)"

text \<open>\<open>start >= end\<close> and its further conditions are rejected at one field.\<close>

definition check_range :: "string \<Rightarrow> string \<Rightarrow> string \<Rightarrow> string \<Rightarrow> (instant \<Rightarrow> instant \<Rightarrow> bool) \<Rightarrow> string \<Rightarrow> unit res" where
  "check_range start start_field end end_field ok field =
     bind_res (violation_utc start start_field) (\<lambda>s.
     bind_res (violation_utc end end_field) (\<lambda>e.
     require_or (ok s e) (RaiseViolation ''INVALID_TIME_RANGE'' field)))"

subsection \<open>The v2 contract\<close>

definition operation_ids :: "problem \<Rightarrow> string list" where
  "operation_ids p = map op_id (p_operations p)"

definition anchor_ids :: "problem \<Rightarrow> string list" where
  "anchor_ids p = map a_operation_id (p_anchors p)"

definition resource_ids :: "problem \<Rightarrow> string list" where
  "resource_ids p = map r_resource_id (p_resources p)"

definition option_resource_ids :: "operation_doc \<Rightarrow> string list" where
  "option_resource_ids op = map o_resource_id (op_resource_options op)"

definition operation_by_id :: "problem \<Rightarrow> string \<Rightarrow> operation_doc option" where
  "operation_by_id p i = last_with (\<lambda>op. op_id op = i) (p_operations p)"

definition resource_by_id :: "problem \<Rightarrow> string \<Rightarrow> resource_doc option" where
  "resource_by_id p i = last_with (\<lambda>r. r_resource_id r = i) (p_resources p)"

definition check_demand :: "nat \<Rightarrow> demand_doc \<Rightarrow> unit res" where
  "check_demand i d =
     (let field = indexed ''delivery_demands'' i
      in check_seq
        [check_utc (d_due_at_utc d) (field @ ''.due_at_utc''),
         check_reference (1 \<le> d_priority_weight d) (field @ ''.priority_weight''),
         check_non_empty (d_due_source_system d) (field @ ''.due_source_system''),
         check_non_empty (d_due_source_version d) (field @ ''.due_source_version''),
         check_non_empty (d_due_source_record_id d) (field @ ''.due_source_record_id''),
         check_non_empty (d_priority_source_system d) (field @ ''.priority_source_system''),
         check_non_empty (d_priority_source_version d) (field @ ''.priority_source_version''),
         check_non_empty (d_priority_source_record_id d) (field @ ''.priority_source_record_id'')])"

definition check_resource :: "nat \<Rightarrow> resource_doc \<Rightarrow> unit res" where
  "check_resource i r =
     (let field = indexed ''resources'' i
      in check_seq
        [check_reference (r_capacity r = 1) (field @ ''.capacity''),
         check_non_empty (r_resource_code r) (field @ ''.resource_code''),
         check_non_empty (r_resource_type r) (field @ ''.resource_type''),
         check_non_empty (r_status r) (field @ ''.status''),
         check_non_empty (r_factory_id r) (field @ ''.factory_id''),
         check_non_empty (r_workshop_id r) (field @ ''.workshop_id''),
         check_non_empty (r_production_line_id r) (field @ ''.production_line_id''),
         check_non_empty (r_resource_group_id r) (field @ ''.resource_group_id''),
         check_non_empty (r_calendar_id r) (field @ ''.calendar_id''),
         check_unique (r_capabilities r) (field @ ''.capabilities''),
         check_each (\<lambda>j c. check_non_empty c (indexed (field @ ''.capabilities'') j)) (r_capabilities r)])"

definition check_option :: "problem \<Rightarrow> string \<Rightarrow> nat \<Rightarrow> option_doc \<Rightarrow> unit res" where
  "check_option p field j opt =
     (let option_field = indexed (field @ ''.resource_options'') j
      in check_seq
        [check_reference (o_resource_id opt \<in> set (resource_ids p)) (option_field @ ''.resource_id''),
         check_duration
           [require_duration_seconds (o_setup_seconds opt) True,
            require_duration_seconds (o_cycle_seconds_per_unit opt) True,
            require_duration_seconds (o_final_duration_seconds opt) False,
            duration_to_ticks (o_final_duration_seconds opt) (p_tick_seconds p)]
           ''INVALID_DURATION'' option_field,
         check_non_empty (o_duration_source opt) (option_field @ ''.duration_source''),
         check_non_empty (o_source_version opt) (option_field @ ''.source_version'')])"

definition check_running :: "string \<Rightarrow> operation_doc \<Rightarrow> unit res" where
  "check_running field op =
     (if op_status op = NOT_STARTED then Inr ()
      else case (op_actual_start_at_utc op, op_assigned_resource_id op, op_remaining_seconds op) of
        (Some actual_start, Some assigned, Some remaining) \<Rightarrow>
          check_seq
            [check_utc actual_start (field @ ''.actual_start_at_utc''),
             check_reference (assigned \<in> set (option_resource_ids op)) (field @ ''.assigned_resource_id''),
             check_duration [require_duration_seconds remaining False]
               ''INVALID_DURATION'' (field @ ''.remaining_seconds'')]
      | _ \<Rightarrow> Inl (RaiseViolation ''MISSING_RUNNING_FACT'' field))"

definition check_operation :: "problem \<Rightarrow> nat \<Rightarrow> operation_doc \<Rightarrow> unit res" where
  "check_operation p i op =
     (let field = indexed ''operation_instances'' i
      in check_seq
        [check_reference (op_demand_order_id op \<in> set (map d_demand_order_id (p_demands p)))
           (field @ ''.demand_order_id''),
         check_utc (op_release_at_utc op) (field @ ''.release_at_utc''),
         check_utc (op_material_ready_at_utc op) (field @ ''.material_ready_at_utc''),
         check_unique (op_required_capabilities op) (field @ ''.required_capabilities''),
         check_each (check_option p field) (op_resource_options op),
         check_reference (op_resource_options op \<noteq> []) (field @ ''.resource_options''),
         check_unique (option_resource_ids op) (field @ ''.resource_options.resource_id''),
         check_running field op])"

definition check_anchor :: "problem \<Rightarrow> instant \<Rightarrow> nat \<Rightarrow> anchor_doc \<Rightarrow> unit res" where
  "check_anchor p horizon_start i a =
     (let field = indexed ''historical_completion_anchors'' i
      in check_seq
        [check_reference (a_resource_id a \<in> set (resource_ids p)) (field @ ''.resource_id''),
         check_range (a_actual_start_at_utc a) (field @ ''.actual_start_at_utc'')
           (a_actual_end_at_utc a) (field @ ''.actual_end_at_utc'')
           (\<lambda>start end. start < end \<and> end \<le> horizon_start) (field @ ''.actual_end_at_utc''),
         check_non_empty (a_source_system a) (field @ ''.source_system''),
         check_non_empty (a_source_version a) (field @ ''.source_version''),
         check_non_empty (a_source_record_id a) (field @ ''.source_record_id'')])"

definition check_edge :: "problem \<Rightarrow> nat \<Rightarrow> edge_doc \<Rightarrow> unit res" where
  "check_edge p i e =
     (let field = indexed ''precedence_edges'' i
      in check_seq
        [check_reference
           (e_predecessor e \<in> set (operation_ids p) \<union> set (anchor_ids p)
            \<and> e_successor e \<in> set (operation_ids p)) field,
         check_reference (e_predecessor e \<noteq> e_successor e) field,
         check_duration
           ([require_duration_seconds (e_min_lag_seconds e) True,
             require_duration_seconds (e_transport_lag_seconds e) True]
            @ (case e_max_lag_seconds e of None \<Rightarrow> [] | Some m \<Rightarrow> [require_duration_seconds m True]))
           ''INVALID_DURATION'' field,
         require_or (case e_max_lag_seconds e of None \<Rightarrow> True | Some m \<Rightarrow> e_min_lag_seconds e \<le> m)
           (RaiseViolation ''INVALID_LAG_RANGE'' (field @ ''.max_lag_seconds''))])"

definition check_lock :: "problem \<Rightarrow> instant \<Rightarrow> nat \<Rightarrow> lock_doc \<Rightarrow> unit res" where
  "check_lock p horizon_start i l =
     (let field = indexed ''operation_locks'' i
      in check_seq
        [check_reference (l_operation_id l \<in> set (operation_ids p)) (field @ ''.operation_id''),
         check_reference
           (case operation_by_id p (l_operation_id l) of
              None \<Rightarrow> False | Some op \<Rightarrow> l_resource_id l \<in> set (option_resource_ids op))
           (field @ ''.resource_id''),
         check_range (l_start_at_utc l) (field @ ''.start_at_utc'')
           (l_end_at_utc l) (field @ ''.end_at_utc'')
           (\<lambda>start end. start < end \<and> horizon_start < end) (field @ ''.end_at_utc''),
         check_non_empty (l_source_system l) (field @ ''.source_system''),
         check_non_empty (l_source_version l) (field @ ''.source_version''),
         check_non_empty (l_source_record_id l) (field @ ''.source_record_id'')])"

definition check_interval :: "problem \<Rightarrow> instant \<Rightarrow> instant \<Rightarrow> nat \<Rightarrow> interval_doc \<Rightarrow> unit res" where
  "check_interval p horizon_start horizon_end i u =
     (let field = indexed ''resource_unavailable_intervals'' i
      in check_seq
        [check_reference (u_resource_id u \<in> set (resource_ids p)) (field @ ''.resource_id''),
         check_reference
           (case resource_by_id p (u_resource_id u) of
              None \<Rightarrow> False | Some r \<Rightarrow> u_calendar_id u = r_calendar_id r)
           (field @ ''.calendar_id''),
         check_range (u_start_utc u) (field @ ''.start_utc'') (u_end_utc u) (field @ ''.end_utc'')
           (\<lambda>start end. start < end \<and> start < horizon_end \<and> horizon_start < end) field])"

text \<open>The composed keys, joined with U+0000 as in the source.\<close>

definition nul :: char where
  "nul = char_of (0::nat)"

definition logical_edge :: "edge_doc \<Rightarrow> string" where
  "logical_edge e = e_predecessor e @ [nul] @ e_successor e"

definition interval_key :: "interval_doc \<Rightarrow> string" where
  "interval_key u =
     u_resource_id u @ [nul] @ u_calendar_id u @ [nul] @ u_start_utc u @ [nul] @ u_end_utc u"

definition validate_planning_problem_v2_contract :: "problem \<Rightarrow> unit res" where
  "validate_planning_problem_v2_contract p =
     bind_res (check_duration [require_tick_seconds (p_tick_seconds p)]
       ''INVALID_DURATION'' ''tick_seconds'') (\<lambda>_.
     bind_res (violation_utc (p_horizon_start_utc p) ''horizon_start_utc'') (\<lambda>horizon_start.
     bind_res (violation_utc (p_horizon_end_utc p) ''horizon_end_utc'') (\<lambda>horizon_end.
     check_seq
       [require_or (horizon_start < horizon_end) (RaiseViolation ''INVALID_TIME_RANGE'' ''horizon_end_utc''),
        check_unique (map d_demand_order_id (p_demands p)) ''delivery_demands.demand_order_id'',
        check_each check_demand (p_demands p),
        check_unique (resource_ids p) ''resources.resource_id'',
        check_each check_resource (p_resources p),
        check_unique (operation_ids p) ''operation_instances.operation_id'',
        check_each (check_operation p) (p_operations p),
        check_unique (anchor_ids p) ''historical_completion_anchors.operation_id'',
        check_unique (map a_execution_fact_id (p_anchors p))
          ''historical_completion_anchors.execution_fact_id'',
        check_reference (set (operation_ids p) \<inter> set (anchor_ids p) = {})
          ''historical_completion_anchors.operation_id'',
        check_each (check_anchor p horizon_start) (p_anchors p),
        check_unique (map e_precedence_edge_id (p_edges p)) ''precedence_edges.precedence_edge_id'',
        check_each (check_edge p) (p_edges p),
        check_unique (map logical_edge (p_edges p)) ''precedence_edges.logical_pair'',
        check_unique (map l_lock_id (p_locks p)) ''operation_locks.lock_id'',
        check_each (check_lock p horizon_start) (p_locks p),
        check_each (check_interval p horizon_start horizon_end) (p_intervals p),
        check_unique (map interval_key (p_intervals p)) ''resource_unavailable_intervals''])))"

subsection \<open>validate_built_problem_v2\<close>

definition validate_exact_shape_v2 :: "problem \<Rightarrow> unit res" where
  "validate_exact_shape_v2 p =
     check_each (\<lambda>i op.
       let facts = [op_actual_start_at_utc op \<noteq> None, op_assigned_resource_id op \<noteq> None,
                    op_remaining_seconds op \<noteq> None]
       in require_or (list_all (\<lambda>present. present = (op_status op = RUNNING)) facts)
            (RaiseProblem ''MODEL_INVALID'' (indexed ''operation_instances'' i)))
       (p_operations p)"

definition check_versions :: "problem \<Rightarrow> unit res" where
  "check_versions p =
     check_seq (map (\<lambda>(field, value, expected).
         require_or (value = expected) (RaiseProblem ''MODEL_INVALID'' field))
       [(''problem_version'', p_problem_version p, ''planning-problem.v2''),
        (''schema_set_version'', p_schema_set_version p, ''2.3.0''),
        (''problem_builder_version'', p_builder_version p, ''planning-problem-builder.v2''),
        (''canonicalization_version'', p_canonicalization_version p, ''canonical-json.v1''),
        (''problem_hash_projection_version'', p_hash_projection_version p,
         ''planning-problem-hash-projection.v2'')])"

text \<open>The \<open>except\<close> clause: the field of a contract violation is kept, other errors get a default.\<close>

definition as_problem_error :: "unit res \<Rightarrow> unit res" where
  "as_problem_error m =
     (case m of
        Inr u \<Rightarrow> Inr u
      | Inl (RaiseViolation _ field) \<Rightarrow> Inl (RaiseProblem ''MODEL_INVALID'' field)
      | Inl _ \<Rightarrow> Inl (RaiseProblem ''MODEL_INVALID'' ''planning_problem''))"

definition edge_pairs :: "problem \<Rightarrow> (string \<times> string) list" where
  "edge_pairs p = map (\<lambda>e. (e_predecessor e, e_successor e)) (p_edges p)"

definition graph_nodes :: "problem \<Rightarrow> string list" where
  "graph_nodes p = sorted_ids (operation_ids p @ anchor_ids p)"

text \<open>\<open>successors[predecessor]\<close> and \<open>indegree[successor]\<close> raise \<open>KeyError\<close> on an unknown node.\<close>

definition validate_dag_v2 :: "problem \<Rightarrow> unit res" where
  "validate_dag_v2 p =
     bind_res (require_or (list_all (\<lambda>(u, v). u \<in> set (graph_nodes p) \<and> v \<in> set (graph_nodes p)) (edge_pairs p)) RaiseKey) (\<lambda>_.
     require_or (visits_all (graph_nodes p) (edge_pairs p))
       (RaiseProblem ''MODEL_INVALID'' ''precedence_edges''))"

definition validate_built_problem_v2 :: "problem \<Rightarrow> unit res" where
  "validate_built_problem_v2 p =
     check_seq
       [validate_exact_shape_v2 p,
        check_versions p,
        as_problem_error
          (bind_res (validate_planning_problem_v2_contract p) (\<lambda>_.
           bind_res (require_v1_capability_contract (p_required_capabilities p)) (\<lambda>_. Inr ()))),
        validate_dag_v2 p]"

subsection \<open>What an accepted problem guarantees\<close>

definition accepted :: "problem \<Rightarrow> bool" where
  "accepted p \<longleftrightarrow> validate_built_problem_v2 p = Inr ()"

text \<open>
  \<open>parse_utc_instant\<close> where the precheck has already parsed the text once: the lemmas below show
  that every timestamp of an accepted problem parses, so the default is never taken there.
\<close>

definition utc :: "string \<Rightarrow> instant" where
  "utc s = (case parse_utc_instant s of Inr t \<Rightarrow> t | Inl _ \<Rightarrow> 0)"

definition parses :: "string \<Rightarrow> bool" where
  "parses s = is_ok (parse_utc_instant s)"

lemma parses_iff: "parses s \<longleftrightarrow> parse_utc_instant s = Inr (utc s)"
  by (auto simp: parses_def utc_def is_ok_iff split: sum.splits)

lemma parses_representable: "parses s \<Longrightarrow> representable (utc s)"
  by (auto simp: parses_iff intro: parse_representable)

lemma violation_utc_ok_iff [res_simps]: "violation_utc v f = Inr t \<longleftrightarrow> parses v \<and> t = utc v"
  by (auto simp: violation_utc_def parses_def utc_def split: sum.splits)

lemma check_utc_ok_iff [res_simps]: "check_utc v f = Inr u \<longleftrightarrow> parses v"
  by (auto simp: check_utc_def res_simps)

lemma check_unique_ok_iff [res_simps]: "check_unique vs f = Inr u \<longleftrightarrow> distinct vs"
  by (simp add: check_unique_def res_simps)

lemma check_reference_ok_iff [res_simps]: "check_reference b f = Inr u \<longleftrightarrow> b"
  by (simp add: check_reference_def res_simps)

lemma check_duration_ok_iff [res_simps]: "check_duration ms c f = Inr u \<longleftrightarrow> list_all is_ok ms"
  by (simp add: check_duration_def res_simps)

lemma check_range_ok_iff [res_simps]:
  "check_range a fa b fb ok f = Inr u \<longleftrightarrow> parses a \<and> parses b \<and> ok (utc a) (utc b)"
  by (auto simp: check_range_def res_simps)

lemma require_duration_ok [simp]:
  "is_ok (require_duration_seconds v z) \<longleftrightarrow> (if z then 0 \<le> v else 0 < v)"
  by (auto simp: require_duration_seconds_def)

lemma require_tick_ok [simp]: "is_ok (require_tick_seconds v) \<longleftrightarrow> 0 < v"
  by (auto simp: require_tick_seconds_def)

lemma as_problem_error_ok_iff: "as_problem_error m = Inr u \<longleftrightarrow> m = Inr u"
  by (auto simp: as_problem_error_def split: sum.splits py_exn.splits)

lemma capability_contract_ok_iff:
  "require_v1_capability_contract names = Inr names' \<longleftrightarrow>
     names' = names \<and> distinct names \<and> set names \<subseteq> set v1_supported_names"
proof -
  have "filter (\<lambda>n. 1 < count_list names n) names = [] \<longleftrightarrow> distinct names"
  proof (induction names)
    case Nil
    then show ?case by simp
  next
    case (Cons x names)
    have "(filter (\<lambda>n. 1 < count_list (x # names) n) (x # names) = []) \<longleftrightarrow>
        count_list names x = 0 \<and> filter (\<lambda>n. 1 < count_list names n) names = []"
      by (auto simp: filter_empty_conv count_list_0_iff)
    then show ?case using Cons.IH by (simp add: count_list_0_iff)
  qed
  moreover have "sorted_ids xs = [] \<longleftrightarrow> xs = []" for xs :: "string list"
    by (simp add: sorted_ids_def flip: set_empty)
  ultimately show ?thesis
    by (auto simp: require_v1_capability_contract_def Let_def filter_empty_conv capability_status_def
        split: if_splits)
qed

lemma accepted_contract: "accepted p \<Longrightarrow> validate_planning_problem_v2_contract p = Inr ()"
  by (auto simp: accepted_def validate_built_problem_v2_def check_seq_ok_iff as_problem_error_ok_iff
      res_simps)

lemma accepted_shape: "accepted p \<Longrightarrow> validate_exact_shape_v2 p = Inr ()"
  by (auto simp: accepted_def validate_built_problem_v2_def check_seq_ok_iff)

lemma accepted_dag: "accepted p \<Longrightarrow> validate_dag_v2 p = Inr ()"
  by (auto simp: accepted_def validate_built_problem_v2_def check_seq_ok_iff)

text \<open>The contract's loops, with the indices of \<open>enumerate\<close> gone.\<close>

definition operation_ok :: "problem \<Rightarrow> operation_doc \<Rightarrow> bool" where
  "operation_ok p op \<longleftrightarrow>
     op_demand_order_id op \<in> set (map d_demand_order_id (p_demands p))
     \<and> parses (op_release_at_utc op) \<and> parses (op_material_ready_at_utc op)
     \<and> op_resource_options op \<noteq> [] \<and> distinct (option_resource_ids op)
     \<and> (\<forall>opt \<in> set (op_resource_options op).
          o_resource_id opt \<in> set (resource_ids p) \<and> 0 < o_final_duration_seconds opt)
     \<and> (op_status op = RUNNING \<longrightarrow>
          (\<exists>actual res rem. op_actual_start_at_utc op = Some actual \<and> parses actual
             \<and> op_assigned_resource_id op = Some res \<and> res \<in> set (option_resource_ids op)
             \<and> op_remaining_seconds op = Some rem \<and> 0 < rem))"

definition anchor_ok :: "problem \<Rightarrow> anchor_doc \<Rightarrow> bool" where
  "anchor_ok p a \<longleftrightarrow> a_resource_id a \<in> set (resource_ids p)
     \<and> parses (a_actual_start_at_utc a) \<and> parses (a_actual_end_at_utc a)
     \<and> utc (a_actual_start_at_utc a) < utc (a_actual_end_at_utc a)
     \<and> utc (a_actual_end_at_utc a) \<le> utc (p_horizon_start_utc p)"

definition edge_ok :: "problem \<Rightarrow> edge_doc \<Rightarrow> bool" where
  "edge_ok p e \<longleftrightarrow>
     (e_predecessor e \<in> set (operation_ids p) \<or> e_predecessor e \<in> set (anchor_ids p))
     \<and> e_successor e \<in> set (operation_ids p) \<and> e_predecessor e \<noteq> e_successor e
     \<and> 0 \<le> e_min_lag_seconds e \<and> 0 \<le> e_transport_lag_seconds e
     \<and> (\<forall>m. e_max_lag_seconds e = Some m \<longrightarrow> e_min_lag_seconds e \<le> m)"

definition lock_ok :: "problem \<Rightarrow> lock_doc \<Rightarrow> bool" where
  "lock_ok p l \<longleftrightarrow> l_operation_id l \<in> set (operation_ids p)
     \<and> parses (l_start_at_utc l) \<and> parses (l_end_at_utc l)
     \<and> utc (l_start_at_utc l) < utc (l_end_at_utc l)"

definition interval_ok :: "problem \<Rightarrow> interval_doc \<Rightarrow> bool" where
  "interval_ok p u \<longleftrightarrow> u_resource_id u \<in> set (resource_ids p)
     \<and> parses (u_start_utc u) \<and> parses (u_end_utc u) \<and> utc (u_start_utc u) < utc (u_end_utc u)"

lemma check_option_ok:
  "check_option p f j opt = Inr u \<Longrightarrow> o_resource_id opt \<in> set (resource_ids p) \<and> 0 < o_final_duration_seconds opt"
  by (simp add: check_option_def Let_def res_simps)

lemma check_running_ok:
  assumes "check_running f op = Inr u" and "op_status op = RUNNING"
  shows "\<exists>actual res rem. op_actual_start_at_utc op = Some actual \<and> parses actual
    \<and> op_assigned_resource_id op = Some res \<and> res \<in> set (option_resource_ids op)
    \<and> op_remaining_seconds op = Some rem \<and> 0 < rem"
  using assms by (simp add: check_running_def res_simps split: option.splits)

lemma check_operation_ok:
  assumes "check_operation p i op = Inr u"
  shows "operation_ok p op"
proof -
  let ?f = "indexed ''operation_instances'' i"
  have c: "op_demand_order_id op \<in> set (map d_demand_order_id (p_demands p))"
    "parses (op_release_at_utc op)" "parses (op_material_ready_at_utc op)"
    "check_each (check_option p ?f) (op_resource_options op) = Inr ()"
    "op_resource_options op \<noteq> []" "distinct (option_resource_ids op)" "check_running ?f op = Inr ()"
    using assms by (simp_all add: check_operation_def Let_def res_simps)
  then show ?thesis
    using check_each_okD [OF c(4)] check_running_ok [OF c(7)] check_option_ok
    by (simp add: operation_ok_def) blast
qed

lemma check_anchor_ok:
  "check_anchor p (utc (p_horizon_start_utc p)) i a = Inr u \<Longrightarrow> anchor_ok p a"
  by (auto simp: check_anchor_def Let_def check_seq_ok_iff res_simps anchor_ok_def)

lemma check_edge_ok: "check_edge p i e = Inr u \<Longrightarrow> edge_ok p e"
  by (auto simp: check_edge_def Let_def check_seq_ok_iff res_simps edge_ok_def)

lemma check_lock_ok: "check_lock p h i l = Inr u \<Longrightarrow> lock_ok p l"
  by (auto simp: check_lock_def Let_def check_seq_ok_iff res_simps lock_ok_def)

lemma check_interval_ok: "check_interval p h g i u = Inr v \<Longrightarrow> interval_ok p u"
  by (auto simp: check_interval_def Let_def check_seq_ok_iff res_simps interval_ok_def)

text \<open>
  \<open>problem_facts\<close> collects what the clients of an accepted problem (the schedule validator and the
  schedulers) rely on; \<open>accepted_facts\<close> shows that the code's checks establish it.
\<close>

definition problem_facts :: "problem \<Rightarrow> bool" where
  "problem_facts p \<longleftrightarrow>
     0 < p_tick_seconds p
     \<and> parses (p_horizon_start_utc p) \<and> parses (p_horizon_end_utc p)
     \<and> utc (p_horizon_start_utc p) < utc (p_horizon_end_utc p)
     \<and> distinct (operation_ids p) \<and> distinct (anchor_ids p) \<and> distinct (resource_ids p)
     \<and> distinct (map d_demand_order_id (p_demands p))
     \<and> set (operation_ids p) \<inter> set (anchor_ids p) = {}
     \<and> list_all (\<lambda>d. parses (d_due_at_utc d) \<and> 1 \<le> d_priority_weight d) (p_demands p)
     \<and> list_all (\<lambda>r. r_capacity r = 1) (p_resources p)
     \<and> list_all (operation_ok p) (p_operations p)
     \<and> list_all (anchor_ok p) (p_anchors p)
     \<and> list_all (edge_ok p) (p_edges p)
     \<and> list_all (lock_ok p) (p_locks p)
     \<and> list_all (interval_ok p) (p_intervals p)"

lemma check_each_list_all:
  "check_each f xs = Inr u \<Longrightarrow> (\<And>i x. f i x = Inr () \<Longrightarrow> P x) \<Longrightarrow> list_all P xs"
  by (auto simp: list_all_iff dest!: check_each_okD)

lemma accepted_facts:
  assumes "accepted p"
  shows "problem_facts p"
proof -
  note c = accepted_contract [OF assms]
  have d: "list_all (\<lambda>d. parses (d_due_at_utc d) \<and> 1 \<le> d_priority_weight d) (p_demands p)"
    using c by (auto simp: validate_planning_problem_v2_contract_def check_seq_ok_iff res_simps check_demand_def
        Let_def elim!: check_each_list_all)
  have r: "list_all (\<lambda>r. r_capacity r = 1) (p_resources p)"
    using c by (auto simp: validate_planning_problem_v2_contract_def check_seq_ok_iff res_simps check_resource_def
        Let_def elim!: check_each_list_all)
  have "list_all (operation_ok p) (p_operations p)" "list_all (anchor_ok p) (p_anchors p)"
    "list_all (edge_ok p) (p_edges p)" "list_all (lock_ok p) (p_locks p)"
    "list_all (interval_ok p) (p_intervals p)"
    using c by (auto simp: validate_planning_problem_v2_contract_def check_seq_ok_iff res_simps
        intro: check_operation_ok check_anchor_ok check_edge_ok check_lock_ok check_interval_ok
        elim!: check_each_list_all)
  with d r c show ?thesis
    by (auto simp: problem_facts_def validate_planning_problem_v2_contract_def check_seq_ok_iff res_simps)
qed

lemma accepted_running_shape:
  assumes "accepted p" and "op \<in> set (p_operations p)" and "op_status op = NOT_STARTED"
  shows "op_remaining_seconds op = None \<and> op_assigned_resource_id op = None"
  using accepted_shape [OF assms(1)] assms(2,3)
  by (auto simp: validate_exact_shape_v2_def res_simps Let_def dest!: check_each_okD)

lemma graph_nodes_set: "set (graph_nodes p) = set (operation_ids p) \<union> set (anchor_ids p)"
  by (simp add: graph_nodes_def)

lemma accepted_acyclic:
  assumes "accepted p"
  shows "acyclic (set (edge_pairs p))"
proof -
  have "list_all (\<lambda>(u, v). u \<in> set (graph_nodes p) \<and> v \<in> set (graph_nodes p)) (edge_pairs p)"
    and v: "visits_all (graph_nodes p) (edge_pairs p)"
    using accepted_dag [OF assms] by (auto simp: validate_dag_v2_def res_simps)
  then have "set (edge_pairs p) \<subseteq> set (graph_nodes p) \<times> set (graph_nodes p)"
    by (auto simp: list_all_iff)
  with v show ?thesis
    using visits_all_iff_acyclic [of "graph_nodes p" "edge_pairs p"] by (simp add: graph_nodes_def)
qed

text \<open>The sweep of the code accepts exactly the acyclic graphs over the known nodes.\<close>

lemma validate_dag_ok_iff:
  "validate_dag_v2 p = Inr () \<longleftrightarrow>
     set (edge_pairs p) \<subseteq> set (graph_nodes p) \<times> set (graph_nodes p) \<and> acyclic (set (edge_pairs p))"
proof -
  have "list_all (\<lambda>(u, v). u \<in> set (graph_nodes p) \<and> v \<in> set (graph_nodes p)) (edge_pairs p) \<longleftrightarrow>
      set (edge_pairs p) \<subseteq> set (graph_nodes p) \<times> set (graph_nodes p)"
    by (auto simp: list_all_iff)
  then show ?thesis
    using visits_all_iff_acyclic [of "graph_nodes p" "edge_pairs p"]
    by (auto simp: validate_dag_v2_def res_simps graph_nodes_def)
qed

lemma operation_by_id_member:
  "distinct (operation_ids p) \<Longrightarrow> op \<in> set (p_operations p) \<Longrightarrow> operation_by_id p (op_id op) = Some op"
  by (simp add: operation_by_id_def operation_ids_def last_with_key)

lemma operation_by_id_Some: "operation_by_id p i = Some op \<Longrightarrow> op \<in> set (p_operations p) \<and> op_id op = i"
  by (auto simp: operation_by_id_def dest: last_with_Some)

lemma operation_by_id_ex: "i \<in> set (operation_ids p) \<Longrightarrow> \<exists>op. operation_by_id p i = Some op"
  by (cases "operation_by_id p i") (auto simp: operation_by_id_def operation_ids_def last_with_None_iff)

lemma resource_by_id_ex: "i \<in> set (resource_ids p) \<Longrightarrow> \<exists>r. resource_by_id p i = Some r"
  by (cases "resource_by_id p i") (auto simp: resource_by_id_def resource_ids_def last_with_None_iff)

end
