(* ===== verification/Json.thy ===== *)
theory Json
  imports Prelude
begin

section \<open>JSON values and canonical serialization\<close>

text \<open>
  The JSON values the contracts exchange, with the operations the code applies to them:
  dictionary access (\<open>dict.get\<close>, with \<open>JNull\<close> for a missing key), Python's equality (dictionaries
  compare without regard to order, \<open>True == 1\<close>), \<open>type(x).__name__\<close>, and \<open>json.dumps\<close> with
  \<open>ensure_ascii=False\<close>, \<open>separators=(",", ":")\<close> and \<open>sort_keys=True\<close>, which every canonical form and
  every sort key of the code goes through. Numbers are integers: the contracts modelled here carry
  no fractional number.
\<close>

datatype json =
    JNull
  | JBool bool
  | JInt int
  | JStr string
  | JArr "json list"
  | JObj "(string \<times> json) list"

type_synonym json_object = "(string \<times> json) list"

definition dict_get :: "json_object \<Rightarrow> string \<Rightarrow> json" where
  "dict_get kvs k = (case map_of kvs k of None \<Rightarrow> JNull | Some v \<Rightarrow> v)"

fun type_name :: "json \<Rightarrow> string" where
  "type_name JNull = ''NoneType''"
| "type_name (JBool _) = ''bool''"
| "type_name (JInt _) = ''int''"
| "type_name (JStr _) = ''str''"
| "type_name (JArr _) = ''list''"
| "type_name (JObj _) = ''dict''"

text \<open>Python's \<open>==\<close> on scalars; \<open>bool\<close> is a subclass of \<open>int\<close>.\<close>

fun scalar_eq :: "json \<Rightarrow> json \<Rightarrow> bool" where
  "scalar_eq (JBool b) (JInt n) = (n = (if b then 1 else 0))"
| "scalar_eq (JInt n) (JBool b) = (n = (if b then 1 else 0))"
| "scalar_eq a b = (a = b)"

text \<open>\<open>dict(observed) == expected\<close> for an \<open>expected\<close> with scalar values.\<close>

definition flat_dict_eq :: "json_object \<Rightarrow> json_object \<Rightarrow> bool" where
  "flat_dict_eq observed expected =
     (set (map fst observed) = set (map fst expected) \<and>
      list_all (\<lambda>k. scalar_eq (dict_get observed k) (dict_get expected k)) (map fst expected))"

lemma scalar_eq_refl [simp]: "scalar_eq v v"
  by (cases v) auto

lemma flat_dict_eq_refl [simp]: "flat_dict_eq d d"
  by (simp add: flat_dict_eq_def list_all_iff)

subsection \<open>json.dumps\<close>

definition hex_char :: "nat \<Rightarrow> char" where
  "hex_char n = (if n < 10 then digit_char n else char_of (87 + n))"

definition quote_char :: char where
  "quote_char = char_of (34::nat)"

definition backslash :: char where
  "backslash = char_of (92::nat)"

definition escape_char :: "char \<Rightarrow> string" where
  "escape_char c =
     (let n = of_char c :: nat in
      if n = 34 \<or> n = 92 then [backslash, c]
      else if n = 8 then [backslash, CHR ''b'']
      else if n = 9 then [backslash, CHR ''t'']
      else if n = 10 then [backslash, CHR ''n'']
      else if n = 12 then [backslash, CHR ''f'']
      else if n = 13 then [backslash, CHR ''r'']
      else if n < 32 then [backslash, CHR ''u'', CHR ''0'', CHR ''0'', hex_char (n div 16), hex_char (n mod 16)]
      else [c])"

definition quote_text :: "string \<Rightarrow> string" where
  "quote_text s = [quote_char] @ concat (map escape_char s) @ [quote_char]"

fun comma_join :: "string list \<Rightarrow> string" where
  "comma_join [] = []"
| "comma_join [x] = x"
| "comma_join (x # y # zs) = x @ '','' @ comma_join (y # zs)"

fun json_dumps :: "json \<Rightarrow> string" where
  "json_dumps JNull = ''null''"
| "json_dumps (JBool b) = (if b then ''true'' else ''false'')"
| "json_dumps (JInt n) = show_int n"
| "json_dumps (JStr s) = quote_text s"
| "json_dumps (JArr vs) = ''['' @ comma_join (map json_dumps vs) @ '']''"
| "json_dumps (JObj kvs) =
     ''{'' @ comma_join (map (\<lambda>(k, t). quote_text k @ '':'' @ t)
               (sort_key fst (map (\<lambda>(k, v). (k, json_dumps v)) kvs))) @ ''}''"

definition jstrs :: "string list \<Rightarrow> json" where
  "jstrs ss = JArr (map JStr ss)"

definition jopt :: "('a \<Rightarrow> json) \<Rightarrow> 'a option \<Rightarrow> json" where
  "jopt f x = (case x of None \<Rightarrow> JNull | Some v \<Rightarrow> f v)"

text \<open>The keys of an object do not depend on the order they were written in.\<close>

lemma sort_key_perm_distinct:
  assumes "mset xs = mset ys" and "distinct (map k xs)"
  shows "sort_key k xs = sort_key k ys"
proof (rule properties_for_sort_key)
  have single: "filter (\<lambda>x. k a = k x) zs = [a]" if "a \<in> set zs" "distinct (map k zs)" for a zs
    using that by (induction zs) (auto simp: filter_empty_conv, metis imageI)
  have m: "mset (sort_key k ys) = mset xs" using assms(1) by simp
  then have d: "distinct (map k (sort_key k ys))"
    using assms(2) by (metis mset_eq_imp_distinct_iff mset_map)
  show "filter (\<lambda>x. k a = k x) (sort_key k ys) = filter (\<lambda>x. k a = k x) xs"
    if "a \<in> set (sort_key k ys)" for a
    using that d m assms(2) single by (metis mset_eq_setD)
  show "mset (sort_key k ys) = mset xs" by (fact m)
  show "sorted (map k (sort_key k ys))" by simp
qed

lemma json_dumps_perm:
  assumes "mset kvs = mset kvs'" and "distinct (map fst kvs)"
  shows "json_dumps (JObj kvs) = json_dumps (JObj kvs')"
proof -
  let ?f = "\<lambda>(k, v). (k, json_dumps v)"
  have "mset (map ?f kvs) = mset (map ?f kvs')" using assms(1) by simp
  moreover have "distinct (map fst (map ?f kvs))"
    using assms(2) by (simp add: comp_def case_prod_beta)
  ultimately have "sort_key fst (map ?f kvs) = sort_key fst (map ?f kvs')"
    by (rule sort_key_perm_distinct)
  then show ?thesis by (simp add: comp_def)
qed

subsection \<open>Equality of decoded documents\<close>

text \<open>
  Python's \<open>==\<close> on decoded JSON: lists element by element, dictionaries by key, \<open>True == 1\<close>.
\<close>

lemma zip_member_size [termination_simp]: "p \<in> set (zip a b) \<Longrightarrow> size (fst p) < Suc (size_list size a)"
  by (cases p) (auto dest!: set_zip_leftD simp: less_Suc_eq_le intro: size_list_estimation')

fun py_eq :: "json \<Rightarrow> json \<Rightarrow> bool" where
  "py_eq (JObj a) (JObj b) =
     (set (map fst a) = set (map fst b)
      \<and> (\<forall>kv \<in> set a. case map_of b (fst kv) of None \<Rightarrow> False | Some w \<Rightarrow> py_eq (snd kv) w))"
| "py_eq (JArr a) (JArr b) = (length a = length b \<and> (\<forall>p \<in> set (zip a b). py_eq (fst p) (snd p)))"
| "py_eq v w = scalar_eq v w"

definition is_object :: "json \<Rightarrow> bool" where
  "is_object v = (case v of JObj _ \<Rightarrow> True | _ \<Rightarrow> False)"

definition object_of :: "json \<Rightarrow> json_object" where
  "object_of v = (case v of JObj kvs \<Rightarrow> kvs | _ \<Rightarrow> [])"

text \<open>\<open>document[key]\<close>, and \<open>{**document, key: value}\<close>, which keeps the place of a key that is there.\<close>

definition dict_item :: "json_object \<Rightarrow> string \<Rightarrow> json res" where
  "dict_item kvs k = (case map_of kvs k of None \<Rightarrow> Inl RaiseKey | Some v \<Rightarrow> Inr v)"

fun dict_set :: "json_object \<Rightarrow> string \<Rightarrow> json \<Rightarrow> json_object" where
  "dict_set [] k v = [(k, v)]"
| "dict_set ((k', v') # kvs) k v = (if k' = k then (k, v) # kvs else (k', v') # dict_set kvs k v)"

definition dict_without :: "json_object \<Rightarrow> string \<Rightarrow> json_object" where
  "dict_without kvs k = filter (\<lambda>(k', _). k' \<noteq> k) kvs"

text \<open>\<open>value in frozenset\<close>: an unhashable value raises \<open>TypeError\<close>.\<close>

definition text_in :: "json \<Rightarrow> string list \<Rightarrow> bool res" where
  "text_in v texts =
     (case v of
        JArr _ \<Rightarrow> Inl RaiseType
      | JObj _ \<Rightarrow> Inl RaiseType
      | JStr s \<Rightarrow> Inr (s \<in> set texts)
      | _ \<Rightarrow> Inr False)"

lemma dict_item_present: "k \<in> fst ` set kvs \<Longrightarrow> dict_item kvs k = Inr (dict_get kvs k)"
  using map_of_eq_None_iff [of kvs k] by (auto simp: dict_item_def dict_get_def split: option.splits)

lemma dict_get_Cons: "dict_get ((k, v) # d) k' = (if k' = k then v else dict_get d k')"
  by (simp add: dict_get_def)

lemma dict_get_append: "dict_get (a @ b) k = (if k \<in> fst ` set a then dict_get a k else dict_get b k)"
proof (cases "map_of a k")
  case None
  then have "k \<notin> fst ` set a" by (simp add: map_of_eq_None_iff)
  then show ?thesis using None by (simp add: dict_get_def map_add_def)
next
  case (Some v)
  then have "k \<in> fst ` set a" by (force dest: map_of_SomeD)
  then show ?thesis using Some by (simp add: dict_get_def map_add_def)
qed

lemma dict_get_set [simp]: "dict_get (dict_set kvs k v) k' = (if k' = k then v else dict_get kvs k')"
  by (induction kvs) (auto simp: dict_get_def)

lemma map_of_dict_set: "map_of (dict_set kvs k v) = (map_of kvs)(k \<mapsto> v)"
  by (induction kvs) (auto simp: fun_eq_iff)

lemma keys_dict_set [simp]: "fst ` set (dict_set kvs k v) = insert k (fst ` set kvs)"
  by (induction kvs k v rule: dict_set.induct) (simp_all add: insert_commute)

lemma py_eq_text [simp]: "py_eq v (JStr s) = (v = JStr s)" "py_eq (JStr s) v = (v = JStr s)"
  by (cases v; auto)+

lemma py_eq_null [simp]: "py_eq v JNull = (v = JNull)" "py_eq JNull v = (v = JNull)"
  by (cases v; auto)+

lemma py_eq_trans: "py_eq u v \<Longrightarrow> py_eq v w \<Longrightarrow> py_eq u w"
proof (induction u arbitrary: v w)
  case (JArr xs)
  then obtain ys where v: "v = JArr ys" by (cases v) auto
  then obtain zs where w: "w = JArr zs" using JArr.prems(2) by (cases w) auto
  have l: "length xs = length ys" "length ys = length zs" using JArr.prems by (auto simp: v w)
  have "py_eq (xs ! n) (zs ! n)" if "n < length xs" for n
  proof -
    have "(xs ! n, ys ! n) \<in> set (zip xs ys)" "(ys ! n, zs ! n) \<in> set (zip ys zs)"
      using that l by (auto simp: set_zip)
    then have "py_eq (xs ! n) (ys ! n)" "py_eq (ys ! n) (zs ! n)"
      using JArr.prems by (force simp: v w)+
    then show ?thesis using JArr.IH that by auto
  qed
  then show ?case using l by (auto simp: w set_zip)
next
  case (JObj xs)
  then obtain ys where v: "v = JObj ys" by (cases v) auto
  then obtain zs where w: "w = JObj zs" using JObj.prems(2) by (cases w) auto
  have "case map_of zs (fst kv) of None \<Rightarrow> False | Some z \<Rightarrow> py_eq (snd kv) z" if kv: "kv \<in> set xs" for kv
  proof -
    obtain y where y: "map_of ys (fst kv) = Some y" "py_eq (snd kv) y"
      using JObj.prems(1) kv by (auto simp: v split: option.splits)
    then have "(fst kv, y) \<in> set ys" by (auto dest: map_of_SomeD)
    then obtain z where "map_of zs (fst kv) = Some z" "py_eq y z"
      using JObj.prems(2) by (fastforce simp: v w split: option.splits)
    moreover have "snd kv \<in> Basic_BNFs.snds kv" by (simp add: Basic_BNFs.snds.simps prod_eq_iff)
    ultimately show ?thesis using JObj.IH [OF kv] y(2) by auto
  qed
  then show ?case using JObj.prems by (auto simp: v w)
qed (auto elim!: scalar_eq.elims split: if_splits)

text \<open>Documents read from JSON have no key twice; Python's equality is reflexive on them.\<close>

fun distinct_keys :: "json \<Rightarrow> bool" where
  "distinct_keys (JArr vs) = (\<forall>v \<in> set vs. distinct_keys v)"
| "distinct_keys (JObj kvs) = (distinct (map fst kvs) \<and> (\<forall>kv \<in> set kvs. distinct_keys (snd kv)))"
| "distinct_keys _ = True"

lemma py_eq_refl: "distinct_keys v \<Longrightarrow> py_eq v v"
proof (induction v rule: distinct_keys.induct)
  case (1 vs)
  then show ?case by (auto simp: set_zip)
next
  case (2 kvs)
  have "case map_of kvs (fst kv) of None \<Rightarrow> False | Some w \<Rightarrow> py_eq (snd kv) w" if "kv \<in> set kvs" for kv
  proof -
    have m: "map_of kvs (fst kv) = Some (snd kv)" using that 2(2) by (cases kv) (auto intro: map_of_is_SomeI)
    have "py_eq (snd kv) (snd kv)" using that 2 by simp
    then show ?thesis by (simp add: m)
  qed
  then show ?case by simp
qed simp_all

lemma distinct_keys_get: "distinct_keys (JObj kvs) \<Longrightarrow> distinct_keys (dict_get kvs k)"
  by (auto simp: dict_get_def split: option.splits dest!: map_of_SomeD)

end
