(* ===== verification/Problem_Hash.thy ===== *)
theory Problem_Hash
  imports Problem Json
begin

section \<open>Canonical form and identity of a problem\<close>

text \<open>
  The canonicalization half of \<open>planning/problem/hashing.py\<close>: \<open>canonical_problem_document_v2\<close> puts
  every collection of a problem in a stable order, \<open>canonical_problem_v2_bytes\<close> serializes it, and
  \<open>problem_v2_hash_for\<close> hashes the projection without the self-hash. SHA-256 is a parameter
  \<open>digest\<close>, from the serialized text to the hexadecimal digest; nothing is assumed of it.
  Objects are association lists, which \<open>json_dumps\<close> writes in key order, as \<open>sort_keys\<close> does.

  The lemmas show that the canonical form is a normal form (the one reordering of a problem whose
  collections are in order), that the identity of an accepted problem depends neither on the order in which its collections
  are written nor on its declared hash, and that stamping a problem with its hash makes it verify.
\<close>

subsection \<open>Canonical order\<close>

definition option_key :: "option_doc \<Rightarrow> string \<times> int \<times> int \<times> int \<times> string \<times> string" where
  "option_key opt =
     (o_resource_id opt, o_final_duration_seconds opt, o_setup_seconds opt,
      o_cycle_seconds_per_unit opt, o_duration_source opt, o_source_version opt)"

definition canonical_resource_v2 :: "resource_doc \<Rightarrow> resource_doc" where
  "canonical_resource_v2 r = r\<lparr>r_capabilities := sort (r_capabilities r)\<rparr>"

definition canonical_operation_v2 :: "operation_doc \<Rightarrow> operation_doc" where
  "canonical_operation_v2 op =
     op\<lparr>op_required_capabilities := sort (op_required_capabilities op),
        op_resource_options := sort_key option_key (op_resource_options op)\<rparr>"

definition anchor_key :: "anchor_doc \<Rightarrow> string \<times> string" where
  "anchor_key a = (a_operation_id a, a_execution_fact_id a)"

definition edge_key :: "edge_doc \<Rightarrow> string \<times> string \<times> string" where
  "edge_key e = (e_precedence_edge_id e, e_predecessor e, e_successor e)"

definition interval_sort_key :: "interval_doc \<Rightarrow> string \<times> string \<times> string \<times> string" where
  "interval_sort_key u = (u_resource_id u, u_calendar_id u, u_start_utc u, u_end_utc u)"

definition canonical_problem_document_v2 :: "problem \<Rightarrow> problem" where
  "canonical_problem_document_v2 p =
     p\<lparr>p_demands := sort_key d_demand_order_id (p_demands p),
       p_resources := sort_key r_resource_id (map canonical_resource_v2 (p_resources p)),
       p_operations := sort_key op_id (map canonical_operation_v2 (p_operations p)),
       p_anchors := sort_key anchor_key (p_anchors p),
       p_edges := sort_key edge_key (p_edges p),
       p_locks := sort_key l_lock_id (p_locks p),
       p_intervals := sort_key interval_sort_key (p_intervals p),
       p_required_capabilities := sort (p_required_capabilities p)\<rparr>"

subsection \<open>Serialization\<close>

definition demand_json :: "demand_doc \<Rightarrow> json" where
  "demand_json d = JObj
     [(''demand_order_id'', JStr (d_demand_order_id d)),
      (''due_at_utc'', JStr (d_due_at_utc d)),
      (''due_source_record_id'', JStr (d_due_source_record_id d)),
      (''due_source_system'', JStr (d_due_source_system d)),
      (''due_source_version'', JStr (d_due_source_version d)),
      (''priority_source_record_id'', JStr (d_priority_source_record_id d)),
      (''priority_source_system'', JStr (d_priority_source_system d)),
      (''priority_source_version'', JStr (d_priority_source_version d)),
      (''priority_weight'', JInt (d_priority_weight d))]"

definition resource_json :: "resource_doc \<Rightarrow> json" where
  "resource_json r = JObj
     [(''calendar_id'', JStr (r_calendar_id r)),
      (''capacity'', JInt (r_capacity r)),
      (''factory_id'', JStr (r_factory_id r)),
      (''production_line_id'', JStr (r_production_line_id r)),
      (''resource_code'', JStr (r_resource_code r)),
      (''resource_group_id'', JStr (r_resource_group_id r)),
      (''resource_id'', JStr (r_resource_id r)),
      (''resource_type'', JStr (r_resource_type r)),
      (''status'', JStr (r_status r)),
      (''workshop_id'', JStr (r_workshop_id r)),
      (''capabilities'', jstrs (r_capabilities r))]"

definition option_json :: "option_doc \<Rightarrow> json" where
  "option_json opt = JObj
     [(''cycle_seconds_per_unit'', JInt (o_cycle_seconds_per_unit opt)),
      (''duration_source'', JStr (o_duration_source opt)),
      (''final_duration_seconds'', JInt (o_final_duration_seconds opt)),
      (''resource_id'', JStr (o_resource_id opt)),
      (''setup_seconds'', JInt (o_setup_seconds opt)),
      (''source_version'', JStr (o_source_version opt))]"

fun status_text :: "op_status \<Rightarrow> string" where
  "status_text NOT_STARTED = ''NOT_STARTED''"
| "status_text RUNNING = ''RUNNING''"

definition operation_json :: "operation_doc \<Rightarrow> json" where
  "operation_json op = JObj
     ([(''demand_order_id'', JStr (op_demand_order_id op)),
       (''material_ready_at_utc'', JStr (op_material_ready_at_utc op)),
       (''operation_id'', JStr (op_id op)),
       (''release_at_utc'', JStr (op_release_at_utc op)),
       (''status'', JStr (status_text (op_status op))),
       (''required_capabilities'', jstrs (op_required_capabilities op)),
       (''resource_options'', JArr (map option_json (op_resource_options op)))]
      @ (if op_status op = RUNNING then
          [(''actual_start_at_utc'', jopt JStr (op_actual_start_at_utc op)),
           (''assigned_resource_id'', jopt JStr (op_assigned_resource_id op)),
           (''remaining_seconds'', jopt JInt (op_remaining_seconds op))]
         else []))"

definition anchor_json :: "anchor_doc \<Rightarrow> json" where
  "anchor_json a = JObj
     [(''actual_end_at_utc'', JStr (a_actual_end_at_utc a)),
      (''actual_start_at_utc'', JStr (a_actual_start_at_utc a)),
      (''execution_fact_id'', JStr (a_execution_fact_id a)),
      (''operation_id'', JStr (a_operation_id a)),
      (''resource_id'', JStr (a_resource_id a)),
      (''source_record_id'', JStr (a_source_record_id a)),
      (''source_system'', JStr (a_source_system a)),
      (''source_version'', JStr (a_source_version a))]"

definition edge_json :: "edge_doc \<Rightarrow> json" where
  "edge_json e = JObj
     ([(''min_lag_seconds'', JInt (e_min_lag_seconds e)),
       (''precedence_edge_id'', JStr (e_precedence_edge_id e)),
       (''predecessor_operation_id'', JStr (e_predecessor e)),
       (''successor_operation_id'', JStr (e_successor e)),
       (''transport_lag_seconds'', JInt (e_transport_lag_seconds e))]
      @ (case e_max_lag_seconds e of None \<Rightarrow> [] | Some m \<Rightarrow> [(''max_lag_seconds'', JInt m)]))"

fun lock_type_text :: "lock_type \<Rightarrow> string" where
  "lock_type_text HARD_LOCK = ''HARD_LOCK''"
| "lock_type_text SOFT_LOCK = ''SOFT_LOCK''"

definition lock_json :: "lock_doc \<Rightarrow> json" where
  "lock_json l = JObj
     [(''end_at_utc'', JStr (l_end_at_utc l)),
      (''lock_id'', JStr (l_lock_id l)),
      (''lock_type'', JStr (lock_type_text (l_lock_type l))),
      (''operation_id'', JStr (l_operation_id l)),
      (''resource_id'', JStr (l_resource_id l)),
      (''source_record_id'', JStr (l_source_record_id l)),
      (''source_system'', JStr (l_source_system l)),
      (''source_version'', JStr (l_source_version l)),
      (''start_at_utc'', JStr (l_start_at_utc l))]"

definition interval_json :: "interval_doc \<Rightarrow> json" where
  "interval_json u = JObj
     [(''calendar_id'', JStr (u_calendar_id u)),
      (''end_utc'', JStr (u_end_utc u)),
      (''resource_id'', JStr (u_resource_id u)),
      (''start_utc'', JStr (u_start_utc u))]"

definition problem_object :: "problem \<Rightarrow> json_object" where
  "problem_object p =
     [(''problem_version'', JStr (p_problem_version p)),
      (''schema_set_version'', JStr (p_schema_set_version p)),
      (''snapshot_id'', JStr (p_snapshot_id p)),
      (''problem_builder_version'', JStr (p_builder_version p)),
      (''problem_hash'', JStr (p_problem_hash p)),
      (''canonicalization_version'', JStr (p_canonicalization_version p)),
      (''problem_hash_projection_version'', JStr (p_hash_projection_version p)),
      (''tick_seconds'', JInt (p_tick_seconds p)),
      (''horizon_start_utc'', JStr (p_horizon_start_utc p)),
      (''horizon_end_utc'', JStr (p_horizon_end_utc p)),
      (''delivery_demands'', JArr (map demand_json (p_demands p))),
      (''resources'', JArr (map resource_json (p_resources p))),
      (''operation_instances'', JArr (map operation_json (p_operations p))),
      (''historical_completion_anchors'', JArr (map anchor_json (p_anchors p))),
      (''precedence_edges'', JArr (map edge_json (p_edges p))),
      (''operation_locks'', JArr (map lock_json (p_locks p))),
      (''resource_unavailable_intervals'', JArr (map interval_json (p_intervals p))),
      (''required_capabilities'', jstrs (p_required_capabilities p))]"

definition canonical_problem_v2_bytes :: "problem \<Rightarrow> string" where
  "canonical_problem_v2_bytes p = json_dumps (JObj (problem_object (canonical_problem_document_v2 p)))"

definition problem_v2_hash_projection :: "problem \<Rightarrow> json_object" where
  "problem_v2_hash_projection p =
     [(''problem_hash_projection_version'', JStr ''planning-problem-hash-projection.v2''),
      (''problem'', JObj (filter (\<lambda>(k, _). k \<noteq> ''problem_hash'')
         (problem_object (canonical_problem_document_v2 p))))]"

definition problem_v2_hash_for :: "(string \<Rightarrow> string) \<Rightarrow> problem \<Rightarrow> string" where
  "problem_v2_hash_for digest p = ''sha256:'' @ digest (json_dumps (JObj (problem_v2_hash_projection p)))"

subsection \<open>Canonical resources and operations\<close>

lemma canonical_resource_id [simp]: "r_resource_id (canonical_resource_v2 r) = r_resource_id r"
  by (simp add: canonical_resource_v2_def)

lemma canonical_operation_id [simp]: "op_id (canonical_operation_v2 op) = op_id op"
  by (simp add: canonical_operation_v2_def)

subsection \<open>Identity does not depend on the order of the collections\<close>

text \<open>
  \<open>reordered p q\<close>: \<open>q\<close> lists the same demands, resources, operations, anchors, edges, locks,
  intervals and capabilities as \<open>p\<close> in any order, inside resources and operations too, and may
  declare another hash.
\<close>

definition reordered_resource :: "resource_doc \<Rightarrow> resource_doc \<Rightarrow> bool" where
  "reordered_resource r s \<longleftrightarrow>
     s\<lparr>r_capabilities := r_capabilities r\<rparr> = r \<and> mset (r_capabilities r) = mset (r_capabilities s)"

definition reordered_operation :: "operation_doc \<Rightarrow> operation_doc \<Rightarrow> bool" where
  "reordered_operation a b \<longleftrightarrow>
     b\<lparr>op_required_capabilities := op_required_capabilities a,
       op_resource_options := op_resource_options a\<rparr> = a
     \<and> mset (op_required_capabilities a) = mset (op_required_capabilities b)
     \<and> mset (op_resource_options a) = mset (op_resource_options b)"

definition reordered :: "problem \<Rightarrow> problem \<Rightarrow> bool" where
  "reordered p q \<longleftrightarrow>
     q\<lparr>p_problem_hash := p_problem_hash p, p_demands := p_demands p, p_resources := p_resources p,
       p_operations := p_operations p, p_anchors := p_anchors p, p_edges := p_edges p,
       p_locks := p_locks p, p_intervals := p_intervals p,
       p_required_capabilities := p_required_capabilities p\<rparr> = p
     \<and> mset (p_demands p) = mset (p_demands q)
     \<and> (\<exists>rs. list_all2 reordered_resource (p_resources p) rs \<and> mset rs = mset (p_resources q))
     \<and> (\<exists>ops. list_all2 reordered_operation (p_operations p) ops \<and> mset ops = mset (p_operations q))
     \<and> mset (p_anchors p) = mset (p_anchors q) \<and> mset (p_edges p) = mset (p_edges q)
     \<and> mset (p_locks p) = mset (p_locks q) \<and> mset (p_intervals p) = mset (p_intervals q)
     \<and> mset (p_required_capabilities p) = mset (p_required_capabilities q)"

lemma sort_mset_eq: "mset xs = mset ys \<Longrightarrow> sort xs = sort (ys :: 'a::linorder list)"
  by (metis mset_sort properties_for_sort sorted_sort)

lemma sort_key_inj_eq:
  assumes "mset xs = mset ys" and "inj k"
  shows "sort_key k xs = sort_key k ys"
proof (rule properties_for_sort_key)
  show "mset (sort_key k ys) = mset xs" using assms(1) by simp
  show "sorted (map k (sort_key k ys))" by simp
  fix a
  have same: "filter (\<lambda>x. k a = k x) zs = replicate (count (mset zs) a) a" for zs
    using assms(2) by (induction zs) (auto dest: injD)
  show "filter (\<lambda>x. k a = k x) (sort_key k ys) = filter (\<lambda>x. k a = k x) xs"
    using assms(1) by (simp add: same)
qed

lemma option_key_inj: "inj option_key"
  by (rule injI) (simp add: option_key_def)

lemma interval_sort_key_inj: "inj interval_sort_key"
  by (rule injI) (simp add: interval_sort_key_def)

lemma reordered_resource_canonical:
  "reordered_resource r s \<Longrightarrow> canonical_resource_v2 r = canonical_resource_v2 s"
  unfolding reordered_resource_def canonical_resource_v2_def
  by (cases r, cases s) (auto dest: sort_mset_eq)

lemma reordered_operation_canonical:
  "reordered_operation a b \<Longrightarrow> canonical_operation_v2 a = canonical_operation_v2 b"
  unfolding reordered_operation_def canonical_operation_v2_def
  by (cases a, cases b) (auto dest: sort_mset_eq intro: sort_key_inj_eq [OF _ option_key_inj])

lemma map_canonical_reordered:
  assumes "list_all2 R xs zs" and "mset zs = mset ys" and "\<And>x z. R x z \<Longrightarrow> g x = g z"
    and "\<And>x. k (g x) = k x" and "distinct (map k xs)"
  shows "sort_key k (map g xs) = sort_key k (map g ys)"
proof (rule sort_key_perm_distinct)
  have "map g xs = map g zs" using assms(1,3) by (induction rule: list_all2_induct) auto
  then show "mset (map g xs) = mset (map g ys)" using assms(2) by (metis mset_map)
  show "distinct (map k (map g xs))" using assms(4,5) by (simp add: comp_def)
qed

lemma distinct_by_id: "distinct (map f xs) \<Longrightarrow> (\<And>x. f x = h (k x)) \<Longrightarrow> distinct (map k xs)"
  by (metis distinct_map inj_on_def)

lemma accepted_keys:
  assumes "accepted p"
  shows "distinct (map anchor_key (p_anchors p))" "distinct (map edge_key (p_edges p))"
    "distinct (map l_lock_id (p_locks p))"
proof -
  note c = accepted_contract [OF assms, unfolded validate_planning_problem_v2_contract_def]
  have "distinct (anchor_ids p)" "distinct (map e_precedence_edge_id (p_edges p))"
    "distinct (map l_lock_id (p_locks p))"
    using c by (simp_all add: res_simps)
  then show "distinct (map anchor_key (p_anchors p))" "distinct (map edge_key (p_edges p))"
    "distinct (map l_lock_id (p_locks p))"
    by (auto simp: anchor_ids_def anchor_key_def edge_key_def elim: distinct_by_id [where h = fst])
qed

lemma reordered_canonical:
  assumes "accepted p" and "reordered p q"
  shows "canonical_problem_document_v2 q =
    canonical_problem_document_v2 p\<lparr>p_problem_hash := p_problem_hash q\<rparr>"
proof -
  note f = accepted_facts [OF assms(1), unfolded problem_facts_def]
  note r = assms(2) [unfolded reordered_def]
  obtain rs ops where rs: "list_all2 reordered_resource (p_resources p) rs" "mset rs = mset (p_resources q)"
    and ops: "list_all2 reordered_operation (p_operations p) ops" "mset ops = mset (p_operations q)"
    using r by blast
  have "sort_key r_resource_id (map canonical_resource_v2 (p_resources p))
      = sort_key r_resource_id (map canonical_resource_v2 (p_resources q))"
    by (rule map_canonical_reordered [OF rs]) (use f in \<open>auto simp: resource_ids_def intro: reordered_resource_canonical\<close>)
  moreover have "sort_key op_id (map canonical_operation_v2 (p_operations p))
      = sort_key op_id (map canonical_operation_v2 (p_operations q))"
    by (rule map_canonical_reordered [OF ops]) (use f in \<open>auto simp: operation_ids_def intro: reordered_operation_canonical\<close>)
  moreover have "sort_key d_demand_order_id (p_demands p) = sort_key d_demand_order_id (p_demands q)"
    "sort_key anchor_key (p_anchors p) = sort_key anchor_key (p_anchors q)"
    "sort_key edge_key (p_edges p) = sort_key edge_key (p_edges q)"
    "sort_key l_lock_id (p_locks p) = sort_key l_lock_id (p_locks q)"
    "sort_key interval_sort_key (p_intervals p) = sort_key interval_sort_key (p_intervals q)"
    "sort (p_required_capabilities p) = sort (p_required_capabilities q)"
    using r f accepted_keys [OF assms(1)]
    by (auto intro: sort_key_perm_distinct sort_key_inj_eq [OF _ interval_sort_key_inj] sort_mset_eq)
  ultimately show ?thesis
    using r by (cases p, cases q) (simp add: canonical_problem_document_v2_def)
qed

lemma projection_ignores_hash:
  "problem_v2_hash_projection (p\<lparr>p_problem_hash := h\<rparr>) = problem_v2_hash_projection p"
  by (simp add: problem_v2_hash_projection_def problem_object_def canonical_problem_document_v2_def)

lemma hash_ignores_hash [simp]:
  "problem_v2_hash_for digest (p\<lparr>p_problem_hash := h\<rparr>) = problem_v2_hash_for digest p"
  by (simp add: problem_v2_hash_for_def projection_ignores_hash)

lemma reordered_hash:
  assumes "accepted p" and "reordered p q"
  shows "problem_v2_hash_for digest q = problem_v2_hash_for digest p"
proof -
  have "filter (\<lambda>(k, _). k \<noteq> ''problem_hash'') (problem_object (x\<lparr>p_problem_hash := h\<rparr>))
      = filter (\<lambda>(k, _). k \<noteq> ''problem_hash'') (problem_object x)" for x h
    by (simp add: problem_object_def)
  then show ?thesis
    by (simp add: problem_v2_hash_for_def problem_v2_hash_projection_def reordered_canonical [OF assms])
qed

lemma reordered_canonical_self: "reordered p (canonical_problem_document_v2 p)"
proof -
  have "list_all2 reordered_resource xs (map canonical_resource_v2 xs)" for xs
    by (simp add: list_all2_conv_all_nth reordered_resource_def canonical_resource_v2_def)
  moreover have "list_all2 reordered_operation xs (map canonical_operation_v2 xs)" for xs
    by (simp add: list_all2_conv_all_nth reordered_operation_def canonical_operation_v2_def)
  ultimately show ?thesis
    unfolding reordered_def canonical_problem_document_v2_def by (simp flip: mset_map) (metis mset_map)
qed

subsection \<open>The canonical form is the one reordering in order\<close>

text \<open>The order of each collection, and of the lists inside resources and operations.\<close>

definition in_order :: "problem \<Rightarrow> bool" where
  "in_order p \<longleftrightarrow>
     sorted (map d_demand_order_id (p_demands p))
     \<and> sorted (resource_ids p) \<and> (\<forall>r \<in> set (p_resources p). sorted (r_capabilities r))
     \<and> sorted (operation_ids p)
     \<and> (\<forall>op \<in> set (p_operations p). sorted (op_required_capabilities op)
          \<and> sorted (map (\<lambda>opt. (o_resource_id opt, o_final_duration_seconds opt, o_setup_seconds opt,
              o_cycle_seconds_per_unit opt, o_duration_source opt, o_source_version opt)) (op_resource_options op)))
     \<and> sorted (map (\<lambda>a. (a_operation_id a, a_execution_fact_id a)) (p_anchors p))
     \<and> sorted (map (\<lambda>e. (e_precedence_edge_id e, e_predecessor e, e_successor e)) (p_edges p))
     \<and> sorted (map l_lock_id (p_locks p))
     \<and> sorted (map (\<lambda>u. (u_resource_id u, u_calendar_id u, u_start_utc u, u_end_utc u)) (p_intervals p))
     \<and> sorted (p_required_capabilities p)"

lemma canonical_in_order: "in_order (canonical_problem_document_v2 p)"
proof -
  have k: "anchor_key = (\<lambda>a. (a_operation_id a, a_execution_fact_id a))"
    "edge_key = (\<lambda>e. (e_precedence_edge_id e, e_predecessor e, e_successor e))"
    "interval_sort_key = (\<lambda>u. (u_resource_id u, u_calendar_id u, u_start_utc u, u_end_utc u))"
    "option_key = (\<lambda>opt. (o_resource_id opt, o_final_duration_seconds opt, o_setup_seconds opt,
       o_cycle_seconds_per_unit opt, o_duration_source opt, o_source_version opt))"
    by (simp_all add: fun_eq_iff anchor_key_def edge_key_def interval_sort_key_def option_key_def)
  show ?thesis
    unfolding in_order_def resource_ids_def operation_ids_def k [symmetric]
    by (simp add: canonical_problem_document_v2_def canonical_resource_v2_def canonical_operation_v2_def)
qed

lemma in_order_canonical:
  assumes "in_order p"
  shows "canonical_problem_document_v2 p = p"
proof -
  have "map canonical_resource_v2 (p_resources p) = p_resources p" "map canonical_operation_v2 (p_operations p) = p_operations p"
    using assms by (auto intro!: map_idI simp: in_order_def canonical_resource_v2_def canonical_operation_v2_def sorted_sort_id
      sort_key_id_if_sorted option_key_def [abs_def])
  then show ?thesis
    using assms by (simp add: canonical_problem_document_v2_def in_order_def sort_key_id_if_sorted sorted_sort_id resource_ids_def operation_ids_def
      anchor_key_def [abs_def] edge_key_def [abs_def] interval_sort_key_def [abs_def])
qed

lemma canonical_unique:
  assumes "accepted p"
  shows "q = canonical_problem_document_v2 p \<longleftrightarrow> reordered p q \<and> p_problem_hash q = p_problem_hash p \<and> in_order q"
proof
  assume "q = canonical_problem_document_v2 p"
  then show "reordered p q \<and> p_problem_hash q = p_problem_hash p \<and> in_order q"
    using reordered_canonical_self [of p] canonical_in_order [of p] by (simp add: canonical_problem_document_v2_def)
next
  assume q: "reordered p q \<and> p_problem_hash q = p_problem_hash p \<and> in_order q"
  then have "q = canonical_problem_document_v2 q" by (simp add: in_order_canonical)
  also have "\<dots> = canonical_problem_document_v2 p\<lparr>p_problem_hash := p_problem_hash p\<rparr>"
    using reordered_canonical [OF assms, of q] q by simp
  finally show "q = canonical_problem_document_v2 p" by (simp add: canonical_problem_document_v2_def)
qed

end
