(* ===== verification/Schedule_Validator.thy ===== *)
theory Schedule_Validator
  imports Problem_Hash
begin

section \<open>The independent schedule validator\<close>

text \<open>
  \<open>planning/validation/problem_schedule_validator.py\<close>: the solver-neutral evaluator that decides
  whether a candidate schedule respects the eleven hard constraints C-001 to C-011 of an accepted
  problem. The problem is the record of theory \<open>Problem\<close>; the candidate is arbitrary JSON, read with
  the code's own partial readers. Each evaluator is the function of the same name; the functions
  that add a tick count to the horizon start return a result, since \<open>datetime\<close> addition raises
  \<open>OverflowError\<close> outside the years 1 to 9999, which nothing in the code catches.
\<close>

subsection \<open>Violations and reports\<close>

datatype constraint_id = C001 | C002 | C003 | C004 | C005 | C006 | C007 | C008 | C009 | C010 | C011

fun constraint_text :: "constraint_id \<Rightarrow> string" where
  "constraint_text C001 = ''C-001''"
| "constraint_text C002 = ''C-002''"
| "constraint_text C003 = ''C-003''"
| "constraint_text C004 = ''C-004''"
| "constraint_text C005 = ''C-005''"
| "constraint_text C006 = ''C-006''"
| "constraint_text C007 = ''C-007''"
| "constraint_text C008 = ''C-008''"
| "constraint_text C009 = ''C-009''"
| "constraint_text C010 = ''C-010''"
| "constraint_text C011 = ''C-011''"

text \<open>\<open>FORMAL_RULE_METADATA\<close>: the expected rule and the message of each constraint.\<close>

fun formal_rule_metadata :: "constraint_id \<Rightarrow> string \<times> string" where
  "formal_rule_metadata C001 =
     (''exactly one assignment per unfinished operation'', ''operation assignment completeness violated'')"
| "formal_rule_metadata C002 =
     (''successor start remains inside the declared lag window'', ''precedence lag violated'')"
| "formal_rule_metadata C003 =
     (''exactly one listed candidate resource'', ''candidate resource selection violated'')"
| "formal_rule_metadata C004 =
     (''capacity-1 resource intervals do not overlap'', ''resource overlap detected'')"
| "formal_rule_metadata C005 =
     (''non-preemptive assignment avoids all unavailable intervals'', ''resource calendar violated'')"
| "formal_rule_metadata C006 =
     (''start >= release_at and start >= material_ready_at'', ''release or material gate violated'')"
| "formal_rule_metadata C007 =
     (''completed/running execution facts remain authoritative'', ''execution fact preservation violated'')"
| "formal_rule_metadata C008 =
     (''HARD_LOCK resource/start/end remain fixed'', ''hard lock moved'')"
| "formal_rule_metadata C009 =
     (''cross-workshop transport lag is respected'', ''cross-workshop transport lag violated'')"
| "formal_rule_metadata C010 =
     (''interval length equals selected resource duration ticks'',
      ''operation duration inconsistent with selected resource'')"
| "formal_rule_metadata C011 =
     (''NOT_STARTED assignment remains wholly inside horizon'', ''planning horizon violated'')"

record violation =
  v_constraint_id :: constraint_id
  v_severity :: string
  v_entity_ids :: "string list"
  v_observed_value :: json
  v_expected_rule :: string
  v_message :: string

datatype report_status = PASS | FAIL

record report =
  rep_version :: string
  rep_problem_hash :: string
  rep_status :: report_status
  rep_hard_violation_count :: nat
  rep_violations :: "violation list"

definition violation :: "constraint_id \<Rightarrow> string list \<Rightarrow> json_object \<Rightarrow> violation" where
  "violation c ids observed =
     (let identifiers = first_seen (filter (\<lambda>i. i \<noteq> []) ids)
      in \<lparr>v_constraint_id = c, v_severity = ''HARD'',
          v_entity_ids = (if identifiers = [] then [''candidate''] else identifiers),
          v_observed_value = JObj observed,
          v_expected_rule = fst (formal_rule_metadata c),
          v_message = snd (formal_rule_metadata c)\<rparr>)"

subsection \<open>Readers of the candidate\<close>

record assignment =
  as_index :: nat
  as_operation_id :: string
  as_resource_id :: "string option"
  as_start_tick :: "int option"
  as_end_tick :: "int option"
  as_duration_ticks :: "int option"
  as_start_at :: "instant option"
  as_end_at :: "instant option"
  as_duration_seconds :: "int option"
  as_lock_ids :: "string list"
  as_execution_fact_ids :: "string list"

definition interval_is_usable :: "assignment \<Rightarrow> bool" where
  "interval_is_usable a =
     (case (as_start_tick a, as_end_tick a) of (Some s, Some e) \<Rightarrow> s < e | _ \<Rightarrow> False)"

definition observed_tuple :: "assignment \<Rightarrow> json" where
  "observed_tuple a = JObj
     [(''operation_id'', JStr (as_operation_id a)),
      (''resource_id'', jopt JStr (as_resource_id a)),
      (''start_tick'', jopt JInt (as_start_tick a)),
      (''end_tick'', jopt JInt (as_end_tick a)),
      (''duration_ticks'', jopt JInt (as_duration_ticks a)),
      (''duration_seconds'', jopt JInt (as_duration_seconds a))]"

fun integer_value :: "json \<Rightarrow> int option" where
  "integer_value (JInt n) = Some n"
| "integer_value _ = None"

definition canonical_identifier :: "string \<Rightarrow> bool" where
  "canonical_identifier s \<longleftrightarrow> s \<noteq> [] \<and> length s \<le> 256 \<and> list_all (\<lambda>c. \<not> is_space c) s"

fun identifier_value :: "json \<Rightarrow> string option" where
  "identifier_value (JStr s) = (if canonical_identifier s then Some s else None)"
| "identifier_value _ = None"

fun instant_value :: "json \<Rightarrow> instant option" where
  "instant_value (JStr s) = (case parse_utc_instant s of Inr t \<Rightarrow> Some t | Inl _ \<Rightarrow> None)"
| "instant_value _ = None"

fun identifier_tuple :: "json \<Rightarrow> string list" where
  "identifier_tuple (JArr vs) =
     (let identifiers = List.map_filter identifier_value vs
      in if length identifiers \<noteq> length vs then [] else identifiers)"
| "identifier_tuple _ = []"

text \<open>
  The precheck: the errors of \<open>validate_built_problem_v2\<close> are rewrapped with their field, then the
  declared hash is compared.
\<close>

definition validated_problem :: "(string \<Rightarrow> string) \<Rightarrow> problem \<Rightarrow> unit res" where
  "validated_problem digest p =
     (case validate_built_problem_v2 p of
        Inl (RaiseProblem _ field) \<Rightarrow> Inl (RaiseInput field)
      | Inl _ \<Rightarrow> Inl (RaiseInput ''planning_problem'')
      | Inr _ \<Rightarrow> require_or (p_problem_hash p = problem_v2_hash_for digest p) (RaiseInput ''problem_hash''))"

definition problem_reference :: "problem \<Rightarrow> json_object" where
  "problem_reference p =
     [(''problem_version'', JStr (p_problem_version p)),
      (''problem_builder_version'', JStr (p_builder_version p)),
      (''problem_hash_projection_version'', JStr (p_hash_projection_version p)),
      (''problem_hash'', JStr (p_problem_hash p)),
      (''snapshot_id'', JStr (p_snapshot_id p)),
      (''tick_seconds'', JInt (p_tick_seconds p)),
      (''horizon_start_utc'', JStr (p_horizon_start_utc p)),
      (''horizon_end_utc'', JStr (p_horizon_end_utc p))]"

definition reference_matches :: "problem \<Rightarrow> json \<Rightarrow> bool" where
  "reference_matches p observed =
     (case observed of JObj d \<Rightarrow> flat_dict_eq d (problem_reference p) | _ \<Rightarrow> False)"

definition reference_violations :: "problem \<Rightarrow> json_object \<Rightarrow> violation list" where
  "reference_violations p candidate =
     (let observed = dict_get candidate ''problem'' in
      if reference_matches p observed then []
      else [violation C001 [p_snapshot_id p]
              [(''reason'', JStr ''candidate references a different PlanningProblem''),
               (''observed_problem_reference'', observed),
               (''expected_problem_reference'', JObj (problem_reference p))]])"

definition read_assignment :: "nat \<Rightarrow> json_object \<Rightarrow> string \<Rightarrow> assignment" where
  "read_assignment i raw operation_id =
     \<lparr>as_index = i, as_operation_id = operation_id,
      as_resource_id = identifier_value (dict_get raw ''resource_id''),
      as_start_tick = integer_value (dict_get raw ''start_tick''),
      as_end_tick = integer_value (dict_get raw ''end_tick''),
      as_duration_ticks = integer_value (dict_get raw ''duration_ticks''),
      as_start_at = instant_value (dict_get raw ''start_at_utc''),
      as_end_at = instant_value (dict_get raw ''end_at_utc''),
      as_duration_seconds = integer_value (dict_get raw ''duration_seconds''),
      as_lock_ids = identifier_tuple (dict_get raw ''lock_ids''),
      as_execution_fact_ids = identifier_tuple (dict_get raw ''execution_fact_ids'')\<rparr>"

text \<open>One turn of the loop over \<open>enumerate(raw_assignments)\<close>.\<close>

definition materialize_object :: "nat \<Rightarrow> json_object \<Rightarrow> assignment list \<times> violation list" where
  "materialize_object i raw =
     (case identifier_value (dict_get raw ''operation_id'') of
        None \<Rightarrow>
          ([], [violation C001 [indexed ''candidate.assignments'' i]
                  [(''reason'', JStr ''assignment has no canonical operation_id''),
                   (''observed_operation_id'', dict_get raw ''operation_id'')]])
      | Some operation_id \<Rightarrow>
          (let a = read_assignment i raw operation_id in
           ([a],
            (if as_resource_id a = None then
               [violation C003 [operation_id]
                  [(''reason'', JStr ''assignment has no canonical resource_id''),
                   (''observed_resource_id'', dict_get raw ''resource_id'')]]
             else [])
            @ (if \<not> interval_is_usable a then
                 [violation C001 [operation_id]
                    [(''reason'', JStr ''assignment has no positive scheduled interval''),
                     (''start_tick'', jopt JInt (as_start_tick a)),
                     (''end_tick'', jopt JInt (as_end_tick a))]]
               else []))))"

definition materialize_one :: "nat \<Rightarrow> json \<Rightarrow> assignment list \<times> violation list" where
  "materialize_one i raw =
     (case raw of
        JObj raw_assignment \<Rightarrow> materialize_object i raw_assignment
      | _ \<Rightarrow>
          ([], [violation C001 [indexed ''candidate.assignments'' i]
                  [(''reason'', JStr ''assignment is not an object''),
                   (''observed_type'', JStr (type_name raw))]]))"

definition materialize_assignments :: "problem \<Rightarrow> json_object \<Rightarrow> assignment list \<times> violation list" where
  "materialize_assignments p candidate =
     (let references = reference_violations p candidate in
      case dict_get candidate ''assignments'' of
        JArr raws \<Rightarrow>
          (let rows = map (\<lambda>(i, raw). materialize_one i raw) (enumerate 0 raws)
           in (concat (map fst rows), references @ concat (map snd rows)))
      | other \<Rightarrow>
          ([], references @
               [violation C001 [p_snapshot_id p]
                  [(''reason'', JStr ''candidate.assignments is not an array''),
                   (''observed_type'', JStr (type_name other))]]))"

subsection \<open>Grouping\<close>

definition default_int :: "int option \<Rightarrow> int" where
  "default_int v = (case v of Some n \<Rightarrow> n | None \<Rightarrow> -1)"

definition group_key ::
  "assignment \<Rightarrow> string \<times> int \<times> int \<times> int \<times> int \<times> string list \<times> string list" where
  "group_key a =
     ((case as_resource_id a of Some r \<Rightarrow> r | None \<Rightarrow> []),
      default_int (as_start_tick a), default_int (as_end_tick a),
      default_int (as_duration_ticks a), default_int (as_duration_seconds a),
      as_lock_ids a, as_execution_fact_ids a)"

type_synonym groups = "(string \<times> assignment list) list"

definition groups_of :: "assignment list \<Rightarrow> groups" where
  "groups_of assignments =
     map (\<lambda>i. (i, sort_key group_key (filter (\<lambda>a. as_operation_id a = i) assignments)))
       (first_seen (map as_operation_id assignments))"

text \<open>\<open>grouped.get(operation_id, ())\<close>.\<close>

definition selected_for :: "groups \<Rightarrow> string \<Rightarrow> assignment list" where
  "selected_for grouped i = (case map_of grouped i of Some xs \<Rightarrow> xs | None \<Rightarrow> [])"

definition singles_of :: "groups \<Rightarrow> (string \<times> assignment) list" where
  "singles_of grouped = map (\<lambda>(i, xs). (i, hd xs)) (filter (\<lambda>(i, xs). length xs = 1) grouped)"

record endpoint =
  ep_operation_id :: string
  ep_resource_id :: string
  ep_start_at :: instant
  ep_end_at :: instant

abbreviation horizon_start :: "problem \<Rightarrow> instant" where
  "horizon_start p \<equiv> utc (p_horizon_start_utc p)"

abbreviation horizon_end :: "problem \<Rightarrow> instant" where
  "horizon_end p \<equiv> utc (p_horizon_end_utc p)"

text \<open>\<open>horizon_start + timedelta(seconds=tick * tick_seconds)\<close>.\<close>

definition restore_tick :: "problem \<Rightarrow> int \<Rightarrow> instant res" where
  "restore_tick p tick = add_seconds (horizon_start p) (tick * p_tick_seconds p)"

definition single_endpoint :: "problem \<Rightarrow> string \<times> assignment \<Rightarrow> (string \<times> endpoint) list res" where
  "single_endpoint p row =
     (case row of (i, a) \<Rightarrow>
      (case (as_resource_id a, as_start_tick a, as_end_tick a) of
        (Some r, Some s, Some e) \<Rightarrow>
          (if s < e then
             bind_res (restore_tick p s) (\<lambda>start_at.
             bind_res (restore_tick p e) (\<lambda>end_at.
             Inr [(i, \<lparr>ep_operation_id = i, ep_resource_id = r,
                       ep_start_at = start_at, ep_end_at = end_at\<rparr>)]))
           else Inr [])
      | _ \<Rightarrow> Inr []))"

definition anchor_endpoint :: "anchor_doc \<Rightarrow> string \<times> endpoint" where
  "anchor_endpoint a =
     (a_operation_id a,
      \<lparr>ep_operation_id = a_operation_id a, ep_resource_id = a_resource_id a,
       ep_start_at = utc (a_actual_start_at_utc a), ep_end_at = utc (a_actual_end_at_utc a)\<rparr>)"

text \<open>
  Later entries overwrite earlier ones with the same key: \<open>endpoint_for\<close> reads the last. The second
  dictionary the function returns is read by no caller.
\<close>

definition endpoint_maps :: "problem \<Rightarrow> (string \<times> assignment) list \<Rightarrow> (string \<times> endpoint) list res" where
  "endpoint_maps p singles =
     bind_res (collect_res (single_endpoint p) singles) (\<lambda>eps.
     Inr (eps @ map anchor_endpoint (p_anchors p)))"

definition endpoint_for :: "(string \<times> endpoint) list \<Rightarrow> string \<Rightarrow> endpoint option" where
  "endpoint_for endpoints i = map_of (rev endpoints) i"

subsection \<open>The evaluators\<close>

definition c001_active :: "groups \<Rightarrow> string \<Rightarrow> violation list" where
  "c001_active grouped i =
     (let selected = selected_for grouped i in
      if length selected \<noteq> 1 then
        [violation C001 [i]
           [(''operation_id'', JStr i),
            (''assignment_count'', JInt (int (length selected))),
            (''assignments'', JArr (map observed_tuple selected))]]
      else [])"

definition unknown_ids :: "problem \<Rightarrow> assignment list \<Rightarrow> string list" where
  "unknown_ids p assignments =
     filter (\<lambda>i. i \<notin> set (operation_ids p) \<union> set (anchor_ids p)) (map as_operation_id assignments)"

definition c001_unknown :: "problem \<Rightarrow> assignment list \<Rightarrow> string \<Rightarrow> violation" where
  "c001_unknown p assignments i =
     violation C001 [i]
       [(''operation_id'', JStr i),
        (''assignment_count'', JInt (int (count_list (unknown_ids p assignments) i))),
        (''reason'', JStr ''operation is absent from the authoritative Problem'')]"

definition evaluate_c001 :: "problem \<Rightarrow> assignment list \<Rightarrow> groups \<Rightarrow> violation list" where
  "evaluate_c001 p assignments grouped =
     concat (map (c001_active grouped) (sorted_ids (operation_ids p)))
     @ map (c001_unknown p assignments) (sorted_ids (unknown_ids p assignments))"

definition c002_row :: "(string \<times> endpoint) list \<Rightarrow> edge_doc \<Rightarrow> violation list" where
  "c002_row endpoints e =
     (case (endpoint_for endpoints (e_predecessor e), endpoint_for endpoints (e_successor e)) of
        (Some predecessor, Some successor) \<Rightarrow>
          (let lag_seconds = trunc_seconds (ep_start_at successor) (ep_end_at predecessor);
               minimum = e_min_lag_seconds e
           in if lag_seconds < minimum
                 \<or> (case e_max_lag_seconds e of None \<Rightarrow> False | Some maximum \<Rightarrow> maximum < lag_seconds)
              then [violation C002 [e_precedence_edge_id e, e_predecessor e, e_successor e]
                      [(''predecessor_end_utc'', JStr (format_utc_instant (ep_end_at predecessor))),
                       (''successor_start_utc'', JStr (format_utc_instant (ep_start_at successor))),
                       (''lag_seconds'', JInt lag_seconds),
                       (''min_lag_seconds'', JInt minimum),
                       (''max_lag_seconds'', jopt JInt (e_max_lag_seconds e))]]
              else [])
      | _ \<Rightarrow> [])"

definition evaluate_c002 :: "problem \<Rightarrow> (string \<times> endpoint) list \<Rightarrow> violation list" where
  "evaluate_c002 p endpoints = concat (map (c002_row endpoints) (p_edges p))"

definition present_ids :: "string option list \<Rightarrow> string list" where
  "present_ids xs = filter (\<lambda>s. s \<noteq> []) (List.map_filter id xs)"

definition c003_row :: "groups \<Rightarrow> operation_doc \<Rightarrow> violation list" where
  "c003_row grouped op =
     (let selected = selected_for grouped (op_id op);
          observed = map as_resource_id selected;
          allowed = option_resource_ids op
      in if selected = [] then []
         else if length selected \<noteq> 1 \<or> hd observed \<notin> Some ` set allowed then
           [violation C003 (op_id op # present_ids observed)
              [(''operation_id'', JStr (op_id op)),
               (''selected_resource_count'', JInt (int (length selected))),
               (''selected_resource_ids'', JArr (map (jopt JStr) observed)),
               (''allowed_resource_ids'', jstrs (sorted_ids allowed))]]
         else [])"

definition evaluate_c003 :: "problem \<Rightarrow> groups \<Rightarrow> violation list" where
  "evaluate_c003 p grouped = concat (map (c003_row grouped) (p_operations p))"

definition on_unit_resource :: "problem \<Rightarrow> assignment \<Rightarrow> bool" where
  "on_unit_resource p a =
     (case as_resource_id a of
        None \<Rightarrow> False
      | Some r \<Rightarrow>
          (case resource_by_id p r of None \<Rightarrow> False | Some res \<Rightarrow> r_capacity res = 1) \<and> interval_is_usable a)"

definition overlap_key :: "assignment \<Rightarrow> int \<times> int \<times> string \<times> nat" where
  "overlap_key a = (the (as_start_tick a), the (as_end_tick a), as_operation_id a, as_index a)"

definition c004_violation :: "string \<Rightarrow> assignment \<Rightarrow> assignment \<Rightarrow> violation" where
  "c004_violation resource_id first second =
     violation C004 [resource_id, as_operation_id first, as_operation_id second]
       [(''resource_id'', JStr resource_id),
        (''first'', observed_tuple first),
        (''second'', observed_tuple second)]"

text \<open>The inner loop over \<open>ordered[first_index + 1 :]\<close>, left by \<open>break\<close>.\<close>

fun later_overlaps :: "string \<Rightarrow> assignment \<Rightarrow> assignment list \<Rightarrow> violation list" where
  "later_overlaps resource_id first [] = []"
| "later_overlaps resource_id first (second # rest) =
     (if the (as_end_tick first) \<le> the (as_start_tick second) then []
      else (if the (as_start_tick first) < the (as_end_tick second)
            then [c004_violation resource_id first second] else [])
           @ later_overlaps resource_id first rest)"

fun ordered_overlaps :: "string \<Rightarrow> assignment list \<Rightarrow> violation list" where
  "ordered_overlaps resource_id [] = []"
| "ordered_overlaps resource_id (first # rest) =
     later_overlaps resource_id first rest @ ordered_overlaps resource_id rest"

definition evaluate_c004 :: "problem \<Rightarrow> assignment list \<Rightarrow> violation list" where
  "evaluate_c004 p assignments =
     (let usable = filter (on_unit_resource p) assignments
      in concat (map (\<lambda>r. ordered_overlaps r
             (sort_key overlap_key (filter (\<lambda>a. as_resource_id a = Some r) usable)))
           (sorted_ids (List.map_filter as_resource_id usable))))"

definition c005_interval ::
  "assignment \<Rightarrow> string \<Rightarrow> instant \<Rightarrow> instant \<Rightarrow> interval_doc \<Rightarrow> violation list" where
  "c005_interval a r start_at end_at u =
     (if r \<noteq> u_resource_id u then []
      else if start_at < utc (u_end_utc u) \<and> utc (u_start_utc u) < end_at then
        [violation C005 [as_operation_id a, r]
           [(''assignment_start_utc'', JStr (format_utc_instant start_at)),
            (''assignment_end_utc'', JStr (format_utc_instant end_at)),
            (''unavailable_start_utc'', JStr (format_utc_instant (utc (u_start_utc u)))),
            (''unavailable_end_utc'', JStr (format_utc_instant (utc (u_end_utc u))))]]
      else [])"

definition c005_row :: "problem \<Rightarrow> assignment \<Rightarrow> violation list res" where
  "c005_row p a =
     (case (as_resource_id a, as_start_tick a, as_end_tick a) of
        (Some r, Some s, Some e) \<Rightarrow>
          (if s < e then
             bind_res (restore_tick p s) (\<lambda>start_at.
             bind_res (restore_tick p e) (\<lambda>end_at.
             Inr (concat (map (c005_interval a r start_at end_at) (p_intervals p)))))
           else Inr [])
      | _ \<Rightarrow> Inr [])"

definition evaluate_c005 :: "problem \<Rightarrow> assignment list \<Rightarrow> violation list res" where
  "evaluate_c005 p assignments = collect_res (c005_row p) assignments"

definition c006_row :: "problem \<Rightarrow> (string \<times> assignment) list \<Rightarrow> operation_doc \<Rightarrow> violation list res" where
  "c006_row p singles op =
     (case map_of singles (op_id op) of
        None \<Rightarrow> Inr []
      | Some a \<Rightarrow>
          (case as_start_tick a of
             None \<Rightarrow> Inr []
           | Some s \<Rightarrow>
               bind_res (restore_tick p s) (\<lambda>start_at.
               let release_at = utc (op_release_at_utc op); material_at = utc (op_material_ready_at_utc op)
               in Inr (if start_at < release_at \<or> start_at < material_at then
                    [violation C006 [op_id op]
                       [(''assignment_start_utc'', JStr (format_utc_instant start_at)),
                        (''release_at_utc'', JStr (format_utc_instant release_at)),
                        (''material_ready_at_utc'', JStr (format_utc_instant material_at))]]
                  else []))))"

definition evaluate_c006 :: "problem \<Rightarrow> (string \<times> assignment) list \<Rightarrow> violation list res" where
  "evaluate_c006 p singles = collect_res (c006_row p singles) (p_operations p)"

definition c007_anchor :: "groups \<Rightarrow> anchor_doc \<Rightarrow> violation list" where
  "c007_anchor grouped anchor =
     (let selected = selected_for grouped (a_operation_id anchor) in
      if selected \<noteq> [] then
        [violation C007 [a_operation_id anchor, a_execution_fact_id anchor]
           [(''execution_status'', JStr ''COMPLETED''),
            (''assignments'', JArr (map observed_tuple selected))]]
      else [])"

text \<open>An optional tick restored, when there is exactly one assignment.\<close>

definition restore_optional :: "problem \<Rightarrow> int option \<Rightarrow> instant option res" where
  "restore_optional p tick =
     (case tick of None \<Rightarrow> Inr None | Some t \<Rightarrow> bind_res (restore_tick p t) (\<lambda>x. Inr (Some x)))"

definition single_field :: "(assignment \<Rightarrow> 'a option) \<Rightarrow> assignment list \<Rightarrow> 'a option" where
  "single_field f selected = (case selected of [a] \<Rightarrow> f a | _ \<Rightarrow> None)"

definition c007_running :: "problem \<Rightarrow> groups \<Rightarrow> operation_doc \<Rightarrow> violation list res" where
  "c007_running p grouped op =
     (if op_status op \<noteq> RUNNING then Inr []
      else case (op_assigned_resource_id op, op_remaining_seconds op) of
        (Some expected_resource, Some remaining_seconds) \<Rightarrow>
          (let expected_end_tick = ceil_ticks remaining_seconds (p_tick_seconds p);
               selected = selected_for grouped (op_id op)
           in bind_res (restore_optional p (single_field as_start_tick selected)) (\<lambda>candidate_start.
              bind_res (restore_optional p (single_field as_end_tick selected)) (\<lambda>candidate_end.
              Inr (if length selected = 1
                      \<and> as_resource_id (hd selected) = Some expected_resource
                      \<and> as_start_tick (hd selected) = Some 0
                      \<and> as_end_tick (hd selected) = Some expected_end_tick
                      \<and> as_start_at (hd selected) = candidate_start
                      \<and> as_end_at (hd selected) = candidate_end
                   then []
                   else [violation C007 [op_id op, expected_resource]
                     [(''execution_status'', JStr ''RUNNING''),
                      (''actual_start_at_utc'', jopt JStr (op_actual_start_at_utc op)),
                      (''expected_resource_id'', JStr expected_resource),
                      (''remaining_seconds'', JInt remaining_seconds),
                      (''expected_start_tick'', JInt 0),
                      (''expected_end_tick'', JInt expected_end_tick),
                      (''assignments'', JArr (map observed_tuple selected))]]))))
      | _ \<Rightarrow> Inl RaiseKey)"

definition evaluate_c007 :: "problem \<Rightarrow> groups \<Rightarrow> violation list res" where
  "evaluate_c007 p grouped =
     bind_res (collect_res (c007_running p grouped) (p_operations p)) (\<lambda>running.
     Inr (concat (map (c007_anchor grouped) (p_anchors p)) @ running))"

definition c008_row :: "problem \<Rightarrow> groups \<Rightarrow> lock_doc \<Rightarrow> violation list res" where
  "c008_row p grouped lock =
     (if l_lock_type lock \<noteq> HARD_LOCK then Inr []
      else
        (let selected = selected_for grouped (l_operation_id lock);
             usable = length selected = 1 \<and> interval_is_usable (hd selected);
             lock_start = utc (l_start_at_utc lock);
             lock_end = utc (l_end_at_utc lock)
         in bind_res (if usable then restore_optional p (as_start_tick (hd selected)) else Inr None) (\<lambda>candidate_start.
            bind_res (if usable then restore_optional p (as_end_tick (hd selected)) else Inr None) (\<lambda>candidate_end.
            Inr (if length selected = 1
                    \<and> as_resource_id (hd selected) = Some (l_resource_id lock)
                    \<and> candidate_start = Some lock_start
                    \<and> candidate_end = Some lock_end
                 then []
                 else [violation C008 [l_operation_id lock, l_resource_id lock, l_lock_id lock]
                   [(''hard_lock'', JObj
                      [(''resource_id'', JStr (l_resource_id lock)),
                       (''start_at_utc'', JStr (format_utc_instant lock_start)),
                       (''end_at_utc'', JStr (format_utc_instant lock_end))]),
                    (''assignments'', JArr (map observed_tuple selected))]])))))"

definition evaluate_c008 :: "problem \<Rightarrow> groups \<Rightarrow> violation list res" where
  "evaluate_c008 p grouped = collect_res (c008_row p grouped) (p_locks p)"

definition workshop_of :: "problem \<Rightarrow> string \<Rightarrow> string option" where
  "workshop_of p r = map_option r_workshop_id (resource_by_id p r)"

definition c009_row :: "problem \<Rightarrow> (string \<times> endpoint) list \<Rightarrow> edge_doc \<Rightarrow> violation list" where
  "c009_row p endpoints e =
     (case (endpoint_for endpoints (e_predecessor e), endpoint_for endpoints (e_successor e)) of
        (Some predecessor, Some successor) \<Rightarrow>
          (case (workshop_of p (ep_resource_id predecessor), workshop_of p (ep_resource_id successor)) of
             (Some predecessor_workshop, Some successor_workshop) \<Rightarrow>
               (let observed = trunc_seconds (ep_start_at successor) (ep_end_at predecessor);
                    required = e_transport_lag_seconds e
                in if predecessor_workshop \<noteq> successor_workshop \<and> observed < required then
                     [violation C009 [e_precedence_edge_id e, e_predecessor e, e_successor e]
                        [(''predecessor_workshop_id'', JStr predecessor_workshop),
                         (''successor_workshop_id'', JStr successor_workshop),
                         (''predecessor_end_utc'', JStr (format_utc_instant (ep_end_at predecessor))),
                         (''successor_start_utc'', JStr (format_utc_instant (ep_start_at successor))),
                         (''transport_seconds_observed'', JInt observed),
                         (''transport_lag_seconds'', JInt required)]]
                   else [])
           | _ \<Rightarrow> [])
      | _ \<Rightarrow> [])"

definition evaluate_c009 :: "problem \<Rightarrow> (string \<times> endpoint) list \<Rightarrow> violation list" where
  "evaluate_c009 p endpoints = concat (map (c009_row p endpoints) (p_edges p))"

text \<open>The first option of the operation on a resource.\<close>

definition option_on :: "operation_doc \<Rightarrow> string \<Rightarrow> option_doc option" where
  "option_on op r = find (\<lambda>opt. o_resource_id opt = r) (op_resource_options op)"

text \<open>The remaining time of a running operation, the option's duration otherwise.\<close>

definition expected_seconds :: "operation_doc \<Rightarrow> option_doc \<Rightarrow> int res" where
  "expected_seconds op opt =
     (if op_status op = RUNNING
      then (case op_remaining_seconds op of Some n \<Rightarrow> Inr n | None \<Rightarrow> Inl RaiseKey)
      else Inr (o_final_duration_seconds opt))"

definition c010_row :: "problem \<Rightarrow> (string \<times> assignment) list \<Rightarrow> operation_doc \<Rightarrow> violation list res" where
  "c010_row p singles op =
     (case map_of singles (op_id op) of
        None \<Rightarrow> Inr []
      | Some a \<Rightarrow>
          (case (as_resource_id a, as_start_tick a, as_end_tick a) of
             (Some r, Some s, Some e) \<Rightarrow>
               (case option_on op r of
                  None \<Rightarrow> Inr []
                | Some opt \<Rightarrow>
                    bind_res (expected_seconds op opt) (\<lambda>seconds.
                    let expected_ticks = ceil_ticks seconds (p_tick_seconds p); observed_ticks = e - s
                    in Inr (if observed_ticks = expected_ticks
                               \<and> as_duration_ticks a = Some observed_ticks
                               \<and> as_duration_seconds a = Some seconds
                            then []
                            else [violation C010 [op_id op, r]
                              [(''resource_id'', JStr r),
                               (''operation_status'', JStr (status_text (op_status op))),
                               (''interval_ticks'', JInt observed_ticks),
                               (''declared_duration_ticks'', jopt JInt (as_duration_ticks a)),
                               (''declared_duration_seconds'', jopt JInt (as_duration_seconds a)),
                               (''authoritative_duration_seconds'', JInt seconds),
                               (''expected_duration_ticks'', JInt expected_ticks)]])))
           | _ \<Rightarrow> Inr []))"

definition evaluate_c010 :: "problem \<Rightarrow> (string \<times> assignment) list \<Rightarrow> violation list res" where
  "evaluate_c010 p singles = collect_res (c010_row p singles) (p_operations p)"

definition jinstant :: "instant option \<Rightarrow> json" where
  "jinstant t = jopt (\<lambda>x. JStr (format_utc_instant x)) t"

definition c011_row :: "problem \<Rightarrow> assignment \<Rightarrow> violation list res" where
  "c011_row p a =
     (if map_option op_status (operation_by_id p (as_operation_id a)) \<noteq> Some NOT_STARTED then Inr []
      else
        bind_res (restore_optional p (as_start_tick a)) (\<lambda>restored_start.
        bind_res (restore_optional p (as_end_tick a)) (\<lambda>restored_end.
        let projection_matches =
              (restored_start \<noteq> None \<and> restored_end \<noteq> None
               \<and> as_start_at a = restored_start \<and> as_end_at a = restored_end);
            inside_horizon =
              (case (restored_start, restored_end) of
                 (Some s, Some e) \<Rightarrow> horizon_start p \<le> s \<and> s < e \<and> e \<le> horizon_end p
               | _ \<Rightarrow> False)
        in Inr (if \<not> projection_matches \<or> \<not> inside_horizon then
             [violation C011 [as_operation_id a]
                [(''start_tick'', jopt JInt (as_start_tick a)),
                 (''end_tick'', jopt JInt (as_end_tick a)),
                 (''declared_start_utc'', jinstant (as_start_at a)),
                 (''declared_end_utc'', jinstant (as_end_at a)),
                 (''restored_start_utc'', jinstant restored_start),
                 (''restored_end_utc'', jinstant restored_end),
                 (''horizon_start_utc'', JStr (format_utc_instant (horizon_start p))),
                 (''horizon_end_utc'', JStr (format_utc_instant (horizon_end p)))]]
           else []))))"

definition evaluate_c011 :: "problem \<Rightarrow> assignment list \<Rightarrow> violation list res" where
  "evaluate_c011 p assignments = collect_res (c011_row p) assignments"

subsection \<open>The validator\<close>

definition violation_sort_key :: "violation \<Rightarrow> string \<times> string list \<times> string" where
  "violation_sort_key v =
     (constraint_text (v_constraint_id v), v_entity_ids v, json_dumps (v_observed_value v))"

definition collect_violations :: "problem \<Rightarrow> json_object \<Rightarrow> violation list res" where
  "collect_violations p candidate =
     (let (assignments, materialization) = materialize_assignments p candidate;
          grouped = groups_of assignments;
          singles = singles_of grouped
      in bind_res (endpoint_maps p singles) (\<lambda>endpoints.
         bind_res (evaluate_c005 p assignments) (\<lambda>c005.
         bind_res (evaluate_c006 p singles) (\<lambda>c006.
         bind_res (evaluate_c007 p grouped) (\<lambda>c007.
         bind_res (evaluate_c008 p grouped) (\<lambda>c008.
         bind_res (evaluate_c010 p singles) (\<lambda>c010.
         bind_res (evaluate_c011 p assignments) (\<lambda>c011.
         Inr (materialization
              @ evaluate_c001 p assignments grouped
              @ evaluate_c002 p endpoints
              @ evaluate_c003 p grouped
              @ evaluate_c004 p assignments
              @ c005 @ c006 @ c007 @ c008
              @ evaluate_c009 p endpoints
              @ c010 @ c011)))))))))"

definition validate_problem_schedule ::
  "(string \<Rightarrow> string) \<Rightarrow> problem \<Rightarrow> json_object \<Rightarrow> report res" where
  "validate_problem_schedule digest p candidate =
     bind_res (validated_problem digest p) (\<lambda>_.
     bind_res (collect_violations p candidate) (\<lambda>unsorted.
     let violations = sort_key violation_sort_key unsorted; n = length violations
     in Inr \<lparr>rep_version = ''validation-report.v2'', rep_problem_hash = p_problem_hash p,
             rep_status = (if n = 0 then PASS else FAIL), rep_hard_violation_count = n,
             rep_violations = violations\<rparr>))"

record error_detail =
  ed_entity_id :: string
  ed_field :: string
  ed_observed_value :: json
  ed_expected_contract :: string
  ed_source_location :: string

record error_document =
  err_version :: string
  err_category :: string
  err_code :: string
  err_message :: string
  err_details :: "error_detail list"

definition violation_detail :: "violation \<Rightarrow> error_detail" where
  "violation_detail v =
     \<lparr>ed_entity_id = hd (v_entity_ids v), ed_field = ''candidate.assignments'',
      ed_observed_value = JObj
        [(''constraint_id'', JStr (constraint_text (v_constraint_id v))),
         (''entity_ids'', jstrs (v_entity_ids v)),
         (''value'', v_observed_value v)],
      ed_expected_contract = v_expected_rule v,
      ed_source_location = ''planning_solution.assignments''\<rparr>"

definition validation_error_from_problem_report :: "report \<Rightarrow> error_document option" where
  "validation_error_from_problem_report rep =
     (if rep_status rep = PASS then None
      else Some \<lparr>err_version = ''error.v2'', err_category = ''VALIDATION_FAILED'',
                 err_code = ''SCHEDULE_VALIDATION_FAILED'',
                 err_message = ''candidate schedule has ''
                   @ show_nat (rep_hard_violation_count rep) @ '' hard constraint violation(s)'',
                 err_details = map violation_detail (rep_violations rep)\<rparr>)"

end
