(* ===== verification/Reference_Scheduler.thy ===== *)
theory Reference_Scheduler
  imports Schedule_Validator
begin

section \<open>The deterministic reference schedulers\<close>

text \<open>
  \<open>simulation/baselines/reference_schedulers.py\<close>: five list schedulers that place the operations of
  a problem one at a time. \<open>fixed_placements\<close> pins the running and hard-locked operations,
  \<open>earliest_placement\<close> searches the first feasible start on every candidate resource,
  \<open>build_schedule\<close> repeats it for the ready operation the algorithm selects, and
  \<open>schedule_reference\<close> validates the outcome with the independent validator and computes the
  quality metrics.

  The dictionaries of the code's \<open>_Context\<close> are functions of the problem (\<open>incoming\<close>, \<open>outgoing\<close>,
  \<open>locks_of\<close>, \<open>unavailable\<close>, and the lookups of theory \<open>Problem\<close>). Placements are an association list
  in insertion order. A function of the code that may raise returns a result; the pair
  \<open>(value, failure)\<close> it returns otherwise is a sum. The wall-clock \<open>runtime_seconds\<close> of the metrics is
  left out.
\<close>

subsection \<open>Context\<close>

record sched_context =
  cx_problem :: problem
  cx_horizon_ticks :: int

definition context_of :: "problem \<Rightarrow> sched_context res" where
  "context_of p =
     bind_res (exact_seconds (horizon_end p) (horizon_start p)) (\<lambda>horizon_seconds.
     Inr \<lparr>cx_problem = p, cx_horizon_ticks = horizon_seconds div p_tick_seconds p\<rparr>)"

abbreviation cx_tick :: "sched_context \<Rightarrow> int" where
  "cx_tick cx \<equiv> p_tick_seconds (cx_problem cx)"

definition incoming :: "problem \<Rightarrow> string \<Rightarrow> edge_doc list" where
  "incoming p i = sort_key e_precedence_edge_id (filter (\<lambda>e. e_successor e = i) (p_edges p))"

definition outgoing :: "problem \<Rightarrow> string \<Rightarrow> edge_doc list" where
  "outgoing p i = sort_key e_precedence_edge_id (filter (\<lambda>e. e_predecessor e = i) (p_edges p))"

definition locks_of :: "problem \<Rightarrow> string \<Rightarrow> lock_doc list" where
  "locks_of p i = sort_key l_lock_id (filter (\<lambda>l. l_operation_id l = i) (p_locks p))"

definition unavailable :: "problem \<Rightarrow> string \<Rightarrow> interval_doc list" where
  "unavailable p r =
     sort_key (\<lambda>u. (u_start_utc u, u_end_utc u)) (filter (\<lambda>u. u_resource_id u = r) (p_intervals p))"

definition demand_by_id :: "problem \<Rightarrow> string \<Rightarrow> demand_doc option" where
  "demand_by_id p i = last_with (\<lambda>d. d_demand_order_id d = i) (p_demands p)"

definition key_error :: "'a option \<Rightarrow> 'a res" where
  "key_error x = (case x of Some v \<Rightarrow> Inr v | None \<Rightarrow> Inl RaiseKey)"

record placement =
  pl_operation_id :: string
  pl_resource_id :: string
  pl_start_tick :: int
  pl_end_tick :: int
  pl_duration_ticks :: int
  pl_duration_seconds :: int
  pl_lock_ids :: "string list"

type_synonym placements = "(string \<times> placement) list"

record schedule_failure =
  sf_code :: string
  sf_message :: string
  sf_operation_id :: "string option"

definition failed :: "string \<Rightarrow> string \<Rightarrow> string option \<Rightarrow> (schedule_failure + 'a) res" where
  "failed code message i = Inr (Inl \<lparr>sf_code = code, sf_message = message, sf_operation_id = i\<rparr>)"

subsection \<open>Feasibility of one placement\<close>

definition placement_endpoint :: "sched_context \<Rightarrow> placement \<Rightarrow> endpoint res" where
  "placement_endpoint cx pl =
     bind_res (restore_tick (cx_problem cx) (pl_start_tick pl)) (\<lambda>start_at.
     bind_res (restore_tick (cx_problem cx) (pl_end_tick pl)) (\<lambda>end_at.
     Inr \<lparr>ep_operation_id = pl_operation_id pl, ep_resource_id = pl_resource_id pl,
          ep_start_at = start_at, ep_end_at = end_at\<rparr>))"

definition known_endpoints :: "sched_context \<Rightarrow> placements \<Rightarrow> (string \<times> endpoint) list res" where
  "known_endpoints cx pls =
     bind_res (map_res (\<lambda>(i, pl). bind_res (placement_endpoint cx pl) (\<lambda>ep. Inr (i, ep))) pls) (\<lambda>eps.
     Inr (map anchor_endpoint (p_anchors (cx_problem cx)) @ eps))"

definition edge_is_satisfied :: "sched_context \<Rightarrow> edge_doc \<Rightarrow> endpoint \<Rightarrow> endpoint \<Rightarrow> bool res" where
  "edge_is_satisfied cx e predecessor successor =
     bind_res (exact_seconds (ep_start_at successor) (ep_end_at predecessor)) (\<lambda>lag_seconds.
     if lag_seconds < e_min_lag_seconds e then Inr False
     else if (case e_max_lag_seconds e of None \<Rightarrow> False | Some maximum \<Rightarrow> maximum < lag_seconds) then Inr False
     else
       bind_res (key_error (workshop_of (cx_problem cx) (ep_resource_id predecessor))) (\<lambda>predecessor_workshop.
       bind_res (key_error (workshop_of (cx_problem cx) (ep_resource_id successor))) (\<lambda>successor_workshop.
       Inr (\<not> (predecessor_workshop \<noteq> successor_workshop \<and> lag_seconds < e_transport_lag_seconds e)))))"

definition resource_is_free :: "sched_context \<Rightarrow> placement \<Rightarrow> placements \<Rightarrow> bool res" where
  "resource_is_free cx pl pls =
     bind_res (restore_tick (cx_problem cx) (pl_start_tick pl)) (\<lambda>start_at.
     bind_res (restore_tick (cx_problem cx) (pl_end_tick pl)) (\<lambda>end_at.
     Inr (list_all (\<lambda>(_, existing). \<not> (pl_resource_id existing = pl_resource_id pl
              \<and> pl_start_tick pl < pl_end_tick existing \<and> pl_start_tick existing < pl_end_tick pl)) pls
          \<and> list_all (\<lambda>u. \<not> (start_at < utc (u_end_utc u) \<and> utc (u_start_utc u) < end_at))
              (unavailable (cx_problem cx) (pl_resource_id pl)))))"

text \<open>\<open>operation.get("remaining_seconds")\<close> of a running operation, the option's duration otherwise.\<close>

definition option_seconds :: "operation_doc \<Rightarrow> option_doc \<Rightarrow> int option" where
  "option_seconds op opt =
     (if op_status op = RUNNING then op_remaining_seconds op else Some (o_final_duration_seconds opt))"

definition duration_matches :: "sched_context \<Rightarrow> operation_doc \<Rightarrow> option_doc \<Rightarrow> placement \<Rightarrow> bool" where
  "duration_matches cx op opt pl =
     (case option_seconds op opt of
        None \<Rightarrow> False
      | Some expected \<Rightarrow>
          pl_duration_seconds pl = expected
          \<and> pl_duration_ticks pl = ceil_div expected (cx_tick cx)
          \<and> pl_end_tick pl - pl_start_tick pl = pl_duration_ticks pl)"

definition incoming_ok :: "sched_context \<Rightarrow> (string \<times> endpoint) list \<Rightarrow> endpoint \<Rightarrow> edge_doc \<Rightarrow> bool res" where
  "incoming_ok cx endpoints candidate e =
     (case endpoint_for endpoints (e_predecessor e) of
        None \<Rightarrow> Inr True
      | Some predecessor \<Rightarrow> edge_is_satisfied cx e predecessor candidate)"

definition outgoing_ok :: "sched_context \<Rightarrow> (string \<times> endpoint) list \<Rightarrow> endpoint \<Rightarrow> edge_doc \<Rightarrow> bool res" where
  "outgoing_ok cx endpoints candidate e =
     (case endpoint_for endpoints (e_successor e) of
        None \<Rightarrow> Inr True
      | Some successor \<Rightarrow> edge_is_satisfied cx e candidate successor)"

definition placement_is_feasible :: "sched_context \<Rightarrow> operation_doc \<Rightarrow> placement \<Rightarrow> placements \<Rightarrow> bool res" where
  "placement_is_feasible cx op pl pls =
     (if pl_start_tick pl < 0 \<or> pl_end_tick pl \<le> pl_start_tick pl \<or> cx_horizon_ticks cx < pl_end_tick pl
      then Inr False
      else case option_on op (pl_resource_id pl) of
        None \<Rightarrow> Inr False
      | Some opt \<Rightarrow>
          if \<not> duration_matches cx op opt pl then Inr False
          else
            bind_res (placement_endpoint cx pl) (\<lambda>candidate.
            if ep_start_at candidate < utc (op_release_at_utc op) then Inr False
            else if ep_start_at candidate < utc (op_material_ready_at_utc op) then Inr False
            else
              bind_res (resource_is_free cx pl pls) (\<lambda>free.
              if \<not> free then Inr False
              else
                bind_res (known_endpoints cx pls) (\<lambda>endpoints.
                bind_res (all_res (incoming_ok cx endpoints candidate) (incoming (cx_problem cx) (op_id op))) (\<lambda>ok.
                if \<not> ok then Inr False
                else all_res (outgoing_ok cx endpoints candidate) (outgoing (cx_problem cx) (op_id op)))))))"

subsection \<open>Fixed placements\<close>

definition running_placement :: "sched_context \<Rightarrow> operation_doc \<Rightarrow> placement option res" where
  "running_placement cx op =
     (if op_status op \<noteq> RUNNING then Inr None
      else case (op_remaining_seconds op, op_assigned_resource_id op) of
        (Some seconds, Some resource) \<Rightarrow>
          (let ticks = ceil_div seconds (cx_tick cx)
           in Inr (Some \<lparr>pl_operation_id = op_id op, pl_resource_id = resource, pl_start_tick = 0,
                pl_end_tick = ticks, pl_duration_ticks = ticks, pl_duration_seconds = seconds,
                pl_lock_ids = map l_lock_id (locks_of (cx_problem cx) (op_id op))\<rparr>))
      | _ \<Rightarrow> Inl RaiseType)"

definition lock_signature :: "lock_doc \<Rightarrow> string \<times> string \<times> string" where
  "lock_signature l = (l_resource_id l, l_start_at_utc l, l_end_at_utc l)"

definition hard_locks :: "problem \<Rightarrow> string \<Rightarrow> lock_doc list" where
  "hard_locks p i = filter (\<lambda>l. l_lock_type l = HARD_LOCK) (locks_of p i)"

text \<open>The placement the hard locks of an operation prescribe, if it has any.\<close>

definition locked_placement :: "sched_context \<Rightarrow> operation_doc \<Rightarrow> (schedule_failure + placement option) res" where
  "locked_placement cx op =
     (let p = cx_problem cx; tick = cx_tick cx
      in case remdups (map lock_signature (hard_locks p (op_id op))) of
        [] \<Rightarrow> Inr (Inr None)
      | [(resource, start_text, end_text)] \<Rightarrow>
          bind_res (exact_seconds (utc start_text) (horizon_start p)) (\<lambda>start_seconds.
          bind_res (exact_seconds (utc end_text) (horizon_start p)) (\<lambda>end_seconds.
          if start_seconds mod tick \<noteq> 0 \<or> end_seconds mod tick \<noteq> 0 then
            failed ''FIXED_ASSIGNMENT_OFF_GRID''
              ''HARD_LOCK does not align to the authoritative tick grid'' (Some (op_id op))
          else case option_on op resource of
            None \<Rightarrow>
              failed ''FIXED_RESOURCE_NOT_ALLOWED''
                ''HARD_LOCK resource is not an operation candidate'' (Some (op_id op))
          | Some opt \<Rightarrow>
              (case option_seconds op opt of
                 None \<Rightarrow> Inl RaiseType
               | Some seconds \<Rightarrow>
                   Inr (Inr (Some \<lparr>pl_operation_id = op_id op, pl_resource_id = resource,
                     pl_start_tick = start_seconds div tick, pl_end_tick = end_seconds div tick,
                     pl_duration_ticks = ceil_div seconds tick, pl_duration_seconds = seconds,
                     pl_lock_ids = map l_lock_id (locks_of p (op_id op))\<rparr>)))))
      | _ \<Rightarrow>
          failed ''FIXED_ASSIGNMENT_CONFLICT''
            ''operation has incompatible HARD_LOCK facts'' (Some (op_id op)))"

text \<open>The two combined: a lock on a running operation has to prescribe the running remainder.\<close>

definition fixed_placement :: "sched_context \<Rightarrow> operation_doc \<Rightarrow> (schedule_failure + placement option) res" where
  "fixed_placement cx op =
     bind_res (running_placement cx op) (\<lambda>running.
     bind_res (locked_placement cx op) (\<lambda>outcome.
     case outcome of
       Inl failure \<Rightarrow> Inr (Inl failure)
     | Inr None \<Rightarrow> Inr (Inr running)
     | Inr (Some locked) \<Rightarrow>
         if running \<noteq> None \<and> running \<noteq> Some locked then
           failed ''FIXED_ASSIGNMENT_CONFLICT''
             ''RUNNING remainder and HARD_LOCK facts are incompatible'' (Some (op_id op))
         else Inr (Inr (Some locked))))"

fun fixed_loop :: "sched_context \<Rightarrow> operation_doc list \<Rightarrow> placements \<Rightarrow> (schedule_failure + placements) res" where
  "fixed_loop cx [] pls = Inr (Inr pls)"
| "fixed_loop cx (op # ops) pls =
     bind_res (fixed_placement cx op) (\<lambda>outcome.
     case outcome of
       Inl failure \<Rightarrow> Inr (Inl failure)
     | Inr None \<Rightarrow> fixed_loop cx ops pls
     | Inr (Some pl) \<Rightarrow>
         bind_res (placement_is_feasible cx op pl pls) (\<lambda>ok.
         if \<not> ok then
           failed ''FIXED_ASSIGNMENT_VIOLATION''
             ''authoritative fixed assignment violates the hard domain'' (Some (op_id op))
         else fixed_loop cx ops (pls @ [(op_id op, pl)])))"

text \<open>The closing check of every edge whose two endpoints are known.\<close>

fun fixed_edges :: "sched_context \<Rightarrow> (string \<times> endpoint) list \<Rightarrow> edge_doc list \<Rightarrow> schedule_failure option res" where
  "fixed_edges cx endpoints [] = Inr None"
| "fixed_edges cx endpoints (e # es) =
     (case (endpoint_for endpoints (e_predecessor e), endpoint_for endpoints (e_successor e)) of
        (Some predecessor, Some successor) \<Rightarrow>
          bind_res (edge_is_satisfied cx e predecessor successor) (\<lambda>ok.
          if ok then fixed_edges cx endpoints es
          else Inr (Some \<lparr>sf_code = ''FIXED_PRECEDENCE_VIOLATION'',
                 sf_message = ''fixed endpoints violate precedence or transport lag'',
                 sf_operation_id = Some (e_successor e)\<rparr>))
      | _ \<Rightarrow> fixed_edges cx endpoints es)"

text \<open>The operations in the order of \<open>sorted(context.operations)\<close>.\<close>

definition sorted_operations :: "problem \<Rightarrow> operation_doc list" where
  "sorted_operations p = List.map_filter (operation_by_id p) (sorted_ids (operation_ids p))"

definition fixed_placements :: "sched_context \<Rightarrow> (schedule_failure + placements) res" where
  "fixed_placements cx =
     bind_res (fixed_loop cx (sorted_operations (cx_problem cx)) []) (\<lambda>outcome.
     case outcome of
       Inl failure \<Rightarrow> Inr (Inl failure)
     | Inr pls \<Rightarrow>
         bind_res (known_endpoints cx pls) (\<lambda>endpoints.
         bind_res (fixed_edges cx endpoints (p_edges (cx_problem cx))) (\<lambda>violated.
         case violated of
           Some failure \<Rightarrow> Inr (Inl failure)
         | None \<Rightarrow> Inr (Inr pls))))"

subsection \<open>The earliest placement\<close>

definition placement_key :: "placement \<Rightarrow> int \<times> int \<times> int \<times> string" where
  "placement_key pl = (pl_end_tick pl, pl_start_tick pl, pl_duration_ticks pl, pl_resource_id pl)"

definition candidate_at :: "sched_context \<Rightarrow> operation_doc \<Rightarrow> option_doc \<Rightarrow> int \<Rightarrow> placement" where
  "candidate_at cx op opt start =
     (let seconds = o_final_duration_seconds opt; ticks = ceil_div seconds (cx_tick cx)
      in \<lparr>pl_operation_id = op_id op, pl_resource_id = o_resource_id opt, pl_start_tick = start,
          pl_end_tick = start + ticks, pl_duration_ticks = ticks, pl_duration_seconds = seconds,
          pl_lock_ids = map l_lock_id (locks_of (cx_problem cx) (op_id op))\<rparr>)"

fun edge_lower :: "sched_context \<Rightarrow> option_doc \<Rightarrow> (string \<times> endpoint) list \<Rightarrow> edge_doc list \<Rightarrow> int \<Rightarrow> int res" where
  "edge_lower cx opt endpoints [] lower = Inr lower"
| "edge_lower cx opt endpoints (e # es) lower =
     (case endpoint_for endpoints (e_predecessor e) of
        None \<Rightarrow> edge_lower cx opt endpoints es lower
      | Some predecessor \<Rightarrow>
          bind_res (key_error (workshop_of (cx_problem cx) (ep_resource_id predecessor))) (\<lambda>w.
          bind_res (key_error (workshop_of (cx_problem cx) (o_resource_id opt))) (\<lambda>v.
          bind_res (exact_seconds (ep_end_at predecessor) (horizon_start (cx_problem cx))) (\<lambda>seconds.
          let transport = (if w \<noteq> v then e_transport_lag_seconds e else 0);
              required = max (e_min_lag_seconds e) transport
          in edge_lower cx opt endpoints es (max lower (ceil_div (seconds + required) (cx_tick cx)))))))"

definition gate_tick :: "sched_context \<Rightarrow> string \<Rightarrow> int res" where
  "gate_tick cx gate =
     bind_res (exact_seconds (utc gate) (horizon_start (cx_problem cx))) (\<lambda>seconds.
     Inr (ceil_div seconds (cx_tick cx)))"

definition lower_bound :: "sched_context \<Rightarrow> operation_doc \<Rightarrow> option_doc \<Rightarrow> (string \<times> endpoint) list \<Rightarrow> int res" where
  "lower_bound cx op opt endpoints =
     bind_res (gate_tick cx (op_release_at_utc op)) (\<lambda>release.
     bind_res (gate_tick cx (op_material_ready_at_utc op)) (\<lambda>material.
     edge_lower cx opt endpoints (incoming (cx_problem cx) (op_id op)) (max (max 0 release) material)))"

text \<open>\<open>for start_tick in range(lower, upper + 1)\<close>, left at the first feasible start.\<close>

function search_start :: "(int \<Rightarrow> bool res) \<Rightarrow> int \<Rightarrow> int \<Rightarrow> int option res" where
  "search_start ok start upper =
     (if upper < start then Inr None
      else bind_res (ok start) (\<lambda>b. if b then Inr (Some start) else search_start ok (start + 1) upper))"
  by pat_completeness auto

termination
  by (relation "measure (\<lambda>(ok, start, upper). nat (upper + 1 - start))") auto

declare search_start.simps [simp del]

definition option_placement ::
  "sched_context \<Rightarrow> operation_doc \<Rightarrow> placements \<Rightarrow> (string \<times> endpoint) list \<Rightarrow> option_doc \<Rightarrow> placement list res" where
  "option_placement cx op pls endpoints opt =
     bind_res (lower_bound cx op opt endpoints) (\<lambda>lower.
     bind_res (search_start (\<lambda>t. placement_is_feasible cx op (candidate_at cx op opt t) pls) lower
         (cx_horizon_ticks cx - ceil_div (o_final_duration_seconds opt) (cx_tick cx))) (\<lambda>found.
     Inr (case found of None \<Rightarrow> [] | Some t \<Rightarrow> [candidate_at cx op opt t])))"

definition earliest_placement :: "sched_context \<Rightarrow> operation_doc \<Rightarrow> placements \<Rightarrow> placement option res" where
  "earliest_placement cx op pls =
     bind_res (known_endpoints cx pls) (\<lambda>endpoints.
     bind_res (collect_res (option_placement cx op pls endpoints) (op_resource_options op)) (\<lambda>values.
     Inr (if values = [] then None else Some (arg_min_list placement_key values))))"

subsection \<open>The selection loop\<close>

datatype reference_algorithm = FCFS | EDD | SPT | PRIORITY_EDD | GREEDY_EARLIEST_AVAILABLE_MACHINE

text \<open>
  The keys of one algorithm are tuples of integers followed by identifiers, always as many of
  each, so that comparing the two lists in turn is the comparison of the tuples.
\<close>

definition operation_key :: "sched_context \<Rightarrow> reference_algorithm \<Rightarrow> operation_doc \<Rightarrow> (int list \<times> string list) res" where
  "operation_key cx algorithm op =
     bind_res (key_error (demand_by_id (cx_problem cx) (op_demand_order_id op))) (\<lambda>demand.
     let release = utc (op_release_at_utc op); due = utc (d_due_at_utc demand)
     in case algorithm of
          FCFS \<Rightarrow> Inr ([release], [op_demand_order_id op, op_id op])
        | EDD \<Rightarrow> Inr ([due, release], [op_demand_order_id op, op_id op])
        | SPT \<Rightarrow>
            (if op_resource_options op = [] then Inl RaiseValue
             else Inr ([Min (set (map o_final_duration_seconds (op_resource_options op))), due], [op_id op]))
        | PRIORITY_EDD \<Rightarrow>
            Inr ([- d_priority_weight demand, due, release], [op_demand_order_id op, op_id op])
        | GREEDY_EARLIEST_AVAILABLE_MACHINE \<Rightarrow> Inl RaiseValue)"

definition ready_operations :: "sched_context \<Rightarrow> string list \<Rightarrow> placements \<Rightarrow> operation_doc list" where
  "ready_operations cx unscheduled pls =
     (let endpoints = anchor_ids (cx_problem cx) @ map fst pls
      in List.map_filter (operation_by_id (cx_problem cx))
           (filter (\<lambda>i. list_all (\<lambda>e. e_predecessor e \<in> set endpoints) (incoming (cx_problem cx) i))
             (sorted_ids unscheduled)))"

text \<open>The greedy rule: the placement with the least key, ties broken by the operation.\<close>

fun greedy_choices ::
  "sched_context \<Rightarrow> placements \<Rightarrow> operation_doc list \<Rightarrow> (schedule_failure + placement list) res" where
  "greedy_choices cx pls [] = Inr (Inr [])"
| "greedy_choices cx pls (op # ops) =
     bind_res (earliest_placement cx op pls) (\<lambda>found.
     case found of
       None \<Rightarrow> failed ''NO_HARD_FEASIBLE_PLACEMENT''
         ''ready operation has no hard-feasible placement'' (Some (op_id op))
     | Some pl \<Rightarrow>
         bind_res (greedy_choices cx pls ops) (\<lambda>rest.
         case rest of Inl failure \<Rightarrow> Inr (Inl failure) | Inr choices \<Rightarrow> Inr (Inr (pl # choices))))"

definition greedy_key :: "placement \<Rightarrow> (int \<times> int \<times> int \<times> string) \<times> string" where
  "greedy_key pl = (placement_key pl, pl_operation_id pl)"

definition select_placement ::
  "sched_context \<Rightarrow> reference_algorithm \<Rightarrow> placements \<Rightarrow> operation_doc list \<Rightarrow> (schedule_failure + placement) res" where
  "select_placement cx algorithm pls ready =
     (if algorithm = GREEDY_EARLIEST_AVAILABLE_MACHINE then
        bind_res (greedy_choices cx pls ready) (\<lambda>outcome.
        case outcome of
          Inl failure \<Rightarrow> Inr (Inl failure)
        | Inr choices \<Rightarrow> Inr (Inr (arg_min_list greedy_key choices)))
      else
        bind_res (map_res (\<lambda>op. bind_res (operation_key cx algorithm op) (\<lambda>k. Inr (k, op))) ready) (\<lambda>keyed.
        let operation = snd (arg_min_list fst keyed)
        in bind_res (earliest_placement cx operation pls) (\<lambda>found.
           case found of
             None \<Rightarrow> failed ''NO_HARD_FEASIBLE_PLACEMENT''
               ''selected ready operation has no hard-feasible placement'' (Some (op_id operation))
           | Some pl \<Rightarrow> Inr (Inr pl))))"

text \<open>The \<open>while unscheduled\<close> loop; \<open>set.remove\<close> raises \<open>KeyError\<close> on an absent element.\<close>

function build_loop ::
  "sched_context \<Rightarrow> reference_algorithm \<Rightarrow> placements \<Rightarrow> string list \<Rightarrow> (schedule_failure + placements) res" where
  "build_loop cx algorithm pls unscheduled =
     (if unscheduled = [] then Inr (Inr pls)
      else
        (let ready = ready_operations cx unscheduled pls
         in if ready = [] then
              failed ''NO_READY_OPERATION'' ''no deterministic ready operation remains'' None
            else
              bind_res (select_placement cx algorithm pls ready) (\<lambda>outcome.
              case outcome of
                Inl failure \<Rightarrow> Inr (Inl failure)
              | Inr selected \<Rightarrow>
                  if pl_operation_id selected \<in> set unscheduled
                  then build_loop cx algorithm (pls @ [(pl_operation_id selected, selected)])
                         (removeAll (pl_operation_id selected) unscheduled)
                  else Inl RaiseKey)))"
  by pat_completeness auto

termination
  by (relation "measure (\<lambda>(cx, algorithm, pls, unscheduled). length unscheduled)")
    (auto simp: length_removeAll_less)

declare build_loop.simps [simp del]

subsection \<open>Candidate documents\<close>

record assignment_doc =
  ad_operation_id :: string
  ad_resource_id :: string
  ad_start_tick :: int
  ad_end_tick :: int
  ad_duration_ticks :: int
  ad_start_at_utc :: string
  ad_end_at_utc :: string
  ad_duration_seconds :: int
  ad_lock_ids :: "string list"
  ad_execution_fact_ids :: "string list"

record candidate_doc =
  cd_problem :: json_object
  cd_assignments :: "assignment_doc list"

definition assignment_document :: "sched_context \<Rightarrow> placement \<Rightarrow> assignment_doc res" where
  "assignment_document cx pl =
     bind_res (restore_tick (cx_problem cx) (pl_start_tick pl)) (\<lambda>start_at.
     bind_res (restore_tick (cx_problem cx) (pl_end_tick pl)) (\<lambda>end_at.
     Inr \<lparr>ad_operation_id = pl_operation_id pl, ad_resource_id = pl_resource_id pl,
          ad_start_tick = pl_start_tick pl, ad_end_tick = pl_end_tick pl,
          ad_duration_ticks = pl_duration_ticks pl,
          ad_start_at_utc = format_utc_instant start_at, ad_end_at_utc = format_utc_instant end_at,
          ad_duration_seconds = pl_duration_seconds pl, ad_lock_ids = pl_lock_ids pl,
          ad_execution_fact_ids = []\<rparr>))"

definition assignment_json :: "assignment_doc \<Rightarrow> json" where
  "assignment_json d = JObj
     [(''operation_id'', JStr (ad_operation_id d)),
      (''resource_id'', JStr (ad_resource_id d)),
      (''start_tick'', JInt (ad_start_tick d)),
      (''end_tick'', JInt (ad_end_tick d)),
      (''duration_ticks'', JInt (ad_duration_ticks d)),
      (''start_at_utc'', JStr (ad_start_at_utc d)),
      (''end_at_utc'', JStr (ad_end_at_utc d)),
      (''duration_seconds'', JInt (ad_duration_seconds d)),
      (''lock_ids'', jstrs (ad_lock_ids d)),
      (''execution_fact_ids'', jstrs (ad_execution_fact_ids d))]"

definition candidate_json :: "candidate_doc \<Rightarrow> json_object" where
  "candidate_json c =
     [(''problem'', JObj (cd_problem c)), (''assignments'', JArr (map assignment_json (cd_assignments c)))]"

text \<open>The keys of the placements are the placed operations; the last statement of the loop reads them in order.\<close>

definition sorted_placements :: "placements \<Rightarrow> placement list" where
  "sorted_placements pls = map snd (sort_key fst pls)"

definition build_schedule :: "sched_context \<Rightarrow> reference_algorithm \<Rightarrow> (schedule_failure + candidate_doc) res" where
  "build_schedule cx algorithm =
     bind_res (fixed_placements cx) (\<lambda>outcome.
     case outcome of
       Inl failure \<Rightarrow> Inr (Inl failure)
     | Inr fixed \<Rightarrow>
         bind_res (build_loop cx algorithm fixed
             (filter (\<lambda>i. i \<notin> set (map fst fixed)) (first_seen (operation_ids (cx_problem cx))))) (\<lambda>outcome.
         case outcome of
           Inl failure \<Rightarrow> Inr (Inl failure)
         | Inr pls \<Rightarrow>
             bind_res (map_res (assignment_document cx) (sorted_placements pls)) (\<lambda>assignments.
             Inr (Inr \<lparr>cd_problem = problem_reference (cx_problem cx), cd_assignments = assignments\<rparr>))))"

subsection \<open>Metrics and results\<close>

text \<open>\<open>max\<close> of an empty list raises \<open>ValueError\<close>.\<close>

definition max_or_raise :: "int list \<Rightarrow> int res" where
  "max_or_raise xs = (if xs = [] then Inl RaiseValue else Inr (Max (set xs)))"

text \<open>\<open>context.operations[assignment["operation_id"]]["demand_order_id"]\<close> with the end tick.\<close>

definition completion_row :: "sched_context \<Rightarrow> assignment_doc \<Rightarrow> (string \<times> int) res" where
  "completion_row cx d =
     bind_res (key_error (operation_by_id (cx_problem cx) (ad_operation_id d))) (\<lambda>op.
     Inr (op_demand_order_id op, ad_end_tick d))"

definition demand_tardiness :: "sched_context \<Rightarrow> (string \<times> int) list \<Rightarrow> demand_doc \<Rightarrow> int res" where
  "demand_tardiness cx completions demand =
     bind_res (exact_seconds (utc (d_due_at_utc demand)) (horizon_start (cx_problem cx))) (\<lambda>due_offset_seconds.
     bind_res (max_or_raise (map snd (filter (\<lambda>(i, _). i = d_demand_order_id demand) completions))) (\<lambda>completion_tick.
     Inr (d_priority_weight demand * max 0 (completion_tick * cx_tick cx - due_offset_seconds))))"

definition sorted_demands :: "problem \<Rightarrow> demand_doc list" where
  "sorted_demands p = List.map_filter (demand_by_id p) (sorted_ids (map d_demand_order_id (p_demands p)))"

definition quality_metrics :: "sched_context \<Rightarrow> candidate_doc \<Rightarrow> (int \<times> int) res" where
  "quality_metrics cx c =
     bind_res (map_res (completion_row cx) (cd_assignments c)) (\<lambda>completions.
     bind_res (map_res (demand_tardiness cx completions) (sorted_demands (cx_problem cx))) (\<lambda>tardiness.
     Inr (sum_list tardiness,
          (if cd_assignments c = [] then 0
           else Max (set (map ad_end_tick (cd_assignments c))) * cx_tick cx))))"

datatype reference_status = FEASIBLE | HEURISTIC_FAILURE | VALIDATION_FAILED | INVALID_PROBLEM

text \<open>The message of a failure: a fixed text, or \<open>str(error)\<close> of the exception caught.\<close>

datatype failure_message = Message string | ErrorText py_exn

record failure_doc =
  fd_code :: string
  fd_message :: failure_message
  fd_operation_id :: "string option"

record reference_result =
  rr_algorithm :: reference_algorithm
  rr_algorithm_id :: string
  rr_status :: reference_status
  rr_problem_hash :: string
  rr_candidate :: "candidate_doc option"
  rr_validation_report :: "report option"
  rr_weighted_tardiness_seconds :: "int option"
  rr_makespan_seconds :: "int option"
  rr_scheduled_operation_count :: nat
  rr_unscheduled_operation_count :: nat
  rr_failure :: "failure_doc option"

fun algorithm_identity :: "reference_algorithm \<Rightarrow> string" where
  "algorithm_identity FCFS = ''reference-fcfs.v1''"
| "algorithm_identity EDD = ''reference-edd.v1''"
| "algorithm_identity SPT = ''reference-spt.v1''"
| "algorithm_identity PRIORITY_EDD = ''reference-priority-edd.v1''"
| "algorithm_identity GREEDY_EARLIEST_AVAILABLE_MACHINE = ''reference-greedy-earliest-available-machine.v1''"

definition reference_failure ::
  "problem \<Rightarrow> reference_algorithm \<Rightarrow> reference_status \<Rightarrow> report option \<Rightarrow> failure_doc \<Rightarrow> reference_result" where
  "reference_failure p algorithm status rep failure =
     \<lparr>rr_algorithm = algorithm, rr_algorithm_id = algorithm_identity algorithm, rr_status = status,
      rr_problem_hash = p_problem_hash p, rr_candidate = None, rr_validation_report = rep,
      rr_weighted_tardiness_seconds = None, rr_makespan_seconds = None,
      rr_scheduled_operation_count = 0, rr_unscheduled_operation_count = length (p_operations p),
      rr_failure = Some failure\<rparr>"

definition reference_success ::
  "problem \<Rightarrow> reference_algorithm \<Rightarrow> candidate_doc \<Rightarrow> report \<Rightarrow> int \<times> int \<Rightarrow> reference_result" where
  "reference_success p algorithm candidate rep metrics =
     \<lparr>rr_algorithm = algorithm, rr_algorithm_id = algorithm_identity algorithm, rr_status = FEASIBLE,
      rr_problem_hash = p_problem_hash p, rr_candidate = Some candidate, rr_validation_report = Some rep,
      rr_weighted_tardiness_seconds = Some (fst metrics), rr_makespan_seconds = Some (snd metrics),
      rr_scheduled_operation_count = length (p_operations p), rr_unscheduled_operation_count = 0,
      rr_failure = None\<rparr>"

definition invalid_problem :: "problem \<Rightarrow> reference_algorithm \<Rightarrow> py_exn \<Rightarrow> reference_result" where
  "invalid_problem p algorithm e =
     reference_failure p algorithm INVALID_PROBLEM None
       \<lparr>fd_code = ''INVALID_PROBLEM'', fd_message = ErrorText e, fd_operation_id = None\<rparr>"

text \<open>The first \<open>try\<close> block: contract, hash and context.\<close>

definition checked_context :: "(string \<Rightarrow> string) \<Rightarrow> problem \<Rightarrow> sched_context res" where
  "checked_context digest p =
     bind_res (validate_built_problem_v2 p) (\<lambda>_.
     bind_res (require_or (p_problem_hash p = problem_v2_hash_for digest p) RaiseValue) (\<lambda>_.
     context_of p))"

definition finish_candidate ::
  "(string \<Rightarrow> string) \<Rightarrow> problem \<Rightarrow> reference_algorithm \<Rightarrow> sched_context \<Rightarrow> candidate_doc \<Rightarrow> reference_result res" where
  "finish_candidate digest p algorithm cx candidate =
     (case validate_problem_schedule digest p (candidate_json candidate) of
        Inl (RaiseInput field) \<Rightarrow> Inr (invalid_problem p algorithm (RaiseInput field))
      | Inl e \<Rightarrow> Inl e
      | Inr rep \<Rightarrow>
          if rep_status rep \<noteq> PASS then
            Inr (reference_failure p algorithm VALIDATION_FAILED (Some rep)
              \<lparr>fd_code = ''FORMAL_VALIDATION_FAILED'',
               fd_message = Message ''candidate was discarded after formal Validator failure'',
               fd_operation_id = None\<rparr>)
          else
            bind_res (quality_metrics cx candidate) (\<lambda>metrics.
            Inr (reference_success p algorithm candidate rep metrics)))"

definition schedule_reference ::
  "(string \<Rightarrow> string) \<Rightarrow> problem \<Rightarrow> reference_algorithm \<Rightarrow> reference_result res" where
  "schedule_reference digest p algorithm =
     (case checked_context digest p of
        Inl RaiseOverflow \<Rightarrow> Inl RaiseOverflow
      | Inl e \<Rightarrow> Inr (invalid_problem p algorithm e)
      | Inr cx \<Rightarrow>
          bind_res (build_schedule cx algorithm) (\<lambda>outcome.
          case outcome of
            Inl failure \<Rightarrow>
              Inr (reference_failure p algorithm HEURISTIC_FAILURE None
                \<lparr>fd_code = sf_code failure, fd_message = Message (sf_message failure),
                 fd_operation_id = sf_operation_id failure\<rparr>)
          | Inr candidate \<Rightarrow> finish_candidate digest p algorithm cx candidate))"

definition schedule_all_references :: "(string \<Rightarrow> string) \<Rightarrow> problem \<Rightarrow> reference_result list res" where
  "schedule_all_references digest p =
     map_res (schedule_reference digest p)
       [FCFS, EDD, SPT, PRIORITY_EDD, GREEDY_EARLIEST_AVAILABLE_MACHINE]"

end
