(* ===== verification/Validator_Rules.thy ===== *)
theory Validator_Rules
  imports Schedule_Validator
begin

section \<open>What each evaluator decides\<close>

text \<open>
  Every constraint gets a declarative rule on the data its evaluator reads, and the locale
  \<open>rule_check\<close> states the contract between an evaluator's row function and its rule: a row is clean
  exactly when the rule holds, and every violation it emits carries the evaluator's constraint id.
  The lemmas of the locale lift the contract from rows to whole evaluators; it is interpreted on
  the row functions of the seven evaluators that run row by row. C-001, C-003 and the sweep of
  C-004 have their own lemmas.
\<close>

subsection \<open>The contract of a row function\<close>

locale rule_check =
  fixes row :: "'r \<Rightarrow> violation list res" and ok :: "'r \<Rightarrow> bool" and c :: constraint_id
  assumes row_clean_iff: "row r = Inr [] \<longleftrightarrow> ok r"
    and row_ids: "row r = Inr vs \<Longrightarrow> v \<in> set vs \<Longrightarrow> v_constraint_id v = c"
    and row_entities: "row r = Inr vs \<Longrightarrow> v \<in> set vs \<Longrightarrow> v_entity_ids v \<noteq> []"
begin

lemma clean_iff: "collect_res row rs = Inr [] \<longleftrightarrow> (\<forall>r \<in> set rs. ok r)"
  by (simp add: collect_res_empty_iff row_clean_iff)

lemma row_iff:
  assumes "collect_res row rs = Inr vs" and "r \<in> set rs"
  shows "row r = Inr (projr (row r))"
  using assms by (auto simp: collect_res_Inr_iff is_ok_iff)

lemma collected_ids: "collect_res row rs = Inr vs \<Longrightarrow> v \<in> set vs \<Longrightarrow> v_constraint_id v = c"
  by (fastforce simp: collect_res_Inr_iff is_ok_iff dest: row_ids)

lemma collected_entities: "collect_res row rs = Inr vs \<Longrightarrow> v \<in> set vs \<Longrightarrow> v_entity_ids v \<noteq> []"
  by (fastforce simp: collect_res_Inr_iff is_ok_iff dest: row_entities)

lemma reported_iff:
  assumes "collect_res row rs = Inr vs"
  shows "(\<exists>v \<in> set vs. v_constraint_id v = d) \<longleftrightarrow> d = c \<and> (\<exists>r \<in> set rs. \<not> ok r)"
proof -
  have "vs = [] \<longleftrightarrow> (\<forall>r \<in> set rs. ok r)" using assms clean_iff [of rs] by auto
  moreover have "(\<exists>v \<in> set vs. v_constraint_id v = d) \<longleftrightarrow> d = c \<and> vs \<noteq> []"
    using collected_ids [OF assms] by (cases vs) auto
  ultimately show ?thesis by auto
qed

end

lemma violation_constraint [simp]: "v_constraint_id (violation c ids obs) = c"
  by (simp add: violation_def Let_def)

lemma violation_entities [simp]: "v_entity_ids (violation c ids obs) \<noteq> []"
proof -
  have "first_seen xs = [] \<longleftrightarrow> xs = []" for xs :: "string list"
    by (simp add: first_seen_def)
  then show ?thesis by (auto simp: violation_def Let_def)
qed

subsection \<open>Ticks and instants\<close>

definition tick_instant :: "problem \<Rightarrow> int \<Rightarrow> instant" where
  "tick_instant p t = horizon_start p + t * p_tick_seconds p * micros"

lemma restore_tick_eq:
  "restore_tick p t =
     (if representable (tick_instant p t) then Inr (tick_instant p t) else Inl RaiseOverflow)"
  by (simp add: restore_tick_def add_seconds_def tick_instant_def)

lemma tick_instant_le_iff [simp]:
  "0 < p_tick_seconds p \<Longrightarrow> tick_instant p s \<le> tick_instant p t \<longleftrightarrow> s \<le> t"
  by (simp add: tick_instant_def micros_def)

lemma tick_instant_less_iff [simp]:
  "0 < p_tick_seconds p \<Longrightarrow> tick_instant p s < tick_instant p t \<longleftrightarrow> s < t"
  by (simp add: tick_instant_def micros_def)

lemma tick_instant_eq_iff [simp]:
  "0 < p_tick_seconds p \<Longrightarrow> tick_instant p s = tick_instant p t \<longleftrightarrow> s = t"
  by (simp add: tick_instant_def micros_def)

lemma tick_instant_0 [simp]: "tick_instant p 0 = horizon_start p"
  by (simp add: tick_instant_def)

lemma interval_is_usable_iff:
  "interval_is_usable a \<longleftrightarrow> (\<exists>s e. as_start_tick a = Some s \<and> as_end_tick a = Some e \<and> s < e)"
  by (auto simp: interval_is_usable_def split: option.splits)

subsection \<open>The rules\<close>

definition rule_c002 :: "(string \<times> endpoint) list \<Rightarrow> edge_doc \<Rightarrow> bool" where
  "rule_c002 eps e \<longleftrightarrow>
     (\<forall>u v. endpoint_for eps (e_predecessor e) = Some u \<longrightarrow> endpoint_for eps (e_successor e) = Some v \<longrightarrow>
        (let lag = trunc_seconds (ep_start_at v) (ep_end_at u)
         in e_min_lag_seconds e \<le> lag \<and> (\<forall>m. e_max_lag_seconds e = Some m \<longrightarrow> lag \<le> m)))"

definition rule_c003 :: "groups \<Rightarrow> operation_doc \<Rightarrow> bool" where
  "rule_c003 g op \<longleftrightarrow>
     (let selected = selected_for g (op_id op)
      in selected = [] \<or> (\<exists>a r. selected = [a] \<and> as_resource_id a = Some r \<and> r \<in> set (option_resource_ids op)))"

definition rule_c005 :: "problem \<Rightarrow> assignment \<Rightarrow> bool" where
  "rule_c005 p a \<longleftrightarrow>
     (\<forall>r s e. as_resource_id a = Some r \<longrightarrow> as_start_tick a = Some s \<longrightarrow> as_end_tick a = Some e \<longrightarrow> s < e \<longrightarrow>
        representable (tick_instant p s) \<and> representable (tick_instant p e)
        \<and> (\<forall>u \<in> set (p_intervals p). u_resource_id u = r \<longrightarrow>
             tick_instant p e \<le> utc (u_start_utc u) \<or> utc (u_end_utc u) \<le> tick_instant p s))"

definition rule_c006 :: "problem \<Rightarrow> (string \<times> assignment) list \<Rightarrow> operation_doc \<Rightarrow> bool" where
  "rule_c006 p singles op \<longleftrightarrow>
     (\<forall>a s. map_of singles (op_id op) = Some a \<longrightarrow> as_start_tick a = Some s \<longrightarrow>
        representable (tick_instant p s)
        \<and> utc (op_release_at_utc op) \<le> tick_instant p s
        \<and> utc (op_material_ready_at_utc op) \<le> tick_instant p s)"

definition rule_c007 :: "problem \<Rightarrow> groups \<Rightarrow> operation_doc \<Rightarrow> bool" where
  "rule_c007 p g op \<longleftrightarrow>
     (op_status op = RUNNING \<longrightarrow>
        (\<exists>r n a. op_assigned_resource_id op = Some r \<and> op_remaining_seconds op = Some n
           \<and> selected_for g (op_id op) = [a] \<and> as_resource_id a = Some r
           \<and> (let e = ceil_ticks n (p_tick_seconds p)
              in as_start_tick a = Some 0 \<and> as_end_tick a = Some e
                 \<and> representable (horizon_start p) \<and> representable (tick_instant p e)
                 \<and> as_start_at a = Some (horizon_start p) \<and> as_end_at a = Some (tick_instant p e))))"

definition rule_c008 :: "problem \<Rightarrow> groups \<Rightarrow> lock_doc \<Rightarrow> bool" where
  "rule_c008 p g l \<longleftrightarrow>
     (l_lock_type l = HARD_LOCK \<longrightarrow>
        (\<exists>a s e. selected_for g (l_operation_id l) = [a] \<and> as_resource_id a = Some (l_resource_id l)
           \<and> as_start_tick a = Some s \<and> as_end_tick a = Some e \<and> s < e
           \<and> representable (tick_instant p s) \<and> representable (tick_instant p e)
           \<and> tick_instant p s = utc (l_start_at_utc l) \<and> tick_instant p e = utc (l_end_at_utc l)))"

definition rule_c009 :: "problem \<Rightarrow> (string \<times> endpoint) list \<Rightarrow> edge_doc \<Rightarrow> bool" where
  "rule_c009 p eps e \<longleftrightarrow>
     (\<forall>u v w x. endpoint_for eps (e_predecessor e) = Some u \<longrightarrow> endpoint_for eps (e_successor e) = Some v \<longrightarrow>
        workshop_of p (ep_resource_id u) = Some w \<longrightarrow> workshop_of p (ep_resource_id v) = Some x \<longrightarrow> w \<noteq> x \<longrightarrow>
        e_transport_lag_seconds e \<le> trunc_seconds (ep_start_at v) (ep_end_at u))"

definition rule_c010 :: "problem \<Rightarrow> (string \<times> assignment) list \<Rightarrow> operation_doc \<Rightarrow> bool" where
  "rule_c010 p singles op \<longleftrightarrow>
     (\<forall>a r s e opt. map_of singles (op_id op) = Some a \<longrightarrow> as_resource_id a = Some r \<longrightarrow>
        as_start_tick a = Some s \<longrightarrow> as_end_tick a = Some e \<longrightarrow> option_on op r = Some opt \<longrightarrow>
        (\<exists>seconds. expected_seconds op opt = Inr seconds
           \<and> e - s = ceil_ticks seconds (p_tick_seconds p)
           \<and> as_duration_ticks a = Some (e - s) \<and> as_duration_seconds a = Some seconds))"

definition rule_c011 :: "problem \<Rightarrow> assignment \<Rightarrow> bool" where
  "rule_c011 p a \<longleftrightarrow>
     (map_option op_status (operation_by_id p (as_operation_id a)) = Some NOT_STARTED \<longrightarrow>
        (\<exists>s e. as_start_tick a = Some s \<and> as_end_tick a = Some e
           \<and> representable (tick_instant p s) \<and> representable (tick_instant p e)
           \<and> as_start_at a = Some (tick_instant p s) \<and> as_end_at a = Some (tick_instant p e)
           \<and> horizon_start p \<le> tick_instant p s \<and> tick_instant p s < tick_instant p e
           \<and> tick_instant p e \<le> horizon_end p))"

subsection \<open>The evaluators meet the contract\<close>

interpretation c002: rule_check "\<lambda>e. Inr (c002_row eps e)" "rule_c002 eps" C002 for eps
  by unfold_locales (auto simp: c002_row_def rule_c002_def Let_def split: option.splits if_splits)

interpretation c003: rule_check "\<lambda>op. Inr (c003_row g op)" "rule_c003 g" C003 for g
proof
  show "(Inr (c003_row g op) :: violation list res) = Inr [] \<longleftrightarrow> rule_c003 g op" for op
    by (cases "selected_for g (op_id op)"; cases "tl (selected_for g (op_id op))")
      (auto simp: c003_row_def rule_c003_def Let_def)
qed (auto simp: c003_row_def Let_def split: if_splits)

lemma c005_interval_clean_iff:
  "c005_interval a r s e u = [] \<longleftrightarrow>
     (u_resource_id u = r \<longrightarrow> e \<le> utc (u_start_utc u) \<or> utc (u_end_utc u) \<le> s)"
  by (auto simp: c005_interval_def)

lemma c005_row_eq:
  "as_resource_id a = Some r \<Longrightarrow> as_start_tick a = Some s \<Longrightarrow> as_end_tick a = Some e \<Longrightarrow> s < e \<Longrightarrow>
     c005_row p a =
       (if representable (tick_instant p s) \<and> representable (tick_instant p e)
        then Inr (concat (map (c005_interval a r (tick_instant p s) (tick_instant p e)) (p_intervals p)))
        else Inl RaiseOverflow)"
  by (simp add: c005_row_def restore_tick_eq)

lemma c005_row_skip:
  "as_resource_id a = None \<or> \<not> interval_is_usable a \<Longrightarrow> c005_row p a = Inr []"
  by (auto simp: c005_row_def interval_is_usable_def split: option.splits)

interpretation c005: rule_check "c005_row p" "rule_c005 p" C005 for p
proof
  fix a
  have "(c005_row p a = Inr [] \<longleftrightarrow> rule_c005 p a) \<and>
    (\<forall>vs v. c005_row p a = Inr vs \<longrightarrow> v \<in> set vs \<longrightarrow> v_constraint_id v = C005 \<and> v_entity_ids v \<noteq> [])"
  proof (cases "as_resource_id a = None \<or> \<not> interval_is_usable a")
    case True
    then show ?thesis by (auto simp: c005_row_skip rule_c005_def interval_is_usable_iff)
  next
    case False
    then obtain r s e where a: "as_resource_id a = Some r" "as_start_tick a = Some s" "as_end_tick a = Some e" "s < e"
      by (auto simp: interval_is_usable_iff)
    show ?thesis
      by (auto simp: c005_row_eq [OF a] rule_c005_def a c005_interval_clean_iff)
        (auto simp: c005_interval_def split: if_splits)
  qed
  then show "c005_row p a = Inr [] \<longleftrightarrow> rule_c005 p a"
    and "\<And>vs v. c005_row p a = Inr vs \<Longrightarrow> v \<in> set vs \<Longrightarrow> v_constraint_id v = C005"
    and "\<And>vs v. c005_row p a = Inr vs \<Longrightarrow> v \<in> set vs \<Longrightarrow> v_entity_ids v \<noteq> []" by blast+
qed

interpretation c006: rule_check "c006_row p s" "rule_c006 p s" C006 for p s
proof
  show "c006_row p s op = Inr [] \<longleftrightarrow> rule_c006 p s op" for op
  proof (cases "map_of s (op_id op)")
    case (Some a)
    then show ?thesis
      by (cases "as_start_tick a") (auto simp: c006_row_def rule_c006_def restore_tick_eq Let_def not_less)
  qed (simp add: c006_row_def rule_c006_def)
qed (auto simp: c006_row_def Let_def res_simps split: option.splits if_splits)

lemma list_one_cases:
  obtains (single) a where "xs = [a]" | (other) "length xs \<noteq> 1" "\<And>a. xs \<noteq> [a]"
  by (cases xs; cases "tl xs") auto

lemma c007_running_eq:
  assumes "op_status op = RUNNING" "op_assigned_resource_id op = Some r" "op_remaining_seconds op = Some n"
    and "selected_for g (op_id op) = [a]"
  shows "c007_running p g op = Inr [] \<longleftrightarrow>
     (as_resource_id a = Some r \<and> as_start_tick a = Some 0
      \<and> as_end_tick a = Some (ceil_ticks n (p_tick_seconds p))
      \<and> representable (horizon_start p) \<and> representable (tick_instant p (ceil_ticks n (p_tick_seconds p)))
      \<and> as_start_at a = Some (horizon_start p)
      \<and> as_end_at a = Some (tick_instant p (ceil_ticks n (p_tick_seconds p))))"
  by (auto simp: c007_running_def assms Let_def single_field_def restore_optional_def restore_tick_eq
      split: option.splits)

interpretation c007: rule_check "c007_running p g" "rule_c007 p g" C007 for p g
proof
  show "c007_running p g op = Inr [] \<longleftrightarrow> rule_c007 p g op" for op
  proof (cases "op_status op = RUNNING \<and> (\<exists>r n. op_assigned_resource_id op = Some r \<and> op_remaining_seconds op = Some n)")
    case True
    then obtain r n where op: "op_status op = RUNNING" "op_assigned_resource_id op = Some r"
      "op_remaining_seconds op = Some n" by blast
    show ?thesis
    proof (cases "selected_for g (op_id op)" rule: list_one_cases)
      case (single a)
      show ?thesis by (simp add: c007_running_eq [OF op single] rule_c007_def op single Let_def)
    next
      case other
      then show ?thesis by (auto simp: c007_running_def rule_c007_def op Let_def res_simps)
    qed
  next
    case False
    then show ?thesis by (auto simp: c007_running_def rule_c007_def split: option.splits)
  qed
qed (auto simp: c007_running_def Let_def res_simps split: option.splits if_splits)

lemma c008_row_single:
  assumes "l_lock_type l = HARD_LOCK" "selected_for g (l_operation_id l) = [a]"
  shows "c008_row p g l = Inr [] \<longleftrightarrow> rule_c008 p g l"
proof (cases "interval_is_usable a")
  case True
  then obtain s e where "as_start_tick a = Some s" "as_end_tick a = Some e" "s < e"
    by (auto simp: interval_is_usable_iff)
  with True show ?thesis
    by (simp add: c008_row_def rule_c008_def assms restore_optional_def restore_tick_eq Let_def)
next
  case False
  then show ?thesis by (auto simp: c008_row_def rule_c008_def assms interval_is_usable_iff Let_def)
qed

interpretation c008: rule_check "c008_row p g" "rule_c008 p g" C008 for p g
proof
  show "c008_row p g l = Inr [] \<longleftrightarrow> rule_c008 p g l" for l
  proof (cases "l_lock_type l = HARD_LOCK")
    case hard: True
    show ?thesis
    proof (cases "selected_for g (l_operation_id l)" rule: list_one_cases)
      case (single a)
      then show ?thesis using hard by (simp add: c008_row_single)
    next
      case other
      then show ?thesis by (auto simp: c008_row_def rule_c008_def hard Let_def)
    qed
  qed (simp add: c008_row_def rule_c008_def)
qed (auto simp: c008_row_def Let_def res_simps split: if_splits)

interpretation c009: rule_check "\<lambda>e. Inr (c009_row p eps e)" "rule_c009 p eps" C009 for p eps
  by unfold_locales (auto simp: c009_row_def rule_c009_def Let_def not_less split: option.splits if_splits)

interpretation c010: rule_check "c010_row p s" "rule_c010 p s" C010 for p s
proof
  show "c010_row p s op = Inr [] \<longleftrightarrow> rule_c010 p s op" for op
  proof (cases "\<exists>a r t e opt. map_of s (op_id op) = Some a \<and> as_resource_id a = Some r \<and>
      as_start_tick a = Some t \<and> as_end_tick a = Some e \<and> option_on op r = Some opt")
    case True
    then obtain a r t e opt where "map_of s (op_id op) = Some a" "as_resource_id a = Some r"
      "as_start_tick a = Some t" "as_end_tick a = Some e" "option_on op r = Some opt" by blast
    then show ?thesis by (simp add: c010_row_def rule_c010_def Let_def res_simps) blast
  next
    case False
    then show ?thesis by (auto simp: c010_row_def rule_c010_def split: option.splits)
  qed
qed (auto simp: c010_row_def Let_def res_simps split: option.splits if_splits)

interpretation c011: rule_check "c011_row p" "rule_c011 p" C011 for p
proof
  show "c011_row p a = Inr [] \<longleftrightarrow> rule_c011 p a" for a
    by (cases "as_start_tick a"; cases "as_end_tick a")
      (auto simp: c011_row_def rule_c011_def Let_def restore_optional_def restore_tick_eq)
qed (auto simp: c011_row_def Let_def res_simps split: option.splits if_splits)

end
