(* ===== verification/Validator_Sweep.thy ===== *)
theory Validator_Sweep
  imports Validator_Rules
begin

section \<open>The resource sweep, the completeness count and the candidate reader\<close>

text \<open>
  The three parts of the validator that are not a loop of independent rows: the sorted sweep of
  C-004 with its early \<open>break\<close>, shown equal to the comparison of all pairs; the grouping dictionaries
  behind C-001; and the reader of the raw candidate.
\<close>

subsection \<open>C-004: the sweep finds every overlapping pair\<close>

definition overlapping :: "assignment \<Rightarrow> assignment \<Rightarrow> bool" where
  "overlapping a b \<longleftrightarrow>
     the (as_start_tick b) < the (as_end_tick a) \<and> the (as_start_tick a) < the (as_end_tick b)"

definition starts_sorted :: "assignment list \<Rightarrow> bool" where
  "starts_sorted xs \<longleftrightarrow> sorted_wrt (\<lambda>a b. the (as_start_tick a) \<le> the (as_start_tick b)) xs"

text \<open>The reference: every earlier element against every later one.\<close>

fun all_pairs :: "'a list \<Rightarrow> ('a \<times> 'a) list" where
  "all_pairs [] = []"
| "all_pairs (x # xs) = map (Pair x) xs @ all_pairs xs"

definition overlapping_pairs :: "assignment list \<Rightarrow> (assignment \<times> assignment) list" where
  "overlapping_pairs xs = filter (\<lambda>(a, b). overlapping a b) (all_pairs xs)"

lemma later_overlaps_eq:
  assumes "starts_sorted xs"
  shows "later_overlaps r a xs = map (c004_violation r a) (filter (overlapping a) xs)"
  using assms
proof (induction xs)
  case Nil
  then show ?case by simp
next
  case (Cons b xs)
  then have "starts_sorted xs" and later: "\<forall>x \<in> set xs. the (as_start_tick b) \<le> the (as_start_tick x)"
    by (auto simp: starts_sorted_def)
  show ?case
  proof (cases "the (as_end_tick a) \<le> the (as_start_tick b)")
    case True
    then have "\<forall>x \<in> set (b # xs). \<not> overlapping a x"
      using later by (fastforce simp: overlapping_def)
    then have "filter (overlapping a) (b # xs) = []" by (simp only: filter_empty_conv)
    with True show ?thesis by simp
  next
    case False
    then show ?thesis using Cons.IH \<open>starts_sorted xs\<close> by (simp add: overlapping_def not_le)
  qed
qed

lemma ordered_overlaps_eq:
  "starts_sorted xs \<Longrightarrow>
     ordered_overlaps r xs = map (\<lambda>(a, b). c004_violation r a b) (overlapping_pairs xs)"
proof (induction xs)
  case Nil
  then show ?case by (simp add: overlapping_pairs_def)
next
  case (Cons a xs)
  then have "starts_sorted xs" by (simp add: starts_sorted_def)
  with Cons.IH show ?case
    by (simp add: overlapping_pairs_def later_overlaps_eq filter_map comp_def)
qed

lemma starts_sorted_sort: "starts_sorted (sort_key overlap_key xs)"
proof -
  have "sorted_wrt (\<lambda>a b. overlap_key a \<le> overlap_key b) (sort_key overlap_key xs)"
    using sorted_sort_key [of overlap_key xs] by (simp add: sorted_wrt_map)
  then show ?thesis
    unfolding starts_sorted_def by (rule sorted_wrt_mono_rel [rotated]) (auto simp: overlap_key_def less_eq_prod_def)
qed

lemma overlapping_sym: "overlapping a b \<longleftrightarrow> overlapping b a"
  by (auto simp: overlapping_def)

lemma overlapping_pairs_empty_iff:
  assumes "distinct xs"
  shows "overlapping_pairs xs = [] \<longleftrightarrow> (\<forall>a \<in> set xs. \<forall>b \<in> set xs. a \<noteq> b \<longrightarrow> \<not> overlapping a b)"
  using assms
proof (induction xs)
  case Nil
  then show ?case by (simp add: overlapping_pairs_def)
next
  case (Cons x xs)
  have "overlapping_pairs (x # xs) = [] \<longleftrightarrow>
      (\<forall>b \<in> set xs. \<not> overlapping x b) \<and> overlapping_pairs xs = []"
    by (auto simp: overlapping_pairs_def filter_empty_conv)
  with Cons show ?case using overlapping_sym by auto
qed

definition rule_c004 :: "problem \<Rightarrow> assignment list \<Rightarrow> bool" where
  "rule_c004 p as \<longleftrightarrow>
     (\<forall>a \<in> set as. \<forall>b \<in> set as. a \<noteq> b \<longrightarrow> on_unit_resource p a \<longrightarrow> on_unit_resource p b \<longrightarrow>
        as_resource_id a = as_resource_id b \<longrightarrow> \<not> overlapping a b)"

lemma evaluate_c004_eq:
  "evaluate_c004 p as =
     concat (map (\<lambda>r. map (\<lambda>(a, b). c004_violation r a b)
         (overlapping_pairs (sort_key overlap_key (filter (\<lambda>a. as_resource_id a = Some r) (filter (on_unit_resource p) as)))))
       (sorted_ids (List.map_filter as_resource_id (filter (on_unit_resource p) as))))"
  by (simp add: evaluate_c004_def ordered_overlaps_eq starts_sorted_sort)

lemma evaluate_c004_clean_iff:
  assumes "distinct as"
  shows "evaluate_c004 p as = [] \<longleftrightarrow> rule_c004 p as"
proof -
  let ?u = "filter (on_unit_resource p) as"
  let ?on = "\<lambda>r. filter (\<lambda>a. as_resource_id a = Some r) ?u"
  have "overlapping_pairs (sort_key overlap_key (?on r)) = [] \<longleftrightarrow>
      (\<forall>a \<in> set (?on r). \<forall>b \<in> set (?on r). a \<noteq> b \<longrightarrow> \<not> overlapping a b)" for r
    using assms by (subst overlapping_pairs_empty_iff) simp_all
  then have "evaluate_c004 p as = [] \<longleftrightarrow>
      (\<forall>r \<in> set (List.map_filter as_resource_id ?u).
         \<forall>a \<in> set (?on r). \<forall>b \<in> set (?on r). a \<noteq> b \<longrightarrow> \<not> overlapping a b)"
    by (simp add: evaluate_c004_eq)
  also have "\<dots> \<longleftrightarrow> rule_c004 p as"
    by (auto simp: rule_c004_def map_filter_def on_unit_resource_def split: option.splits)
  finally show ?thesis .
qed

lemma evaluate_c004_ids: "v \<in> set (evaluate_c004 p as) \<Longrightarrow> v_constraint_id v = C004"
  by (auto simp: evaluate_c004_eq c004_violation_def)

subsection \<open>C-001: groups and singles\<close>

lemma map_of_tabulate: "map_of (map (\<lambda>i. (i, f i)) is) i = (if i \<in> set is then Some (f i) else None)"
  by (induction "is") auto

lemma selected_for_groups:
  "selected_for (groups_of as) i = sort_key group_key (filter (\<lambda>a. as_operation_id a = i) as)"
proof (cases "i \<in> as_operation_id ` set as")
  case False
  then have "filter (\<lambda>a. as_operation_id a = i) as = []" by (auto simp: filter_empty_conv)
  with False show ?thesis by (simp add: selected_for_def groups_of_def map_of_tabulate)
qed (simp add: selected_for_def groups_of_def map_of_tabulate)

lemma filter_by_key:
  "distinct (map k xs) \<Longrightarrow> x \<in> set xs \<Longrightarrow> filter (\<lambda>y. k y = k x) xs = [x]"
proof (induction xs)
  case (Cons y ys)
  then show ?case by (auto simp: filter_empty_conv) (metis imageI)
qed simp

lemma selected_for_single:
  assumes "distinct (map as_operation_id as)" and "a \<in> set as"
  shows "selected_for (groups_of as) (as_operation_id a) = [a]"
  using assms by (simp add: selected_for_groups filter_by_key)

lemma selected_for_length:
  "length (selected_for (groups_of as) i) = count_list (map as_operation_id as) i"
  by (simp add: selected_for_groups count_list_eq_length_filter filter_map comp_def eq_commute)

lemma map_of_filter_fst:
  "distinct (map fst xs) \<Longrightarrow> map_of (filter P xs) k =
     (case map_of xs k of Some v \<Rightarrow> if P (k, v) then Some v else None | None \<Rightarrow> None)"
proof (induction xs)
  case (Cons x xs)
  then show ?case
    by (cases x) (auto simp: map_of_eq_None_iff image_iff split: option.splits)
qed simp

lemma groups_keys: "map fst (groups_of as) = first_seen (map as_operation_id as)"
  by (simp add: groups_of_def comp_def)

lemma map_of_groups:
  "map_of (groups_of as) i =
     (if i \<in> as_operation_id ` set as
      then Some (sort_key group_key (filter (\<lambda>a. as_operation_id a = i) as)) else None)"
  by (auto simp: groups_of_def map_of_tabulate)

lemma map_of_singles:
  "map_of (singles_of (groups_of as)) i =
     (case selected_for (groups_of as) i of [a] \<Rightarrow> Some a | _ \<Rightarrow> None)"
proof -
  have "map_of (map (\<lambda>(i, xs). (i, hd xs)) gs) i = map_option hd (map_of gs i)" for gs :: groups
    by (induction gs) auto
  then have "map_of (singles_of (groups_of as)) i =
      map_option hd (map_of (filter (\<lambda>(i, xs). length xs = 1) (groups_of as)) i)"
    by (simp add: singles_of_def)
  also have "\<dots> = (case map_of (groups_of as) i of
      Some xs \<Rightarrow> if length xs = 1 then Some (hd xs) else None | None \<Rightarrow> None)"
    by (simp add: map_of_filter_fst groups_keys split: option.splits)
  also have "\<dots> = (case selected_for (groups_of as) i of [a] \<Rightarrow> Some a | _ \<Rightarrow> None)"
    by (auto simp: selected_for_def split: option.splits list.splits)
  finally show ?thesis .
qed

lemma map_of_singles_member:
  "distinct (map as_operation_id as) \<Longrightarrow> a \<in> set as \<Longrightarrow>
     map_of (singles_of (groups_of as)) (as_operation_id a) = Some a"
  by (simp add: map_of_singles selected_for_single)

definition rule_c001 :: "problem \<Rightarrow> assignment list \<Rightarrow> bool" where
  "rule_c001 p as \<longleftrightarrow>
     (\<forall>i \<in> set (operation_ids p). count_list (map as_operation_id as) i = 1)
     \<and> set (map as_operation_id as) \<subseteq> set (operation_ids p) \<union> set (anchor_ids p)"

lemma evaluate_c001_clean_iff: "evaluate_c001 p as (groups_of as) = [] \<longleftrightarrow> rule_c001 p as"
proof -
  have "sorted_ids xs = [] \<longleftrightarrow> xs = []" for xs :: "string list"
    by (simp add: sorted_ids_def flip: set_empty)
  then show ?thesis
    by (auto simp: evaluate_c001_def c001_active_def Let_def selected_for_length rule_c001_def
        unknown_ids_def filter_empty_conv)
qed

lemma evaluate_c001_ids: "v \<in> set (evaluate_c001 p as g) \<Longrightarrow> v_constraint_id v = C001"
  by (auto simp: evaluate_c001_def c001_active_def c001_unknown_def Let_def split: if_splits)

subsection \<open>The reader\<close>

text \<open>A row of the candidate that is read without complaint.\<close>

definition clean_row :: "json \<Rightarrow> bool" where
  "clean_row raw \<longleftrightarrow>
     (\<exists>obj i r s e. raw = JObj obj \<and> identifier_value (dict_get obj ''operation_id'') = Some i
        \<and> identifier_value (dict_get obj ''resource_id'') = Some r
        \<and> integer_value (dict_get obj ''start_tick'') = Some s
        \<and> integer_value (dict_get obj ''end_tick'') = Some e \<and> s < e)"

definition read_row :: "nat \<Rightarrow> json \<Rightarrow> assignment" where
  "read_row i raw =
     (case raw of JObj obj \<Rightarrow> read_assignment i obj (the (identifier_value (dict_get obj ''operation_id'')))
      | _ \<Rightarrow> undefined)"

lemma materialize_one_clean_iff: "snd (materialize_one i raw) = [] \<longleftrightarrow> clean_row raw"
  by (cases raw) (auto simp: materialize_one_def materialize_object_def clean_row_def Let_def
      read_assignment_def interval_is_usable_iff split: option.splits)

lemma materialize_one_read: "clean_row raw \<Longrightarrow> materialize_one i raw = ([read_row i raw], [])"
  by (auto simp: clean_row_def materialize_one_def materialize_object_def Let_def read_row_def
      read_assignment_def interval_is_usable_iff)

lemma materialize_clean_iff:
  "materialize_assignments p cand = (as, []) \<longleftrightarrow>
     reference_matches p (dict_get cand ''problem'') \<and>
     (\<exists>raws. dict_get cand ''assignments'' = JArr raws \<and> list_all clean_row raws
        \<and> as = map (\<lambda>(i, raw). read_row i raw) (enumerate 0 raws))"
proof (cases "dict_get cand ''assignments''")
  case (JArr raws)
  let ?rows = "map (\<lambda>(i, raw). materialize_one i raw) (enumerate 0 raws)"
  have "concat (map snd ?rows) = [] \<longleftrightarrow> list_all clean_row raws"
  proof -
    have "concat (map snd ?rows) = [] \<longleftrightarrow> (\<forall>(i, raw) \<in> set (enumerate 0 raws). clean_row raw)"
      using materialize_one_clean_iff by fastforce
    also have "\<dots> \<longleftrightarrow> (\<forall>raw \<in> set (map snd (enumerate 0 raws)). clean_row raw)"
      by (simp only: set_map ball_simps) (auto simp: split_beta)
    finally show ?thesis by (simp add: list_all_iff)
  qed
  moreover have "concat (map fst ?rows) = map (\<lambda>(i, raw). read_row i raw) (enumerate 0 raws)"
    if "list_all clean_row raws"
  proof -
    have "map fst ?rows
        = map (\<lambda>(i, raw). [read_row i raw]) (enumerate 0 raws)"
      using that by (auto simp: list_all_iff materialize_one_read in_set_enumerate_eq)
    moreover have "concat (map (\<lambda>(i, raw). [read_row i raw]) ys) = map (\<lambda>(i, raw). read_row i raw) ys" for ys
      by (induction ys) auto
    ultimately show ?thesis by (simp only:)
  qed
  ultimately show ?thesis
    using JArr by (auto simp: materialize_assignments_def reference_violations_def Let_def)
qed (auto simp: materialize_assignments_def)

lemma read_row_props:
  assumes "clean_row raw"
  shows "as_resource_id (read_row i raw) \<noteq> None" "interval_is_usable (read_row i raw)"
    "as_index (read_row i raw) = i"
  using assms by (auto simp: clean_row_def read_row_def read_assignment_def interval_is_usable_iff)

text \<open>Whatever the candidate, the assignments read from it are pairwise different.\<close>

lemma materialize_one_index: "a \<in> set (fst (materialize_one i raw)) \<Longrightarrow> as_index a = i"
  by (auto simp: materialize_one_def materialize_object_def Let_def read_assignment_def
      split: json.splits option.splits)

lemma materialize_one_distinct: "distinct (fst (materialize_one i raw))"
  by (auto simp: materialize_one_def materialize_object_def Let_def split: json.splits option.splits)

lemma materialize_distinct: "distinct (fst (materialize_assignments p cand))"
proof (cases "dict_get cand ''assignments''")
  case (JArr raws)
  have "distinct (concat (map fst (map (\<lambda>(i, raw). materialize_one i raw) (enumerate n raws))))
    \<and> (\<forall>a \<in> set (concat (map fst (map (\<lambda>(i, raw). materialize_one i raw) (enumerate n raws)))). n \<le> as_index a)" for n
  proof (induction raws arbitrary: n)
    case (Cons raw raws)
    then show ?case using Cons.IH [of "Suc n"]
      by (fastforce simp: materialize_one_distinct dest: materialize_one_index)
  qed simp
  then show ?thesis using JArr by (auto simp: materialize_assignments_def Let_def)
qed (auto simp: materialize_assignments_def)

end
