(* ===== verification/Feasibility.thy ===== *)
theory Feasibility
  imports Validator_Sweep
begin

section \<open>Feasible schedules\<close>

text \<open>
  The specification the validator is measured against, stated on problems and schedules alone: a
  schedule gives every operation a resource and an interval of ticks. \<open>feasible\<close> says what the
  hard constraints mean, \<open>represents\<close> when a candidate document writes down a schedule.
\<close>

record slot =
  sl_resource :: string
  sl_start :: int
  sl_end :: int

type_synonym schedule = "string \<rightharpoonup> slot"

definition work_seconds :: "operation_doc \<Rightarrow> string \<Rightarrow> int option" where
  "work_seconds op r =
     (case op_status op of
        RUNNING \<Rightarrow> op_remaining_seconds op
      | NOT_STARTED \<Rightarrow> map_option o_final_duration_seconds (option_on op r))"

definition slot_ok :: "problem \<Rightarrow> operation_doc \<Rightarrow> slot \<Rightarrow> bool" where
  "slot_ok p op s \<longleftrightarrow>
     sl_resource s \<in> set (option_resource_ids op)
     \<and> (\<exists>w. work_seconds op (sl_resource s) = Some w \<and> sl_end s = sl_start s + ceil_div w (p_tick_seconds p))
     \<and> utc (op_release_at_utc op) \<le> tick_instant p (sl_start s)
     \<and> utc (op_material_ready_at_utc op) \<le> tick_instant p (sl_start s)
     \<and> (\<forall>u \<in> set (p_intervals p). u_resource_id u = sl_resource s \<longrightarrow>
          tick_instant p (sl_end s) \<le> utc (u_start_utc u) \<or> utc (u_end_utc u) \<le> tick_instant p (sl_start s))
     \<and> (case op_status op of
          RUNNING \<Rightarrow> op_assigned_resource_id op = Some (sl_resource s) \<and> sl_start s = 0
        | NOT_STARTED \<Rightarrow> 0 \<le> sl_start s \<and> tick_instant p (sl_end s) \<le> horizon_end p)"

text \<open>Where and when an operation or a completed anchor runs.\<close>

definition span :: "problem \<Rightarrow> schedule \<Rightarrow> string \<Rightarrow> (string \<times> instant \<times> instant) option" where
  "span p \<sigma> i =
     (case last_with (\<lambda>a. a_operation_id a = i) (p_anchors p) of
        Some a \<Rightarrow> Some (a_resource_id a, utc (a_actual_start_at_utc a), utc (a_actual_end_at_utc a))
      | None \<Rightarrow> map_option (\<lambda>s. (sl_resource s, tick_instant p (sl_start s), tick_instant p (sl_end s))) (\<sigma> i))"

text \<open>
  The successor starts at least the minimum lag after the predecessor's end and, in whole
  seconds, at most the maximum lag; across workshops also at least the transport lag.
\<close>

definition lag_ok :: "problem \<Rightarrow> edge_doc \<Rightarrow> string \<times> instant \<times> instant \<Rightarrow> string \<times> instant \<times> instant \<Rightarrow> bool" where
  "lag_ok p e x y =
     (case (x, y) of ((r, _, end_at), (r', start_at, _)) \<Rightarrow>
        end_at + e_min_lag_seconds e * micros \<le> start_at
        \<and> (\<forall>m. e_max_lag_seconds e = Some m \<longrightarrow> (start_at - end_at) div micros \<le> m)
        \<and> (workshop_of p r \<noteq> workshop_of p r' \<longrightarrow> end_at + e_transport_lag_seconds e * micros \<le> start_at))"

definition edge_respected :: "problem \<Rightarrow> schedule \<Rightarrow> edge_doc \<Rightarrow> bool" where
  "edge_respected p \<sigma> e \<longleftrightarrow>
     (\<exists>x y. span p \<sigma> (e_predecessor e) = Some x \<and> span p \<sigma> (e_successor e) = Some y \<and> lag_ok p e x y)"

definition lock_respected :: "problem \<Rightarrow> schedule \<Rightarrow> lock_doc \<Rightarrow> bool" where
  "lock_respected p \<sigma> l \<longleftrightarrow>
     (l_lock_type l = HARD_LOCK \<longrightarrow>
        (\<exists>s. \<sigma> (l_operation_id l) = Some s \<and> sl_resource s = l_resource_id l
           \<and> tick_instant p (sl_start s) = utc (l_start_at_utc l)
           \<and> tick_instant p (sl_end s) = utc (l_end_at_utc l)))"

definition exclusive :: "schedule \<Rightarrow> bool" where
  "exclusive \<sigma> \<longleftrightarrow>
     (\<forall>i j s t. i \<noteq> j \<longrightarrow> \<sigma> i = Some s \<longrightarrow> \<sigma> j = Some t \<longrightarrow> sl_resource s = sl_resource t \<longrightarrow>
        sl_end s \<le> sl_start t \<or> sl_end t \<le> sl_start s)"

definition feasible :: "problem \<Rightarrow> schedule \<Rightarrow> bool" where
  "feasible p \<sigma> \<longleftrightarrow>
     dom \<sigma> = set (operation_ids p)
     \<and> (\<forall>op \<in> set (p_operations p). \<forall>s. \<sigma> (op_id op) = Some s \<longrightarrow> slot_ok p op s)
     \<and> exclusive \<sigma>
     \<and> (\<forall>e \<in> set (p_edges p). edge_respected p \<sigma> e)
     \<and> (\<forall>l \<in> set (p_locks p). lock_respected p \<sigma> l)"

text \<open>A JSON object that writes down the slot of one operation, in ticks, seconds and timestamps.\<close>

definition row_states :: "problem \<Rightarrow> json_object \<Rightarrow> string \<Rightarrow> slot \<Rightarrow> bool" where
  "row_states p obj i s \<longleftrightarrow>
     identifier_value (dict_get obj ''operation_id'') = Some i
     \<and> identifier_value (dict_get obj ''resource_id'') = Some (sl_resource s)
     \<and> integer_value (dict_get obj ''start_tick'') = Some (sl_start s)
     \<and> integer_value (dict_get obj ''end_tick'') = Some (sl_end s)
     \<and> instant_value (dict_get obj ''start_at_utc'') = Some (tick_instant p (sl_start s))
     \<and> instant_value (dict_get obj ''end_at_utc'') = Some (tick_instant p (sl_end s))
     \<and> integer_value (dict_get obj ''duration_ticks'') = Some (sl_end s - sl_start s)
     \<and> (\<exists>op w. operation_by_id p i = Some op \<and> work_seconds op (sl_resource s) = Some w
          \<and> integer_value (dict_get obj ''duration_seconds'') = Some w)"

definition represents :: "problem \<Rightarrow> json_object \<Rightarrow> schedule \<Rightarrow> bool" where
  "represents p cand \<sigma> \<longleftrightarrow>
     reference_matches p (dict_get cand ''problem'')
     \<and> (\<exists>raws ids. dict_get cand ''assignments'' = JArr raws \<and> distinct ids \<and> set ids = dom \<sigma>
          \<and> list_all2 (\<lambda>raw i. \<exists>obj s. raw = JObj obj \<and> \<sigma> i = Some s \<and> row_states p obj i s) raws ids)"

subsection \<open>Lags\<close>

lemma trunc_ge_iff:
  assumes "earlier \<le> later \<or> (later - earlier) mod micros = 0" and "0 \<le> m"
  shows "m \<le> trunc_seconds later earlier \<longleftrightarrow> earlier + m * micros \<le> later"
proof (cases "earlier \<le> later")
  case True
  then show ?thesis by (simp add: trunc_seconds_def Let_def le_int_div_iff micros_def algebra_simps)
next
  case False
  then have "(later - earlier) mod micros = 0" using assms(1) by simp
  then have "(earlier - later) mod micros = 0" by (metis minus_diff_eq mod_minus_eq mod_0 minus_zero)
  then have "micros \<le> earlier - later"
    using False by (metis diff_gt_0_iff_gt linorder_not_le mod_pos_pos_trivial order_less_imp_le less_irrefl)
  then have "1 \<le> (earlier - later) div micros" by (simp add: le_int_div_iff micros_def)
  with False assms(2) show ?thesis by (simp add: trunc_seconds_def Let_def micros_def)
qed

lemma trunc_le_iff:
  assumes "0 \<le> m"
  shows "trunc_seconds later earlier \<le> m \<longleftrightarrow> (later - earlier) div micros \<le> m"
proof (cases "earlier \<le> later")
  case False
  then have "0 \<le> (earlier - later) div micros" "(later - earlier) div micros < 0"
    by (simp_all add: micros_def pos_imp_zdiv_nonneg_iff int_div_less_iff)
  with False assms show ?thesis by (simp add: trunc_seconds_def Let_def)
qed (simp add: trunc_seconds_def Let_def)

end
