(* ===== verification/Validator_Correct.thy ===== *)
theory Validator_Correct
  imports Feasibility
begin

section \<open>The validator accepts exactly the feasible schedules\<close>

text \<open>
  \<open>complete p as\<close> is what the reader and C-001 establish of the assignments; under it each
  remaining rule is the matching clause of \<open>feasible\<close> for the schedule \<open>schedule_of as\<close>. The result is
  soundness and completeness of the whole validator in one equivalence.
\<close>

subsection \<open>Complete assignment lists\<close>

definition slot_of :: "assignment \<Rightarrow> slot" where
  "slot_of a = \<lparr>sl_resource = the (as_resource_id a), sl_start = the (as_start_tick a),
     sl_end = the (as_end_tick a)\<rparr>"

definition schedule_of :: "assignment list \<Rightarrow> schedule" where
  "schedule_of as = map_of (map (\<lambda>a. (as_operation_id a, slot_of a)) as)"

definition complete :: "problem \<Rightarrow> assignment list \<Rightarrow> bool" where
  "complete p as \<longleftrightarrow>
     problem_facts p \<and> distinct (map as_operation_id as)
     \<and> as_operation_id ` set as = set (operation_ids p)
     \<and> (\<forall>a \<in> set as. as_resource_id a \<noteq> None \<and> interval_is_usable a
          \<and> (\<forall>t. as_start_at a = Some t \<longrightarrow> representable t)
          \<and> (\<forall>t. as_end_at a = Some t \<longrightarrow> representable t))"

definition declared :: "problem \<Rightarrow> operation_doc \<Rightarrow> assignment \<Rightarrow> bool" where
  "declared p op a \<longleftrightarrow>
     as_start_at a = Some (tick_instant p (sl_start (slot_of a)))
     \<and> as_end_at a = Some (tick_instant p (sl_end (slot_of a)))
     \<and> as_duration_ticks a = Some (sl_end (slot_of a) - sl_start (slot_of a))
     \<and> as_duration_seconds a = work_seconds op (sl_resource (slot_of a))"

lemma complete_fields:
  assumes "complete p as" and "a \<in> set as"
  shows "as_resource_id a = Some (sl_resource (slot_of a))"
    "as_start_tick a = Some (sl_start (slot_of a))" "as_end_tick a = Some (sl_end (slot_of a))"
    "sl_start (slot_of a) < sl_end (slot_of a)"
proof -
  have "as_resource_id a \<noteq> None" "interval_is_usable a"
    using assms by (simp_all add: complete_def)
  then show "as_resource_id a = Some (sl_resource (slot_of a))"
    "as_start_tick a = Some (sl_start (slot_of a))" "as_end_tick a = Some (sl_end (slot_of a))"
    "sl_start (slot_of a) < sl_end (slot_of a)"
    by (auto simp: slot_of_def interval_is_usable_iff)
qed

lemma complete_assignment:
  assumes "complete p as" and "i \<in> set (operation_ids p)"
  obtains a where "a \<in> set as" "as_operation_id a = i"
    "selected_for (groups_of as) i = [a]" "map_of (singles_of (groups_of as)) i = Some a"
    "schedule_of as i = Some (slot_of a)"
proof -
  obtain a where a: "a \<in> set as" "as_operation_id a = i"
    using assms by (force simp: complete_def)
  have d: "distinct (map as_operation_id as)" using assms(1) by (simp add: complete_def)
  have "(i, slot_of a) \<in> set (map (\<lambda>a. (as_operation_id a, slot_of a)) as)" using a by force
  then have "schedule_of as i = Some (slot_of a)"
    using d by (auto simp: schedule_of_def comp_def intro!: map_of_is_SomeI)
  then show ?thesis
    using that a selected_for_single [OF d a(1)] map_of_singles_member [OF d a(1)] by simp
qed

lemma complete_operation:
  assumes "complete p as" and "a \<in> set as"
  obtains op where "op \<in> set (p_operations p)" "op_id op = as_operation_id a"
    "operation_by_id p (as_operation_id a) = Some op"
    "selected_for (groups_of as) (op_id op) = [a]" "map_of (singles_of (groups_of as)) (op_id op) = Some a"
    "schedule_of as (op_id op) = Some (slot_of a)"
proof -
  have i: "as_operation_id a \<in> set (operation_ids p)" using assms by (auto simp: complete_def)
  obtain op where op: "operation_by_id p (as_operation_id a) = Some op"
    using operation_by_id_ex [OF i] by blast
  obtain b where "b \<in> set as" "as_operation_id b = as_operation_id a"
    "selected_for (groups_of as) (as_operation_id a) = [b]"
    "map_of (singles_of (groups_of as)) (as_operation_id a) = Some b"
    "schedule_of as (as_operation_id a) = Some (slot_of b)"
    using complete_assignment [OF assms(1) i] .
  moreover from this have "b = a"
    using assms by (auto simp: complete_def distinct_map inj_on_def)
  ultimately show ?thesis using that [of op] operation_by_id_Some [OF op] op by simp
qed

text \<open>Loops over assignments are loops over operations.\<close>

lemma complete_ball:
  assumes "complete p as"
  shows "(\<forall>a \<in> set as. P a) \<longleftrightarrow>
    (\<forall>op \<in> set (p_operations p). \<forall>a. selected_for (groups_of as) (op_id op) = [a] \<longrightarrow> P a)"
proof (intro iffI ballI allI impI)
  fix op a assume "\<forall>a \<in> set as. P a" and op: "op \<in> set (p_operations p)" "selected_for (groups_of as) (op_id op) = [a]"
  moreover have "op_id op \<in> set (operation_ids p)" using op by (simp add: operation_ids_def)
  ultimately show "P a" using complete_assignment [OF assms] by (metis list.inject)
next
  fix a assume all: "\<forall>op \<in> set (p_operations p). \<forall>a. selected_for (groups_of as) (op_id op) = [a] \<longrightarrow> P a"
    and "a \<in> set as"
  then show "P a" using complete_operation [OF assms] by metis
qed

lemma complete_dom: "complete p as \<Longrightarrow> dom (schedule_of as) = set (operation_ids p)"
  by (auto simp: schedule_of_def complete_def dom_map_of_conv_image_fst image_image)

subsection \<open>One operation\<close>

lemma option_on_iff: "r \<in> set (option_resource_ids op) \<longleftrightarrow> (\<exists>opt. option_on op r = Some opt)"
proof -
  have "option_on op r = None \<longleftrightarrow> r \<notin> set (option_resource_ids op)"
    by (auto simp: option_on_def option_resource_ids_def find_None_iff)
  then show ?thesis by auto
qed

lemma expected_seconds_work:
  "option_on op r = Some opt \<Longrightarrow> expected_seconds op opt = Inr w \<longleftrightarrow> work_seconds op r = Some w"
  by (cases "op_status op") (auto simp: expected_seconds_def work_seconds_def split: option.splits)

text \<open>The rules C-003, C-005, C-006, C-007, C-010 and C-011 on one operation and its assignment.\<close>

definition operation_rules :: "problem \<Rightarrow> assignment list \<Rightarrow> operation_doc \<Rightarrow> assignment \<Rightarrow> bool" where
  "operation_rules p as op a \<longleftrightarrow>
     rule_c003 (groups_of as) op \<and> rule_c005 p a \<and> rule_c006 p (singles_of (groups_of as)) op
     \<and> rule_c007 p (groups_of as) op \<and> rule_c010 p (singles_of (groups_of as)) op \<and> rule_c011 p a"

lemma operation_rules_iff:
  assumes c: "complete p as" and a: "a \<in> set as" and op: "op \<in> set (p_operations p)" "op_id op = as_operation_id a"
  shows "operation_rules p as op a \<longleftrightarrow> slot_ok p op (slot_of a) \<and> declared p op a"
proof -
  note f = complete_fields [OF c a]
  define r s e where "r = sl_resource (slot_of a)" and "s = sl_start (slot_of a)" and "e = sl_end (slot_of a)"
  note f = complete_fields [OF c a, folded r_def s_def e_def]
  have facts: "problem_facts p" using c by (simp add: complete_def)
  then have tick: "0 < p_tick_seconds p" and d: "distinct (operation_ids p)" and hs: "representable (horizon_start p)"
    by (auto simp: problem_facts_def intro: parses_representable)
  have byid: "operation_by_id p (as_operation_id a) = Some op"
    using operation_by_id_member [OF d op(1)] op(2) by simp
  obtain op' :: operation_doc where "selected_for (groups_of as) (op_id op') = [a]" "op_id op' = as_operation_id a"
    "map_of (singles_of (groups_of as)) (op_id op') = Some a"
    using complete_operation [OF c a] by metis
  then have sel: "selected_for (groups_of as) (op_id op) = [a]" "map_of (singles_of (groups_of as)) (op_id op) = Some a"
    using op(2) by simp_all
  have rep: "as_start_at a = Some t \<Longrightarrow> representable t" "as_end_at a = Some t \<Longrightarrow> representable t" for t
    using c a by (auto simp: complete_def)
  have r3: "rule_c003 (groups_of as) op \<longleftrightarrow> r \<in> set (option_resource_ids op)"
    by (auto simp: rule_c003_def sel f)
  have r5: "rule_c005 p a \<longleftrightarrow> representable (tick_instant p s) \<and> representable (tick_instant p e)
        \<and> (\<forall>u \<in> set (p_intervals p). u_resource_id u = r \<longrightarrow>
             tick_instant p e \<le> utc (u_start_utc u) \<or> utc (u_end_utc u) \<le> tick_instant p s)"
    by (auto simp: rule_c005_def f)
  have r6: "rule_c006 p (singles_of (groups_of as)) op \<longleftrightarrow> representable (tick_instant p s)
        \<and> utc (op_release_at_utc op) \<le> tick_instant p s \<and> utc (op_material_ready_at_utc op) \<le> tick_instant p s"
    by (auto simp: rule_c006_def sel f)
  have r10: "rule_c010 p (singles_of (groups_of as)) op \<longleftrightarrow>
      (\<exists>w. work_seconds op r = Some w \<and> e = s + ceil_div w (p_tick_seconds p)
         \<and> as_duration_ticks a = Some (e - s) \<and> as_duration_seconds a = work_seconds op r)"
    if "r \<in> set (option_resource_ids op)"
    using that by (auto simp: rule_c010_def sel f option_on_iff expected_seconds_work ceil_ticks_eq_ceil_div [OF tick])
  have r11: "op_status op = NOT_STARTED \<Longrightarrow> rule_c011 p a \<longleftrightarrow>
      as_start_at a = Some (tick_instant p s) \<and> as_end_at a = Some (tick_instant p e)
      \<and> representable (tick_instant p s) \<and> representable (tick_instant p e)
      \<and> 0 \<le> s \<and> tick_instant p e \<le> horizon_end p"
    using f tick tick_instant_le_iff [OF tick, of 0 s] by (auto simp: rule_c011_def byid)
  have r7: "op_status op = RUNNING \<Longrightarrow> rule_c007 p (groups_of as) op \<longleftrightarrow>
      op_assigned_resource_id op = Some r \<and> s = 0
      \<and> (\<exists>n. op_remaining_seconds op = Some n \<and> e = ceil_div n (p_tick_seconds p))
      \<and> representable (tick_instant p e) \<and> as_start_at a = Some (tick_instant p s) \<and> as_end_at a = Some (tick_instant p e)"
    using hs by (auto simp: rule_c007_def sel f ceil_ticks_eq_ceil_div [OF tick] Let_def)
  have skip: "op_status op = NOT_STARTED \<Longrightarrow> rule_c007 p (groups_of as) op"
    "op_status op = RUNNING \<Longrightarrow> rule_c011 p a"
    by (simp_all add: rule_c007_def rule_c011_def byid)
  have dec: "declared p op a \<longleftrightarrow> as_start_at a = Some (tick_instant p s) \<and> as_end_at a = Some (tick_instant p e)
      \<and> as_duration_ticks a = Some (e - s) \<and> as_duration_seconds a = work_seconds op r"
    by (simp add: declared_def r_def s_def e_def)
  note S = slot_ok_def [of p op "slot_of a", folded r_def s_def e_def]
  show ?thesis
  proof (cases "r \<in> set (option_resource_ids op)")
    case False
    then show ?thesis by (simp add: operation_rules_def r3 S)
  next
    case True
    note R = operation_rules_def [of p as op a] r3 r5 r6 r10 [OF True] S dec
    show ?thesis
    proof (cases "op_status op")
      case NOT_STARTED
      then show ?thesis unfolding R r11 [OF NOT_STARTED] using skip(1) [OF NOT_STARTED] rep True by auto
    next
      case RUNNING
      then show ?thesis unfolding R r7 [OF RUNNING] using skip(2) [OF RUNNING] rep True hs
        by (auto simp: work_seconds_def)
    qed
  qed
qed

subsection \<open>Endpoints, edges, locks and exclusivity\<close>

lemma map_of_rev_distinct: "distinct (map fst xs) \<Longrightarrow> map_of (rev xs) = map_of xs"
  by (subst map_of_inject_set) (simp_all flip: rev_map)

lemma map_of_find: "map_of (map (\<lambda>a. (k a, v a)) xs) i = map_option v (find (\<lambda>a. k a = i) xs)"
  by (induction xs) auto

lemma map_of_map_value: "map_of (map (\<lambda>(i, a). (i, f i a)) xs) i = map_option (f i) (map_of xs i)"
  by (induction xs) auto

definition span_endpoint :: "string \<Rightarrow> string \<times> instant \<times> instant \<Rightarrow> endpoint" where
  "span_endpoint i x = (case x of (r, s, e) \<Rightarrow>
     \<lparr>ep_operation_id = i, ep_resource_id = r, ep_start_at = s, ep_end_at = e\<rparr>)"

lemma singles_keys: "distinct (map fst (singles_of (groups_of as)))"
proof -
  have "distinct (map fst (groups_of as))" by (simp add: groups_keys)
  then have "distinct (map fst (filter P (groups_of as)))" for P
    by (rule distinct_map_filter)
  then show ?thesis by (simp add: singles_of_def comp_def case_prod_beta)
qed

lemma complete_singles:
  assumes "complete p as" and "(i, a) \<in> set (singles_of (groups_of as))"
  shows "a \<in> set as" "as_operation_id a = i"
proof -
  have "map_of (singles_of (groups_of as)) i = Some a"
    using assms(2) singles_keys by (intro map_of_is_SomeI)
  then have "selected_for (groups_of as) i = [a]"
    by (auto simp: map_of_singles split: list.splits)
  then have "set [a] = set (filter (\<lambda>a. as_operation_id a = i) as)"
    by (metis selected_for_groups set_sort)
  then show "a \<in> set as" "as_operation_id a = i" by auto
qed

lemma schedule_of_singles:
  assumes "complete p as"
  shows "schedule_of as i = map_option slot_of (map_of (singles_of (groups_of as)) i)"
proof (cases "i \<in> set (operation_ids p)")
  case True
  then show ?thesis using complete_assignment [OF assms True] by (metis option.simps(9))
next
  case False
  then have "i \<notin> as_operation_id ` set as" using assms by (simp add: complete_def)
  then have "selected_for (groups_of as) i = []" "schedule_of as i = None"
    by (auto simp: selected_for_def map_of_groups schedule_of_def map_of_eq_None_iff)
  then show ?thesis by (simp add: map_of_singles)
qed

lemma endpoint_for_span:
  assumes c: "complete p as"
    and rep: "\<forall>a \<in> set as. representable (tick_instant p (sl_start (slot_of a)))
      \<and> representable (tick_instant p (sl_end (slot_of a)))"
  obtains eps where "endpoint_maps p (singles_of (groups_of as)) = Inr eps"
    "\<And>i. endpoint_for eps i = map_option (span_endpoint i) (span p (schedule_of as) i)"
proof -
  let ?s = "singles_of (groups_of as)"
  define ep where "ep = (\<lambda>i a. span_endpoint i (sl_resource (slot_of a),
    tick_instant p (sl_start (slot_of a)), tick_instant p (sl_end (slot_of a))))"
  define eps where "eps = map (\<lambda>(i, a). (i, ep i a)) ?s"
  have "single_endpoint p x = Inr [case x of (i, a) \<Rightarrow> (i, ep i a)]" if "x \<in> set ?s" for x
  proof (cases x)
    case (Pair i a)
    then have a: "a \<in> set as" using complete_singles [OF c] that by blast
    show ?thesis using complete_fields [OF c a] rep a Pair
      by (simp add: single_endpoint_def restore_tick_eq ep_def span_endpoint_def)
  qed
  then have "collect_res (single_endpoint p) ?s = Inr (concat (map (\<lambda>x. [case x of (i, a) \<Rightarrow> (i, ep i a)]) ?s))"
    by (rule collect_res_total)
  then have eq: "endpoint_maps p ?s = Inr (eps @ map anchor_endpoint (p_anchors p))"
    by (simp add: endpoint_maps_def eps_def)
  have "distinct (map fst eps)" using singles_keys by (simp add: eps_def comp_def case_prod_beta)
  then have eps: "map_of (rev eps) i = map_option (ep i) (map_of ?s i)" for i
    by (simp add: map_of_rev_distinct eps_def map_of_map_value)
  have "map_of (rev (map anchor_endpoint (p_anchors p))) i =
      map_option (\<lambda>a. snd (anchor_endpoint a)) (last_with (\<lambda>a. a_operation_id a = i) (p_anchors p))" for i
    unfolding last_with_def anchor_endpoint_def rev_map by (simp add: map_of_find)
  then have "endpoint_for (eps @ map anchor_endpoint (p_anchors p)) i
      = map_option (span_endpoint i) (span p (schedule_of as) i)" for i
    by (auto simp: endpoint_for_def map_add_def eps span_def schedule_of_singles [OF c] anchor_endpoint_def
        span_endpoint_def ep_def option.map_comp comp_def split: option.splits dest: last_with_Some)
  with eq show ?thesis by (rule that)
qed

text \<open>
  Between two spans whose distance is a whole number of seconds, or with the successor after the
  predecessor, the rules C-002 and C-009 are \<open>lag_ok\<close>.
\<close>

definition whole_or_later :: "instant \<Rightarrow> instant \<Rightarrow> bool" where
  "whole_or_later earlier later \<longleftrightarrow> earlier \<le> later \<or> (later - earlier) mod micros = 0"

lemma rules_lag_ok:
  assumes "endpoint_for eps (e_predecessor e) = Some (span_endpoint i (r, s, t))"
    and "endpoint_for eps (e_successor e) = Some (span_endpoint j (r', s', t'))"
    and "workshop_of p r \<noteq> None" "workshop_of p r' \<noteq> None"
    and "whole_or_later t s'" and "edge_ok p e"
  shows "rule_c002 eps e \<and> rule_c009 p eps e \<longleftrightarrow> lag_ok p e (r, s, t) (r', s', t')"
proof -
  have m: "0 \<le> e_min_lag_seconds e" "0 \<le> e_transport_lag_seconds e"
    "\<And>m. e_max_lag_seconds e = Some m \<Longrightarrow> 0 \<le> m"
    using assms(6) by (force simp: edge_ok_def)+
  note w = assms(5) [unfolded whole_or_later_def]
  have "rule_c002 eps e \<longleftrightarrow> t + e_min_lag_seconds e * micros \<le> s'
      \<and> (\<forall>m. e_max_lag_seconds e = Some m \<longrightarrow> (s' - t) div micros \<le> m)"
    using m(3) by (auto simp: rule_c002_def assms(1,2) span_endpoint_def Let_def
        trunc_ge_iff [OF w m(1)] trunc_le_iff)
  moreover have "rule_c009 p eps e \<longleftrightarrow>
      (workshop_of p r \<noteq> workshop_of p r' \<longrightarrow> t + e_transport_lag_seconds e * micros \<le> s')"
    using assms(3,4) by (auto simp: rule_c009_def assms(1,2) span_endpoint_def trunc_ge_iff [OF w m(2)])
  ultimately show ?thesis by (auto simp: lag_ok_def)
qed

lemma tick_instant_diff_whole: "(tick_instant p s - tick_instant p t) mod micros = 0"
proof -
  have "tick_instant p s - tick_instant p t = (s - t) * p_tick_seconds p * micros"
    by (simp add: tick_instant_def algebra_simps)
  then show ?thesis by simp
qed

definition slots_ok :: "problem \<Rightarrow> schedule \<Rightarrow> bool" where
  "slots_ok p \<sigma> \<longleftrightarrow> dom \<sigma> = set (operation_ids p)
     \<and> (\<forall>op \<in> set (p_operations p). \<forall>s. \<sigma> (op_id op) = Some s \<longrightarrow> slot_ok p op s)"

lemma slot_ok_start: "slot_ok p op s \<Longrightarrow> 0 \<le> sl_start s"
  by (simp add: slot_ok_def split: op_status.splits)

lemma slot_ok_resource:
  assumes "problem_facts p" "op \<in> set (p_operations p)" "slot_ok p op s"
  shows "sl_resource s \<in> set (resource_ids p)"
  using assms by (auto simp: problem_facts_def list_all_iff operation_ok_def slot_ok_def option_resource_ids_def)

lemma anchor_facts:
  assumes "problem_facts p" "last_with (\<lambda>a. a_operation_id a = i) (p_anchors p) = Some a"
  shows "i \<in> set (anchor_ids p)" "anchor_ok p a"
  using assms by (auto simp: problem_facts_def list_all_iff anchor_ids_def dest!: last_with_Some)

text \<open>The span of an operation is its slot.\<close>

lemma span_operation:
  assumes "problem_facts p" "slots_ok p \<sigma>" "i \<in> set (operation_ids p)"
  obtains op s where "op \<in> set (p_operations p)" "op_id op = i" "\<sigma> i = Some s" "slot_ok p op s"
    "span p \<sigma> i = Some (sl_resource s, tick_instant p (sl_start s), tick_instant p (sl_end s))"
proof -
  obtain op where op: "op \<in> set (p_operations p)" "op_id op = i"
    using assms(3) by (auto simp: operation_ids_def)
  obtain s where s: "\<sigma> i = Some s" using assms(2,3) unfolding slots_ok_def by blast
  moreover have "slot_ok p op s" using assms(2) op s by (auto simp: slots_ok_def)
  moreover have "last_with (\<lambda>a. a_operation_id a = i) (p_anchors p) = None"
  proof (cases "last_with (\<lambda>a. a_operation_id a = i) (p_anchors p)")
    case (Some a)
    then have "i \<in> set (anchor_ids p)" by (rule anchor_facts(1) [OF assms(1)])
    then show ?thesis using assms(1,3) unfolding problem_facts_def by blast
  qed
  ultimately show ?thesis using op by (intro that) (auto simp: span_def)
qed

lemma span_predecessor:
  assumes "problem_facts p" "slots_ok p \<sigma>" "e \<in> set (p_edges p)"
  obtains r s t where "span p \<sigma> (e_predecessor e) = Some (r, s, t)" "r \<in> set (resource_ids p)"
    "\<And>k. 0 \<le> k \<Longrightarrow> whole_or_later t (tick_instant p k)"
proof (cases "last_with (\<lambda>a. a_operation_id a = e_predecessor e) (p_anchors p)")
  case (Some a)
  then have "anchor_ok p a" using anchor_facts(2) [OF assms(1)] by blast
  moreover have "0 < p_tick_seconds p" using assms(1) by (simp add: problem_facts_def)
  then have "0 \<le> k \<Longrightarrow> tick_instant p 0 \<le> tick_instant p k" for k by (simp only: tick_instant_le_iff)
  then have "0 \<le> k \<Longrightarrow> horizon_start p \<le> tick_instant p k" for k by simp
  ultimately show ?thesis using Some
    by (intro that) (auto simp: span_def anchor_ok_def whole_or_later_def intro: order_trans)
next
  case None
  have "edge_ok p e" using assms(1,3) by (simp add: problem_facts_def list_all_iff)
  moreover have "e_predecessor e \<notin> set (anchor_ids p)"
    using None by (auto simp: last_with_None_iff anchor_ids_def)
  ultimately have "e_predecessor e \<in> set (operation_ids p)" by (simp add: edge_ok_def)
  then show ?thesis using span_operation [OF assms(1,2)] that slot_ok_resource [OF assms(1)] tick_instant_diff_whole
    unfolding whole_or_later_def by metis
qed

lemma edges_iff:
  assumes c: "complete p as" and ok: "slots_ok p (schedule_of as)"
    and eps: "\<And>i. endpoint_for eps i = map_option (span_endpoint i) (span p (schedule_of as) i)"
    and e: "e \<in> set (p_edges p)"
  shows "rule_c002 eps e \<and> rule_c009 p eps e \<longleftrightarrow> edge_respected p (schedule_of as) e"
proof -
  have f: "problem_facts p" using c by (simp add: complete_def)
  then have eok: "edge_ok p e" using e by (simp add: problem_facts_def list_all_iff)
  then have "e_successor e \<in> set (operation_ids p)" by (simp add: edge_ok_def)
  then obtain op s' where s': "op \<in> set (p_operations p)" "slot_ok p op s'"
    "span p (schedule_of as) (e_successor e) =
      Some (sl_resource s', tick_instant p (sl_start s'), tick_instant p (sl_end s'))"
    using span_operation [OF f ok] by metis
  obtain r s t where pre: "span p (schedule_of as) (e_predecessor e) = Some (r, s, t)" "r \<in> set (resource_ids p)"
    "whole_or_later t (tick_instant p (sl_start s'))"
    using span_predecessor [OF f ok e] slot_ok_start [OF s'(2)] by metis
  have ws: "x \<in> set (resource_ids p) \<Longrightarrow> workshop_of p x \<noteq> None" for x
    using resource_by_id_ex [of x p] by (auto simp: workshop_of_def)
  have "rule_c002 eps e \<and> rule_c009 p eps e \<longleftrightarrow>
      lag_ok p e (r, s, t) (sl_resource s', tick_instant p (sl_start s'), tick_instant p (sl_end s'))"
    by (rule rules_lag_ok [of _ _ "e_predecessor e" _ _ _ "e_successor e"])
      (use pre s' ws slot_ok_resource [OF f s'(1,2)] eok in \<open>simp_all add: eps\<close>)
  then show ?thesis using pre(1) s'(3) by (simp add: edge_respected_def)
qed

lemma locks_iff:
  assumes c: "complete p as" and l: "l \<in> set (p_locks p)"
    and rep: "\<forall>a \<in> set as. representable (tick_instant p (sl_start (slot_of a)))
      \<and> representable (tick_instant p (sl_end (slot_of a)))"
  shows "rule_c008 p (groups_of as) l \<longleftrightarrow> lock_respected p (schedule_of as) l"
proof -
  have "l_operation_id l \<in> set (operation_ids p)"
    using c l by (auto simp: complete_def problem_facts_def list_all_iff lock_ok_def)
  then obtain a where a: "a \<in> set as" "selected_for (groups_of as) (l_operation_id l) = [a]"
    "schedule_of as (l_operation_id l) = Some (slot_of a)"
    using complete_assignment [OF c] by metis
  show ?thesis
    using complete_fields [OF c a(1)] rep a(1) by (auto simp: rule_c008_def lock_respected_def a(2,3))
qed

lemma exclusive_iff:
  assumes c: "complete p as" and ok: "slots_ok p (schedule_of as)"
  shows "rule_c004 p as \<longleftrightarrow> exclusive (schedule_of as)"
proof -
  have f: "problem_facts p" using c by (simp add: complete_def)
  have unit: "on_unit_resource p a" if a: "a \<in> set as" for a
  proof -
    obtain op where op: "op \<in> set (p_operations p)" "schedule_of as (op_id op) = Some (slot_of a)"
      using complete_operation [OF c a] by metis
    then have "slot_ok p op (slot_of a)" using ok by (auto simp: slots_ok_def)
    then obtain res where res: "resource_by_id p (sl_resource (slot_of a)) = Some res"
      using resource_by_id_ex slot_ok_resource [OF f op(1)] by metis
    then have "r_capacity res = 1"
      using f by (auto simp: problem_facts_def list_all_iff resource_by_id_def dest!: last_with_Some)
    then show ?thesis using res complete_fields [OF c a] by (simp add: on_unit_resource_def interval_is_usable_iff)
  qed
  have idx: "schedule_of as i = Some s \<longleftrightarrow> (\<exists>a \<in> set as. as_operation_id a = i \<and> slot_of a = s)" for i s
    using c unfolding schedule_of_def by (subst map_of_eq_Some_iff) (auto simp: complete_def comp_def)
  have ne: "a \<in> set as \<Longrightarrow> b \<in> set as \<Longrightarrow> a \<noteq> b \<longleftrightarrow> as_operation_id a \<noteq> as_operation_id b" for a b
    using c by (auto simp: complete_def distinct_map inj_on_def)
  have "rule_c004 p as \<longleftrightarrow> (\<forall>a \<in> set as. \<forall>b \<in> set as. as_operation_id a \<noteq> as_operation_id b \<longrightarrow>
      sl_resource (slot_of a) = sl_resource (slot_of b) \<longrightarrow>
      sl_end (slot_of a) \<le> sl_start (slot_of b) \<or> sl_end (slot_of b) \<le> sl_start (slot_of a))"
    unfolding rule_c004_def using unit complete_fields(1-3) [OF c]
    by (auto simp: overlapping_def ne not_less)
  also have "\<dots> \<longleftrightarrow> exclusive (schedule_of as)" unfolding exclusive_def idx by blast
  finally show ?thesis .
qed

subsection \<open>A clean report\<close>

definition passes :: "problem \<Rightarrow> assignment list \<Rightarrow> bool" where
  "passes p as \<longleftrightarrow>
     (let g = groups_of as; singles = singles_of g
      in rule_c001 p as \<and> rule_c004 p as
         \<and> (\<exists>eps. endpoint_maps p singles = Inr eps
              \<and> (\<forall>e \<in> set (p_edges p). rule_c002 eps e \<and> rule_c009 p eps e))
         \<and> (\<forall>a \<in> set as. rule_c005 p a \<and> rule_c011 p a)
         \<and> (\<forall>op \<in> set (p_operations p). rule_c003 g op \<and> rule_c006 p singles op
              \<and> rule_c007 p g op \<and> rule_c010 p singles op)
         \<and> (\<forall>an \<in> set (p_anchors p). selected_for g (a_operation_id an) = [])
         \<and> (\<forall>l \<in> set (p_locks p). rule_c008 p g l))"

lemma evaluate_clean_iffs:
  "evaluate_c002 p eps = [] \<longleftrightarrow> (\<forall>e \<in> set (p_edges p). rule_c002 eps e)"
  "evaluate_c003 p g = [] \<longleftrightarrow> (\<forall>op \<in> set (p_operations p). rule_c003 g op)"
  "evaluate_c005 p as = Inr [] \<longleftrightarrow> (\<forall>a \<in> set as. rule_c005 p a)"
  "evaluate_c006 p s = Inr [] \<longleftrightarrow> (\<forall>op \<in> set (p_operations p). rule_c006 p s op)"
  "evaluate_c007 p g = Inr [] \<longleftrightarrow> (\<forall>op \<in> set (p_operations p). rule_c007 p g op)
     \<and> (\<forall>an \<in> set (p_anchors p). selected_for g (a_operation_id an) = [])"
  "evaluate_c008 p g = Inr [] \<longleftrightarrow> (\<forall>l \<in> set (p_locks p). rule_c008 p g l)"
  "evaluate_c009 p eps = [] \<longleftrightarrow> (\<forall>e \<in> set (p_edges p). rule_c009 p eps e)"
  "evaluate_c010 p s = Inr [] \<longleftrightarrow> (\<forall>op \<in> set (p_operations p). rule_c010 p s op)"
  "evaluate_c011 p as = Inr [] \<longleftrightarrow> (\<forall>a \<in> set as. rule_c011 p a)"
  using c002.row_clean_iff c003.row_clean_iff c009.row_clean_iff
  by (auto simp: evaluate_c002_def evaluate_c003_def evaluate_c009_def evaluate_c005_def evaluate_c006_def
      evaluate_c007_def evaluate_c008_def evaluate_c010_def evaluate_c011_def c005.clean_iff c006.clean_iff
      c007.clean_iff c008.clean_iff c010.clean_iff c011.clean_iff c007_anchor_def Let_def res_simps)

lemma collect_clean_iff:
  "collect_violations p cand = Inr [] \<longleftrightarrow> (\<exists>as. materialize_assignments p cand = (as, []) \<and> passes p as)"
proof -
  obtain as ms where m: "materialize_assignments p cand = (as, ms)" by fastforce
  have "distinct as" using materialize_distinct [of p cand] m by simp
  then have "collect_violations p cand = Inr [] \<longleftrightarrow>
     ms = [] \<and> rule_c001 p as \<and> rule_c004 p as
     \<and> (\<exists>eps. endpoint_maps p (singles_of (groups_of as)) = Inr eps
          \<and> evaluate_c002 p eps = [] \<and> evaluate_c009 p eps = [])
     \<and> evaluate_c003 p (groups_of as) = [] \<and> evaluate_c005 p as = Inr []
     \<and> evaluate_c006 p (singles_of (groups_of as)) = Inr [] \<and> evaluate_c007 p (groups_of as) = Inr []
     \<and> evaluate_c008 p (groups_of as) = Inr [] \<and> evaluate_c010 p (singles_of (groups_of as)) = Inr []
     \<and> evaluate_c011 p as = Inr []"
    unfolding collect_violations_def m
    by (auto simp: Let_def res_simps evaluate_c001_clean_iff evaluate_c004_clean_iff)
  also have "\<dots> \<longleftrightarrow> ms = [] \<and> passes p as"
    unfolding passes_def Let_def evaluate_clean_iffs ball_conj_distrib by (safe; simp)
  finally show ?thesis using m by auto
qed

lemma distinct_counts: "(\<And>x. x \<in> set xs \<Longrightarrow> count_list xs x = 1) \<Longrightarrow> distinct xs"
proof (induction xs)
  case (Cons y ys)
  have "y \<notin> set ys" using Cons.prems [of y] by (simp add: count_list_0_iff)
  moreover have "count_list ys x = 1" if "x \<in> set ys" for x
    using Cons.prems [of x] that \<open>y \<notin> set ys\<close> by (auto split: if_splits)
  ultimately show ?case using Cons.IH by simp
qed simp

lemma count_list_distinct: "distinct xs \<Longrightarrow> x \<in> set xs \<Longrightarrow> count_list xs x = 1"
  by (induction xs) (auto simp: count_list_0_iff)

lemma passes_complete:
  assumes f: "problem_facts p" and ps: "passes p as"
    and clean: "\<forall>a \<in> set as. as_resource_id a \<noteq> None \<and> interval_is_usable a
          \<and> (\<forall>t. as_start_at a = Some t \<longrightarrow> representable t) \<and> (\<forall>t. as_end_at a = Some t \<longrightarrow> representable t)"
  shows "complete p as"
proof -
  have r1: "rule_c001 p as" and anc: "\<forall>an \<in> set (p_anchors p). selected_for (groups_of as) (a_operation_id an) = []"
    using ps by (auto simp: passes_def Let_def)
  have "as_operation_id a \<notin> set (anchor_ids p)" if "a \<in> set as" for a
  proof
    assume "as_operation_id a \<in> set (anchor_ids p)"
    then have "length (selected_for (groups_of as) (as_operation_id a)) = 0"
      using anc by (auto simp: anchor_ids_def)
    then show False using that by (simp add: selected_for_length count_list_0_iff)
  qed
  then have sub: "as_operation_id ` set as \<subseteq> set (operation_ids p)"
    using r1 by (auto simp: rule_c001_def)
  moreover have "set (operation_ids p) \<subseteq> as_operation_id ` set as"
  proof
    fix i assume "i \<in> set (operation_ids p)"
    then have "count_list (map as_operation_id as) i \<noteq> 0" using r1 by (simp add: rule_c001_def)
    then show "i \<in> as_operation_id ` set as" by (simp add: count_list_0_iff)
  qed
  moreover have "distinct (map as_operation_id as)"
    using r1 sub by (intro distinct_counts) (auto simp: rule_c001_def)
  ultimately show ?thesis using f clean by (simp add: complete_def)
qed

text \<open>Every operation has its assignment, and it writes its slot down correctly.\<close>

definition all_declared :: "problem \<Rightarrow> assignment list \<Rightarrow> bool" where
  "all_declared p as \<longleftrightarrow>
     (\<forall>op \<in> set (p_operations p). \<forall>a. selected_for (groups_of as) (op_id op) = [a] \<longrightarrow> declared p op a)"

lemma complete_operation_rules:
  assumes c: "complete p as"
  shows "(\<forall>a \<in> set as. rule_c005 p a \<and> rule_c011 p a)
      \<and> (\<forall>op \<in> set (p_operations p). rule_c003 (groups_of as) op \<and> rule_c006 p (singles_of (groups_of as)) op
           \<and> rule_c007 p (groups_of as) op \<and> rule_c010 p (singles_of (groups_of as)) op)
    \<longleftrightarrow> slots_ok p (schedule_of as) \<and> all_declared p as"
proof -
  have sel: "\<exists>a. a \<in> set as \<and> op_id op = as_operation_id a \<and> selected_for (groups_of as) (op_id op) = [a]
      \<and> schedule_of as (op_id op) = Some (slot_of a)" if "op \<in> set (p_operations p)" for op
  proof -
    have "op_id op \<in> set (operation_ids p)" using that by (simp add: operation_ids_def)
    then show ?thesis using complete_assignment [OF c] by metis
  qed
  have "(\<forall>op \<in> set (p_operations p). \<forall>a. selected_for (groups_of as) (op_id op) = [a] \<longrightarrow> operation_rules p as op a)
    \<longleftrightarrow> (\<forall>op \<in> set (p_operations p). \<forall>a. selected_for (groups_of as) (op_id op) = [a] \<longrightarrow>
          slot_ok p op (slot_of a) \<and> declared p op a)"
    using operation_rules_iff [OF c] sel by (metis list.inject)
  moreover have "(\<forall>op \<in> set (p_operations p). \<forall>a. selected_for (groups_of as) (op_id op) = [a] \<longrightarrow>
        slot_ok p op (slot_of a)) \<longleftrightarrow> slots_ok p (schedule_of as)"
    unfolding slots_ok_def using sel complete_dom [OF c] by (metis list.inject option.inject)
  moreover have "(\<forall>op \<in> set (p_operations p). P op) \<longleftrightarrow>
      (\<forall>op \<in> set (p_operations p). \<forall>a. selected_for (groups_of as) (op_id op) = [a] \<longrightarrow> P op)" for P
    using sel by metis
  ultimately show ?thesis
    unfolding complete_ball [OF c, of "\<lambda>a. rule_c005 p a \<and> rule_c011 p a"] operation_rules_def all_declared_def
    by blast
qed

lemma declared_representable:
  assumes c: "complete p as" and d: "all_declared p as" and a: "a \<in> set as"
  shows "representable (tick_instant p (sl_start (slot_of a))) \<and> representable (tick_instant p (sl_end (slot_of a)))"
proof -
  have "\<forall>a \<in> set as. as_start_at a = Some (tick_instant p (sl_start (slot_of a)))
      \<and> as_end_at a = Some (tick_instant p (sl_end (slot_of a)))"
    using d unfolding complete_ball [OF c] all_declared_def declared_def by blast
  then show ?thesis using c a by (simp add: complete_def)
qed

lemma complete_rule_c001:
  assumes "complete p as"
  shows "rule_c001 p as" "\<forall>an \<in> set (p_anchors p). selected_for (groups_of as) (a_operation_id an) = []"
proof -
  have ids: "set (map as_operation_id as) = set (operation_ids p)" and d: "distinct (map as_operation_id as)"
    and disj: "set (operation_ids p) \<inter> set (anchor_ids p) = {}"
    using assms by (simp_all add: complete_def problem_facts_def)
  then show "rule_c001 p as" by (auto simp: rule_c001_def count_list_distinct)
  show "\<forall>an \<in> set (p_anchors p). selected_for (groups_of as) (a_operation_id an) = []"
  proof
    fix an assume "an \<in> set (p_anchors p)"
    then have "a_operation_id an \<notin> set (map as_operation_id as)"
      using ids disj by (auto simp: anchor_ids_def)
    then show "selected_for (groups_of as) (a_operation_id an) = []"
      by (metis count_list_0_iff length_0_conv selected_for_length)
  qed
qed

lemma passes_iff:
  assumes c: "complete p as"
  shows "passes p as \<longleftrightarrow> feasible p (schedule_of as) \<and> all_declared p as"
proof (cases "slots_ok p (schedule_of as) \<and> all_declared p as")
  case True
  then have rep: "\<forall>a \<in> set as. representable (tick_instant p (sl_start (slot_of a)))
      \<and> representable (tick_instant p (sl_end (slot_of a)))"
    using declared_representable [OF c] by blast
  obtain eps where eps: "endpoint_maps p (singles_of (groups_of as)) = Inr eps"
    "\<And>i. endpoint_for eps i = map_option (span_endpoint i) (span p (schedule_of as) i)"
    using endpoint_for_span [OF c rep] by metis
  have "passes p as \<longleftrightarrow> exclusive (schedule_of as)
      \<and> (\<forall>e \<in> set (p_edges p). edge_respected p (schedule_of as) e)
      \<and> (\<forall>l \<in> set (p_locks p). lock_respected p (schedule_of as) l)"
    using True complete_rule_c001 [OF c] edges_iff [OF c _ eps(2)] locks_iff [OF c _ rep] exclusive_iff [OF c]
      complete_operation_rules [OF c] eps(1)
    unfolding passes_def Let_def by simp
  then show ?thesis using True by (auto simp: feasible_def slots_ok_def)
next
  case False
  then show ?thesis
    using complete_operation_rules [OF c] unfolding passes_def Let_def feasible_def slots_ok_def by blast
qed

subsection \<open>Candidates and schedules\<close>

lemma instant_value_representable: "instant_value v = Some t \<Longrightarrow> representable t"
  by (cases v) (auto intro: parse_representable split: sum.splits)

lemma read_row_representable:
  assumes "clean_row raw"
  shows "as_start_at (read_row i raw) = Some t \<Longrightarrow> representable t"
    "as_end_at (read_row i raw) = Some t \<Longrightarrow> representable t"
  using assms by (auto simp: clean_row_def read_row_def read_assignment_def dest: instant_value_representable)

lemma materialized_clean:
  assumes "materialize_assignments p cand = (as, [])"
  shows "\<forall>a \<in> set as. as_resource_id a \<noteq> None \<and> interval_is_usable a
    \<and> (\<forall>t. as_start_at a = Some t \<longrightarrow> representable t) \<and> (\<forall>t. as_end_at a = Some t \<longrightarrow> representable t)"
proof -
  obtain raws where "list_all clean_row raws" "as = map (\<lambda>(i, raw). read_row i raw) (enumerate 0 raws)"
    using assms by (auto simp: materialize_clean_iff)
  then have "\<exists>i raw. clean_row raw \<and> a = read_row i raw" if "a \<in> set as" for a
    using that by (auto simp: list_all_iff in_set_enumerate_eq) (metis nth_mem)
  then show ?thesis by (metis read_row_props(1,2) read_row_representable)
qed

text \<open>A row states the slot that is read from it when it declares it correctly.\<close>

lemma row_states_iff:
  assumes "clean_row (JObj obj)" and "operation_by_id p (as_operation_id (read_row n (JObj obj))) = Some op"
    and "\<exists>w. work_seconds op (sl_resource (slot_of (read_row n (JObj obj)))) = Some w"
  shows "row_states p obj (as_operation_id (read_row n (JObj obj))) (slot_of (read_row n (JObj obj)))
    \<longleftrightarrow> declared p op (read_row n (JObj obj))"
  using assms by (auto simp: clean_row_def read_row_def read_assignment_def row_states_def declared_def slot_of_def)

lemma row_states_clean:
  assumes "row_states p obj i s" and "sl_start s < sl_end s"
  shows "clean_row (JObj obj)" "as_operation_id (read_row n (JObj obj)) = i" "slot_of (read_row n (JObj obj)) = s"
    "operation_by_id p i = Some op \<Longrightarrow> declared p op (read_row n (JObj obj))"
  using assms by (auto simp: row_states_def clean_row_def read_row_def read_assignment_def slot_of_def declared_def)

lemma slot_ok_positive:
  assumes f: "problem_facts p" and op: "op \<in> set (p_operations p)" and s: "slot_ok p op s"
  shows "sl_start s < sl_end s" "\<exists>w. work_seconds op (sl_resource s) = Some w"
proof -
  have ok: "operation_ok p op" and tick: "0 < p_tick_seconds p"
    using f op by (auto simp: problem_facts_def list_all_iff)
  obtain w where w: "work_seconds op (sl_resource s) = Some w" "sl_end s = sl_start s + ceil_div w (p_tick_seconds p)"
    using s by (auto simp: slot_ok_def)
  have "0 < w"
    using ok w(1) by (cases "op_status op")
      (auto simp: work_seconds_def operation_ok_def option_on_def dest: find_Some_set)
  then show "sl_start s < sl_end s" "\<exists>w. work_seconds op (sl_resource s) = Some w"
    using w ceil_div_pos [OF tick] by auto
qed

lemma feasible_slot:
  assumes "problem_facts p" "feasible p \<sigma>" "\<sigma> i = Some s"
  obtains op where "op \<in> set (p_operations p)" "op_id op = i" "operation_by_id p i = Some op" "slot_ok p op s"
proof -
  have "i \<in> set (operation_ids p)" using assms(2,3) unfolding feasible_def by blast
  then obtain op where op: "operation_by_id p i = Some op" using operation_by_id_ex by metis
  then show ?thesis
    using assms(2,3) operation_by_id_Some [OF op] by (intro that) (auto simp: feasible_def)
qed

lemma schedule_of_eqI:
  assumes "distinct (map as_operation_id as)" and "as_operation_id ` set as = dom \<sigma>"
    and "\<And>a. a \<in> set as \<Longrightarrow> \<sigma> (as_operation_id a) = Some (slot_of a)"
  shows "schedule_of as = \<sigma>"
proof
  fix i
  show "schedule_of as i = \<sigma> i"
  proof (cases "i \<in> dom \<sigma>")
    case True
    then obtain a where a: "a \<in> set as" "as_operation_id a = i" using assms(2) by force
    then have "(i, slot_of a) \<in> set (map (\<lambda>a. (as_operation_id a, slot_of a)) as)" by force
    then show ?thesis
      using assms(1,3) a by (auto simp: schedule_of_def comp_def intro!: map_of_is_SomeI)
  next
    case False
    then have "i \<notin> as_operation_id ` set as" using assms(2) by simp
    then have "schedule_of as i = None" by (force simp: schedule_of_def map_of_eq_None_iff)
    with False show ?thesis by (simp add: domIff)
  qed
qed

lemma represents_materialized:
  assumes f: "problem_facts p" and fe: "feasible p \<sigma>" and rp: "represents p cand \<sigma>"
  obtains as where "materialize_assignments p cand = (as, [])" "complete p as"
    "schedule_of as = \<sigma>" "all_declared p as"
proof -
  obtain raws ids where raws: "dict_get cand ''assignments'' = JArr raws" "distinct ids" "set ids = dom \<sigma>"
    "list_all2 (\<lambda>raw i. \<exists>obj s. raw = JObj obj \<and> \<sigma> i = Some s \<and> row_states p obj i s) raws ids"
    and ref: "reference_matches p (dict_get cand ''problem'')"
    using rp by (auto simp: represents_def)
  define as where "as = map (\<lambda>(i, raw). read_row i raw) (enumerate 0 raws)"
  have row: "clean_row (raws ! n) \<and> as_operation_id (read_row n (raws ! n)) = ids ! n
      \<and> \<sigma> (ids ! n) = Some (slot_of (read_row n (raws ! n)))
      \<and> (\<forall>op. operation_by_id p (ids ! n) = Some op \<longrightarrow> declared p op (read_row n (raws ! n)))"
    if n: "n < length raws" for n
  proof -
    obtain obj s where o: "raws ! n = JObj obj" "\<sigma> (ids ! n) = Some s" "row_states p obj (ids ! n) s"
      using raws(4) n by (auto simp: list_all2_conv_all_nth)
    obtain op where op: "op \<in> set (p_operations p)" "slot_ok p op s"
      using feasible_slot [OF f fe o(2)] by metis
    note rs = row_states_clean [OF o(3) slot_ok_positive(1) [OF f op]]
    show ?thesis using rs(1-3) rs(4) o by metis
  qed
  have len: "length raws = length ids" using raws(4) by (rule list_all2_lengthD)
  have ids: "map as_operation_id as = ids"
    using row len by (auto simp: as_def nth_enumerate_eq intro!: nth_equalityI)
  have mem: "\<exists>n < length raws. a = read_row n (raws ! n)" if "a \<in> set as" for a
    using that by (auto simp: as_def in_set_enumerate_eq)
  have mat: "materialize_assignments p cand = (as, [])"
    using raws(1) ref row by (auto simp: materialize_clean_iff as_def list_all_length)
  have img: "as_operation_id ` set as = dom \<sigma>" using ids raws(3) by (metis set_map)
  have c: "complete p as"
    using f ids raws(2) img fe materialized_clean [OF mat] by (simp add: complete_def feasible_def)
  have "schedule_of as = \<sigma>"
  proof (rule schedule_of_eqI)
    show "distinct (map as_operation_id as)" using ids raws(2) by simp
    show "\<sigma> (as_operation_id a) = Some (slot_of a)" if "a \<in> set as" for a
      using mem [OF that] row by metis
  qed (rule img)
  moreover have "all_declared p as"
    unfolding all_declared_def
  proof (intro ballI allI impI)
    fix op a assume op: "op \<in> set (p_operations p)" and sel: "selected_for (groups_of as) (op_id op) = [a]"
    have "op_id op \<in> set (operation_ids p)" using op by (simp add: operation_ids_def)
    then have a: "a \<in> set as" "as_operation_id a = op_id op"
      using complete_assignment [OF c] sel by (metis list.inject)+
    have "operation_by_id p (op_id op) = Some op"
      using f op by (intro operation_by_id_member) (simp_all add: problem_facts_def)
    then show "declared p op a" using mem [OF a(1)] row a(2) by metis
  qed
  ultimately show ?thesis using that mat c by blast
qed

lemma materialized_represents:
  assumes mat: "materialize_assignments p cand = (as, [])" and c: "complete p as"
    and fe: "feasible p (schedule_of as)" and d: "all_declared p as"
  shows "represents p cand (schedule_of as)"
proof -
  have f: "problem_facts p" using c by (simp add: complete_def)
  obtain raws where raws: "reference_matches p (dict_get cand ''problem'')" "dict_get cand ''assignments'' = JArr raws"
    "list_all clean_row raws" "as = map (\<lambda>(i, raw). read_row i raw) (enumerate 0 raws)"
    using mat by (auto simp: materialize_clean_iff)
  have "\<exists>obj s. raws ! n = JObj obj \<and> schedule_of as (as_operation_id (as ! n)) = Some s
      \<and> row_states p obj (as_operation_id (as ! n)) s" if n: "n < length raws" for n
  proof -
    have an: "as ! n = read_row n (raws ! n)" "as ! n \<in> set as"
      using n raws(4) by (simp add: nth_enumerate_eq) (metis n raws(4) length_enumerate length_map nth_mem)
    have cl: "clean_row (raws ! n)" using raws(3) n by (simp add: list_all_length)
    then obtain obj where obj: "raws ! n = JObj obj" by (auto simp: clean_row_def)
    obtain op where op: "op \<in> set (p_operations p)" "op_id op = as_operation_id (as ! n)"
      "operation_by_id p (as_operation_id (as ! n)) = Some op"
      "selected_for (groups_of as) (op_id op) = [as ! n]" "schedule_of as (op_id op) = Some (slot_of (as ! n))"
      using complete_operation [OF c an(2)] by metis
    have "declared p op (as ! n)" using d op(1,4) by (auto simp: all_declared_def)
    moreover have "slot_ok p op (slot_of (as ! n))" using fe op(1,5) by (auto simp: feasible_def)
    ultimately show ?thesis
      using row_states_iff [of obj p n op] cl obj op slot_ok_positive(2) [OF f op(1)] an(1) by metis
  qed
  then have "list_all2 (\<lambda>raw i. \<exists>obj s. raw = JObj obj \<and> schedule_of as i = Some s \<and> row_states p obj i s)
      raws (map as_operation_id as)"
    using raws(4) by (auto simp: list_all2_conv_all_nth)
  moreover have "set (map as_operation_id as) = dom (schedule_of as)" "distinct (map as_operation_id as)"
    using c complete_dom [OF c] by (simp_all add: complete_def)
  ultimately show ?thesis using raws(1,2) unfolding represents_def by blast
qed

lemma collect_violations_correct:
  assumes "problem_facts p"
  shows "collect_violations p cand = Inr [] \<longleftrightarrow> (\<exists>\<sigma>. represents p cand \<sigma> \<and> feasible p \<sigma>)"
proof
  assume "collect_violations p cand = Inr []"
  then obtain as where as: "materialize_assignments p cand = (as, [])" "passes p as"
    by (auto simp: collect_clean_iff)
  have c: "complete p as" using passes_complete [OF assms as(2)] materialized_clean [OF as(1)] .
  then show "\<exists>\<sigma>. represents p cand \<sigma> \<and> feasible p \<sigma>"
    using as materialized_represents passes_iff by blast
next
  assume "\<exists>\<sigma>. represents p cand \<sigma> \<and> feasible p \<sigma>"
  then show "collect_violations p cand = Inr []"
    using represents_materialized [OF assms] passes_iff collect_clean_iff by metis
qed

lemma validated_problem_ok_iff:
  "validated_problem digest p = Inr u \<longleftrightarrow> accepted p \<and> p_problem_hash p = problem_v2_hash_for digest p"
  by (cases "validate_built_problem_v2 p") (auto simp: validated_problem_def accepted_def res_simps split: py_exn.splits)

lemma validate_pass_iff:
  "(\<exists>rep. validate_problem_schedule digest p cand = Inr rep \<and> rep_status rep = PASS) \<longleftrightarrow>
     accepted p \<and> p_problem_hash p = problem_v2_hash_for digest p
     \<and> (\<exists>\<sigma>. represents p cand \<sigma> \<and> feasible p \<sigma>)"
proof -
  have "(\<exists>rep. validate_problem_schedule digest p cand = Inr rep \<and> rep_status rep = PASS) \<longleftrightarrow>
      accepted p \<and> p_problem_hash p = problem_v2_hash_for digest p \<and> collect_violations p cand = Inr []"
    by (auto simp: validate_problem_schedule_def res_simps validated_problem_ok_iff Let_def sort_key_Nil_iff)
  then show ?thesis using collect_violations_correct accepted_facts by blast
qed

end
