(* ===== verification/Scheduler_Steps.thy ===== *)
theory Scheduler_Steps
  imports Reference_Scheduler Validator_Correct
begin

section \<open>Placing one operation\<close>

text \<open>
  A list of placements is a partial schedule. \<open>partial_ok\<close> says it satisfies every constraint that
  can be stated of the operations placed so far; \<open>partial_insert\<close> shows that a placement the code
  finds feasible extends it. Both phases of the scheduler, the fixed placements and the selection
  loop, rest on it.
\<close>

subsection \<open>Contexts\<close>

definition good_context :: "sched_context \<Rightarrow> bool" where
  "good_context cx \<longleftrightarrow> problem_facts (cx_problem cx) \<and> context_of (cx_problem cx) = Inr cx"

lemma exact_seconds_ok_iff:
  "exact_seconds a b = Inr s \<longleftrightarrow> a = b + s * micros"
proof
  assume "exact_seconds a b = Inr s"
  then have "(a - b) mod micros = 0" "s = (a - b) div micros"
    by (auto simp: exact_seconds_def split: if_splits)
  then have "a - b = s * micros" by auto
  then show "a = b + s * micros" by simp
next
  assume "a = b + s * micros"
  then show "exact_seconds a b = Inr s" by (simp add: exact_seconds_def micros_def)
qed

lemma horizon_tick_iff:
  assumes "good_context cx"
  shows "t \<le> cx_horizon_ticks cx \<longleftrightarrow> tick_instant (cx_problem cx) t \<le> horizon_end (cx_problem cx)"
proof -
  let ?p = "cx_problem cx"
  obtain s where s: "horizon_end ?p = horizon_start ?p + s * micros" "cx_horizon_ticks cx = s div p_tick_seconds ?p"
  proof -
    obtain s where "horizon_end ?p = horizon_start ?p + s * micros"
      "cx = \<lparr>cx_problem = ?p, cx_horizon_ticks = s div p_tick_seconds ?p\<rparr>"
      using assms unfolding good_context_def context_of_def bind_res_Inr_iff exact_seconds_ok_iff by force
    then show ?thesis using that by (metis sched_context.select_convs(2))
  qed
  have "0 < p_tick_seconds ?p" using assms by (simp add: good_context_def problem_facts_def)
  then have "t \<le> cx_horizon_ticks cx \<longleftrightarrow> t * p_tick_seconds ?p \<le> s" by (simp add: s(2) le_int_div_iff)
  also have "\<dots> \<longleftrightarrow> t * p_tick_seconds ?p * micros \<le> s * micros" by (simp add: micros_def)
  finally show ?thesis by (simp add: s(1) tick_instant_def)
qed

lemma horizon_tick_representable:
  assumes g: "good_context cx" and t: "0 \<le> t" "t \<le> cx_horizon_ticks cx"
  shows "representable (tick_instant (cx_problem cx) t)"
proof -
  let ?p = "cx_problem cx"
  have f: "problem_facts ?p" using g by (simp add: good_context_def)
  then have "representable (horizon_start ?p)" "representable (horizon_end ?p)" "0 < p_tick_seconds ?p"
    by (auto simp: problem_facts_def intro: parses_representable)
  moreover have "tick_instant ?p 0 \<le> tick_instant ?p t" using t(1) calculation(3) by (simp only: tick_instant_le_iff)
  ultimately show ?thesis using t(2) horizon_tick_iff [OF g] by (auto simp: representable_def)
qed

subsection \<open>Partial schedules\<close>

definition slot_of_placement :: "placement \<Rightarrow> slot" where
  "slot_of_placement pl =
     \<lparr>sl_resource = pl_resource_id pl, sl_start = pl_start_tick pl, sl_end = pl_end_tick pl\<rparr>"

definition placed :: "placements \<Rightarrow> schedule" where
  "placed pls = map_of (map (\<lambda>(i, pl). (i, slot_of_placement pl)) pls)"

definition placement_ok :: "sched_context \<Rightarrow> string \<Rightarrow> placement \<Rightarrow> bool" where
  "placement_ok cx i pl \<longleftrightarrow>
     pl_operation_id pl = i \<and> 0 \<le> pl_start_tick pl \<and> pl_start_tick pl < pl_end_tick pl
     \<and> pl_end_tick pl \<le> cx_horizon_ticks cx
     \<and> (\<exists>op \<in> set (p_operations (cx_problem cx)). op_id op = i
          \<and> slot_ok (cx_problem cx) op (slot_of_placement pl)
          \<and> work_seconds op (pl_resource_id pl) = Some (pl_duration_seconds pl)
          \<and> pl_duration_ticks pl = pl_end_tick pl - pl_start_tick pl)"

definition edges_ok :: "problem \<Rightarrow> schedule \<Rightarrow> bool" where
  "edges_ok p \<sigma> \<longleftrightarrow>
     (\<forall>e \<in> set (p_edges p). \<forall>x y. span p \<sigma> (e_predecessor e) = Some x \<longrightarrow>
        span p \<sigma> (e_successor e) = Some y \<longrightarrow> lag_ok p e x y)"

definition partial_ok :: "sched_context \<Rightarrow> placements \<Rightarrow> bool" where
  "partial_ok cx pls \<longleftrightarrow>
     distinct (map fst pls) \<and> (\<forall>(i, pl) \<in> set pls. placement_ok cx i pl)
     \<and> exclusive (placed pls) \<and> edges_ok (cx_problem cx) (placed pls)"

lemma placed_eq: "placed pls i = map_option slot_of_placement (map_of pls i)"
  by (simp add: placed_def map_of_map_value)

lemma placed_Some_iff:
  "distinct (map fst pls) \<Longrightarrow> placed pls i = Some s \<longleftrightarrow> (\<exists>pl. (i, pl) \<in> set pls \<and> slot_of_placement pl = s)"
  by (auto simp: placed_eq)

lemma placed_dom: "dom (placed pls) = fst ` set pls"
  by (simp add: placed_def dom_map_of_conv_image_fst image_image case_prod_beta)

lemma placed_append_new:
  assumes "i \<notin> fst ` set pls"
  shows "placed (pls @ [(i, pl)]) = (placed pls)(i \<mapsto> slot_of_placement pl)"
proof
  fix j
  have "map_of pls i = None" using assms by (simp add: map_of_eq_None_iff)
  then show "placed (pls @ [(i, pl)]) j = ((placed pls)(i \<mapsto> slot_of_placement pl)) j"
    by (cases "map_of pls j") (auto simp: placed_eq map_add_def)
qed

lemma partial_placement_ok: "partial_ok cx pls \<Longrightarrow> (i, pl) \<in> set pls \<Longrightarrow> placement_ok cx i pl"
  by (auto simp: partial_ok_def)

lemma partial_keys:
  assumes "partial_ok cx pls"
  shows "fst ` set pls \<subseteq> set (operation_ids (cx_problem cx))"
proof
  fix i assume "i \<in> fst ` set pls"
  then obtain pl where "(i, pl) \<in> set pls" by auto
  then have "placement_ok cx i pl" by (rule partial_placement_ok [OF assms])
  then show "i \<in> set (operation_ids (cx_problem cx))"
    unfolding placement_ok_def operation_ids_def set_map by (metis imageI)
qed

subsection \<open>Endpoints of a partial schedule\<close>

definition placement_span :: "problem \<Rightarrow> placement \<Rightarrow> string \<times> instant \<times> instant" where
  "placement_span p pl =
     (pl_resource_id pl, tick_instant p (pl_start_tick pl), tick_instant p (pl_end_tick pl))"

lemma placement_endpoint_eq:
  assumes "good_context cx" and "0 \<le> pl_start_tick pl" "pl_start_tick pl < pl_end_tick pl"
    "pl_end_tick pl \<le> cx_horizon_ticks cx"
  shows "placement_endpoint cx pl = Inr (span_endpoint (pl_operation_id pl) (placement_span (cx_problem cx) pl))"
  using horizon_tick_representable [OF assms(1), of "pl_start_tick pl"]
    horizon_tick_representable [OF assms(1), of "pl_end_tick pl"] assms(2-)
  by (simp add: placement_endpoint_def restore_tick_eq span_endpoint_def placement_span_def)

lemma anchor_not_operation:
  assumes "problem_facts p" and "i \<in> set (operation_ids p)"
  shows "last_with (\<lambda>a. a_operation_id a = i) (p_anchors p) = None"
proof (cases "last_with (\<lambda>a. a_operation_id a = i) (p_anchors p)")
  case (Some a)
  then have "i \<in> set (anchor_ids p)" by (rule anchor_facts(1) [OF assms(1)])
  then show ?thesis using assms unfolding problem_facts_def by blast
qed

lemma span_placed:
  assumes "problem_facts p" and "i \<in> set (operation_ids p)"
  shows "span p \<sigma> i = map_option (\<lambda>s. (sl_resource s, tick_instant p (sl_start s), tick_instant p (sl_end s))) (\<sigma> i)"
  by (simp add: span_def anchor_not_operation [OF assms])

lemma known_endpoints_eq:
  assumes g: "good_context cx" and ok: "partial_ok cx pls"
  obtains eps where "known_endpoints cx pls = Inr eps"
    "\<And>i. endpoint_for eps i = map_option (span_endpoint i) (span (cx_problem cx) (placed pls) i)"
proof -
  let ?p = "cx_problem cx"
  have f: "problem_facts ?p" using g by (simp add: good_context_def)
  have d: "distinct (map fst pls)" using ok by (simp add: partial_ok_def)
  define eps where "eps = map (\<lambda>(i, pl). (i, span_endpoint i (placement_span ?p pl))) pls"
  have "map_res (\<lambda>(i, pl). bind_res (placement_endpoint cx pl) (\<lambda>ep. Inr (i, ep))) pls = Inr eps"
    unfolding eps_def
  proof (rule map_res_total)
    fix x assume "x \<in> set pls"
    then obtain i pl where x: "x = (i, pl)" and "placement_ok cx i pl"
      using ok by (cases x) (auto simp: partial_ok_def)
    then show "(case x of (i, pl) \<Rightarrow> bind_res (placement_endpoint cx pl) (\<lambda>ep. Inr (i, ep)))
      = Inr (case x of (i, pl) \<Rightarrow> (i, span_endpoint i (placement_span ?p pl)))"
      using placement_endpoint_eq [OF g, of pl] by (simp add: placement_ok_def)
  qed
  then have eq: "known_endpoints cx pls = Inr (map anchor_endpoint (p_anchors ?p) @ eps)"
    by (simp add: known_endpoints_def)
  have "distinct (map fst eps)" using d by (simp add: eps_def comp_def case_prod_beta)
  then have rev_eps: "map_of (rev eps) i = map_option (\<lambda>pl. span_endpoint i (placement_span ?p pl)) (map_of pls i)" for i
    by (simp add: map_of_rev_distinct eps_def map_of_map_value)
  have anchors: "map_of (rev (map anchor_endpoint (p_anchors ?p))) i =
      map_option (\<lambda>a. snd (anchor_endpoint a)) (last_with (\<lambda>a. a_operation_id a = i) (p_anchors ?p))" for i
    unfolding last_with_def anchor_endpoint_def rev_map by (simp add: map_of_find)
  have "endpoint_for (map anchor_endpoint (p_anchors ?p) @ eps) i
      = map_option (span_endpoint i) (span ?p (placed pls) i)" for i
  proof (cases "map_of pls i")
    case None
    then show ?thesis
      by (auto simp: endpoint_for_def map_add_def rev_eps anchors span_def placed_eq anchor_endpoint_def
          span_endpoint_def split: option.splits dest: last_with_Some)
  next
    case (Some pl)
    then have "i \<in> set (operation_ids ?p)" 
      using partial_keys [OF ok] by (metis (no_types, lifting) fst_conv image_eqI map_of_SomeD subsetD)
    then show ?thesis using Some
      by (simp add: endpoint_for_def map_add_def rev_eps span_placed [OF f] placed_eq slot_of_placement_def
          placement_span_def)
  qed
  with eq show ?thesis by (rule that)
qed

subsection \<open>What the feasibility test guarantees\<close>

lemma key_error_iff: "key_error x = Inr v \<longleftrightarrow> x = Some v"
  by (simp add: key_error_def split: option.splits)

lemma edge_is_satisfied_lag:
  assumes "edge_is_satisfied cx e (span_endpoint i x) (span_endpoint j y) = Inr True"
  shows "lag_ok (cx_problem cx) e x y"
proof -
  obtain r s t r' s' t' where xy: "x = (r, s, t)" "y = (r', s', t')" by (metis prod_cases3)
  obtain lag where lag: "exact_seconds s' t = Inr lag" "e_min_lag_seconds e \<le> lag"
    "\<And>m. e_max_lag_seconds e = Some m \<Longrightarrow> lag \<le> m"
    "workshop_of (cx_problem cx) r = workshop_of (cx_problem cx) r' \<or> e_transport_lag_seconds e \<le> lag"
    using assms by (auto simp: edge_is_satisfied_def xy span_endpoint_def res_simps
        key_error_iff not_less split: if_splits option.splits)
  from lag(1) have "s' = t + lag * micros" by (simp only: exact_seconds_ok_iff)
  with lag(2-) show ?thesis by (auto simp: xy lag_ok_def micros_def)
qed

lemma feasible_placementD:
  assumes g: "good_context cx" and ok: "partial_ok cx pls"
    and t: "placement_is_feasible cx op pl pls = Inr True"
  shows "0 \<le> pl_start_tick pl" "pl_start_tick pl < pl_end_tick pl" "pl_end_tick pl \<le> cx_horizon_ticks cx"
    "pl_resource_id pl \<in> set (option_resource_ids op)"
    "work_seconds op (pl_resource_id pl) = Some (pl_duration_seconds pl)"
    "pl_duration_ticks pl = pl_end_tick pl - pl_start_tick pl"
    "pl_duration_ticks pl = ceil_div (pl_duration_seconds pl) (cx_tick cx)"
    "utc (op_release_at_utc op) \<le> tick_instant (cx_problem cx) (pl_start_tick pl)"
    "utc (op_material_ready_at_utc op) \<le> tick_instant (cx_problem cx) (pl_start_tick pl)"
    "resource_is_free cx pl pls = Inr True"
    "\<And>e x. e \<in> set (p_edges (cx_problem cx)) \<Longrightarrow> e_successor e = op_id op \<Longrightarrow>
       span (cx_problem cx) (placed pls) (e_predecessor e) = Some x \<Longrightarrow>
       lag_ok (cx_problem cx) e x (placement_span (cx_problem cx) pl)"
    "\<And>e y. e \<in> set (p_edges (cx_problem cx)) \<Longrightarrow> e_predecessor e = op_id op \<Longrightarrow>
       span (cx_problem cx) (placed pls) (e_successor e) = Some y \<Longrightarrow>
       lag_ok (cx_problem cx) e (placement_span (cx_problem cx) pl) y"
proof -
  let ?p = "cx_problem cx"
  show range: "0 \<le> pl_start_tick pl" "pl_start_tick pl < pl_end_tick pl" "pl_end_tick pl \<le> cx_horizon_ticks cx"
    using t by (auto simp: placement_is_feasible_def split: if_splits)
  let ?cand = "span_endpoint (pl_operation_id pl) (placement_span ?p pl)"
  note ep = placement_endpoint_eq [OF g range]
  obtain eps where eps: "known_endpoints cx pls = Inr eps"
    "\<And>i. endpoint_for eps i = map_option (span_endpoint i) (span ?p (placed pls) i)"
    using known_endpoints_eq [OF g ok] by metis
  obtain opt where opt: "option_on op (pl_resource_id pl) = Some opt" and dm: "duration_matches cx op opt pl"
    and rest: "\<not> ep_start_at ?cand < utc (op_release_at_utc op)" "\<not> ep_start_at ?cand < utc (op_material_ready_at_utc op)"
    "resource_is_free cx pl pls = Inr True"
    "all_res (incoming_ok cx eps ?cand) (incoming ?p (op_id op)) = Inr True"
    "all_res (outgoing_ok cx eps ?cand) (outgoing ?p (op_id op)) = Inr True"
    using t range unfolding placement_is_feasible_def
    by (auto simp: ep eps(1) res_simps split: option.splits if_splits)
  show "pl_resource_id pl \<in> set (option_resource_ids op)" using opt option_on_iff by blast
  show "work_seconds op (pl_resource_id pl) = Some (pl_duration_seconds pl)"
    "pl_duration_ticks pl = pl_end_tick pl - pl_start_tick pl"
    "pl_duration_ticks pl = ceil_div (pl_duration_seconds pl) (cx_tick cx)"
    using dm opt by (cases "op_status op";
        auto simp: duration_matches_def option_seconds_def work_seconds_def split: option.splits)+
  show "utc (op_release_at_utc op) \<le> tick_instant ?p (pl_start_tick pl)"
    "utc (op_material_ready_at_utc op) \<le> tick_instant ?p (pl_start_tick pl)"
    "resource_is_free cx pl pls = Inr True"
    using rest(1-3) by (simp_all add: span_endpoint_def placement_span_def)
  show "lag_ok ?p e x (placement_span ?p pl)"
    if "e \<in> set (p_edges ?p)" "e_successor e = op_id op" "span ?p (placed pls) (e_predecessor e) = Some x" for e x
  proof -
    have "incoming_ok cx eps ?cand e = Inr True"
      using rest(4) that(1,2) by (simp add: all_res_True_iff incoming_def)
    then show ?thesis
      by (intro edge_is_satisfied_lag [of cx e "e_predecessor e" x "pl_operation_id pl"])
        (simp add: incoming_ok_def eps(2) that(3))
  qed
  show "lag_ok ?p e (placement_span ?p pl) y"
    if "e \<in> set (p_edges ?p)" "e_predecessor e = op_id op" "span ?p (placed pls) (e_successor e) = Some y" for e y
  proof -
    have "outgoing_ok cx eps ?cand e = Inr True"
      using rest(5) that(1,2) by (simp add: all_res_True_iff outgoing_def)
    then show ?thesis
      by (intro edge_is_satisfied_lag [of cx e "pl_operation_id pl" _ "e_successor e"])
        (simp add: outgoing_ok_def eps(2) that(3))
  qed
qed

lemma resource_is_freeD:
  assumes "resource_is_free cx pl pls = Inr True"
  shows "\<And>i q. (i, q) \<in> set pls \<Longrightarrow> pl_resource_id q = pl_resource_id pl \<Longrightarrow>
      pl_end_tick q \<le> pl_start_tick pl \<or> pl_end_tick pl \<le> pl_start_tick q"
    "\<And>u. u \<in> set (p_intervals (cx_problem cx)) \<Longrightarrow> u_resource_id u = pl_resource_id pl \<Longrightarrow>
      tick_instant (cx_problem cx) (pl_end_tick pl) \<le> utc (u_start_utc u)
      \<or> utc (u_end_utc u) \<le> tick_instant (cx_problem cx) (pl_start_tick pl)"
  using assms by (auto simp: resource_is_free_def restore_tick_eq unavailable_def list_all_iff not_less
      split: if_splits)

subsection \<open>A feasible placement extends a partial schedule\<close>

text \<open>What \<open>fixed_placement\<close> prescribes to a running operation; trivial for the others.\<close>

definition execution_kept :: "operation_doc \<Rightarrow> placement \<Rightarrow> bool" where
  "execution_kept op pl \<longleftrightarrow>
     (op_status op = RUNNING \<longrightarrow> op_assigned_resource_id op = Some (pl_resource_id pl) \<and> pl_start_tick pl = 0)"

lemma feasible_placement_ok:
  assumes g: "good_context cx" and ok: "partial_ok cx pls"
    and t: "placement_is_feasible cx op pl pls = Inr True" and k: "execution_kept op pl"
    and op: "op \<in> set (p_operations (cx_problem cx))" "pl_operation_id pl = op_id op"
  shows "placement_ok cx (op_id op) pl"
proof -
  let ?p = "cx_problem cx"
  note D = feasible_placementD [OF g ok t]
  have h: "tick_instant ?p (pl_end_tick pl) \<le> horizon_end ?p"
    using D(3) horizon_tick_iff [OF g] by blast
  have w: "\<exists>w. work_seconds op (pl_resource_id pl) = Some w
      \<and> pl_end_tick pl = pl_start_tick pl + ceil_div w (p_tick_seconds ?p)"
    using D(5-7) by (intro exI [of _ "pl_duration_seconds pl"]) simp
  have c: "\<forall>u \<in> set (p_intervals ?p). u_resource_id u = pl_resource_id pl \<longrightarrow>
      tick_instant ?p (pl_end_tick pl) \<le> utc (u_start_utc u) \<or> utc (u_end_utc u) \<le> tick_instant ?p (pl_start_tick pl)"
    using resource_is_freeD(2) [OF D(10)] by blast
  have "case op_status op of
      RUNNING \<Rightarrow> op_assigned_resource_id op = Some (pl_resource_id pl) \<and> pl_start_tick pl = 0
    | NOT_STARTED \<Rightarrow> 0 \<le> pl_start_tick pl \<and> tick_instant ?p (pl_end_tick pl) \<le> horizon_end ?p"
    using k D(1) h by (cases "op_status op") (simp_all add: execution_kept_def)
  then have "slot_ok ?p op (slot_of_placement pl)"
    unfolding slot_ok_def slot_of_placement_def slot.simps using D(4,8,9) w c by (intro conjI)
  then show ?thesis
    unfolding placement_ok_def using D(1-3,5,6) op by (intro conjI bexI [of _ op]) (assumption | rule refl)+
qed

lemma exclusive_insert:
  assumes ex: "exclusive (placed pls)" and d: "distinct (map fst pls)" and new: "i \<notin> fst ` set pls"
    and free: "\<And>j q. (j, q) \<in> set pls \<Longrightarrow> pl_resource_id q = pl_resource_id pl \<Longrightarrow>
      pl_end_tick q \<le> pl_start_tick pl \<or> pl_end_tick pl \<le> pl_start_tick q"
  shows "exclusive (placed (pls @ [(i, pl)]))"
proof -
  have old: "sl_resource s = pl_resource_id pl \<Longrightarrow> sl_end s \<le> pl_start_tick pl \<or> pl_end_tick pl \<le> sl_start s"
    if js: "placed pls j = Some s" for j s
  proof -
    obtain q where "(j, q) \<in> set pls" "slot_of_placement q = s"
      using js unfolding placed_Some_iff [OF d] by blast
    then show "sl_resource s = pl_resource_id pl \<Longrightarrow> sl_end s \<le> pl_start_tick pl \<or> pl_end_tick pl \<le> sl_start s"
      using free [of j q] by (auto simp: slot_of_placement_def)
  qed
  show ?thesis
    unfolding exclusive_def placed_append_new [OF new]
  proof (intro allI impI)
    fix a b s t
    assume "a \<noteq> b" and st: "((placed pls)(i \<mapsto> slot_of_placement pl)) a = Some s"
      "((placed pls)(i \<mapsto> slot_of_placement pl)) b = Some t" and r: "sl_resource s = sl_resource t"
    then consider "a = i" "b \<noteq> i" | "a \<noteq> i" "b = i" | "a \<noteq> i" "b \<noteq> i" by blast
    then show "sl_end s \<le> sl_start t \<or> sl_end t \<le> sl_start s"
    proof cases
      case 1
      then have "placed pls b = Some t" "s = slot_of_placement pl" using st by auto
      then show ?thesis using old r by (auto simp: slot_of_placement_def)
    next
      case 2
      then have "placed pls a = Some s" "t = slot_of_placement pl" using st by auto
      then show ?thesis using old r by (auto simp: slot_of_placement_def)
    next
      case 3
      then have "placed pls a = Some s" "placed pls b = Some t" using st by auto
      then show ?thesis using ex r \<open>a \<noteq> b\<close> unfolding exclusive_def by blast
    qed
  qed
qed

lemma edges_insert:
  assumes f: "problem_facts p" and ex: "edges_ok p (placed pls)"
    and new: "i \<notin> fst ` set pls" "i \<in> set (operation_ids p)"
    and inc: "\<And>e x. e \<in> set (p_edges p) \<Longrightarrow> e_successor e = i \<Longrightarrow>
       span p (placed pls) (e_predecessor e) = Some x \<Longrightarrow> lag_ok p e x (placement_span p pl)"
    and out: "\<And>e y. e \<in> set (p_edges p) \<Longrightarrow> e_predecessor e = i \<Longrightarrow>
       span p (placed pls) (e_successor e) = Some y \<Longrightarrow> lag_ok p e (placement_span p pl) y"
  shows "edges_ok p (placed (pls @ [(i, pl)]))"
  unfolding edges_ok_def
proof (intro ballI allI impI)
  let ?s = "placed (pls @ [(i, pl)])"
  fix e x y assume e: "e \<in> set (p_edges p)" and xy: "span p ?s (e_predecessor e) = Some x" "span p ?s (e_successor e) = Some y"
  have here: "span p ?s i = Some (placement_span p pl)"
    by (simp add: span_placed [OF f new(2)] placed_append_new [OF new(1)] slot_of_placement_def placement_span_def)
  have other: "span p ?s j = span p (placed pls) j" if "j \<noteq> i" for j
    unfolding span_def placed_append_new [OF new(1)] fun_upd_other [OF that] by (rule refl)
  have ne: "e_predecessor e \<noteq> e_successor e" using f e by (auto simp: problem_facts_def list_all_iff edge_ok_def)
  show "lag_ok p e x y"
  proof (cases "e_successor e = i")
    case True
    then show ?thesis using inc [OF e True] ne xy here other by auto
  next
    case s: False
    show ?thesis
    proof (cases "e_predecessor e = i")
      case True
      then show ?thesis using out [OF e True] s xy here other by auto
    next
      case False
      then have "span p (placed pls) (e_predecessor e) = Some x" "span p (placed pls) (e_successor e) = Some y"
        using s xy other by simp_all
      then show ?thesis using ex e unfolding edges_ok_def by blast
    qed
  qed
qed

lemma partial_insert:
  assumes g: "good_context cx" and ok: "partial_ok cx pls"
    and t: "placement_is_feasible cx op pl pls = Inr True" and k: "execution_kept op pl"
    and op: "op \<in> set (p_operations (cx_problem cx))" "pl_operation_id pl = op_id op"
    and new: "op_id op \<notin> fst ` set pls"
  shows "partial_ok cx (pls @ [(op_id op, pl)])"
proof -
  note D = feasible_placementD [OF g ok t]
  have f: "problem_facts (cx_problem cx)" using g by (simp add: good_context_def)
  have i: "op_id op \<in> set (operation_ids (cx_problem cx))" using op(1) by (simp add: operation_ids_def)
  have d: "distinct (map fst pls)" "exclusive (placed pls)" "edges_ok (cx_problem cx) (placed pls)"
    using ok by (simp_all add: partial_ok_def)
  have "exclusive (placed (pls @ [(op_id op, pl)]))"
    using resource_is_freeD(1) [OF D(10)] by (rule exclusive_insert [OF d(2,1) new])
  moreover have "edges_ok (cx_problem cx) (placed (pls @ [(op_id op, pl)]))"
    using D(11,12) by (rule edges_insert [OF f d(3) new i])
  moreover have "placement_ok cx (op_id op) pl"
    using feasible_placement_ok [OF g ok t k op] .
  ultimately show ?thesis using ok new by (auto simp: partial_ok_def)
qed

lemma partial_ok_Nil: "good_context cx \<Longrightarrow> partial_ok cx []"
proof -
  assume "good_context cx"
  then have "edges_ok (cx_problem cx) (placed [])"
    unfolding edges_ok_def
  proof (intro ballI allI impI)
    fix e x y assume e: "e \<in> set (p_edges (cx_problem cx))" "span (cx_problem cx) (placed []) (e_successor e) = Some y"
    have f: "problem_facts (cx_problem cx)" using \<open>good_context cx\<close> by (simp add: good_context_def)
    then have "e_successor e \<in> set (operation_ids (cx_problem cx))"
      using e by (auto simp: problem_facts_def list_all_iff edge_ok_def)
    then show "lag_ok (cx_problem cx) e x y" using e(2) by (simp add: span_placed [OF f] placed_def)
  qed
  then show ?thesis by (simp add: partial_ok_def exclusive_def placed_def)
qed

end
