(* ===== verification/Scheduler_Loops.thy ===== *)
theory Scheduler_Loops
  imports Scheduler_Steps
begin

section \<open>The loops of the scheduler\<close>

text \<open>
  The two phases that fill the list of placements. The invariant is \<open>scheduled_ok\<close>: the placements
  are a correct partial schedule and keep every hard lock of the operations they place. The fixed
  phase establishes it with every running and every locked operation placed; a turn of the
  selection loop keeps it. The locale \<open>selection_rule\<close> is what the loop needs of a rule that picks the
  next placement, and is interpreted on \<open>select_placement\<close> for all five algorithms.
\<close>

subsection \<open>The invariant\<close>

definition locks_kept :: "problem \<Rightarrow> placements \<Rightarrow> bool" where
  "locks_kept p pls \<longleftrightarrow>
     (\<forall>l \<in> set (p_locks p). l_operation_id l \<in> fst ` set pls \<longrightarrow> lock_respected p (placed pls) l)"

definition scheduled_ok :: "sched_context \<Rightarrow> placements \<Rightarrow> bool" where
  "scheduled_ok cx pls \<longleftrightarrow> partial_ok cx pls \<and> locks_kept (cx_problem cx) pls"

text \<open>The operations the fixed phase has to place.\<close>

definition is_fixed :: "problem \<Rightarrow> operation_doc \<Rightarrow> bool" where
  "is_fixed p op \<longleftrightarrow> op_status op = RUNNING \<or> hard_locks p (op_id op) \<noteq> []"

lemma hard_locks_set: "set (hard_locks p i) = {l \<in> set (p_locks p). l_operation_id l = i \<and> l_lock_type l = HARD_LOCK}"
  by (auto simp: hard_locks_def locks_of_def)

lemma locks_kept_insert:
  assumes lk: "locks_kept p pls" and new: "i \<notin> fst ` set pls"
    and kept: "\<And>l. l \<in> set (hard_locks p i) \<Longrightarrow> pl_resource_id pl = l_resource_id l
      \<and> tick_instant p (pl_start_tick pl) = utc (l_start_at_utc l)
      \<and> tick_instant p (pl_end_tick pl) = utc (l_end_at_utc l)"
  shows "locks_kept p (pls @ [(i, pl)])"
  unfolding locks_kept_def
proof (intro ballI impI)
  fix l assume l: "l \<in> set (p_locks p)" and mem: "l_operation_id l \<in> fst ` set (pls @ [(i, pl)])"
  show "lock_respected p (placed (pls @ [(i, pl)])) l"
  proof (cases "l_operation_id l = i")
    case True
    then show ?thesis
      using l kept [of l] unfolding lock_respected_def placed_append_new [OF new] hard_locks_set
      by (simp add: slot_of_placement_def)
  next
    case False
    then have "l_operation_id l \<in> fst ` set pls" using mem by auto
    then have "lock_respected p (placed pls) l" using lk l unfolding locks_kept_def by blast
    then show ?thesis
      unfolding lock_respected_def placed_append_new [OF new] fun_upd_other [OF False] .
  qed
qed

lemma scheduled_insert:
  assumes g: "good_context cx" and ok: "scheduled_ok cx pls"
    and t: "placement_is_feasible cx op pl pls = Inr True" and k: "execution_kept op pl"
    and op: "op \<in> set (p_operations (cx_problem cx))" "pl_operation_id pl = op_id op"
    and new: "op_id op \<notin> fst ` set pls"
    and kept: "\<And>l. l \<in> set (hard_locks (cx_problem cx) (op_id op)) \<Longrightarrow> pl_resource_id pl = l_resource_id l
      \<and> tick_instant (cx_problem cx) (pl_start_tick pl) = utc (l_start_at_utc l)
      \<and> tick_instant (cx_problem cx) (pl_end_tick pl) = utc (l_end_at_utc l)"
  shows "scheduled_ok cx (pls @ [(op_id op, pl)])"
  using partial_insert [OF g _ t k op new] locks_kept_insert [OF _ new kept] ok
  unfolding scheduled_ok_def by blast

subsection \<open>Fixed placements\<close>

lemma remdups_single_set: "remdups xs = [x] \<Longrightarrow> set xs = {x}"
  by (metis list.set(1) list.simps(15) set_remdups)

text \<open>A lock on the grid is met by the ticks computed from it.\<close>

lemma grid_tick:
  assumes "exact_seconds t (horizon_start p) = Inr s" and "s mod p_tick_seconds p = 0"
  shows "tick_instant p (s div p_tick_seconds p) = t"
proof -
  have "s div p_tick_seconds p * p_tick_seconds p = s" using assms(2) by (simp add: minus_mod_eq_div_mult [symmetric])
  then show ?thesis using assms(1) by (simp add: exact_seconds_ok_iff tick_instant_def)
qed

lemma locked_placement_props:
  assumes "locked_placement cx op = Inr (Inr (Some pl))"
  shows "pl_operation_id pl = op_id op"
    "l \<in> set (hard_locks (cx_problem cx) (op_id op)) \<Longrightarrow> pl_resource_id pl = l_resource_id l
      \<and> tick_instant (cx_problem cx) (pl_start_tick pl) = utc (l_start_at_utc l)
      \<and> tick_instant (cx_problem cx) (pl_end_tick pl) = utc (l_end_at_utc l)"
proof -
  let ?p = "cx_problem cx"
  obtain r a b sa sb where sig: "remdups (map lock_signature (hard_locks ?p (op_id op))) = [(r, a, b)]"
    and sec: "exact_seconds (utc a) (horizon_start ?p) = Inr sa" "exact_seconds (utc b) (horizon_start ?p) = Inr sb"
    "sa mod p_tick_seconds ?p = 0" "sb mod p_tick_seconds ?p = 0"
    and pl: "pl_operation_id pl = op_id op" "pl_resource_id pl = r"
    "pl_start_tick pl = sa div p_tick_seconds ?p" "pl_end_tick pl = sb div p_tick_seconds ?p"
    using assms unfolding locked_placement_def Let_def failed_def
    by (auto simp: res_simps split: list.splits prod.splits if_splits option.splits)
  show "pl_operation_id pl = op_id op" by (fact pl(1))
  assume "l \<in> set (hard_locks ?p (op_id op))"
  then have "lock_signature l \<in> set (map lock_signature (hard_locks ?p (op_id op)))" by simp
  then have "lock_signature l = (r, a, b)" using remdups_single_set [OF sig] by simp
  then show "pl_resource_id pl = l_resource_id l
      \<and> tick_instant ?p (pl_start_tick pl) = utc (l_start_at_utc l)
      \<and> tick_instant ?p (pl_end_tick pl) = utc (l_end_at_utc l)"
    using grid_tick [OF sec(1,3)] grid_tick [OF sec(2,4)] pl by (simp add: lock_signature_def)
qed

lemma locked_placement_None:
  assumes "locked_placement cx op = Inr (Inr None)"
  shows "hard_locks (cx_problem cx) (op_id op) = []"
  using assms unfolding locked_placement_def Let_def failed_def
  by (auto simp: res_simps split: list.splits prod.splits if_splits option.splits)

lemma running_placement_props:
  assumes "running_placement cx op = Inr (Some pl)"
  shows "pl_operation_id pl = op_id op" "execution_kept op pl"
  using assms by (auto simp: running_placement_def execution_kept_def Let_def split: if_splits option.splits)

lemma running_placement_None: "running_placement cx op = Inr None \<Longrightarrow> op_status op \<noteq> RUNNING"
  by (auto simp: running_placement_def Let_def split: if_splits option.splits)

text \<open>What the fixed phase prescribes to an operation.\<close>

lemma fixed_placement_Some:
  assumes "fixed_placement cx op = Inr (Inr (Some pl))"
  shows "pl_operation_id pl = op_id op" "execution_kept op pl"
    "l \<in> set (hard_locks (cx_problem cx) (op_id op)) \<Longrightarrow> pl_resource_id pl = l_resource_id l
      \<and> tick_instant (cx_problem cx) (pl_start_tick pl) = utc (l_start_at_utc l)
      \<and> tick_instant (cx_problem cx) (pl_end_tick pl) = utc (l_end_at_utc l)"
proof -
  obtain running where r: "running_placement cx op = Inr running"
    using assms by (cases "running_placement cx op") (auto simp: fixed_placement_def)
  obtain found where o: "locked_placement cx op = Inr (Inr found)"
    "found = None \<and> running = Some pl \<or> found = Some pl \<and> (running = None \<or> running = Some pl)"
    using assms [unfolded fixed_placement_def r bind_res_simps bind_outcome_iff]
    by (auto simp: failed_def split: option.splits if_splits) (metis not_Some_eq)
  from o(2) consider "found = None" "running = Some pl" | "found = Some pl" "running = None \<or> running = Some pl"
    by blast
  then have "pl_operation_id pl = op_id op \<and> execution_kept op pl \<and>
    (l \<in> set (hard_locks (cx_problem cx) (op_id op)) \<longrightarrow> pl_resource_id pl = l_resource_id l
      \<and> tick_instant (cx_problem cx) (pl_start_tick pl) = utc (l_start_at_utc l)
      \<and> tick_instant (cx_problem cx) (pl_end_tick pl) = utc (l_end_at_utc l))"
  proof cases
    case 1
    then show ?thesis using r o running_placement_props [of cx op pl] locked_placement_None [of cx op] by simp
  next
    case 2
    have "execution_kept op pl"
      using 2(2) r running_placement_props(2) [of cx op pl] running_placement_None [of cx op]
      by (auto simp: execution_kept_def)
    then show ?thesis using 2(1) o locked_placement_props [of cx op pl] by simp
  qed
  then show "pl_operation_id pl = op_id op" "execution_kept op pl"
    "l \<in> set (hard_locks (cx_problem cx) (op_id op)) \<Longrightarrow> pl_resource_id pl = l_resource_id l
      \<and> tick_instant (cx_problem cx) (pl_start_tick pl) = utc (l_start_at_utc l)
      \<and> tick_instant (cx_problem cx) (pl_end_tick pl) = utc (l_end_at_utc l)" by simp_all
qed

lemma fixed_placement_None:
  assumes "fixed_placement cx op = Inr (Inr None)"
  shows "\<not> is_fixed (cx_problem cx) op"
proof -
  obtain running where r: "running_placement cx op = Inr running"
    using assms by (cases "running_placement cx op") (auto simp: fixed_placement_def)
  have "running = None" "locked_placement cx op = Inr (Inr None)"
    using assms [unfolded fixed_placement_def r bind_res_simps bind_outcome_iff]
    by (auto simp: failed_def split: option.splits if_splits)
  then show ?thesis using r running_placement_None locked_placement_None by (auto simp: is_fixed_def)
qed

lemma fixed_loop_ok:
  assumes "good_context cx" and "scheduled_ok cx pls"
    and "fixed_loop cx ops pls = Inr (Inr pls')" and "set ops \<subseteq> set (p_operations (cx_problem cx))"
    and "distinct (map op_id ops)" and "set (map op_id ops) \<inter> fst ` set pls = {}"
  shows "scheduled_ok cx pls' \<and> fst ` set pls \<subseteq> fst ` set pls'
    \<and> (\<forall>op \<in> set ops. is_fixed (cx_problem cx) op \<longrightarrow> op_id op \<in> fst ` set pls')"
  using assms(2-)
proof (induction ops arbitrary: pls)
  case Nil
  then show ?case by simp
next
  case (Cons op ops)
  obtain found where found: "fixed_placement cx op = Inr (Inr found)"
    using Cons.prems(2) unfolding fixed_loop.simps bind_outcome_iff by blast
  show ?case
  proof (cases found)
    case None
    then have "fixed_loop cx ops pls = Inr (Inr pls')" using Cons.prems(2) found by simp
    then show ?thesis
      using Cons.IH [OF Cons.prems(1)] Cons.prems(3-) fixed_placement_None [of cx op] found None by auto
  next
    case (Some pl)
    have step: "placement_is_feasible cx op pl pls = Inr True" "fixed_loop cx ops (pls @ [(op_id op, pl)]) = Inr (Inr pls')"
      using Cons.prems(2) found Some by (auto simp: res_simps failed_def split: if_splits)
    note fp = fixed_placement_Some [OF found [unfolded Some]]
    have ok: "scheduled_ok cx (pls @ [(op_id op, pl)])"
      using Cons.prems(3,5) by (intro scheduled_insert [OF assms(1) Cons.prems(1) step(1) fp(2) _ fp(1)] fp(3)) auto
    have "scheduled_ok cx pls' \<and> fst ` set (pls @ [(op_id op, pl)]) \<subseteq> fst ` set pls'
        \<and> (\<forall>op \<in> set ops. is_fixed (cx_problem cx) op \<longrightarrow> op_id op \<in> fst ` set pls')"
      using Cons.prems(3-) by (intro Cons.IH [OF ok step(2)]) auto
    then show ?thesis by auto
  qed
qed

subsection \<open>The search for the earliest start\<close>

lemma search_start_Some:
  "search_start ok a b = Inr (Some t) \<Longrightarrow>
     a \<le> t \<and> t \<le> b \<and> ok t = Inr True \<and> (\<forall>u. a \<le> u \<and> u < t \<longrightarrow> ok u = Inr False)"
proof (induction ok a b rule: search_start.induct)
  case (1 ok a b)
  then have ab: "\<not> b < a" by (auto simp: search_start.simps [of ok a b])
  obtain found where found: "ok a = Inr found" using "1.prems" ab
    by (cases "ok a") (auto simp: search_start.simps [of ok a b])
  show ?case
  proof (cases found)
    case True
    then show ?thesis using "1.prems" ab found by (auto simp: search_start.simps [of ok a b])
  next
    case False
    then have "search_start ok (a + 1) b = Inr (Some t)"
      using "1.prems" ab found by (simp add: search_start.simps [of ok a b])
    then have "a + 1 \<le> t \<and> t \<le> b \<and> ok t = Inr True \<and> (\<forall>u. a + 1 \<le> u \<and> u < t \<longrightarrow> ok u = Inr False)"
      using "1.IH" [OF ab found] False by blast
    then show ?thesis using found False by (auto simp: not_less) (metis order_le_less zless_imp_add1_zle)
  qed
qed

lemma search_start_None:
  "search_start ok a b = Inr None \<Longrightarrow> a \<le> u \<Longrightarrow> u \<le> b \<Longrightarrow> ok u = Inr False"
proof (induction ok a b rule: search_start.induct)
  case (1 ok a b)
  then have ab: "\<not> b < a" by simp
  obtain found where found: "ok a = Inr found" using "1.prems"(1) ab
    by (cases "ok a") (auto simp: search_start.simps [of ok a b])
  have nf: "\<not> found" using "1.prems"(1) ab found by (cases found) (simp_all add: search_start.simps [of ok a b])
  then have "search_start ok (a + 1) b = Inr None"
    using "1.prems"(1) ab found by (simp add: search_start.simps [of ok a b])
  then show ?case using "1.IH" [OF ab found nf] "1.prems"(2,3) found nf
    by (cases "u = a") auto
qed

lemma option_placement_props:
  assumes "option_placement cx op pls eps opt = Inr values" and "pl \<in> set values"
  obtains t where "pl = candidate_at cx op opt t" "placement_is_feasible cx op pl pls = Inr True"
  using assms by (auto simp: option_placement_def res_simps dest!: search_start_Some split: option.splits)

lemma earliest_placement_Some:
  assumes "earliest_placement cx op pls = Inr (Some pl)"
  obtains opt t where "opt \<in> set (op_resource_options op)" "pl = candidate_at cx op opt t"
    "placement_is_feasible cx op pl pls = Inr True"
proof -
  obtain eps vs where v: "collect_res (option_placement cx op pls eps) (op_resource_options op) = Inr vs"
    "vs \<noteq> []" "pl = arg_min_list placement_key vs"
    using assms by (auto simp: earliest_placement_def res_simps split: if_splits)
  then have "pl \<in> set vs" by (simp add: arg_min_list_in)
  then obtain opt where "opt \<in> set (op_resource_options op)" "is_ok (option_placement cx op pls eps opt)"
    "pl \<in> set (projr (option_placement cx op pls eps opt))"
    using v(1) by (auto simp: collect_res_Inr_iff)
  then show ?thesis using that option_placement_props by (metis is_ok_iff sum.sel(2))
qed

lemma candidate_at_sel [simp]:
  "pl_operation_id (candidate_at cx op opt t) = op_id op"
  "pl_resource_id (candidate_at cx op opt t) = o_resource_id opt"
  "pl_start_tick (candidate_at cx op opt t) = t"
  "pl_end_tick (candidate_at cx op opt t) = t + ceil_div (o_final_duration_seconds opt) (cx_tick cx)"
  "pl_duration_ticks (candidate_at cx op opt t) = ceil_div (o_final_duration_seconds opt) (cx_tick cx)"
  by (simp_all add: candidate_at_def Let_def)

subsection \<open>Selection rules\<close>

locale selection_rule =
  fixes cx :: sched_context
    and select :: "placements \<Rightarrow> operation_doc list \<Rightarrow> (schedule_failure + placement) res"
  assumes selects_ready:
    "ready \<noteq> [] \<Longrightarrow> select pls ready = Inr (Inr pl) \<Longrightarrow>
       \<exists>op \<in> set ready. earliest_placement cx op pls = Inr (Some pl)"
begin

lemma selected_feasible:
  assumes "ready \<noteq> []" and "select pls ready = Inr (Inr pl)"
  obtains op where "op \<in> set ready" "pl_operation_id pl = op_id op"
    "placement_is_feasible cx op pl pls = Inr True"
  using selects_ready [OF assms] by (metis earliest_placement_Some candidate_at_sel(1))

lemma turn_ok:
  assumes g: "good_context cx" and ok: "scheduled_ok cx pls"
    and sel: "ready \<noteq> []" "select pls ready = Inr (Inr pl)"
    and ready: "set ready \<subseteq> {op \<in> set (p_operations (cx_problem cx)). op_id op \<in> U}"
    and free: "U \<inter> fst ` set pls = {}"
    and unfixed: "\<And>op. op \<in> set (p_operations (cx_problem cx)) \<Longrightarrow> op_id op \<in> U \<Longrightarrow> \<not> is_fixed (cx_problem cx) op"
  shows "pl_operation_id pl \<in> U" "scheduled_ok cx (pls @ [(pl_operation_id pl, pl)])"
proof -
  obtain op where op: "op \<in> set ready" "pl_operation_id pl = op_id op"
    "placement_is_feasible cx op pl pls = Inr True"
    using selected_feasible [OF sel] .
  then have op': "op \<in> set (p_operations (cx_problem cx))" "op_id op \<in> U" using ready by auto
  then show "pl_operation_id pl \<in> U" using op(2) by simp
  have "\<not> is_fixed (cx_problem cx) op" using unfixed op' by blast
  then have "execution_kept op pl" "hard_locks (cx_problem cx) (op_id op) = []"
    by (auto simp: is_fixed_def execution_kept_def)
  moreover have "op_id op \<notin> fst ` set pls" using op'(2) free by blast
  ultimately have "scheduled_ok cx (pls @ [(op_id op, pl)])"
    by (intro scheduled_insert [OF g ok op(3) _ op'(1) op(2)]) simp_all
  then show "scheduled_ok cx (pls @ [(pl_operation_id pl, pl)])" using op(2) by simp
qed

end

lemma greedy_choices_props:
  "greedy_choices cx pls ready = Inr (Inr choices) \<Longrightarrow>
     list_all2 (\<lambda>op pl. earliest_placement cx op pls = Inr (Some pl)) ready choices"
proof (induction ready arbitrary: choices)
  case Nil
  then show ?case by simp
next
  case (Cons op ready)
  obtain found where e: "earliest_placement cx op pls = Inr found"
    using Cons.prems by (cases "earliest_placement cx op pls") auto
  obtain pl where pl: "found = Some pl"
    using Cons.prems e by (cases found) (auto simp: failed_def)
  note eq = Cons.prems [unfolded greedy_choices.simps e bind_res_simps pl option.case bind_outcome_iff]
  then obtain rest where "greedy_choices cx pls ready = Inr (Inr rest)" "choices = pl # rest" by auto
  then show ?case using Cons.IH e pl by simp
qed

lemma map_res_snd:
  "map_res (\<lambda>x. bind_res (f x) (\<lambda>k. Inr (k, x))) xs = Inr ys \<Longrightarrow> map snd ys = xs"
  by (induction xs arbitrary: ys) (auto simp: res_simps)

interpretation sel: selection_rule cx "select_placement cx algorithm" for cx algorithm
proof
  fix ready pls pl
  assume ne: "ready \<noteq> []" and s: "select_placement cx algorithm pls ready = Inr (Inr pl)"
  show "\<exists>op \<in> set ready. earliest_placement cx op pls = Inr (Some pl)"
  proof (cases "algorithm = GREEDY_EARLIEST_AVAILABLE_MACHINE")
    case True
    then obtain choices where c: "greedy_choices cx pls ready = Inr (Inr choices)" "pl = arg_min_list greedy_key choices"
      using s unfolding select_placement_def by (auto simp: bind_outcome_iff)
    note la = greedy_choices_props [OF c(1)]
    then have "choices \<noteq> []" using ne by auto
    then have "pl \<in> set choices" using c(2) by (simp add: arg_min_list_in)
    then show ?thesis using la by (auto simp: list_all2_conv_all_nth in_set_conv_nth) (metis nth_mem)
  next
    case False
    then obtain keyed where k: "map_res (\<lambda>op. bind_res (operation_key cx algorithm op) (\<lambda>k. Inr (k, op))) ready = Inr keyed"
      and e: "earliest_placement cx (snd (arg_min_list fst keyed)) pls = Inr (Some pl)"
      using s unfolding select_placement_def
      by (auto simp: res_simps Let_def failed_def split: option.splits)
    note ks = map_res_snd [OF k]
    then have "keyed \<noteq> []" using ne by auto
    then have "arg_min_list fst keyed \<in> set keyed" by (rule arg_min_list_in)
    then have "snd (arg_min_list fst keyed) \<in> set ready" using ks by (metis imageI set_map)
    then show ?thesis using e by blast
  qed
qed

end
