(* ===== verification/Scheduler_Correct.thy ===== *)
theory Scheduler_Correct
  imports Scheduler_Loops
begin

section \<open>The schedulers build feasible schedules\<close>

text \<open>
  The loops put together: a schedule that \<open>build_schedule\<close> returns is feasible, its candidate document
  passes the independent validator, and a failure is never the report of a stuck loop, since the
  precedence graph of an accepted problem is acyclic.
\<close>

subsection \<open>Operations in order\<close>

lemma sorted_operations_ids:
  assumes "distinct (operation_ids p)"
  shows "map op_id (sorted_operations p) = sorted_ids (operation_ids p)"
    "set (sorted_operations p) = set (p_operations p)"
proof -
  have map: "map op_id (List.map_filter (operation_by_id p) is) = is" if "set is \<subseteq> set (operation_ids p)" for "is"
    using that
  proof (induction "is")
    case (Cons i "is")
    then obtain op where "operation_by_id p i = Some op" using operation_by_id_ex [of i p] by auto
    then show ?case using Cons operation_by_id_Some [of p i op] by (simp add: map_filter_simps)
  qed (simp add: map_filter_simps)
  show "map op_id (sorted_operations p) = sorted_ids (operation_ids p)"
    unfolding sorted_operations_def by (rule map) simp
  show "set (sorted_operations p) = set (p_operations p)"
  proof
    show "set (sorted_operations p) \<subseteq> set (p_operations p)"
      by (auto simp: sorted_operations_def map_filter_def dest: operation_by_id_Some)
    show "set (p_operations p) \<subseteq> set (sorted_operations p)"
    proof
      fix op assume op: "op \<in> set (p_operations p)"
      then have "operation_by_id p (op_id op) = Some op" "op_id op \<in> set (sorted_ids (operation_ids p))"
        using operation_by_id_member [OF assms op] by (simp_all add: operation_ids_def)
      then show "op \<in> set (sorted_operations p)"
        unfolding sorted_operations_def map_filter_def by force
    qed
  qed
qed

lemma ready_operations_mem:
  assumes "op \<in> set (ready_operations cx uns pls)"
  shows "op \<in> set (p_operations (cx_problem cx))" "op_id op \<in> set uns"
  using assms by (auto simp: ready_operations_def Let_def map_filter_def dest: operation_by_id_Some)

text \<open>While operations are left, the acyclic precedence graph has one that is ready.\<close>

lemma ready_operations_nonempty:
  assumes f: "problem_facts (cx_problem cx)" and ac: "acyclic (set (edge_pairs (cx_problem cx)))"
    and uns: "set uns = set (operation_ids (cx_problem cx)) - fst ` set pls" and ne: "uns \<noteq> []"
  shows "ready_operations cx uns pls \<noteq> []"
proof -
  let ?p = "cx_problem cx"
  have "wf (set (edge_pairs ?p))" using ac by (simp add: finite_acyclic_wf)
  moreover have "hd uns \<in> set uns" using ne by simp
  ultimately obtain i where i: "i \<in> set uns" and least: "\<And>j. (j, i) \<in> set (edge_pairs ?p) \<Longrightarrow> j \<notin> set uns"
    using wfE_min by metis
  have "e_predecessor e \<in> set (anchor_ids ?p @ map fst pls)" if e: "e \<in> set (incoming ?p i)" for e
  proof -
    have "e \<in> set (p_edges ?p)" "e_successor e = i" using e by (auto simp: incoming_def)
    then have "(e_predecessor e, i) \<in> set (edge_pairs ?p)" "edge_ok ?p e"
      using f by (auto simp: edge_pairs_def problem_facts_def list_all_iff)
    then show ?thesis using least uns by (auto simp: edge_ok_def)
  qed
  then have "list_all (\<lambda>e. e_predecessor e \<in> set (anchor_ids ?p @ map fst pls)) (incoming ?p i)"
    by (simp only: list_all_iff) blast
  moreover obtain op where "operation_by_id ?p i = Some op"
    using i uns operation_by_id_ex [of i ?p] by auto
  ultimately have "op \<in> set (ready_operations cx uns pls)"
    using i unfolding ready_operations_def Let_def map_filter_def by force
  then show ?thesis by (metis empty_iff list.set(1))
qed

subsection \<open>The selection loop\<close>

lemma build_loop_ok:
  assumes "good_context cx" and "scheduled_ok cx pls"
    and "set uns = set (operation_ids (cx_problem cx)) - fst ` set pls"
    and "\<And>op. op \<in> set (p_operations (cx_problem cx)) \<Longrightarrow> op_id op \<in> set uns \<Longrightarrow> \<not> is_fixed (cx_problem cx) op"
    and "build_loop cx algorithm pls uns = Inr (Inr pls')"
  shows "scheduled_ok cx pls' \<and> fst ` set pls' = set (operation_ids (cx_problem cx))"
  using assms
proof (induction cx algorithm pls uns rule: build_loop.induct)
  case (1 cx algorithm pls uns)
  note loop = build_loop.simps [of cx algorithm pls uns]
  show ?case
  proof (cases "uns = []")
    case True
    then have "fst ` set pls = set (operation_ids (cx_problem cx))"
      using "1.prems"(2,3) partial_keys [of cx pls] by (auto simp: scheduled_ok_def)
    then show ?thesis using True "1.prems"(2,5) loop by simp
  next
    case False
    let ?ready = "ready_operations cx uns pls"
    have ne: "?ready \<noteq> []" using "1.prems"(5) False loop by (auto simp: failed_def)
    have "bind_res (select_placement cx algorithm pls ?ready) (\<lambda>outcome. case outcome of
        Inl failure \<Rightarrow> Inr (Inl failure)
      | Inr selected \<Rightarrow> if pl_operation_id selected \<in> set uns
          then build_loop cx algorithm (pls @ [(pl_operation_id selected, selected)]) (removeAll (pl_operation_id selected) uns)
          else Inl RaiseKey) = Inr (Inr pls')"
      using "1.prems"(5) False ne loop by (simp add: Let_def)
    then obtain pl where s: "select_placement cx algorithm pls ?ready = Inr (Inr pl)"
      and mem: "pl_operation_id pl \<in> set uns"
      and rest: "build_loop cx algorithm (pls @ [(pl_operation_id pl, pl)]) (removeAll (pl_operation_id pl) uns) = Inr (Inr pls')"
      unfolding bind_outcome_iff by (auto split: if_splits)
    have sub: "set ?ready \<subseteq> {op \<in> set (p_operations (cx_problem cx)). op_id op \<in> set uns}"
      using ready_operations_mem by blast
    have disj: "set uns \<inter> fst ` set pls = {}" using "1.prems"(3) by blast
    have ok: "scheduled_ok cx (pls @ [(pl_operation_id pl, pl)])"
      by (rule sel.turn_ok(2) [OF "1.prems"(1,2) ne s sub disj "1.prems"(4)])
    have uns: "set (removeAll (pl_operation_id pl) uns)
        = set (operation_ids (cx_problem cx)) - fst ` set (pls @ [(pl_operation_id pl, pl)])"
      using "1.prems"(3) by auto
    show ?thesis
      using "1.prems"(4) by (intro "1.IH" [OF False refl ne s refl mem "1.prems"(1) ok uns _ rest]) auto
  qed
qed

lemma failed_Inl: "failed c m i = Inr (Inl f) \<longleftrightarrow> f = \<lparr>sf_code = c, sf_message = m, sf_operation_id = i\<rparr>"
  by (auto simp: failed_def)

lemma greedy_choices_failure:
  "greedy_choices cx pls ready = Inr (Inl failure) \<Longrightarrow> sf_code failure = ''NO_HARD_FEASIBLE_PLACEMENT''"
proof (induction ready)
  case (Cons op ready)
  then show ?case
    by (cases "earliest_placement cx op pls"; cases "greedy_choices cx pls ready")
      (auto simp: failed_def split: option.splits sum.splits)
qed simp

lemma select_placement_failure:
  assumes "select_placement cx algorithm pls ready = Inr (Inl failure)"
  shows "sf_code failure = ''NO_HARD_FEASIBLE_PLACEMENT''"
proof (cases "algorithm = GREEDY_EARLIEST_AVAILABLE_MACHINE")
  case True
  then show ?thesis
    using assms by (cases "greedy_choices cx pls ready")
      (auto simp: select_placement_def intro: greedy_choices_failure split: sum.splits)
next
  case False
  then show ?thesis
    using assms by (auto simp: select_placement_def res_simps Let_def failed_def split: option.splits)
qed

text \<open>The loop never ends with operations left and none of them ready.\<close>

lemma build_loop_failure:
  assumes "good_context cx" and "acyclic (set (edge_pairs (cx_problem cx)))" and "scheduled_ok cx pls"
    and "set uns = set (operation_ids (cx_problem cx)) - fst ` set pls"
    and "\<And>op. op \<in> set (p_operations (cx_problem cx)) \<Longrightarrow> op_id op \<in> set uns \<Longrightarrow> \<not> is_fixed (cx_problem cx) op"
    and "build_loop cx algorithm pls uns = Inr (Inl failure)"
  shows "sf_code failure = ''NO_HARD_FEASIBLE_PLACEMENT''"
  using assms
proof (induction cx algorithm pls uns rule: build_loop.induct)
  case (1 cx algorithm pls uns)
  note loop = build_loop.simps [of cx algorithm pls uns]
  let ?ready = "ready_operations cx uns pls"
  have False: "uns \<noteq> []" using "1.prems"(6) loop by auto
  have f: "problem_facts (cx_problem cx)" using "1.prems"(1) by (simp add: good_context_def)
  have ne: "?ready \<noteq> []" by (rule ready_operations_nonempty [OF f "1.prems"(2,4) False])
  obtain outcome where s: "select_placement cx algorithm pls ?ready = Inr outcome"
    using "1.prems"(6) False ne loop by (cases "select_placement cx algorithm pls ?ready") (auto simp: Let_def)
  show ?case
  proof (cases outcome)
    case (Inl failure')
    then show ?thesis using "1.prems"(6) False ne loop s select_placement_failure [of cx algorithm pls ?ready] by simp
  next
    case (Inr pl)
    have sub: "set ?ready \<subseteq> {op \<in> set (p_operations (cx_problem cx)). op_id op \<in> set uns}"
      using ready_operations_mem by blast
    have disj: "set uns \<inter> fst ` set pls = {}" using "1.prems"(4) by blast
    note turn = sel.turn_ok [OF "1.prems"(1,3) ne s [unfolded Inr] sub disj "1.prems"(5)]
    have rest: "build_loop cx algorithm (pls @ [(pl_operation_id pl, pl)]) (removeAll (pl_operation_id pl) uns) = Inr (Inl failure)"
      using "1.prems"(6) False ne loop s Inr turn(1) by simp
    have uns: "set (removeAll (pl_operation_id pl) uns)
        = set (operation_ids (cx_problem cx)) - fst ` set (pls @ [(pl_operation_id pl, pl)])"
      using "1.prems"(4) by auto
    show ?thesis
      using "1.prems"(5)
      by (intro "1.IH" [OF False refl ne s Inr turn(1) "1.prems"(1,2) turn(2) uns _ rest]) auto
  qed
qed

subsection \<open>The whole schedule\<close>

lemma scheduled_ok_Nil: "good_context cx \<Longrightarrow> scheduled_ok cx []"
  by (simp add: scheduled_ok_def partial_ok_Nil locks_kept_def)

lemma fixed_placements_ok:
  assumes g: "good_context cx" and fx: "fixed_placements cx = Inr (Inr pls)"
  shows "scheduled_ok cx pls"
    "\<And>op. op \<in> set (p_operations (cx_problem cx)) \<Longrightarrow> is_fixed (cx_problem cx) op \<Longrightarrow> op_id op \<in> fst ` set pls"
proof -
  let ?p = "cx_problem cx"
  obtain pls' where loop: "fixed_loop cx (sorted_operations ?p) [] = Inr (Inr pls')"
    and "bind_res (known_endpoints cx pls') (\<lambda>endpoints.
         bind_res (fixed_edges cx endpoints (p_edges ?p)) (\<lambda>violated.
         case violated of Some failure \<Rightarrow> Inr (Inl failure) | None \<Rightarrow> Inr (Inr pls'))) = Inr (Inr pls)"
    using fx unfolding fixed_placements_def bind_outcome_iff by blast
  then have eq: "pls' = pls" by (auto simp: res_simps split: option.splits)
  have d: "distinct (operation_ids ?p)" using g by (simp add: good_context_def problem_facts_def)
  note ids = sorted_operations_ids [OF d]
  have "scheduled_ok cx pls
    \<and> (\<forall>op \<in> set (sorted_operations ?p). is_fixed ?p op \<longrightarrow> op_id op \<in> fst ` set pls)"
    using fixed_loop_ok [OF g scheduled_ok_Nil [OF g] loop [unfolded eq]] by (simp add: ids)
  then show "scheduled_ok cx pls"
    "\<And>op. op \<in> set (p_operations ?p) \<Longrightarrow> is_fixed ?p op \<Longrightarrow> op_id op \<in> fst ` set pls"
    using ids(2) by auto
qed

lemma scheduled_feasible:
  assumes g: "good_context cx" and ok: "scheduled_ok cx pls"
    and all: "fst ` set pls = set (operation_ids (cx_problem cx))"
  shows "feasible (cx_problem cx) (placed pls)"
proof -
  let ?p = "cx_problem cx"
  have f: "problem_facts ?p" using g by (simp add: good_context_def)
  have part: "partial_ok cx pls" and locks: "locks_kept ?p pls" using ok by (auto simp: scheduled_ok_def)
  then have d: "distinct (map fst pls)" and ex: "exclusive (placed pls)" and ed: "edges_ok ?p (placed pls)"
    by (auto simp: partial_ok_def)
  have slots: "slot_ok ?p op s" if op: "op \<in> set (p_operations ?p)" and s: "placed pls (op_id op) = Some s" for op s
  proof -
    obtain pl where pl: "(op_id op, pl) \<in> set pls" "slot_of_placement pl = s"
      using s unfolding placed_Some_iff [OF d] by blast
    obtain op' where op': "op' \<in> set (p_operations ?p)" "op_id op' = op_id op" "slot_ok ?p op' (slot_of_placement pl)"
      using partial_placement_ok [OF part pl(1)] unfolding placement_ok_def by blast
    have "distinct (map op_id (p_operations ?p))" using f by (simp add: problem_facts_def operation_ids_def)
    then have "op' = op" using op op'(1,2) by (meson distinct_map inj_onD)
    then show ?thesis using op'(3) pl(2) by simp
  qed
  have dom: "dom (placed pls) = set (operation_ids ?p)" using all by (simp add: placed_dom)
  have "slots_ok ?p (placed pls)" using dom slots by (auto simp: slots_ok_def)
  then have "edge_respected ?p (placed pls) e" if e: "e \<in> set (p_edges ?p)" for e
  proof -
    have "e_successor e \<in> set (operation_ids ?p)"
      using f e by (auto simp: problem_facts_def list_all_iff edge_ok_def)
    then obtain y where "span ?p (placed pls) (e_successor e) = Some y"
      using span_operation [OF f \<open>slots_ok ?p (placed pls)\<close>] by metis
    moreover obtain x where "span ?p (placed pls) (e_predecessor e) = Some x"
      using span_predecessor [OF f \<open>slots_ok ?p (placed pls)\<close> e] by metis
    ultimately show ?thesis using ed e unfolding edges_ok_def edge_respected_def by blast
  qed
  moreover have "lock_respected ?p (placed pls) l" if l: "l \<in> set (p_locks ?p)" for l
  proof -
    have "l_operation_id l \<in> fst ` set pls"
      using f l all by (auto simp: problem_facts_def list_all_iff lock_ok_def)
    then show ?thesis using locks l unfolding locks_kept_def by blast
  qed
  ultimately show ?thesis using dom slots ex unfolding feasible_def by blast
qed

text \<open>What \<open>build_schedule\<close> returns: the documents of a complete list of placements.\<close>

lemma build_schedule_ok:
  assumes g: "good_context cx" and b: "build_schedule cx algorithm = Inr (Inr c)"
  obtains pls where "scheduled_ok cx pls" "fst ` set pls = set (operation_ids (cx_problem cx))"
    "map_res (assignment_document cx) (sorted_placements pls) = Inr (cd_assignments c)"
    "cd_problem c = problem_reference (cx_problem cx)"
proof -
  let ?p = "cx_problem cx"
  let ?uns = "\<lambda>fixed. filter (\<lambda>i. i \<notin> set (map fst fixed)) (first_seen (operation_ids ?p))"
  obtain fixed pls where fx: "fixed_placements cx = Inr (Inr fixed)"
    and loop: "build_loop cx algorithm fixed (?uns fixed) = Inr (Inr pls)"
    and docs: "bind_res (map_res (assignment_document cx) (sorted_placements pls)) (\<lambda>assignments.
      Inr (Inr \<lparr>cd_problem = problem_reference ?p, cd_assignments = assignments\<rparr>)) = (Inr (Inr c) :: (schedule_failure + candidate_doc) res)"
    using b unfolding build_schedule_def bind_outcome_iff by blast
  note fok = fixed_placements_ok [OF g fx]
  have "scheduled_ok cx pls \<and> fst ` set pls = set (operation_ids ?p)"
  proof (rule build_loop_ok [OF g fok(1) _ _ loop])
    show "set (?uns fixed) = set (operation_ids ?p) - fst ` set fixed" by auto
    show "\<not> is_fixed ?p op" if "op \<in> set (p_operations ?p)" "op_id op \<in> set (?uns fixed)" for op
      using fok(2) [OF that(1)] that(2) by auto
  qed
  moreover have "map_res (assignment_document cx) (sorted_placements pls) = Inr (cd_assignments c)"
    "cd_problem c = problem_reference ?p"
    using docs by (auto simp: res_simps)
  ultimately show ?thesis using that by blast
qed

lemma build_schedule_failure:
  assumes g: "good_context cx" and ac: "acyclic (set (edge_pairs (cx_problem cx)))"
    and b: "build_schedule cx algorithm = Inr (Inl failure)"
  shows "fixed_placements cx = Inr (Inl failure) \<or> sf_code failure = ''NO_HARD_FEASIBLE_PLACEMENT''"
proof -
  let ?p = "cx_problem cx"
  let ?uns = "\<lambda>fixed. filter (\<lambda>i. i \<notin> set (map fst fixed)) (first_seen (operation_ids ?p))"
  obtain out where fx: "fixed_placements cx = Inr out"
    using b by (cases "fixed_placements cx") (auto simp: build_schedule_def)
  show ?thesis
  proof (cases out)
    case (Inl f)
    then show ?thesis using b fx by (simp add: build_schedule_def)
  next
    case (Inr fixed)
    note fok = fixed_placements_ok [OF g fx [unfolded Inr]]
    obtain out' where loop: "build_loop cx algorithm fixed (?uns fixed) = Inr out'"
      using b fx Inr by (cases "build_loop cx algorithm fixed (?uns fixed)") (auto simp: build_schedule_def)
    have "out' = Inl failure"
    proof (cases out')
      case (Inl f)
      then show ?thesis using b fx Inr loop by (simp add: build_schedule_def)
    next
      case (Inr pls)
      then show ?thesis
        using b fx \<open>out = Inr fixed\<close> loop by (auto simp: build_schedule_def res_simps)
    qed
    then have "build_loop cx algorithm fixed (?uns fixed) = Inr (Inl failure)" using loop by simp
    then have "sf_code failure = ''NO_HARD_FEASIBLE_PLACEMENT''"
    proof (rule build_loop_failure [OF g ac fok(1), rotated 2])
      show "set (?uns fixed) = set (operation_ids ?p) - fst ` set fixed" by auto
      show "\<not> is_fixed ?p op" if "op \<in> set (p_operations ?p)" "op_id op \<in> set (?uns fixed)" for op
        using fok(2) [OF that(1)] that(2) by auto
    qed
    then show ?thesis ..
  qed
qed

subsection \<open>The candidate document\<close>

text \<open>
  What the documents need beyond the contract: identifiers the validator can read back, and a
  horizon start on a whole second, since timestamps are written without fraction.
\<close>

definition readable_identifiers :: "problem \<Rightarrow> bool" where
  "readable_identifiers p \<longleftrightarrow> list_all canonical_identifier (operation_ids p) \<and> list_all canonical_identifier (resource_ids p)"

definition readable :: "problem \<Rightarrow> bool" where
  "readable p \<longleftrightarrow> readable_identifiers p \<and> horizon_start p mod micros = 0"

lemma tick_instant_whole: "horizon_start p mod micros = 0 \<Longrightarrow> tick_instant p t mod micros = 0"
  by (simp add: tick_instant_def)

lemma assignment_document_states:
  assumes g: "good_context cx" and r: "readable (cx_problem cx)" and ok: "placement_ok cx i pl"
    and d: "assignment_document cx pl = Inr doc"
  shows "\<exists>obj. assignment_json doc = JObj obj \<and> row_states (cx_problem cx) obj i (slot_of_placement pl)"
proof -
  let ?p = "cx_problem cx"
  have f: "problem_facts ?p" using g by (simp add: good_context_def)
  have range: "0 \<le> pl_start_tick pl" "pl_start_tick pl < pl_end_tick pl" "pl_end_tick pl \<le> cx_horizon_ticks cx"
    "pl_operation_id pl = i" and dur: "pl_duration_ticks pl = pl_end_tick pl - pl_start_tick pl"
    using ok by (auto simp: placement_ok_def)
  have rep: "representable (tick_instant ?p (pl_start_tick pl))" "representable (tick_instant ?p (pl_end_tick pl))"
    using horizon_tick_representable [OF g] range by auto
  obtain op where op: "op \<in> set (p_operations ?p)" "op_id op = i" "slot_ok ?p op (slot_of_placement pl)"
    "work_seconds op (pl_resource_id pl) = Some (pl_duration_seconds pl)"
    using ok unfolding placement_ok_def by blast
  have "pl_resource_id pl \<in> set (resource_ids ?p)"
    using slot_ok_resource [OF f op(1,3)] by (simp add: slot_of_placement_def)
  moreover have "i \<in> set (operation_ids ?p)" using op(1,2) by (auto simp: operation_ids_def)
  ultimately have can: "canonical_identifier i" "canonical_identifier (pl_resource_id pl)"
    using r by (auto simp: readable_def readable_identifiers_def list_all_iff)
  have byid: "operation_by_id ?p i = Some op"
    using operation_by_id_member [OF _ op(1)] f op(2) by (simp add: problem_facts_def)
  have par: "parse_utc_instant (format_utc_instant (tick_instant ?p t)) = Inr (tick_instant ?p t)"
    if "representable (tick_instant ?p t)" for t
    using that r by (intro parse_format_instant) (simp_all add: readable_def tick_instant_whole)
  show ?thesis
    using d rep can op(4) byid range(4) dur par
    by (auto simp: assignment_document_def restore_tick_eq assignment_json_def row_states_def dict_get_def
        slot_of_placement_def)
qed

lemma candidate_represents:
  assumes g: "good_context cx" and r: "readable (cx_problem cx)" and ok: "partial_ok cx pls"
    and docs: "map_res (assignment_document cx) (sorted_placements pls) = Inr (cd_assignments c)"
    and ref: "cd_problem c = problem_reference (cx_problem cx)"
  shows "represents (cx_problem cx) (candidate_json c) (placed pls)"
proof -
  let ?p = "cx_problem cx"
  let ?rows = "sort_key fst pls"
  let ?raws = "map assignment_json (cd_assignments c)"
  have d: "distinct (map fst pls)" using ok by (simp add: partial_ok_def)
  have la: "list_all2 (\<lambda>row doc. assignment_document cx (snd row) = Inr doc) ?rows (cd_assignments c)"
    using docs by (simp add: map_res_Inr_iff sorted_placements_def list_all2_map1)
  have len: "length ?raws = length ?rows" using list_all2_lengthD [OF la] by simp
  have row: "\<exists>obj s. ?raws ! n = JObj obj \<and> placed pls (map fst ?rows ! n) = Some s \<and> row_states ?p obj (map fst ?rows ! n) s"
    if n: "n < length ?rows" for n
  proof -
    obtain i pl where ipl: "?rows ! n = (i, pl)" by fastforce
    have "(i, pl) \<in> set ?rows" using nth_mem [OF n] ipl by simp
    then have mem: "(i, pl) \<in> set pls" by simp
    have pok: "placement_ok cx i pl" by (rule partial_placement_ok [OF ok mem])
    have n': "n < length (cd_assignments c)" using n len by simp
    have "assignment_document cx pl = Inr (cd_assignments c ! n)"
      using list_all2_nthD [OF la n] ipl by simp
    then obtain obj where "assignment_json (cd_assignments c ! n) = JObj obj" "row_states ?p obj i (slot_of_placement pl)"
      using assignment_document_states [OF g r pok] by blast
    moreover have "placed pls i = Some (slot_of_placement pl)" using mem placed_Some_iff [OF d] by blast
    ultimately show ?thesis using n n' ipl by auto
  qed
  have "list_all2 (\<lambda>raw i. \<exists>obj s. raw = JObj obj \<and> placed pls i = Some s \<and> row_states ?p obj i s)
      ?raws (map fst ?rows)"
    using row len by (intro list_all2_all_nthI) simp_all
  moreover have "distinct (map fst ?rows)"
    using d by (metis mset_map mset_sort mset_eq_imp_distinct_iff)
  moreover have "set (map fst ?rows) = dom (placed pls)" by (simp add: placed_dom)
  moreover have "reference_matches ?p (dict_get (candidate_json c) ''problem'')"
    "dict_get (candidate_json c) ''assignments'' = JArr ?raws"
    by (simp_all add: candidate_json_def dict_get_def reference_matches_def ref)
  ultimately show ?thesis unfolding represents_def by blast
qed

subsection \<open>schedule_reference\<close>

lemma checked_context_ok:
  assumes "checked_context digest p = Inr cx"
  shows "accepted p" "p_problem_hash p = problem_v2_hash_for digest p" "good_context cx" "cx_problem cx = p"
proof -
  have v: "accepted p" "p_problem_hash p = problem_v2_hash_for digest p" and c: "context_of p = Inr cx"
    using assms by (auto simp: checked_context_def accepted_def res_simps)
  show "cx_problem cx = p" using c by (auto simp: context_of_def res_simps)
  then show "good_context cx" using c accepted_facts [OF v(1)] by (simp add: good_context_def)
qed (use assms in \<open>auto simp: checked_context_def accepted_def res_simps\<close>)

lemma built_candidate_passes:
  assumes c: "checked_context digest p = Inr cx" and r: "readable p"
    and b: "build_schedule cx algorithm = Inr (Inr cand)"
  shows "\<exists>rep. validate_problem_schedule digest p (candidate_json cand) = Inr rep \<and> rep_status rep = PASS"
proof -
  note cx = checked_context_ok [OF c]
  obtain pls where pls: "scheduled_ok cx pls" "fst ` set pls = set (operation_ids (cx_problem cx))"
    "map_res (assignment_document cx) (sorted_placements pls) = Inr (cd_assignments cand)"
    "cd_problem cand = problem_reference (cx_problem cx)"
    using build_schedule_ok [OF cx(3) b] by metis
  have "represents p (candidate_json cand) (placed pls)"
    using candidate_represents [OF cx(3), of pls cand] r pls by (simp add: cx(4) scheduled_ok_def)
  moreover have "feasible p (placed pls)" using scheduled_feasible [OF cx(3) pls(1,2)] by (simp add: cx(4))
  ultimately show ?thesis using validate_pass_iff cx(1,2) by blast
qed

lemma schedule_reference_cases [consumes 1, case_names invalid failure candidate]:
  assumes "schedule_reference digest p algorithm = Inr r"
  obtains (invalid) e where "checked_context digest p = Inl e" "r = invalid_problem p algorithm e"
  | (failure) cx f where "checked_context digest p = Inr cx" "build_schedule cx algorithm = Inr (Inl f)"
      "r = reference_failure p algorithm HEURISTIC_FAILURE None
        \<lparr>fd_code = sf_code f, fd_message = Message (sf_message f), fd_operation_id = sf_operation_id f\<rparr>"
  | (candidate) cx cand where "checked_context digest p = Inr cx" "build_schedule cx algorithm = Inr (Inr cand)"
      "finish_candidate digest p algorithm cx cand = Inr r"
proof (cases "checked_context digest p")
  case (Inl e)
  then have "r = invalid_problem p algorithm e"
    using assms by (cases e) (simp_all add: schedule_reference_def)
  then show ?thesis using invalid [OF Inl] by blast
next
  case (Inr cx)
  then obtain out where out: "build_schedule cx algorithm = Inr out"
    using assms by (cases "build_schedule cx algorithm") (auto simp: schedule_reference_def)
  show ?thesis
  proof (cases out)
    case (Inl f)
    then show ?thesis using assms Inr out failure by (simp add: schedule_reference_def)
  next
    case (Inr cand)
    then show ?thesis using assms \<open>checked_context digest p = Inr cx\<close> out candidate by (simp add: schedule_reference_def)
  qed
qed

lemma finish_candidate_pass:
  assumes "validate_problem_schedule digest p (candidate_json cand) = Inr rep" and "rep_status rep = PASS"
    and "finish_candidate digest p algorithm cx cand = Inr r"
  shows "rr_status r = FEASIBLE \<and> rr_candidate r = Some cand \<and> rr_validation_report r = Some rep"
  using assms by (auto simp: finish_candidate_def res_simps reference_success_def)

lemma schedule_reference_feasible:
  assumes s: "schedule_reference digest p algorithm = Inr res" and f: "rr_status res = FEASIBLE"
  shows "\<exists>cand \<sigma>. rr_candidate res = Some cand \<and> represents p (candidate_json cand) \<sigma> \<and> feasible p \<sigma>"
using s proof (cases rule: schedule_reference_cases)
  case (candidate cx cand)
  have "\<exists>rep. validate_problem_schedule digest p (candidate_json cand) = Inr rep \<and> rep_status rep = PASS"
  proof (cases "validate_problem_schedule digest p (candidate_json cand)")
    case (Inl e)
    then show ?thesis using candidate(3) f
      by (cases e) (simp_all add: finish_candidate_def, auto simp: invalid_problem_def reference_failure_def)
  next
    case (Inr rep)
    then show ?thesis using candidate(3) f
      by (cases "rep_status rep") (auto simp: finish_candidate_def reference_failure_def)
  qed
  moreover from this have "rr_candidate res = Some cand" using finish_candidate_pass candidate(3) by blast
  ultimately show ?thesis using validate_pass_iff by blast
qed (use f in \<open>simp_all add: invalid_problem_def reference_failure_def\<close>)

subsection \<open>Failure codes\<close>

definition fixed_codes :: "string list" where
  "fixed_codes = [''FIXED_ASSIGNMENT_CONFLICT'', ''FIXED_ASSIGNMENT_OFF_GRID'', ''FIXED_RESOURCE_NOT_ALLOWED'',
     ''FIXED_ASSIGNMENT_VIOLATION'', ''FIXED_PRECEDENCE_VIOLATION'']"

lemma locked_placement_failure: "locked_placement cx op = Inr (Inl f) \<Longrightarrow> sf_code f \<in> set fixed_codes"
  unfolding locked_placement_def Let_def failed_def
  by (auto simp: res_simps fixed_codes_def split: list.splits prod.splits if_splits option.splits)

lemma fixed_placement_failure:
  assumes "fixed_placement cx op = Inr (Inl f)"
  shows "sf_code f \<in> set fixed_codes"
proof -
  obtain running where r: "running_placement cx op = Inr running"
    using assms by (cases "running_placement cx op") (auto simp: fixed_placement_def)
  obtain out where l: "locked_placement cx op = Inr out"
    using assms r by (cases "locked_placement cx op") (auto simp: fixed_placement_def)
  show ?thesis
  proof (cases out)
    case (Inl f')
    then show ?thesis using assms r l locked_placement_failure by (simp add: fixed_placement_def)
  next
    case (Inr found)
    then show ?thesis using assms r l
      by (cases found) (auto simp: fixed_placement_def failed_def fixed_codes_def split: if_splits)
  qed
qed

lemma fixed_loop_failure: "fixed_loop cx ops pls = Inr (Inl f) \<Longrightarrow> sf_code f \<in> set fixed_codes"
proof (induction ops arbitrary: pls)
  case (Cons op ops)
  obtain out where o: "fixed_placement cx op = Inr out"
    using Cons.prems by (cases "fixed_placement cx op") auto
  show ?case
  proof (cases out)
    case (Inl f')
    then show ?thesis using Cons.prems o fixed_placement_failure by simp
  next
    case (Inr found)
    show ?thesis
    proof (cases found)
      case None
      then show ?thesis using Cons o Inr by simp
    next
      case (Some pl)
      then show ?thesis using Cons o Inr
        by (cases "placement_is_feasible cx op pl pls") (auto simp: failed_def fixed_codes_def split: if_splits)
    qed
  qed
qed simp

lemma fixed_edges_failure: "fixed_edges cx eps es = Inr (Some f) \<Longrightarrow> sf_code f \<in> set fixed_codes"
  by (induction es) (auto simp: res_simps fixed_codes_def split: option.splits if_splits)

lemma fixed_placements_failure:
  assumes "fixed_placements cx = Inr (Inl f)"
  shows "sf_code f \<in> set fixed_codes"
proof -
  obtain out where o: "fixed_loop cx (sorted_operations (cx_problem cx)) [] = Inr out"
    using assms by (cases "fixed_loop cx (sorted_operations (cx_problem cx)) []") (auto simp: fixed_placements_def)
  show ?thesis
  proof (cases out)
    case (Inl f')
    then show ?thesis using assms o fixed_loop_failure by (simp add: fixed_placements_def)
  next
    case (Inr pls)
    then show ?thesis using assms o fixed_edges_failure
      by (auto simp: fixed_placements_def res_simps split: option.splits)
  qed
qed

lemma schedule_reference_failure_code:
  assumes s: "schedule_reference digest p algorithm = Inr res" and h: "rr_status res = HEURISTIC_FAILURE"
  shows "\<exists>f. rr_failure res = Some f \<and> fd_code f \<in> set (''NO_HARD_FEASIBLE_PLACEMENT'' # fixed_codes)"
using s proof (cases rule: schedule_reference_cases)
  case (failure cx f)
  note cx = checked_context_ok [OF failure(1)]
  have "fixed_placements cx = Inr (Inl f) \<or> sf_code f = ''NO_HARD_FEASIBLE_PLACEMENT''"
    by (rule build_schedule_failure [OF cx(3) _ failure(2)]) (simp add: cx(4) accepted_acyclic [OF cx(1)])
  then show ?thesis using failure(3) fixed_placements_failure by (auto simp: reference_failure_def)
next
  case (candidate cx cand)
  then show ?thesis using h
    by (auto simp: finish_candidate_def res_simps invalid_problem_def reference_failure_def reference_success_def
        split: sum.splits py_exn.splits if_splits)
qed (use h in \<open>simp add: invalid_problem_def reference_failure_def\<close>)

end
