(* ===== verification/Scheduler_Total.thy ===== *)
theory Scheduler_Total
  imports Scheduler_Correct
begin

section \<open>The schedulers return\<close>

text \<open>
  Where the code can raise, and what keeps it from raising: timestamps on whole seconds keep
  \<open>_exact_seconds\<close> total, the contract resolves every dictionary access, and a demand without an
  operation is what \<open>max\<close> of an empty list would reject. Under these conditions every one of the
  five algorithms returns a result for an accepted problem.
\<close>

definition whole :: "instant \<Rightarrow> bool" where
  "whole t \<longleftrightarrow> t mod micros = 0"

definition whole_seconds :: "problem \<Rightarrow> bool" where
  "whole_seconds p \<longleftrightarrow>
     whole (horizon_start p) \<and> whole (horizon_end p)
     \<and> list_all (\<lambda>op. whole (utc (op_release_at_utc op)) \<and> whole (utc (op_material_ready_at_utc op))) (p_operations p)
     \<and> list_all (\<lambda>a. whole (utc (a_actual_end_at_utc a))) (p_anchors p)
     \<and> list_all (\<lambda>l. whole (utc (l_start_at_utc l)) \<and> whole (utc (l_end_at_utc l))) (p_locks p)
     \<and> list_all (\<lambda>d. whole (utc (d_due_at_utc d))) (p_demands p)"

definition all_served :: "problem \<Rightarrow> bool" where
  "all_served p \<longleftrightarrow>
     list_all (\<lambda>d. list_ex (\<lambda>op. op_demand_order_id op = d_demand_order_id d) (p_operations p)) (p_demands p)"

subsection \<open>Combinators that do not raise\<close>

lemma is_ok_bind: "is_ok m \<Longrightarrow> (\<And>x. m = Inr x \<Longrightarrow> is_ok (f x)) \<Longrightarrow> is_ok (bind_res m f)"
  by (cases m) auto

lemma is_ok_all_res: "(\<And>x. x \<in> set xs \<Longrightarrow> is_ok (f x)) \<Longrightarrow> is_ok (all_res f xs)"
proof (induction xs)
  case (Cons x xs)
  then have "is_ok (f x)" "is_ok (all_res f xs)" by auto
  then show ?case by (cases "f x") auto
qed simp

lemma is_ok_map_res: "(\<And>x. x \<in> set xs \<Longrightarrow> is_ok (f x)) \<Longrightarrow> is_ok (map_res f xs)"
proof (induction xs)
  case (Cons x xs)
  then have "is_ok (f x)" "is_ok (map_res f xs)" by auto
  then show ?case by (cases "f x"; cases "map_res f xs") auto
qed simp

lemma is_ok_collect_res: "(\<And>x. x \<in> set xs \<Longrightarrow> is_ok (f x)) \<Longrightarrow> is_ok (collect_res f xs)"
  unfolding collect_res_def by (rule is_ok_bind [OF is_ok_map_res]) auto

lemma is_ok_search_start: "(\<And>t. is_ok (f t)) \<Longrightarrow> is_ok (search_start f a b)"
proof (induction f a b rule: search_start.induct)
  case (1 f a b)
  show ?case
  proof (cases "b < a")
    case False
    obtain x where x: "f a = Inr x" using "1.prems" [of a] by (auto simp: is_ok_iff)
    have "\<not> x \<Longrightarrow> is_ok (search_start f (a + 1) b)" using "1.IH" [OF False x] "1.prems" by blast
    then show ?thesis using False x by (cases x) (simp_all add: search_start.simps [of f a b])
  qed (simp add: search_start.simps [of f a b])
qed

lemma exact_seconds_ok:
  assumes "whole a" and "whole b"
  shows "is_ok (exact_seconds a b)"
proof -
  have "(a - b) mod micros = 0" using assms by (simp add: whole_def mod_diff_eq [symmetric])
  then show ?thesis by (simp add: exact_seconds_def)
qed

lemma whole_tick: "whole (horizon_start p) \<Longrightarrow> whole (tick_instant p t)"
  unfolding whole_def by (rule tick_instant_whole)

subsection \<open>One placement\<close>

lemma workshop_known: "r \<in> set (resource_ids p) \<Longrightarrow> \<exists>w. workshop_of p r = Some w"
  using resource_by_id_ex [of r p] by (auto simp: workshop_of_def)

lemma edge_is_satisfied_ok:
  assumes "whole t" "whole s'" "r \<in> set (resource_ids (cx_problem cx))" "r' \<in> set (resource_ids (cx_problem cx))"
  shows "is_ok (edge_is_satisfied cx e (span_endpoint i (r, s, t)) (span_endpoint j (r', s', t')))"
proof -
  obtain w v where "workshop_of (cx_problem cx) r = Some w" "workshop_of (cx_problem cx) r' = Some v"
    using workshop_known assms(3,4) by metis
  then show ?thesis
    using exact_seconds_ok [OF assms(2,1)]
    by (auto simp: edge_is_satisfied_def span_endpoint_def key_error_def is_ok_iff split: option.splits)
qed

lemma option_on_known:
  assumes "problem_facts p" "op \<in> set (p_operations p)" "option_on op r = Some opt"
  shows "r \<in> set (resource_ids p)"
  using assms by (auto simp: problem_facts_def list_all_iff operation_ok_def option_on_def dest!: find_Some_set)

lemma span_known:
  assumes g: "good_context cx" and w: "whole_seconds (cx_problem cx)" and ok: "partial_ok cx pls"
    and s: "span (cx_problem cx) (placed pls) i = Some (r, a, b)"
  shows "whole b" "r \<in> set (resource_ids (cx_problem cx))"
    "i \<in> set (operation_ids (cx_problem cx)) \<Longrightarrow> whole a"
proof -
  let ?p = "cx_problem cx"
  have f: "problem_facts ?p" using g by (simp add: good_context_def)
  have hs: "whole (horizon_start ?p)" using w by (simp add: whole_seconds_def)
  have "whole b \<and> r \<in> set (resource_ids ?p) \<and> (i \<in> set (operation_ids ?p) \<longrightarrow> whole a)"
  proof (cases "last_with (\<lambda>a. a_operation_id a = i) (p_anchors ?p)")
    case (Some an)
    then have "an \<in> set (p_anchors ?p)" by (auto dest: last_with_Some)
    then have "whole (utc (a_actual_end_at_utc an))" "a_resource_id an \<in> set (resource_ids ?p)"
      using w anchor_facts(2) [OF f Some] by (auto simp: whole_seconds_def list_all_iff anchor_ok_def)
    then show ?thesis using Some s anchor_not_operation [OF f] by (auto simp: span_def)
  next
    case None
    then obtain sl where sl: "placed pls i = Some sl" "r = sl_resource sl" "a = tick_instant ?p (sl_start sl)" "b = tick_instant ?p (sl_end sl)"
      using s by (auto simp: span_def)
    have "distinct (map fst pls)" using ok by (simp add: partial_ok_def)
    then obtain pl where "(i, pl) \<in> set pls" "slot_of_placement pl = sl"
      using sl(1) placed_Some_iff by metis
    then obtain op where "op \<in> set (p_operations ?p)" "slot_ok ?p op sl"
      using partial_placement_ok [OF ok] unfolding placement_ok_def by blast
    then show ?thesis using slot_ok_resource [OF f] sl whole_tick [OF hs] by auto
  qed
  then show "whole b" "r \<in> set (resource_ids ?p)" "i \<in> set (operation_ids ?p) \<Longrightarrow> whole a" by auto
qed

lemma placement_is_feasible_ok:
  assumes g: "good_context cx" and w: "whole_seconds (cx_problem cx)" and ok: "partial_ok cx pls"
    and op: "op \<in> set (p_operations (cx_problem cx))"
  shows "is_ok (placement_is_feasible cx op pl pls)"
proof (cases "0 \<le> pl_start_tick pl \<and> pl_start_tick pl < pl_end_tick pl \<and> pl_end_tick pl \<le> cx_horizon_ticks cx
    \<and> (\<exists>opt. option_on op (pl_resource_id pl) = Some opt \<and> duration_matches cx op opt pl)")
  case False
  then show ?thesis by (auto simp: placement_is_feasible_def split: option.splits)
next
  case True
  let ?p = "cx_problem cx"
  let ?cand = "span_endpoint (pl_operation_id pl) (placement_span ?p pl)"
  have range: "0 \<le> pl_start_tick pl" "pl_start_tick pl < pl_end_tick pl" "pl_end_tick pl \<le> cx_horizon_ticks cx"
    using True by auto
  obtain opt where opt: "option_on op (pl_resource_id pl) = Some opt" "duration_matches cx op opt pl" using True by blast
  have f: "problem_facts ?p" using g by (simp add: good_context_def)
  have hs: "whole (horizon_start ?p)" using w by (simp add: whole_seconds_def)
  have known: "pl_resource_id pl \<in> set (resource_ids ?p)" by (rule option_on_known [OF f op opt(1)])
  obtain eps where eps: "known_endpoints cx pls = Inr eps"
    "\<And>i. endpoint_for eps i = map_option (span_endpoint i) (span ?p (placed pls) i)"
    using known_endpoints_eq [OF g ok] by metis
  have inc: "is_ok (incoming_ok cx eps ?cand e)" for e
    using edge_is_satisfied_ok [of _ _ _ cx] span_known [OF g w ok] known whole_tick [OF hs]
    by (auto simp: incoming_ok_def eps(2) placement_span_def split: option.splits)
  have out: "is_ok (outgoing_ok cx eps ?cand e)" if "e \<in> set (outgoing ?p (op_id op))" for e
  proof -
    have "e_successor e \<in> set (operation_ids ?p)"
      using f that by (auto simp: outgoing_def problem_facts_def list_all_iff edge_ok_def)
    then show ?thesis
      using edge_is_satisfied_ok [of _ _ _ cx] span_known [OF g w ok] known whole_tick [OF hs]
      by (auto simp: outgoing_ok_def eps(2) placement_span_def split: option.splits)
  qed
  have free: "is_ok (resource_is_free cx pl pls)"
    using horizon_tick_representable [OF g] range by (simp add: resource_is_free_def restore_tick_eq)
  have "is_ok (all_res (incoming_ok cx eps ?cand) (incoming ?p (op_id op)))"
    "is_ok (all_res (outgoing_ok cx eps ?cand) (outgoing ?p (op_id op)))"
    using inc out by (auto intro: is_ok_all_res)
  then show ?thesis
    using range opt free placement_endpoint_eq [OF g range] eps(1)
    by (auto simp: placement_is_feasible_def is_ok_iff)
qed

subsection \<open>The earliest placement\<close>

lemma gate_tick_ok:
  "whole (horizon_start (cx_problem cx)) \<Longrightarrow> whole (utc gate) \<Longrightarrow> is_ok (gate_tick cx gate)"
  unfolding gate_tick_def by (rule is_ok_bind [OF exact_seconds_ok]) auto

lemma edge_lower_ok:
  assumes g: "good_context cx" and w: "whole_seconds (cx_problem cx)" and ok: "partial_ok cx pls"
    and eps: "\<And>i. endpoint_for eps i = map_option (span_endpoint i) (span (cx_problem cx) (placed pls) i)"
    and opt: "o_resource_id opt \<in> set (resource_ids (cx_problem cx))"
  shows "is_ok (edge_lower cx opt eps es acc)"
proof (induction es arbitrary: acc)
  case (Cons e es)
  show ?case
  proof (cases "span (cx_problem cx) (placed pls) (e_predecessor e)")
    case (Some x)
    obtain r a b where x: "x = (r, a, b)" by (metis prod_cases3)
    have hs: "whole (horizon_start (cx_problem cx))" using w by (simp add: whole_seconds_def)
    have b: "whole b" "r \<in> set (resource_ids (cx_problem cx))"
      using span_known(1,2) [OF g w ok] Some x by auto
    obtain k v u where "exact_seconds b (horizon_start (cx_problem cx)) = Inr k"
      "workshop_of (cx_problem cx) r = Some v" "workshop_of (cx_problem cx) (o_resource_id opt) = Some u"
      using exact_seconds_ok [OF b(1) hs] workshop_known b(2) opt unfolding is_ok_iff by metis
    then show ?thesis using Cons.IH by (simp add: eps Some x span_endpoint_def key_error_def Let_def)
  qed (simp add: eps Cons.IH)
qed simp

lemma earliest_placement_ok:
  assumes g: "good_context cx" and w: "whole_seconds (cx_problem cx)" and ok: "partial_ok cx pls"
    and op: "op \<in> set (p_operations (cx_problem cx))"
  shows "is_ok (earliest_placement cx op pls)"
proof -
  let ?p = "cx_problem cx"
  have f: "problem_facts ?p" using g by (simp add: good_context_def)
  have hs: "whole (horizon_start ?p)" and gates: "whole (utc (op_release_at_utc op))" "whole (utc (op_material_ready_at_utc op))"
    using w op by (auto simp: whole_seconds_def list_all_iff)
  obtain eps where eps: "known_endpoints cx pls = Inr eps"
    "\<And>i. endpoint_for eps i = map_option (span_endpoint i) (span ?p (placed pls) i)"
    using known_endpoints_eq [OF g ok] by metis
  have "is_ok (option_placement cx op pls eps opt)" if "opt \<in> set (op_resource_options op)" for opt
  proof -
    have opt: "o_resource_id opt \<in> set (resource_ids ?p)"
      using f op that by (auto simp: problem_facts_def list_all_iff operation_ok_def)
    have "is_ok (lower_bound cx op opt eps)"
      unfolding lower_bound_def
      by (intro is_ok_bind gate_tick_ok [OF hs] gates edge_lower_ok [OF g w ok eps(2) opt])
    moreover have "is_ok (search_start (\<lambda>t. placement_is_feasible cx op (candidate_at cx op opt t) pls) l u)" for l u
      by (intro is_ok_search_start placement_is_feasible_ok [OF g w ok op])
    ultimately show ?thesis unfolding option_placement_def by (intro is_ok_bind) auto
  qed
  then have "is_ok (collect_res (option_placement cx op pls eps) (op_resource_options op))"
    by (rule is_ok_collect_res)
  then show ?thesis by (auto simp: earliest_placement_def eps(1) is_ok_iff)
qed

subsection \<open>Fixed placements\<close>

lemma option_seconds_known:
  assumes "problem_facts p" "op \<in> set (p_operations p)"
  shows "option_seconds op opt \<noteq> None"
  using assms by (auto simp: problem_facts_def list_all_iff operation_ok_def option_seconds_def)

lemma fixed_placement_ok:
  assumes f: "problem_facts (cx_problem cx)" and w: "whole_seconds (cx_problem cx)"
    and op: "op \<in> set (p_operations (cx_problem cx))"
  shows "is_ok (fixed_placement cx op)"
proof -
  let ?p = "cx_problem cx"
  have hs: "whole (horizon_start ?p)" using w by (simp add: whole_seconds_def)
  have "operation_ok ?p op" using f op by (simp add: problem_facts_def list_all_iff)
  then have r: "is_ok (running_placement cx op)"
    by (cases "op_status op") (auto simp: running_placement_def operation_ok_def Let_def)
  have lock: "whole (utc a) \<and> whole (utc b)"
    if "remdups (map lock_signature (hard_locks ?p (op_id op))) = [(r, a, b)]" for r a b
  proof -
    have "(r, a, b) \<in> set (map lock_signature (hard_locks ?p (op_id op)))"
      using remdups_single_set [OF that] by simp
    then obtain l where "l \<in> set (p_locks ?p)" "(r, a, b) = lock_signature l" by (auto simp: hard_locks_set)
    then show ?thesis using w by (auto simp: lock_signature_def whole_seconds_def list_all_iff)
  qed
  have ex: "whole (utc a) \<Longrightarrow> \<exists>k. exact_seconds (utc a) (horizon_start ?p) = Inr k" for a
    using exact_seconds_ok [OF _ hs] by (simp add: is_ok_iff)
  have "is_ok (locked_placement cx op)"
  proof (cases "remdups (map lock_signature (hard_locks ?p (op_id op)))")
    case (Cons sig rest)
    obtain r a b where sig: "sig = (r, a, b)" by (metis prod_cases3)
    show ?thesis
    proof (cases rest)
      case Nil
      then obtain x y where "exact_seconds (utc a) (horizon_start ?p) = Inr x" "exact_seconds (utc b) (horizon_start ?p) = Inr y"
        using lock ex Cons sig by metis
      then show ?thesis
        using Cons sig Nil option_seconds_known [OF f op]
        by (simp add: locked_placement_def Let_def failed_def split: option.splits) (metis option.distinct(1))
    qed (simp add: locked_placement_def Let_def Cons sig failed_def)
  qed (simp add: locked_placement_def Let_def)
  then show ?thesis
    using r by (auto simp: fixed_placement_def is_ok_iff failed_def split: sum.splits option.splits)
qed

lemma fixed_loop_total:
  assumes g: "good_context cx" and w: "whole_seconds (cx_problem cx)" and "scheduled_ok cx pls"
    and "set ops \<subseteq> set (p_operations (cx_problem cx))"
    and "distinct (map op_id ops)" and "set (map op_id ops) \<inter> fst ` set pls = {}"
  shows "is_ok (fixed_loop cx ops pls)"
  using assms(3-)
proof (induction ops arbitrary: pls)
  case (Cons op ops)
  have f: "problem_facts (cx_problem cx)" using g by (simp add: good_context_def)
  have op: "op \<in> set (p_operations (cx_problem cx))" using Cons.prems(2) by simp
  obtain out where out: "fixed_placement cx op = Inr out"
    using fixed_placement_ok [OF f w op] by (auto simp: is_ok_iff)
  show ?case
  proof (cases out)
    case (Inr found)
    show ?thesis
    proof (cases found)
      case None
      then show ?thesis using Cons out Inr by simp
    next
      case (Some pl)
      have part: "partial_ok cx pls" using Cons.prems(1) by (simp add: scheduled_ok_def)
      obtain b where b: "placement_is_feasible cx op pl pls = Inr b"
        using placement_is_feasible_ok [OF g w part op] by (auto simp: is_ok_iff)
      note fp = fixed_placement_Some [OF out [unfolded Inr Some]]
      have "is_ok (fixed_loop cx ops (pls @ [(op_id op, pl)]))" if "b = True"
      proof (rule Cons.IH)
        show "scheduled_ok cx (pls @ [(op_id op, pl)])"
          using Cons.prems(4) by (intro scheduled_insert [OF g Cons.prems(1) b [unfolded that] fp(2) op fp(1)] fp(3)) auto
      qed (use Cons.prems in auto)
      then show ?thesis using out Inr Some b by (cases b) (simp_all add: failed_def)
    qed
  qed (simp add: out)
qed simp

lemma fixed_edges_ok:
  assumes g: "good_context cx" and w: "whole_seconds (cx_problem cx)" and ok: "partial_ok cx pls"
    and eps: "\<And>i. endpoint_for eps i = map_option (span_endpoint i) (span (cx_problem cx) (placed pls) i)"
    and es: "set es \<subseteq> set (p_edges (cx_problem cx))"
  shows "is_ok (fixed_edges cx eps es)"
  using es
proof (induction es)
  case (Cons e es)
  have succ: "e_successor e \<in> set (operation_ids (cx_problem cx))"
    using g Cons.prems by (auto simp: good_context_def problem_facts_def list_all_iff edge_ok_def)
  have IH: "is_ok (fixed_edges cx eps es)" using Cons by simp
  have sat: "is_ok (edge_is_satisfied cx e (span_endpoint (e_predecessor e) x) (span_endpoint (e_successor e) y))"
    if "span (cx_problem cx) (placed pls) (e_predecessor e) = Some x"
      "span (cx_problem cx) (placed pls) (e_successor e) = Some y" for x y
    using edge_is_satisfied_ok [of _ _ _ cx] span_known [OF g w ok] that succ
    by (cases x; cases y) auto
  show ?case
  proof (cases "span (cx_problem cx) (placed pls) (e_predecessor e) = None
      \<or> span (cx_problem cx) (placed pls) (e_successor e) = None")
    case True
    then show ?thesis using IH by (auto simp: eps split: option.splits)
  next
    case False
    then obtain x y where xy: "span (cx_problem cx) (placed pls) (e_predecessor e) = Some x"
      "span (cx_problem cx) (placed pls) (e_successor e) = Some y" by auto
    then obtain b where "edge_is_satisfied cx e (span_endpoint (e_predecessor e) x) (span_endpoint (e_successor e) y) = Inr b"
      using sat [OF xy] by (auto simp: is_ok_iff)
    then show ?thesis using IH xy by (simp add: eps)
  qed
qed simp

lemma fixed_placements_total:
  assumes g: "good_context cx" and w: "whole_seconds (cx_problem cx)"
  shows "is_ok (fixed_placements cx)"
proof -
  let ?p = "cx_problem cx"
  have d: "distinct (operation_ids ?p)" using g by (simp add: good_context_def problem_facts_def)
  note ids = sorted_operations_ids [OF d]
  have pre: "set (sorted_operations ?p) \<subseteq> set (p_operations ?p)" "distinct (map op_id (sorted_operations ?p))"
    "set (map op_id (sorted_operations ?p)) \<inter> fst ` set ([] :: placements) = {}" by (simp_all add: ids)
  obtain out where out: "fixed_loop cx (sorted_operations ?p) [] = Inr out"
    using fixed_loop_total [OF g w scheduled_ok_Nil [OF g] pre] by (auto simp: is_ok_iff)
  show ?thesis
  proof (cases out)
    case (Inr pls)
    have part: "partial_ok cx pls"
      using fixed_loop_ok [OF g scheduled_ok_Nil [OF g] out [unfolded Inr] pre] by (simp add: scheduled_ok_def)
    obtain eps where eps: "known_endpoints cx pls = Inr eps"
      "\<And>i. endpoint_for eps i = map_option (span_endpoint i) (span ?p (placed pls) i)"
      using known_endpoints_eq [OF g part] by metis
    then show ?thesis
      using out Inr fixed_edges_ok [OF g w part eps(2), of "p_edges ?p"]
      by (auto simp: fixed_placements_def is_ok_iff split: option.splits)
  qed (simp add: fixed_placements_def out)
qed

subsection \<open>The selection loop\<close>

lemma demand_known:
  assumes "problem_facts p" "op \<in> set (p_operations p)"
  shows "\<exists>d. demand_by_id p (op_demand_order_id op) = Some d"
proof -
  have "operation_ok p op" using assms by (simp add: problem_facts_def list_all_iff)
  then have "op_demand_order_id op \<in> d_demand_order_id ` set (p_demands p)" by (simp add: operation_ok_def)
  then have "demand_by_id p (op_demand_order_id op) \<noteq> None"
    by (auto simp: demand_by_id_def last_with_None_iff)
  then show ?thesis by blast
qed

lemma operation_key_ok:
  assumes f: "problem_facts (cx_problem cx)" and op: "op \<in> set (p_operations (cx_problem cx))"
    and a: "algorithm \<noteq> GREEDY_EARLIEST_AVAILABLE_MACHINE"
  shows "is_ok (operation_key cx algorithm op)"
proof -
  have "op_resource_options op \<noteq> []" using f op by (auto simp: problem_facts_def list_all_iff operation_ok_def)
  moreover obtain d where "demand_by_id (cx_problem cx) (op_demand_order_id op) = Some d"
    using demand_known [OF f op] by blast
  ultimately show ?thesis using a by (cases algorithm) (simp_all add: operation_key_def key_error_def Let_def)
qed

lemma greedy_choices_ok:
  assumes g: "good_context cx" and w: "whole_seconds (cx_problem cx)" and ok: "partial_ok cx pls"
    and ready: "set ready \<subseteq> set (p_operations (cx_problem cx))"
  shows "is_ok (greedy_choices cx pls ready)"
  using ready
proof (induction ready)
  case (Cons op ready)
  then have op: "op \<in> set (p_operations (cx_problem cx))" and IH: "is_ok (greedy_choices cx pls ready)" by auto
  obtain found where "earliest_placement cx op pls = Inr found"
    using earliest_placement_ok [OF g w ok op] by (auto simp: is_ok_iff)
  then show ?case using IH
    by (cases found; cases "greedy_choices cx pls ready") (auto simp: failed_def split: sum.splits)
qed simp

lemma select_placement_ok:
  assumes g: "good_context cx" and w: "whole_seconds (cx_problem cx)" and ok: "partial_ok cx pls"
    and ready: "set ready \<subseteq> set (p_operations (cx_problem cx))" and ne: "ready \<noteq> []"
  shows "is_ok (select_placement cx algorithm pls ready)"
proof (cases "algorithm = GREEDY_EARLIEST_AVAILABLE_MACHINE")
  case True
  then show ?thesis
    using greedy_choices_ok [OF g w ok ready]
    by (cases "greedy_choices cx pls ready") (auto simp: select_placement_def split: sum.splits)
next
  case False
  have f: "problem_facts (cx_problem cx)" using g by (simp add: good_context_def)
  let ?keyed = "\<lambda>op. bind_res (operation_key cx algorithm op) (\<lambda>k. Inr (k, op))"
  have "is_ok (map_res ?keyed ready)"
  proof (rule is_ok_map_res)
    fix op assume "op \<in> set ready"
    then have "is_ok (operation_key cx algorithm op)" using operation_key_ok [OF f _ False] ready by blast
    then show "is_ok (?keyed op)" by (rule is_ok_bind) simp
  qed
  then obtain keyed where keyed: "map_res ?keyed ready = Inr keyed" by (auto simp: is_ok_iff)
  note ks = map_res_snd [OF keyed]
  then have "keyed \<noteq> []" using ne by auto
  then have "arg_min_list fst keyed \<in> set keyed" by (rule arg_min_list_in)
  then have "snd (arg_min_list fst keyed) \<in> set ready" using ks by (metis imageI set_map)
  then have "is_ok (earliest_placement cx (snd (arg_min_list fst keyed)) pls)"
    using earliest_placement_ok [OF g w ok] ready by blast
  then show ?thesis
    using False keyed by (auto simp: select_placement_def Let_def failed_def is_ok_iff split: option.splits)
qed

lemma build_loop_total:
  assumes "good_context cx" and "whole_seconds (cx_problem cx)" and "scheduled_ok cx pls"
    and "set uns = set (operation_ids (cx_problem cx)) - fst ` set pls"
    and "\<And>op. op \<in> set (p_operations (cx_problem cx)) \<Longrightarrow> op_id op \<in> set uns \<Longrightarrow> \<not> is_fixed (cx_problem cx) op"
  shows "is_ok (build_loop cx algorithm pls uns)"
  using assms
proof (induction cx algorithm pls uns rule: build_loop.induct)
  case (1 cx algorithm pls uns)
  note loop = build_loop.simps [of cx algorithm pls uns]
  let ?ready = "ready_operations cx uns pls"
  show ?case
  proof (cases "uns = [] \<or> ?ready = []")
    case True
    then show ?thesis by (auto simp: loop failed_def)
  next
    case False
    then have ne: "?ready \<noteq> []" and un: "uns \<noteq> []" by auto
    have sub: "set ?ready \<subseteq> {op \<in> set (p_operations (cx_problem cx)). op_id op \<in> set uns}"
      using ready_operations_mem by blast
    have part: "partial_ok cx pls" using "1.prems"(3) by (simp add: scheduled_ok_def)
    obtain out where s: "select_placement cx algorithm pls ?ready = Inr out"
      using select_placement_ok [OF "1.prems"(1,2) part _ ne] sub unfolding is_ok_iff by blast
    show ?thesis
    proof (cases out)
      case (Inr pl)
      have disj: "set uns \<inter> fst ` set pls = {}" using "1.prems"(4) by blast
      note turn = sel.turn_ok [OF "1.prems"(1,3) ne s [unfolded Inr] sub disj "1.prems"(5)]
      have uns: "set (removeAll (pl_operation_id pl) uns)
          = set (operation_ids (cx_problem cx)) - fst ` set (pls @ [(pl_operation_id pl, pl)])"
        using "1.prems"(4) by auto
      have "is_ok (build_loop cx algorithm (pls @ [(pl_operation_id pl, pl)]) (removeAll (pl_operation_id pl) uns))"
        using "1.prems"(5)
        by (intro "1.IH" [OF un refl ne s Inr turn(1) "1.prems"(1,2) turn(2) uns]) auto
      then show ?thesis using un ne s Inr turn(1) by (simp add: loop Let_def)
    qed (use un ne s in \<open>simp add: loop Let_def\<close>)
  qed
qed

subsection \<open>The result\<close>

lemma assignment_document_ok:
  assumes g: "good_context cx" and ok: "placement_ok cx i pl"
  shows "is_ok (assignment_document cx pl)"
  using horizon_tick_representable [OF g] ok
  by (simp add: assignment_document_def restore_tick_eq placement_ok_def)

lemma build_schedule_total:
  assumes g: "good_context cx" and w: "whole_seconds (cx_problem cx)"
  shows "is_ok (build_schedule cx algorithm)"
proof -
  let ?p = "cx_problem cx"
  let ?uns = "\<lambda>fixed. filter (\<lambda>i. i \<notin> set (map fst fixed)) (first_seen (operation_ids ?p))"
  obtain out where fx: "fixed_placements cx = Inr out"
    using fixed_placements_total [OF g w] by (auto simp: is_ok_iff)
  show ?thesis
  proof (cases out)
    case (Inr fixed)
    note fok = fixed_placements_ok [OF g fx [unfolded Inr]]
    have set_uns: "set (?uns fixed) = set (operation_ids ?p) - fst ` set fixed" by auto
    have unfixed: "\<not> is_fixed ?p op" if "op \<in> set (p_operations ?p)" "op_id op \<in> set (?uns fixed)" for op
      using fok(2) [OF that(1)] that(2) by auto
    obtain out' where loop: "build_loop cx algorithm fixed (?uns fixed) = Inr out'"
      using build_loop_total [OF g w fok(1) set_uns unfixed] unfolding is_ok_iff by blast
    show ?thesis
    proof (cases out')
      case (Inr pls)
      have "partial_ok cx pls"
        using build_loop_ok [OF g fok(1) set_uns unfixed loop [unfolded Inr]] by (simp add: scheduled_ok_def)
      then have "is_ok (assignment_document cx pl)" if "pl \<in> set (sorted_placements pls)" for pl
        using that assignment_document_ok [OF g] partial_placement_ok by (fastforce simp: sorted_placements_def)
      then have "is_ok (map_res (assignment_document cx) (sorted_placements pls))" by (rule is_ok_map_res)
      then show ?thesis using fx \<open>out = Inr fixed\<close> loop Inr by (auto simp: build_schedule_def is_ok_iff)
    qed (use fx Inr loop in \<open>simp add: build_schedule_def\<close>)
  qed (simp add: build_schedule_def fx)
qed

lemma assignment_document_ids:
  "assignment_document cx pl = Inr doc \<Longrightarrow> ad_operation_id doc = pl_operation_id pl"
  by (auto simp: assignment_document_def res_simps)

lemma sorted_demands_mem: "d \<in> set (sorted_demands p) \<Longrightarrow> d \<in> set (p_demands p)"
  by (auto simp: sorted_demands_def map_filter_def demand_by_id_def dest: last_with_Some)

lemma sorted_demands_in:
  assumes "demand_by_id p i = Some d" and "i \<in> set (map d_demand_order_id (p_demands p))"
  shows "d \<in> set (sorted_demands p)"
proof -
  have "d \<in> set (List.map_filter (demand_by_id p) is)" if "i \<in> set is" for "is"
    using that assms(1) by (induction "is") (auto simp: map_filter_simps split: option.splits)
  then show ?thesis using assms(2) by (simp add: sorted_demands_def)
qed

text \<open>The metrics need every demand to have a scheduled operation.\<close>

lemma quality_metrics_ok:
  assumes g: "good_context cx" and w: "whole_seconds (cx_problem cx)" and served: "all_served (cx_problem cx)"
    and ids: "set (map ad_operation_id (cd_assignments c)) = set (operation_ids (cx_problem cx))"
  shows "is_ok (quality_metrics cx c)"
proof -
  let ?p = "cx_problem cx"
  have hs: "whole (horizon_start ?p)" using w by (simp add: whole_seconds_def)
  have d: "distinct (operation_ids ?p)" using g by (simp add: good_context_def problem_facts_def)
  have row: "is_ok (completion_row cx doc)" if "doc \<in> set (cd_assignments c)" for doc
  proof -
    have "ad_operation_id doc \<in> set (operation_ids ?p)" using ids that by auto
    then obtain op where "operation_by_id ?p (ad_operation_id doc) = Some op" using operation_by_id_ex by metis
    then show ?thesis by (simp add: completion_row_def key_error_def)
  qed
  then obtain rows where rows: "map_res (completion_row cx) (cd_assignments c) = Inr rows"
    using is_ok_map_res [of "cd_assignments c" "completion_row cx"] unfolding is_ok_iff by blast
  have "is_ok (demand_tardiness cx rows demand)" if dm: "demand \<in> set (p_demands ?p)" for demand
  proof -
    obtain op where op: "op \<in> set (p_operations ?p)" "op_demand_order_id op = d_demand_order_id demand"
      using served dm by (auto simp: all_served_def list_all_iff list_ex_iff)
    then have "op_id op \<in> set (map ad_operation_id (cd_assignments c))" using ids by (simp add: operation_ids_def)
    then obtain n where n: "n < length (cd_assignments c)" "ad_operation_id (cd_assignments c ! n) = op_id op"
      by (auto simp: in_set_conv_nth)
    have la: "list_all2 (\<lambda>doc r. completion_row cx doc = Inr r) (cd_assignments c) rows"
      using rows by (simp add: map_res_Inr_iff)
    then have "completion_row cx (cd_assignments c ! n) = Inr (rows ! n)" "n < length rows"
      using n(1) by (auto simp: list_all2_conv_all_nth)
    then have "rows ! n = (d_demand_order_id demand, ad_end_tick (cd_assignments c ! n))"
      using n(2) op operation_by_id_member [OF d op(1)] by (simp add: completion_row_def key_error_def)
    then have "filter (\<lambda>(i, _). i = d_demand_order_id demand) rows \<noteq> []"
      using nth_mem [OF \<open>n < length rows\<close>] by (auto simp: filter_empty_conv intro!: bexI)
    then have "is_ok (max_or_raise (map snd (filter (\<lambda>(i, _). i = d_demand_order_id demand) rows)))"
      by (simp add: max_or_raise_def)
    moreover have "is_ok (exact_seconds (utc (d_due_at_utc demand)) (horizon_start ?p))"
      using w dm hs by (intro exact_seconds_ok) (auto simp: whole_seconds_def list_all_iff)
    ultimately show ?thesis by (auto simp: demand_tardiness_def is_ok_iff)
  qed
  then have "is_ok (map_res (demand_tardiness cx rows) (sorted_demands ?p))"
    by (intro is_ok_map_res) (blast dest: sorted_demands_mem)
  then show ?thesis by (auto simp: quality_metrics_def rows is_ok_iff)
qed

lemma build_schedule_ids:
  assumes g: "good_context cx" and b: "build_schedule cx algorithm = Inr (Inr c)"
  shows "set (map ad_operation_id (cd_assignments c)) = set (operation_ids (cx_problem cx))"
proof -
  obtain pls where pls: "scheduled_ok cx pls" "fst ` set pls = set (operation_ids (cx_problem cx))"
    "map_res (assignment_document cx) (sorted_placements pls) = Inr (cd_assignments c)"
    using build_schedule_ok [OF g b] by metis
  have "map ad_operation_id (cd_assignments c) = map pl_operation_id (sorted_placements pls)"
    using pls(3) assignment_document_ids unfolding map_res_Inr_iff
    by (induction rule: list_all2_induct) auto
  moreover have "pl_operation_id ` snd ` set pls = fst ` set pls"
  proof -
    have "pl_operation_id (snd x) = fst x" if "x \<in> set pls" for x
      using partial_placement_ok [of cx pls "fst x" "snd x"] that pls(1)
      by (simp add: scheduled_ok_def placement_ok_def)
    then show ?thesis by (simp add: image_image)
  qed
  ultimately show ?thesis using pls(2) by (simp add: sorted_placements_def image_image)
qed

lemma context_of_total:
  assumes "whole_seconds p"
  shows "is_ok (context_of p)"
proof -
  have "whole (horizon_end p)" "whole (horizon_start p)" using assms by (simp_all add: whole_seconds_def)
  then show ?thesis unfolding context_of_def by (rule is_ok_bind [OF exact_seconds_ok]) simp
qed

lemma schedule_reference_total:
  assumes a: "accepted p" and h: "p_problem_hash p = problem_v2_hash_for digest p"
    and r: "readable p" and w: "whole_seconds p" and s: "all_served p"
  shows "\<exists>res. schedule_reference digest p algorithm = Inr res
    \<and> (rr_status res = FEASIBLE \<or> rr_status res = HEURISTIC_FAILURE)"
proof -
  obtain cx where c: "checked_context digest p = Inr cx"
    using context_of_total [OF w] a h by (auto simp: checked_context_def accepted_def is_ok_iff)
  note cx = checked_context_ok [OF c]
  obtain out where b: "build_schedule cx algorithm = Inr out"
    using build_schedule_total [OF cx(3)] w unfolding is_ok_iff cx(4) by blast
  show ?thesis
  proof (cases out)
    case (Inl f)
    then show ?thesis using c b by (simp add: schedule_reference_def reference_failure_def)
  next
    case (Inr cand)
    note b' = b [unfolded Inr]
    obtain rep where rep: "validate_problem_schedule digest p (candidate_json cand) = Inr rep" "rep_status rep = PASS"
      using built_candidate_passes [OF c r b'] by blast
    obtain m where "quality_metrics cx cand = Inr m"
      using quality_metrics_ok [OF cx(3), of cand] build_schedule_ids [OF cx(3) b'] w s
      unfolding is_ok_iff cx(4) by blast
    then show ?thesis using c b' rep by (simp add: schedule_reference_def finish_candidate_def reference_success_def)
  qed
qed

text \<open>
  The converse of the condition on demands: when a schedule is found but some demand has no
  operation, the metrics raise \<open>ValueError\<close> and no result is returned.
\<close>

lemma map_res_raises:
  assumes "\<And>x. x \<in> set xs \<Longrightarrow> is_ok (f x) \<or> f x = Inl e" and "y \<in> set xs" and "f y = Inl e"
  shows "map_res f xs = Inl e"
  using assms
proof (induction xs)
  case (Cons x xs)
  show ?case
  proof (cases "f x")
    case (Inl e')
    then show ?thesis using Cons.prems(1) [of x] by simp
  next
    case (Inr v)
    then have "y \<in> set xs" using Cons.prems(2,3) by auto
    then have "map_res f xs = Inl e" using Cons.IH Cons.prems(1,3) by simp
    then show ?thesis using Inr by simp
  qed
qed simp

lemma quality_metrics_unserved:
  assumes g: "good_context cx" and w: "whole_seconds (cx_problem cx)"
    and ids: "set (map ad_operation_id (cd_assignments c)) = set (operation_ids (cx_problem cx))"
    and d: "demand \<in> set (p_demands (cx_problem cx))"
    and un: "\<forall>op \<in> set (p_operations (cx_problem cx)). op_demand_order_id op \<noteq> d_demand_order_id demand"
  shows "quality_metrics cx c = Inl RaiseValue"
proof -
  let ?p = "cx_problem cx"
  have f: "problem_facts ?p" using g by (simp add: good_context_def)
  have hs: "whole (horizon_start ?p)" using w by (simp add: whole_seconds_def)
  have row: "\<exists>op \<in> set (p_operations ?p). completion_row cx doc = Inr (op_demand_order_id op, ad_end_tick doc)"
    if "doc \<in> set (cd_assignments c)" for doc
  proof -
    have "ad_operation_id doc \<in> set (operation_ids ?p)" using ids that by auto
    then obtain op where op: "operation_by_id ?p (ad_operation_id doc) = Some op" using operation_by_id_ex by metis
    then show ?thesis using operation_by_id_Some [OF op] by (auto simp: completion_row_def key_error_def)
  qed
  have "is_ok (completion_row cx doc)" if "doc \<in> set (cd_assignments c)" for doc
    using row [OF that] by auto
  then obtain rows where rows: "map_res (completion_row cx) (cd_assignments c) = Inr rows"
    using is_ok_map_res [of "cd_assignments c" "completion_row cx"] unfolding is_ok_iff by blast
  have "fst r \<noteq> d_demand_order_id demand" if r: "r \<in> set rows" for r
  proof -
    obtain doc where "doc \<in> set (cd_assignments c)" "completion_row cx doc = Inr r"
      using map_res_mem [OF rows r] by blast
    then show ?thesis using row [of doc] un by auto
  qed
  then have empty: "filter (\<lambda>(i, _). i = d_demand_order_id demand) rows = []"
    by (fastforce simp: filter_empty_conv)
  have due: "is_ok (exact_seconds (utc (d_due_at_utc x)) (horizon_start ?p))" if "x \<in> set (p_demands ?p)" for x
    using w that hs by (intro exact_seconds_ok) (auto simp: whole_seconds_def list_all_iff)
  have each: "is_ok (demand_tardiness cx rows x) \<or> demand_tardiness cx rows x = Inl RaiseValue"
    if "x \<in> set (sorted_demands ?p)" for x
    using due [OF sorted_demands_mem [OF that]] by (auto simp: demand_tardiness_def max_or_raise_def is_ok_iff)
  have "distinct (map d_demand_order_id (p_demands ?p))" using f by (simp add: problem_facts_def)
  then have "demand_by_id ?p (d_demand_order_id demand) = Some demand"
    unfolding demand_by_id_def using d by (rule last_with_key)
  then have "demand \<in> set (sorted_demands ?p)"
    by (rule sorted_demands_in) (use d in simp)
  moreover have "demand_tardiness cx rows demand = Inl RaiseValue"
    using due [OF d] empty by (auto simp: demand_tardiness_def max_or_raise_def is_ok_iff)
  ultimately have "map_res (demand_tardiness cx rows) (sorted_demands ?p) = Inl RaiseValue"
    by (intro map_res_raises [OF each])
  then show ?thesis by (simp add: quality_metrics_def rows)
qed

lemma schedule_reference_unserved:
  assumes c: "checked_context digest p = Inr cx" and r: "readable p" and w: "whole_seconds p"
    and b: "build_schedule cx algorithm = Inr (Inr cand)"
    and d: "demand \<in> set (p_demands p)"
    and un: "\<forall>op \<in> set (p_operations p). op_demand_order_id op \<noteq> d_demand_order_id demand"
  shows "schedule_reference digest p algorithm = Inl RaiseValue"
proof -
  note cx = checked_context_ok [OF c]
  obtain rep where "validate_problem_schedule digest p (candidate_json cand) = Inr rep" "rep_status rep = PASS"
    using built_candidate_passes [OF c r b] by blast
  moreover have "quality_metrics cx cand = Inl RaiseValue"
    using quality_metrics_unserved [OF cx(3), of cand demand] build_schedule_ids [OF cx(3) b] w d un
    unfolding cx(4) by blast
  ultimately show ?thesis using c b by (simp add: schedule_reference_def finish_candidate_def)
qed

end
