(* ===== verification/Scheduler_Search.thy ===== *)
theory Scheduler_Search
  imports Scheduler_Loops
begin

section \<open>The earliest placement is the best one\<close>

text \<open>
  The search of \<open>earliest_placement\<close> starts at a lower bound computed from the release gate, the
  material gate and the placed predecessors, and keeps one candidate per resource. Neither loses
  anything: no feasible start lies below the bound, so the placement returned is feasible and has the
  least key among all feasible placements of the operation, and \<open>None\<close> means that there is none.
\<close>

lemma gate_tick_le_iff:
  assumes "0 < cx_tick cx" and "gate_tick cx gate = Inr k"
  shows "k \<le> t \<longleftrightarrow> utc gate \<le> tick_instant (cx_problem cx) t"
proof -
  obtain s where s: "exact_seconds (utc gate) (horizon_start (cx_problem cx)) = Inr s" "k = ceil_div s (cx_tick cx)"
    using assms(2) by (auto simp: gate_tick_def res_simps)
  then have "utc gate = horizon_start (cx_problem cx) + s * micros" by (simp only: exact_seconds_ok_iff)
  then show ?thesis using assms(1) s(2) by (simp add: ceil_div_le_iff tick_instant_def micros_def)
qed

text \<open>One edge: the bound it contributes is met by a start that satisfies its lags.\<close>

lemma edge_bound_le:
  assumes tick: "0 < cx_tick cx" and lag: "lag_ok (cx_problem cx) e (r, s, t) (r', tick_instant (cx_problem cx) u, z)"
    and w: "workshop_of (cx_problem cx) r = Some w" "workshop_of (cx_problem cx) r' = Some v"
    and sec: "exact_seconds t (horizon_start (cx_problem cx)) = Inr k"
  shows "ceil_div (k + max (e_min_lag_seconds e) (if w \<noteq> v then e_transport_lag_seconds e else 0)) (cx_tick cx) \<le> u
    \<or> e_min_lag_seconds e < 0"
proof -
  have t: "t = horizon_start (cx_problem cx) + k * micros" using sec by (simp only: exact_seconds_ok_iff)
  have "t + e_min_lag_seconds e * micros \<le> tick_instant (cx_problem cx) u"
    "w \<noteq> v \<Longrightarrow> t + e_transport_lag_seconds e * micros \<le> tick_instant (cx_problem cx) u"
    using lag w by (auto simp: lag_ok_def)
  then have "k + e_min_lag_seconds e \<le> u * cx_tick cx" "w \<noteq> v \<Longrightarrow> k + e_transport_lag_seconds e \<le> u * cx_tick cx"
    by (simp_all add: t tick_instant_def micros_def)
  then show ?thesis by (auto simp: ceil_div_le_iff [OF tick] max_def)
qed

lemma edge_lower_le:
  assumes tick: "0 < cx_tick cx"
    and eps: "\<And>i. endpoint_for eps i = map_option (span_endpoint i) (span (cx_problem cx) \<sigma> i)"
    and lags: "\<And>e x. e \<in> set es \<Longrightarrow> span (cx_problem cx) \<sigma> (e_predecessor e) = Some x \<Longrightarrow>
      lag_ok (cx_problem cx) e x (o_resource_id opt, tick_instant (cx_problem cx) u, z)"
    and mins: "\<And>e. e \<in> set es \<Longrightarrow> 0 \<le> e_min_lag_seconds e"
    and acc: "acc \<le> u" and l: "edge_lower cx opt eps es acc = Inr l"
  shows "l \<le> u"
  using lags mins acc l
proof (induction es arbitrary: acc)
  case Nil
  then show ?case by simp
next
  case (Cons e es)
  show ?case
  proof (cases "span (cx_problem cx) \<sigma> (e_predecessor e)")
    case None
    then have "edge_lower cx opt eps es acc = Inr l" using Cons.prems(4) eps by simp
    then show ?thesis using Cons.IH Cons.prems(1-3) by (metis list.set_intros(2))
  next
    case (Some x)
    obtain r s t where x: "x = (r, s, t)" by (metis prod_cases3)
    obtain w v k where wv: "workshop_of (cx_problem cx) r = Some w" "workshop_of (cx_problem cx) (o_resource_id opt) = Some v"
      "exact_seconds t (horizon_start (cx_problem cx)) = Inr k"
      and rest: "edge_lower cx opt eps es (max acc (ceil_div
        (k + max (e_min_lag_seconds e) (if w \<noteq> v then e_transport_lag_seconds e else 0)) (cx_tick cx))) = Inr l"
      using Cons.prems(4) Some eps x by (auto simp: res_simps key_error_iff span_endpoint_def Let_def)
    have lag: "lag_ok (cx_problem cx) e (r, s, t) (o_resource_id opt, tick_instant (cx_problem cx) u, z)"
      using Cons.prems(1) [of e x] Some x by simp
    have "0 \<le> e_min_lag_seconds e" using Cons.prems(2) by simp
    then have "max acc (ceil_div (k + max (e_min_lag_seconds e) (if w \<noteq> v then e_transport_lag_seconds e else 0)) (cx_tick cx)) \<le> u"
      using edge_bound_le [OF tick lag wv] Cons.prems(3) by simp
    then show ?thesis
      using Cons.IH [OF _ _ _ rest] Cons.prems(1,2) by (metis list.set_intros(2))
  qed
qed

lemma lower_bound_le:
  assumes g: "good_context cx" and ok: "partial_ok cx pls"
    and eps: "\<And>i. endpoint_for eps i = map_option (span_endpoint i) (span (cx_problem cx) (placed pls) i)"
    and t: "placement_is_feasible cx op (candidate_at cx op opt u) pls = Inr True"
    and l: "lower_bound cx op opt eps = Inr l"
  shows "l \<le> u"
proof -
  let ?p = "cx_problem cx"
  have f: "problem_facts ?p" using g by (simp add: good_context_def)
  then have tick: "0 < cx_tick cx" by (simp add: problem_facts_def)
  note D = feasible_placementD [OF g ok t]
  obtain a b where ab: "gate_tick cx (op_release_at_utc op) = Inr a" "gate_tick cx (op_material_ready_at_utc op) = Inr b"
    and el: "edge_lower cx opt eps (incoming ?p (op_id op)) (max (max 0 a) b) = Inr l"
    using l by (auto simp: lower_bound_def res_simps)
  have acc: "max (max 0 a) b \<le> u"
    using gate_tick_le_iff [OF tick ab(1), of u] gate_tick_le_iff [OF tick ab(2), of u] D(1,8,9) by simp
  have inc: "e \<in> set (p_edges ?p)" "e_successor e = op_id op" if "e \<in> set (incoming ?p (op_id op))" for e
    using that by (auto simp: incoming_def)
  have lags: "lag_ok ?p e x (o_resource_id opt, tick_instant ?p u,
      tick_instant ?p (u + ceil_div (o_final_duration_seconds opt) (cx_tick cx)))"
    if "e \<in> set (incoming ?p (op_id op))" "span ?p (placed pls) (e_predecessor e) = Some x" for e x
    using D(11) [OF inc [OF that(1)] that(2)] by (simp add: placement_span_def)
  have mins: "0 \<le> e_min_lag_seconds e" if "e \<in> set (incoming ?p (op_id op))" for e
    using f inc(1) [OF that] by (auto simp: problem_facts_def list_all_iff edge_ok_def)
  show ?thesis by (rule edge_lower_le [OF tick eps lags mins acc el])
qed

text \<open>One resource: the start found is not after any feasible start.\<close>

lemma option_placement_best:
  assumes g: "good_context cx" and ok: "partial_ok cx pls"
    and eps: "\<And>i. endpoint_for eps i = map_option (span_endpoint i) (span (cx_problem cx) (placed pls) i)"
    and t: "placement_is_feasible cx op (candidate_at cx op opt u) pls = Inr True"
    and o: "option_placement cx op pls eps opt = Inr found"
  obtains v where "found = [candidate_at cx op opt v]" "v \<le> u"
proof -
  let ?upper = "cx_horizon_ticks cx - ceil_div (o_final_duration_seconds opt) (cx_tick cx)"
  let ?ok = "\<lambda>t. placement_is_feasible cx op (candidate_at cx op opt t) pls"
  obtain l res where l: "lower_bound cx op opt eps = Inr l" and s: "search_start ?ok l ?upper = Inr res"
    and fd: "found = (case res of None \<Rightarrow> [] | Some t \<Rightarrow> [candidate_at cx op opt t])"
    using o by (auto simp: option_placement_def res_simps)
  have lu: "l \<le> u" by (rule lower_bound_le [OF g ok eps t l])
  have up: "u \<le> ?upper" using feasible_placementD(3) [OF g ok t] by simp
  show ?thesis
  proof (cases res)
    case None
    then have "?ok u = Inr False" using search_start_None [of ?ok l ?upper u] s lu up by blast
    then show ?thesis using t by simp
  next
    case (Some v)
    have "\<not> u < v"
    proof
      assume "u < v"
      then have "?ok u = Inr False" using search_start_Some [of ?ok l ?upper v] s Some lu by blast
      then show False using t by simp
    qed
    then show ?thesis using that fd Some by simp
  qed
qed

lemma candidate_key_mono:
  "v \<le> u \<Longrightarrow> placement_key (candidate_at cx op opt v) \<le> placement_key (candidate_at cx op opt u)"
  by (auto simp: placement_key_def less_eq_prod_def)

lemma earliest_placement_best:
  assumes g: "good_context cx" and ok: "partial_ok cx pls"
    and e: "earliest_placement cx op pls = Inr found"
    and opt: "opt \<in> set (op_resource_options op)"
    and t: "placement_is_feasible cx op (candidate_at cx op opt u) pls = Inr True"
  shows "\<exists>pl. found = Some pl \<and> placement_key pl \<le> placement_key (candidate_at cx op opt u)"
proof -
  obtain eps where eps: "known_endpoints cx pls = Inr eps"
    "\<And>i. endpoint_for eps i = map_option (span_endpoint i) (span (cx_problem cx) (placed pls) i)"
    using known_endpoints_eq [OF g ok] by metis
  obtain vs where vs: "collect_res (option_placement cx op pls eps) (op_resource_options op) = Inr vs"
    and found: "found = (if vs = [] then None else Some (arg_min_list placement_key vs))"
    using e eps(1) by (auto simp: earliest_placement_def res_simps)
  have "is_ok (option_placement cx op pls eps opt)" and in_vs: "set (projr (option_placement cx op pls eps opt)) \<subseteq> set vs"
    using vs opt by (auto simp: collect_res_Inr_iff)
  then obtain mine where mine: "option_placement cx op pls eps opt = Inr mine" by (auto simp: is_ok_iff)
  obtain v where v: "mine = [candidate_at cx op opt v]" "v \<le> u"
    using option_placement_best [OF g ok eps(2) t mine] .
  then have mem: "candidate_at cx op opt v \<in> set vs" using in_vs mine by simp
  then have ne: "vs \<noteq> []" by auto
  have "placement_key (arg_min_list placement_key vs) = Min (placement_key ` set vs)"
    by (rule f_arg_min_list_f [OF ne])
  also have "\<dots> \<le> placement_key (candidate_at cx op opt v)" using mem by simp
  also have "\<dots> \<le> placement_key (candidate_at cx op opt u)" by (rule candidate_key_mono [OF v(2)])
  finally show ?thesis using found ne by simp
qed

lemma earliest_placement_exact:
  assumes g: "good_context cx" and ok: "partial_ok cx pls" and e: "earliest_placement cx op pls = Inr found"
  shows "case found of
      None \<Rightarrow> \<forall>opt \<in> set (op_resource_options op). \<forall>u. placement_is_feasible cx op (candidate_at cx op opt u) pls \<noteq> Inr True
    | Some pl \<Rightarrow> placement_is_feasible cx op pl pls = Inr True
        \<and> (\<exists>opt \<in> set (op_resource_options op). \<exists>t. pl = candidate_at cx op opt t)
        \<and> (\<forall>opt \<in> set (op_resource_options op). \<forall>u. placement_is_feasible cx op (candidate_at cx op opt u) pls = Inr True
            \<longrightarrow> placement_key pl \<le> placement_key (candidate_at cx op opt u))"
proof (cases found)
  case None
  then show ?thesis using earliest_placement_best [OF g ok e] by auto
next
  case (Some pl)
  obtain opt t where found: "opt \<in> set (op_resource_options op)" "pl = candidate_at cx op opt t"
    "placement_is_feasible cx op pl pls = Inr True"
    by (rule earliest_placement_Some [OF e [unfolded Some]])
  have "placement_key pl \<le> placement_key (candidate_at cx op opt u)"
    if "opt \<in> set (op_resource_options op)" "placement_is_feasible cx op (candidate_at cx op opt u) pls = Inr True" for opt u
    using earliest_placement_best [OF g ok e that] Some by simp
  then show ?thesis using found Some by (simp only: option.case) blast
qed

end
