(* ===== verification/Validator_Report.thy ===== *)
theory Validator_Report
  imports Validator_Correct
begin

section \<open>What a report lists\<close>

text \<open>
  Beyond PASS and FAIL: a report lists a constraint exactly when the rule of that constraint is
  broken, its violations are sorted, counted and each names an entity, and the error envelope built
  from it carries one detail per violation.
\<close>

definition reported :: "violation list \<Rightarrow> constraint_id \<Rightarrow> bool" where
  "reported vs c \<longleftrightarrow> (\<exists>v \<in> set vs. v_constraint_id v = c)"

lemma reported_append [simp]: "reported (xs @ ys) c \<longleftrightarrow> reported xs c \<or> reported ys c"
  by (auto simp: reported_def)

lemma reported_single_id:
  "(\<And>v. v \<in> set vs \<Longrightarrow> v_constraint_id v = d) \<Longrightarrow> reported vs c \<longleftrightarrow> c = d \<and> vs \<noteq> []"
  by (cases vs) (auto simp: reported_def)

lemma materialize_row_ids:
  "v \<in> set (snd (materialize_one i raw)) \<Longrightarrow> v_constraint_id v \<in> {C001, C003} \<and> v_entity_ids v \<noteq> []"
  by (cases raw) (auto simp: materialize_one_def materialize_object_def Let_def split: option.splits if_splits)

lemma materialize_ids:
  assumes "v \<in> set (snd (materialize_assignments p cand))"
  shows "v_constraint_id v \<in> {C001, C003} \<and> v_entity_ids v \<noteq> []"
proof -
  have "v \<in> set (reference_violations p cand) \<Longrightarrow> v_constraint_id v = C001 \<and> v_entity_ids v \<noteq> []"
    by (auto simp: reference_violations_def Let_def split: if_splits)
  then show ?thesis
    using assms materialize_row_ids
    by (cases "dict_get cand ''assignments''") (fastforce simp: materialize_assignments_def Let_def)+
qed

lemma materialize_reported: "c \<notin> {C001, C003} \<Longrightarrow> \<not> reported (snd (materialize_assignments p cand)) c"
  using materialize_ids by (fastforce simp: reported_def)

lemma concat_reported:
  assumes "\<And>r v. v \<in> set (row r) \<Longrightarrow> v_constraint_id v = d" and "\<And>r. row r = [] \<longleftrightarrow> ok r"
  shows "reported (concat (map row rs)) c \<longleftrightarrow> c = d \<and> (\<exists>r \<in> set rs. \<not> ok r)"
  using assms by (subst reported_single_id [of _ d]) auto

lemma evaluate_c002_reported:
  "reported (evaluate_c002 p eps) c \<longleftrightarrow> c = C002 \<and> (\<exists>e \<in> set (p_edges p). \<not> rule_c002 eps e)"
  unfolding evaluate_c002_def using c002.row_ids c002.row_clean_iff by (intro concat_reported) auto

lemma evaluate_c003_reported:
  "reported (evaluate_c003 p g) c \<longleftrightarrow> c = C003 \<and> (\<exists>op \<in> set (p_operations p). \<not> rule_c003 g op)"
  unfolding evaluate_c003_def using c003.row_ids c003.row_clean_iff by (intro concat_reported) auto

lemma evaluate_c009_reported:
  "reported (evaluate_c009 p eps) c \<longleftrightarrow> c = C009 \<and> (\<exists>e \<in> set (p_edges p). \<not> rule_c009 p eps e)"
  unfolding evaluate_c009_def using c009.row_ids c009.row_clean_iff by (intro concat_reported) auto

lemmas row_reported =
  c005.reported_iff [folded evaluate_c005_def reported_def]
  c006.reported_iff [of p s "p_operations p" for p s, folded evaluate_c006_def reported_def]
  c008.reported_iff [of p g "p_locks p" for p g, folded evaluate_c008_def reported_def]
  c010.reported_iff [of p s "p_operations p" for p s, folded evaluate_c010_def reported_def]
  c011.reported_iff [folded evaluate_c011_def reported_def]

lemma evaluate_c007_reported:
  assumes "evaluate_c007 p g = Inr vs"
  shows "reported vs c \<longleftrightarrow> c = C007 \<and> ((\<exists>op \<in> set (p_operations p). \<not> rule_c007 p g op)
    \<or> (\<exists>an \<in> set (p_anchors p). selected_for g (a_operation_id an) \<noteq> []))"
proof -
  obtain running where r: "collect_res (c007_running p g) (p_operations p) = Inr running"
    and vs: "vs = concat (map (c007_anchor g) (p_anchors p)) @ running"
    using assms by (auto simp: evaluate_c007_def res_simps)
  have "reported (concat (map (c007_anchor g) (p_anchors p))) c \<longleftrightarrow>
      c = C007 \<and> (\<exists>an \<in> set (p_anchors p). \<not> selected_for g (a_operation_id an) = [])"
    by (rule concat_reported) (auto simp: c007_anchor_def Let_def split: if_splits)
  moreover have "reported running c \<longleftrightarrow> c = C007 \<and> (\<exists>op \<in> set (p_operations p). \<not> rule_c007 p g op)"
    using c007.reported_iff [OF r] by (simp add: reported_def)
  ultimately show ?thesis by (auto simp: vs)
qed

text \<open>The violations of a candidate, with the intermediate values of the evaluation named.\<close>

lemma collect_violations_parts:
  assumes "collect_violations p cand = Inr vs"
  obtains as ms eps v5 v6 v7 v8 v10 v11 where
    "materialize_assignments p cand = (as, ms)"
    "endpoint_maps p (singles_of (groups_of as)) = Inr eps"
    "evaluate_c005 p as = Inr v5" "evaluate_c006 p (singles_of (groups_of as)) = Inr v6"
    "evaluate_c007 p (groups_of as) = Inr v7" "evaluate_c008 p (groups_of as) = Inr v8"
    "evaluate_c010 p (singles_of (groups_of as)) = Inr v10" "evaluate_c011 p as = Inr v11"
    "vs = ms @ evaluate_c001 p as (groups_of as) @ evaluate_c002 p eps @ evaluate_c003 p (groups_of as)
      @ evaluate_c004 p as @ v5 @ v6 @ v7 @ v8 @ evaluate_c009 p eps @ v10 @ v11"
proof -
  obtain as ms where m: "materialize_assignments p cand = (as, ms)" by fastforce
  show ?thesis using assms m that [OF m] by (auto simp: collect_violations_def Let_def res_simps)
qed

text \<open>The rule a constraint stands for, on the data its evaluator reads.\<close>

definition rule_holds ::
  "problem \<Rightarrow> assignment list \<Rightarrow> (string \<times> endpoint) list \<Rightarrow> constraint_id \<Rightarrow> bool" where
  "rule_holds p as eps c =
     (let g = groups_of as; singles = singles_of g in
      case c of
        C001 \<Rightarrow> rule_c001 p as
      | C002 \<Rightarrow> (\<forall>e \<in> set (p_edges p). rule_c002 eps e)
      | C003 \<Rightarrow> (\<forall>op \<in> set (p_operations p). rule_c003 g op)
      | C004 \<Rightarrow> rule_c004 p as
      | C005 \<Rightarrow> (\<forall>a \<in> set as. rule_c005 p a)
      | C006 \<Rightarrow> (\<forall>op \<in> set (p_operations p). rule_c006 p singles op)
      | C007 \<Rightarrow> (\<forall>op \<in> set (p_operations p). rule_c007 p g op)
                 \<and> (\<forall>an \<in> set (p_anchors p). selected_for g (a_operation_id an) = [])
      | C008 \<Rightarrow> (\<forall>l \<in> set (p_locks p). rule_c008 p g l)
      | C009 \<Rightarrow> (\<forall>e \<in> set (p_edges p). rule_c009 p eps e)
      | C010 \<Rightarrow> (\<forall>op \<in> set (p_operations p). rule_c010 p singles op)
      | C011 \<Rightarrow> (\<forall>a \<in> set as. rule_c011 p a))"

lemma collect_violations_reported:
  assumes v: "collect_violations p cand = Inr vs" and m: "materialize_assignments p cand = (as, ms)"
    and e: "endpoint_maps p (singles_of (groups_of as)) = Inr eps"
  shows "reported vs c \<longleftrightarrow> reported ms c \<or> \<not> rule_holds p as eps c"
proof -
  obtain v5 v6 v7 v8 v10 v11 where ev:
    "evaluate_c005 p as = Inr v5" "evaluate_c006 p (singles_of (groups_of as)) = Inr v6"
    "evaluate_c007 p (groups_of as) = Inr v7" "evaluate_c008 p (groups_of as) = Inr v8"
    "evaluate_c010 p (singles_of (groups_of as)) = Inr v10" "evaluate_c011 p as = Inr v11"
    and vs: "vs = ms @ evaluate_c001 p as (groups_of as) @ evaluate_c002 p eps @ evaluate_c003 p (groups_of as)
      @ evaluate_c004 p as @ v5 @ v6 @ v7 @ v8 @ evaluate_c009 p eps @ v10 @ v11"
    using collect_violations_parts [OF v] m e by (metis Pair_inject sum.inject(2))
  have d: "distinct as" using materialize_distinct [of p cand] m by simp
  have r1: "reported (evaluate_c001 p as (groups_of as)) c \<longleftrightarrow> c = C001 \<and> \<not> rule_c001 p as"
    by (subst reported_single_id [of _ C001]) (auto simp: evaluate_c001_ids evaluate_c001_clean_iff)
  have r4: "reported (evaluate_c004 p as) c \<longleftrightarrow> c = C004 \<and> \<not> rule_c004 p as"
    by (subst reported_single_id [of _ C004]) (auto simp: evaluate_c004_ids evaluate_c004_clean_iff [OF d])
  show ?thesis
    unfolding vs reported_append r1 r4 evaluate_c002_reported evaluate_c003_reported evaluate_c009_reported
      row_reported(1) [OF ev(1)] row_reported(2) [OF ev(2)] evaluate_c007_reported [OF ev(3)]
      row_reported(3) [OF ev(4)] row_reported(4) [OF ev(5)] row_reported(5) [OF ev(6)]
    by (cases c) (simp_all add: rule_holds_def Let_def)
qed

lemma collect_violations_entities:
  assumes v: "collect_violations p cand = Inr vs" and x: "x \<in> set vs"
  shows "v_entity_ids x \<noteq> []"
proof -
  obtain as ms eps v5 v6 v7 v8 v10 v11 where m: "materialize_assignments p cand = (as, ms)"
    and ev: "evaluate_c005 p as = Inr v5" "evaluate_c006 p (singles_of (groups_of as)) = Inr v6"
    "evaluate_c007 p (groups_of as) = Inr v7" "evaluate_c008 p (groups_of as) = Inr v8"
    "evaluate_c010 p (singles_of (groups_of as)) = Inr v10" "evaluate_c011 p as = Inr v11"
    and vs: "vs = ms @ evaluate_c001 p as (groups_of as) @ evaluate_c002 p eps @ evaluate_c003 p (groups_of as)
      @ evaluate_c004 p as @ v5 @ v6 @ v7 @ v8 @ evaluate_c009 p eps @ v10 @ v11"
    using collect_violations_parts [OF v] by metis
  have ms: "x \<in> set ms \<Longrightarrow> ?thesis" using materialize_ids [of x p cand] m by simp
  have e1: "x \<in> set (evaluate_c001 p as (groups_of as)) \<Longrightarrow> ?thesis"
    by (auto simp: evaluate_c001_def c001_active_def c001_unknown_def Let_def split: if_splits)
  have e4: "x \<in> set (evaluate_c004 p as) \<Longrightarrow> ?thesis"
    by (auto simp: evaluate_c004_eq c004_violation_def)
  have plain: "x \<in> set (evaluate_c002 p eps) \<Longrightarrow> ?thesis" "x \<in> set (evaluate_c003 p (groups_of as)) \<Longrightarrow> ?thesis"
    "x \<in> set (evaluate_c009 p eps) \<Longrightarrow> ?thesis"
    using c002.row_entities c003.row_entities c009.row_entities
    by (auto simp: evaluate_c002_def evaluate_c003_def evaluate_c009_def)
  have e7: "x \<in> set v7 \<Longrightarrow> ?thesis"
    using ev(3) c007.collected_entities
    by (auto simp: evaluate_c007_def res_simps c007_anchor_def Let_def split: if_splits)
  note rows = c005.collected_entities [OF ev(1) [unfolded evaluate_c005_def]]
    c006.collected_entities [OF ev(2) [unfolded evaluate_c006_def]]
    c008.collected_entities [OF ev(4) [unfolded evaluate_c008_def]]
    c010.collected_entities [OF ev(5) [unfolded evaluate_c010_def]]
    c011.collected_entities [OF ev(6) [unfolded evaluate_c011_def]]
  show ?thesis using x ms e1 e4 plain e7 rows unfolding vs set_append by blast
qed

lemma validate_report_shape:
  assumes "validate_problem_schedule digest p cand = Inr rep"
  shows "rep_hard_violation_count rep = length (rep_violations rep)"
    "rep_status rep = PASS \<longleftrightarrow> rep_violations rep = []"
    "sorted (map violation_sort_key (rep_violations rep))"
    "\<forall>v \<in> set (rep_violations rep). v_entity_ids v \<noteq> []"
    "\<exists>vs. collect_violations p cand = Inr vs \<and> mset vs = mset (rep_violations rep)"
proof -
  obtain vs where vs: "collect_violations p cand = Inr vs" "rep_violations rep = sort_key violation_sort_key vs"
    and rep: "rep_hard_violation_count rep = length (rep_violations rep)"
    "rep_status rep = PASS \<longleftrightarrow> rep_violations rep = []"
    using assms by (auto simp: validate_problem_schedule_def res_simps Let_def)
  show "rep_hard_violation_count rep = length (rep_violations rep)"
    "rep_status rep = PASS \<longleftrightarrow> rep_violations rep = []" by (fact rep)+
  show "sorted (map violation_sort_key (rep_violations rep))" by (simp add: vs(2))
  show "\<forall>v \<in> set (rep_violations rep). v_entity_ids v \<noteq> []"
    using collect_violations_entities [OF vs(1)] by (simp add: vs(2))
  show "\<exists>vs. collect_violations p cand = Inr vs \<and> mset vs = mset (rep_violations rep)"
    using vs by auto
qed

subsection \<open>The report and the error envelope\<close>

lemma constraint_text_inj: "constraint_text c = constraint_text d \<longleftrightarrow> c = d"
  by (cases c; cases d) simp_all


lemma report_names_broken_rules:
  assumes "validate_problem_schedule digest p cand = Inr rep" and m: "materialize_assignments p cand = (as, ms)"
    and e: "endpoint_maps p (singles_of (groups_of as)) = Inr eps"
  shows "(\<exists>v \<in> set (rep_violations rep). v_constraint_id v = c) \<longleftrightarrow> reported ms c \<or> \<not> rule_holds p as eps c"
proof -
  obtain vs where vs: "collect_violations p cand = Inr vs" "mset vs = mset (rep_violations rep)"
    using validate_report_shape(5) [OF assms(1)] by blast
  then have "set (rep_violations rep) = set vs" by (metis mset_eq_setD)
  then show ?thesis using collect_violations_reported [OF vs(1) m e, of c] by (auto simp: reported_def)
qed

lemma envelope_details:
  "validation_error_from_problem_report rep = Some err \<Longrightarrow> err_details err = map violation_detail (rep_violations rep)"
  by (auto simp: validation_error_from_problem_report_def split: if_splits)

definition detail_constraint :: "error_detail \<Rightarrow> json" where
  "detail_constraint d = dict_get (object_of (ed_observed_value d)) ''constraint_id''"

lemma detail_constraint_of [simp]: "detail_constraint (violation_detail v) = JStr (constraint_text (v_constraint_id v))"
  by (simp add: detail_constraint_def violation_detail_def object_of_def dict_get_def)

lemma envelope_names_broken_rules:
  assumes v: "validate_problem_schedule digest p cand = Inr rep" and m: "materialize_assignments p cand = (as, ms)"
    and e: "endpoint_maps p (singles_of (groups_of as)) = Inr eps"
  shows "case validation_error_from_problem_report rep of
      None \<Rightarrow> \<forall>c. \<not> reported ms c \<and> rule_holds p as eps c
    | Some err \<Rightarrow> (\<exists>c. reported ms c \<or> \<not> rule_holds p as eps c)
        \<and> (\<forall>c. JStr (constraint_text c) \<in> detail_constraint ` set (err_details err)
             \<longleftrightarrow> reported ms c \<or> \<not> rule_holds p as eps c)"
proof (cases "validation_error_from_problem_report rep")
  case None
  then have "rep_violations rep = []"
    using validate_report_shape(2) [OF v] by (auto simp: validation_error_from_problem_report_def split: if_splits)
  then show ?thesis using report_names_broken_rules [OF assms] None by auto
next
  case (Some err)
  have "JStr (constraint_text c) \<in> detail_constraint ` set (err_details err) \<longleftrightarrow> (\<exists>v \<in> set (rep_violations rep). v_constraint_id v = c)" for c
    unfolding envelope_details [OF Some] by (auto simp: image_iff constraint_text_inj)
  moreover have "rep_violations rep \<noteq> []"
    using Some validate_report_shape(2) [OF v] by (auto simp: validation_error_from_problem_report_def split: if_splits)
  then obtain x where "x \<in> set (rep_violations rep)" by (cases "rep_violations rep") auto
  then have "\<exists>c. \<exists>v \<in> set (rep_violations rep). v_constraint_id v = c" by blast
  ultimately show ?thesis using report_names_broken_rules [OF assms] Some by simp
qed

subsection \<open>What the validator raises\<close>

text \<open>
  On an accepted problem the only exception the evaluation can raise is the \<open>OverflowError\<close> of
  \<open>datetime\<close> addition, and it does raise it for a candidate that declares a tick outside the years
  Python represents.
\<close>

lemma restore_optional_raises: "restore_optional p t = Inl e \<Longrightarrow> e = RaiseOverflow"
  by (auto simp: restore_optional_def restore_tick_eq res_simps split: option.splits if_splits)

lemma rows_raise:
  assumes f: "problem_facts p"
  shows "single_endpoint p x = Inl e \<Longrightarrow> e = RaiseOverflow"
    "c005_row p a = Inl e \<Longrightarrow> e = RaiseOverflow"
    "c006_row p s op = Inl e \<Longrightarrow> e = RaiseOverflow"
    "c008_row p g l = Inl e \<Longrightarrow> e = RaiseOverflow"
    "c011_row p a = Inl e \<Longrightarrow> e = RaiseOverflow"
proof -
  show "single_endpoint p x = Inl e \<Longrightarrow> e = RaiseOverflow"
    by (auto simp: single_endpoint_def restore_tick_eq split: prod.splits option.splits if_splits)
  show "c005_row p a = Inl e \<Longrightarrow> e = RaiseOverflow"
    by (auto simp: c005_row_def restore_tick_eq split: option.splits if_splits)
  show "c006_row p s op = Inl e \<Longrightarrow> e = RaiseOverflow"
    by (auto simp: c006_row_def restore_tick_eq Let_def split: option.splits if_splits)
  show "c008_row p g l = Inl e \<Longrightarrow> e = RaiseOverflow"
    by (auto simp: c008_row_def Let_def res_simps dest: restore_optional_raises split: if_splits)
  show "c011_row p a = Inl e \<Longrightarrow> e = RaiseOverflow"
    by (auto simp: c011_row_def Let_def res_simps dest: restore_optional_raises split: if_splits)
qed

lemma operation_rows_raise:
  assumes f: "problem_facts p" and op: "op \<in> set (p_operations p)"
  shows "c007_running p g op = Inl e \<Longrightarrow> e = RaiseOverflow" "c010_row p s op = Inl e \<Longrightarrow> e = RaiseOverflow"
proof -
  have ok: "operation_ok p op" using f op by (simp add: problem_facts_def list_all_iff)
  then show "c007_running p g op = Inl e \<Longrightarrow> e = RaiseOverflow"
    by (cases "op_status op")
      (auto simp: c007_running_def operation_ok_def Let_def res_simps dest: restore_optional_raises)
  have "expected_seconds op opt \<noteq> Inl e" for opt
    using ok by (cases "op_status op") (auto simp: expected_seconds_def operation_ok_def)
  then show "c010_row p s op = Inl e \<Longrightarrow> e = RaiseOverflow"
    by (auto simp: c010_row_def Let_def res_simps split: option.splits)
qed

lemma collect_raises:
  "collect_res f xs = Inl e \<Longrightarrow> (\<And>x. x \<in> set xs \<Longrightarrow> f x = Inl e \<Longrightarrow> e = RaiseOverflow) \<Longrightarrow> e = RaiseOverflow"
  by (auto dest: collect_res_Inl)

lemma collect_violations_raises:
  assumes f: "problem_facts p" and c: "collect_violations p cand = Inl e"
  shows "e = RaiseOverflow"
proof -
  obtain as ms where m: "materialize_assignments p cand = (as, ms)" by fastforce
  consider "collect_res (single_endpoint p) (singles_of (groups_of as)) = Inl e"
    | "collect_res (c005_row p) as = Inl e"
    | "collect_res (c006_row p (singles_of (groups_of as))) (p_operations p) = Inl e"
    | "collect_res (c007_running p (groups_of as)) (p_operations p) = Inl e"
    | "collect_res (c008_row p (groups_of as)) (p_locks p) = Inl e"
    | "collect_res (c010_row p (singles_of (groups_of as))) (p_operations p) = Inl e"
    | "collect_res (c011_row p) as = Inl e"
    using c m by (auto simp: collect_violations_def Let_def res_simps endpoint_maps_def evaluate_c005_def
        evaluate_c006_def evaluate_c007_def evaluate_c008_def evaluate_c010_def evaluate_c011_def)
  then show ?thesis
    by cases (auto elim!: collect_raises dest: rows_raise [OF f] operation_rows_raise [OF f])
qed

lemma validate_raises:
  assumes "validate_problem_schedule digest p cand = Inl e"
  shows "(\<exists>field. e = RaiseInput field) \<or> accepted p \<and> e = RaiseOverflow"
proof (cases "validated_problem digest p")
  case (Inl e')
  then have "e = e'" using assms by (simp add: validate_problem_schedule_def)
  moreover have "\<exists>field. e' = RaiseInput field"
    using Inl by (auto simp: validated_problem_def require_or_def split: sum.splits py_exn.splits if_splits)
  ultimately show ?thesis by simp
next
  case (Inr u)
  then have a: "accepted p" by (simp add: validated_problem_ok_iff)
  moreover have "collect_violations p cand = Inl e"
    using assms Inr by (auto simp: validate_problem_schedule_def res_simps Let_def)
  ultimately show ?thesis using collect_violations_raises accepted_facts by blast
qed

lemma validate_overflow:
  assumes v: "accepted p" "p_problem_hash p = problem_v2_hash_for digest p"
    and m: "materialize_assignments p cand = (as, ms)" and a: "a \<in> set as"
    and u: "as_resource_id a \<noteq> None" "as_start_tick a = Some s" "as_end_tick a = Some t" "s < t"
    and big: "\<not> representable (tick_instant p t)"
  shows "validate_problem_schedule digest p cand = Inl RaiseOverflow"
proof -
  have "\<not> is_ok (c005_row p a)"
    using u big by (cases "representable (tick_instant p s)") (auto simp: c005_row_def restore_tick_eq)
  then have "evaluate_c005 p as \<noteq> Inr vs" for vs
    using a by (auto simp: evaluate_c005_def collect_res_Inr_iff)
  then have "collect_violations p cand \<noteq> Inr vs" for vs
    using m by (auto simp: collect_violations_def Let_def res_simps)
  then obtain e where e: "collect_violations p cand = Inl e" by (cases "collect_violations p cand") auto
  then have "e = RaiseOverflow" using collect_violations_raises [OF accepted_facts [OF v(1)]] by blast
  moreover have "validated_problem digest p = Inr ()" using v by (simp add: validated_problem_ok_iff)
  ultimately show ?thesis using e by (simp add: validate_problem_schedule_def)
qed

end
