(* ===== verification/Scheduler_Discard.thy ===== *)
theory Scheduler_Discard
  imports Scheduler_Correct Validator_Report
begin

section \<open>When a built candidate is discarded\<close>

text \<open>
  A reference scheduler validates the candidate it has built and discards it if the validator
  objects. The placements are feasible by construction, so the only cause left is the text of the
  document: instants are written without the fraction of a second, and a horizon that starts at a
  fraction of a second makes every written instant differ from its tick.
\<close>

lemma tick_instant_fraction: "tick_instant p t mod micros = horizon_start p mod micros"
  by (simp add: tick_instant_def)

lemma fractional_not_represented:
  assumes "map_res (assignment_document cx) (sorted_placements pls) = Inr (cd_assignments c)" "pls \<noteq> []"
    and "horizon_start (cx_problem cx) mod micros \<noteq> 0"
  shows "\<not> represents (cx_problem cx) (candidate_json c) \<sigma>"
proof
  let ?p = "cx_problem cx"
  assume "represents ?p (candidate_json c) \<sigma>"
  then obtain ids where rows: "list_all2 (\<lambda>raw i. \<exists>obj s. raw = JObj obj \<and> \<sigma> i = Some s \<and> row_states ?p obj i s)
      (map assignment_json (cd_assignments c)) ids"
    by (auto simp: represents_def candidate_json_def dict_get_def)
  have len: "length (cd_assignments c) = length pls"
    using assms(1) by (auto simp: map_res_Inr_iff sorted_placements_def dest!: list_all2_lengthD)
  then obtain doc where doc: "cd_assignments c = doc # tl (cd_assignments c)" using assms(2) by (cases "cd_assignments c") auto
  obtain obj s i where o: "assignment_json doc = JObj obj" "row_states ?p obj i s"
    using rows by (subst (asm) doc) (auto simp: list_all2_Cons1)
  obtain pl where pl: "assignment_document cx pl = Inr doc"
    using assms(1) map_res_mem [of "assignment_document cx" "sorted_placements pls" "cd_assignments c" doc] doc
    by (metis list.set_intros(1))
  then have r: "representable (tick_instant ?p (pl_start_tick pl))" and d: "ad_start_tick doc = pl_start_tick pl"
    "ad_start_at_utc doc = format_utc_instant (tick_instant ?p (pl_start_tick pl))"
    by (auto simp: assignment_document_def res_simps restore_tick_eq split: if_splits)
  have "sl_start s = pl_start_tick pl" "instant_value (JStr (ad_start_at_utc doc)) = Some (tick_instant ?p (sl_start s))"
    using o d by (auto simp: row_states_def assignment_json_def dict_get_def)
  then have "tick_instant ?p (pl_start_tick pl) mod micros = 0"
    by (simp add: d(2) parse_format_truncates [OF r])
  then show False using assms(3) by (simp add: tick_instant_fraction)
qed

lemma built_candidate_status:
  assumes c: "checked_context digest p = Inr cx" and r: "readable_identifiers p"
    and b: "build_schedule cx algorithm = Inr (Inr cand)" and f: "finish_candidate digest p algorithm cx cand = Inr res"
  shows "rr_status res = VALIDATION_FAILED \<longleftrightarrow> p_operations p \<noteq> [] \<and> horizon_start p mod micros \<noteq> 0"
proof -
  note cx = checked_context_ok [OF c]
  obtain pls where pls: "scheduled_ok cx pls" "fst ` set pls = set (operation_ids (cx_problem cx))"
    "map_res (assignment_document cx) (sorted_placements pls) = Inr (cd_assignments cand)"
    "cd_problem cand = problem_reference (cx_problem cx)"
    using build_schedule_ok [OF cx(3) b] by metis
  have empty: "pls = [] \<longleftrightarrow> p_operations p = []" using pls(2) cx(4) by (auto simp: operation_ids_def)
  let ?pass = "\<exists>rep. validate_problem_schedule digest p (candidate_json cand) = Inr rep \<and> rep_status rep = PASS"
  have "?pass \<longleftrightarrow> p_operations p = [] \<or> horizon_start p mod micros = 0"
  proof
    assume ?pass
    then obtain \<sigma> where "represents p (candidate_json cand) \<sigma>" using validate_pass_iff by blast
    then show "p_operations p = [] \<or> horizon_start p mod micros = 0"
      using fractional_not_represented [OF pls(3)] empty cx(4) by auto
  next
    assume *: "p_operations p = [] \<or> horizon_start p mod micros = 0"
    have "represents p (candidate_json cand) (placed pls)"
    proof (cases "p_operations p = []")
      case True
      then have "pls = []" using empty by simp
      then show ?thesis using pls(3,4) cx(4)
        by (auto simp: represents_def candidate_json_def dict_get_def reference_matches_def sorted_placements_def placed_def)
    next
      case False
      then have "readable p" using * r by (simp add: readable_def)
      then show ?thesis using candidate_represents [OF cx(3), of pls cand] pls by (simp add: cx(4) scheduled_ok_def)
    qed
    moreover have "feasible p (placed pls)" using scheduled_feasible [OF cx(3) pls(1,2)] by (simp add: cx(4))
    ultimately show ?pass using validate_pass_iff cx(1,2) by blast
  qed
  moreover have "rr_status res = VALIDATION_FAILED \<longleftrightarrow> \<not> ?pass"
  proof (cases "validate_problem_schedule digest p (candidate_json cand)")
    case (Inl e)
    then have "collect_violations p (candidate_json cand) = Inl e"
      using cx(1,2) validated_problem_ok_iff [of digest p] by (auto simp: validate_problem_schedule_def res_simps Let_def)
    then have "e = RaiseOverflow" using collect_violations_raises accepted_facts [OF cx(1)] by blast
    then show ?thesis using f Inl by (simp add: finish_candidate_def)
  next
    case (Inr rep)
    then show ?thesis
      using f by (auto simp: finish_candidate_def res_simps reference_success_def reference_failure_def split: if_splits)
  qed
  ultimately show ?thesis by simp
qed

lemma discarded_iff:
  assumes r: "readable_identifiers p" and s: "schedule_reference digest p algorithm = Inr res"
  shows "rr_status res = VALIDATION_FAILED \<longleftrightarrow>
    (\<exists>cx cand. checked_context digest p = Inr cx \<and> build_schedule cx algorithm = Inr (Inr cand))
    \<and> p_operations p \<noteq> [] \<and> horizon_start p mod micros \<noteq> 0"
using s proof (cases rule: schedule_reference_cases)
  case (candidate cx cand)
  then show ?thesis using built_candidate_status [OF _ r] by auto
qed (auto simp: invalid_problem_def reference_failure_def)

end
