(* ===== verification/Problem_Wellformed.thy ===== *)
theory Problem_Wellformed
  imports Problem
begin

section \<open>What acceptance decides\<close>

text \<open>
  A well-formed problem stated on its collections alone: which documents exist, what they refer to and
  how their instants and quantities relate, with no loop, index, lookup table or composed key. The
  acceptance test of \<open>planning/problem/hashing.py\<close> decides it. The code compares the endpoints of
  edges and the fields of intervals joined by U+0000, which is the comparison of the fields for texts
  without that character (\<open>nul_free\<close>).
\<close>

abbreviation blank :: "string \<Rightarrow> bool" where
  "blank s \<equiv> list_all is_space s"

definition wf_demand :: "demand_doc \<Rightarrow> bool" where
  "wf_demand d \<longleftrightarrow> parses (d_due_at_utc d) \<and> 1 \<le> d_priority_weight d
     \<and> (\<forall>s \<in> {d_due_source_system d, d_due_source_version d, d_due_source_record_id d, d_priority_source_system d,
          d_priority_source_version d, d_priority_source_record_id d}. \<not> blank s)"

definition wf_resource :: "resource_doc \<Rightarrow> bool" where
  "wf_resource r \<longleftrightarrow> r_capacity r = 1 \<and> distinct (r_capabilities r)
     \<and> (\<forall>s \<in> {r_resource_code r, r_resource_type r, r_status r, r_factory_id r, r_workshop_id r, r_production_line_id r,
          r_resource_group_id r, r_calendar_id r} \<union> set (r_capabilities r). \<not> blank s)"

definition wf_option :: "problem \<Rightarrow> option_doc \<Rightarrow> bool" where
  "wf_option p opt \<longleftrightarrow> (\<exists>r \<in> set (p_resources p). r_resource_id r = o_resource_id opt)
     \<and> 0 \<le> o_setup_seconds opt \<and> 0 \<le> o_cycle_seconds_per_unit opt \<and> 0 < o_final_duration_seconds opt
     \<and> \<not> blank (o_duration_source opt) \<and> \<not> blank (o_source_version opt)"

definition wf_operation :: "problem \<Rightarrow> operation_doc \<Rightarrow> bool" where
  "wf_operation p op \<longleftrightarrow> (\<exists>d \<in> set (p_demands p). d_demand_order_id d = op_demand_order_id op)
     \<and> parses (op_release_at_utc op) \<and> parses (op_material_ready_at_utc op)
     \<and> distinct (op_required_capabilities op) \<and> op_resource_options op \<noteq> []
     \<and> (\<forall>opt \<in> set (op_resource_options op). wf_option p opt) \<and> distinct (map o_resource_id (op_resource_options op))
     \<and> (case op_status op of
          NOT_STARTED \<Rightarrow> op_actual_start_at_utc op = None \<and> op_assigned_resource_id op = None \<and> op_remaining_seconds op = None
        | RUNNING \<Rightarrow> (\<exists>start opt n. op_actual_start_at_utc op = Some start \<and> parses start
            \<and> opt \<in> set (op_resource_options op) \<and> op_assigned_resource_id op = Some (o_resource_id opt)
            \<and> op_remaining_seconds op = Some n \<and> 0 < n))"

definition wf_anchor :: "problem \<Rightarrow> anchor_doc \<Rightarrow> bool" where
  "wf_anchor p a \<longleftrightarrow> (\<exists>r \<in> set (p_resources p). r_resource_id r = a_resource_id a)
     \<and> parses (a_actual_start_at_utc a) \<and> parses (a_actual_end_at_utc a)
     \<and> utc (a_actual_start_at_utc a) < utc (a_actual_end_at_utc a)
     \<and> utc (a_actual_end_at_utc a) \<le> utc (p_horizon_start_utc p)
     \<and> \<not> blank (a_source_system a) \<and> \<not> blank (a_source_version a) \<and> \<not> blank (a_source_record_id a)"

definition wf_edge :: "problem \<Rightarrow> edge_doc \<Rightarrow> bool" where
  "wf_edge p e \<longleftrightarrow>
     ((\<exists>op \<in> set (p_operations p). op_id op = e_predecessor e) \<or> (\<exists>a \<in> set (p_anchors p). a_operation_id a = e_predecessor e))
     \<and> (\<exists>op \<in> set (p_operations p). op_id op = e_successor e)
     \<and> 0 \<le> e_min_lag_seconds e \<and> 0 \<le> e_transport_lag_seconds e
     \<and> (\<forall>m. e_max_lag_seconds e = Some m \<longrightarrow> e_min_lag_seconds e \<le> m)"

definition wf_lock :: "problem \<Rightarrow> lock_doc \<Rightarrow> bool" where
  "wf_lock p l \<longleftrightarrow>
     (\<exists>op \<in> set (p_operations p). op_id op = l_operation_id l
        \<and> (\<exists>opt \<in> set (op_resource_options op). o_resource_id opt = l_resource_id l))
     \<and> parses (l_start_at_utc l) \<and> parses (l_end_at_utc l) \<and> utc (l_start_at_utc l) < utc (l_end_at_utc l)
     \<and> utc (p_horizon_start_utc p) < utc (l_end_at_utc l)
     \<and> \<not> blank (l_source_system l) \<and> \<not> blank (l_source_version l) \<and> \<not> blank (l_source_record_id l)"

definition wf_interval :: "problem \<Rightarrow> interval_doc \<Rightarrow> bool" where
  "wf_interval p u \<longleftrightarrow>
     (\<exists>r \<in> set (p_resources p). r_resource_id r = u_resource_id u \<and> r_calendar_id r = u_calendar_id u)
     \<and> parses (u_start_utc u) \<and> parses (u_end_utc u) \<and> utc (u_start_utc u) < utc (u_end_utc u)
     \<and> utc (u_start_utc u) < utc (p_horizon_end_utc p) \<and> utc (p_horizon_start_utc p) < utc (u_end_utc u)"

definition wf_versions :: "problem \<Rightarrow> bool" where
  "wf_versions p \<longleftrightarrow> p_problem_version p = ''planning-problem.v2'' \<and> p_schema_set_version p = ''2.3.0''
     \<and> p_builder_version p = ''planning-problem-builder.v2'' \<and> p_canonicalization_version p = ''canonical-json.v1''
     \<and> p_hash_projection_version p = ''planning-problem-hash-projection.v2''"

text \<open>Identifiers are unique, and an operation is not also a completed one.\<close>

definition wf_unique :: "problem \<Rightarrow> bool" where
  "wf_unique p \<longleftrightarrow>
     distinct (map d_demand_order_id (p_demands p)) \<and> distinct (map r_resource_id (p_resources p))
     \<and> distinct (map op_id (p_operations p) @ map a_operation_id (p_anchors p)) \<and> distinct (map a_execution_fact_id (p_anchors p))
     \<and> distinct (map e_precedence_edge_id (p_edges p)) \<and> distinct (map (\<lambda>e. (e_predecessor e, e_successor e)) (p_edges p))
     \<and> distinct (map l_lock_id (p_locks p))
     \<and> distinct (map (\<lambda>u. (u_resource_id u, u_calendar_id u, u_start_utc u, u_end_utc u)) (p_intervals p))"

definition well_formed :: "problem \<Rightarrow> bool" where
  "well_formed p \<longleftrightarrow> wf_versions p \<and> wf_unique p
     \<and> 0 < p_tick_seconds p \<and> parses (p_horizon_start_utc p) \<and> parses (p_horizon_end_utc p)
     \<and> utc (p_horizon_start_utc p) < utc (p_horizon_end_utc p)
     \<and> (\<forall>d \<in> set (p_demands p). wf_demand d) \<and> (\<forall>r \<in> set (p_resources p). wf_resource r)
     \<and> (\<forall>op \<in> set (p_operations p). wf_operation p op) \<and> (\<forall>a \<in> set (p_anchors p). wf_anchor p a)
     \<and> (\<forall>e \<in> set (p_edges p). wf_edge p e) \<and> (\<forall>l \<in> set (p_locks p). wf_lock p l)
     \<and> (\<forall>u \<in> set (p_intervals p). wf_interval p u)
     \<and> acyclic ((\<lambda>e. (e_predecessor e, e_successor e)) ` set (p_edges p))
     \<and> distinct (p_required_capabilities p) \<and> set (p_required_capabilities p) \<subseteq> set v1_supported_names"

definition nul_free :: "problem \<Rightarrow> bool" where
  "nul_free p \<longleftrightarrow> (\<forall>e \<in> set (p_edges p). nul \<notin> set (e_predecessor e))
     \<and> (\<forall>u \<in> set (p_intervals p). nul \<notin> set (u_resource_id u) \<union> set (u_calendar_id u) \<union> set (u_start_utc u))"

subsection \<open>The composed keys\<close>

lemma joined_inj:
  assumes "nul \<notin> set a" "nul \<notin> set b"
  shows "a @ nul # c = b @ nul # d \<longleftrightarrow> a = b \<and> c = d"
  using assms append_eq_append_conv2 [of a "nul # c" b "nul # d"] by (auto simp: append_eq_Cons_conv Cons_eq_append_conv)

lemma distinct_map_cong_key:
  assumes "\<And>x y. x \<in> set xs \<Longrightarrow> y \<in> set xs \<Longrightarrow> f x = f y \<longleftrightarrow> g x = g y"
  shows "distinct (map f xs) \<longleftrightarrow> distinct (map g xs)"
  using assms by (simp add: distinct_map inj_on_def)

lemma logical_edges_distinct:
  "nul_free p \<Longrightarrow> distinct (map logical_edge (p_edges p)) \<longleftrightarrow> distinct (map (\<lambda>e. (e_predecessor e, e_successor e)) (p_edges p))"
  by (rule distinct_map_cong_key) (simp add: logical_edge_def nul_free_def joined_inj)

lemma intervals_distinct:
  "nul_free p \<Longrightarrow> distinct (map interval_key (p_intervals p))
    \<longleftrightarrow> distinct (map (\<lambda>u. (u_resource_id u, u_calendar_id u, u_start_utc u, u_end_utc u)) (p_intervals p))"
  by (rule distinct_map_cong_key) (simp add: interval_key_def nul_free_def joined_inj)

subsection \<open>One document at a time\<close>

lemma check_each_iff:
  assumes "\<And>i x. x \<in> set xs \<Longrightarrow> f i x = Inr () \<longleftrightarrow> P x"
  shows "check_each f xs = Inr u \<longleftrightarrow> (\<forall>x \<in> set xs. P x)"
proof
  assume c: "check_each f xs = Inr u"
  show "\<forall>x \<in> set xs. P x" using check_each_okD [OF c] assms by blast
next
  assume "\<forall>x \<in> set xs. P x"
  then show "check_each f xs = Inr u" using check_each_okI [of xs f] assms by simp
qed

lemma ids_iff:
  "i \<in> set (resource_ids p) \<longleftrightarrow> (\<exists>r \<in> set (p_resources p). r_resource_id r = i)"
  "i \<in> set (operation_ids p) \<longleftrightarrow> (\<exists>op \<in> set (p_operations p). op_id op = i)"
  "i \<in> set (anchor_ids p) \<longleftrightarrow> (\<exists>a \<in> set (p_anchors p). a_operation_id a = i)"
  "i \<in> set (map d_demand_order_id ds) \<longleftrightarrow> (\<exists>d \<in> set ds. d_demand_order_id d = i)"
  "i \<in> set (option_resource_ids op) \<longleftrightarrow> (\<exists>opt \<in> set (op_resource_options op). o_resource_id opt = i)"
  by (auto simp: resource_ids_def operation_ids_def anchor_ids_def option_resource_ids_def)

lemma check_non_empty_iff [res_simps]: "check_non_empty s f = Inr u \<longleftrightarrow> \<not> blank s"
  by (simp add: check_non_empty_def res_simps list_ex_iff list_all_iff)

lemma check_demand_iff: "check_demand i d = Inr u \<longleftrightarrow> wf_demand d"
  by (simp add: check_demand_def Let_def res_simps wf_demand_def)

lemma check_resource_iff: "check_resource i r = Inr u \<longleftrightarrow> wf_resource r"
proof -
  have "check_each (\<lambda>j c. check_non_empty c (f j)) (r_capabilities r) = Inr () \<longleftrightarrow> (\<forall>c \<in> set (r_capabilities r). \<not> blank c)" for f
    by (rule check_each_iff) (simp add: res_simps)
  then show ?thesis by (simp add: check_resource_def Let_def res_simps wf_resource_def) blast
qed

lemma check_option_iff: "0 < p_tick_seconds p \<Longrightarrow> check_option p f j opt = Inr u \<longleftrightarrow> wf_option p opt"
  by (auto simp: check_option_def Let_def res_simps wf_option_def ids_iff duration_to_ticks_def is_ok_iff
      require_duration_seconds_def require_tick_seconds_def)

lemma check_operation_iff:
  assumes "0 < p_tick_seconds p"
  shows "check_operation p i op = Inr u \<and> list_all (\<lambda>present. present = (op_status op = RUNNING))
      [op_actual_start_at_utc op \<noteq> None, op_assigned_resource_id op \<noteq> None, op_remaining_seconds op \<noteq> None]
    \<longleftrightarrow> wf_operation p op"
proof -
  have "check_each (check_option p f) (op_resource_options op) = Inr () \<longleftrightarrow> (\<forall>opt \<in> set (op_resource_options op). wf_option p opt)" for f
    by (rule check_each_iff) (rule check_option_iff [OF assms])
  then show ?thesis
    by (cases "op_status op")
      (auto simp: check_operation_def Let_def res_simps wf_operation_def check_running_def ids_iff option_resource_ids_def [symmetric] simp del: set_map split: option.splits)
qed

lemma check_anchor_iff: "check_anchor p (utc (p_horizon_start_utc p)) i a = Inr u \<longleftrightarrow> wf_anchor p a"
  by (auto simp: check_anchor_def Let_def res_simps wf_anchor_def ids_iff)

lemma check_edge_iff: "check_edge p i e = Inr u \<longleftrightarrow> wf_edge p e \<and> e_predecessor e \<noteq> e_successor e"
  by (auto simp: check_edge_def Let_def res_simps wf_edge_def ids_iff split: option.splits)

lemma check_lock_iff:
  assumes "distinct (operation_ids p)"
  shows "check_lock p (utc (p_horizon_start_utc p)) i l = Inr u \<longleftrightarrow> wf_lock p l"
proof -
  have "(case operation_by_id p i of None \<Rightarrow> False | Some op \<Rightarrow> P op) \<longleftrightarrow> (\<exists>op \<in> set (p_operations p). op_id op = i \<and> P op)" for i P
  proof (cases "operation_by_id p i")
    case None
    then show ?thesis using operation_by_id_ex [of i p] ids_iff(2) [of i p] by force
  next
    case (Some op)
    have "op' = op" if "op' \<in> set (p_operations p)" "op_id op' = i" for op'
      using operation_by_id_member [OF assms that(1)] that(2) Some by simp
    then show ?thesis using operation_by_id_Some [OF Some] Some by auto
  qed
  then show ?thesis by (auto simp: check_lock_def Let_def res_simps wf_lock_def ids_iff)
qed

lemma check_interval_iff:
  assumes "distinct (resource_ids p)"
  shows "check_interval p (utc (p_horizon_start_utc p)) (utc (p_horizon_end_utc p)) i v = Inr u \<longleftrightarrow> wf_interval p v"
proof -
  have "(case resource_by_id p i of None \<Rightarrow> False | Some r \<Rightarrow> P r) \<longleftrightarrow> (\<exists>r \<in> set (p_resources p). r_resource_id r = i \<and> P r)" for i P
  proof (cases "resource_by_id p i")
    case None
    then show ?thesis using resource_by_id_ex [of i p] ids_iff(1) [of i p] by force
  next
    case (Some r)
    have only: "r' = r" if "r' \<in> set (p_resources p)" "r_resource_id r' = i" for r'
      using that assms Some last_with_key [of r_resource_id "p_resources p" r'] by (auto simp: resource_by_id_def resource_ids_def)
    have r: "r \<in> set (p_resources p)" "r_resource_id r = i"
      using Some by (auto simp: resource_by_id_def dest: last_with_Some)
    show ?thesis unfolding Some option.case
    proof
      assume "P r"
      with r show "\<exists>r \<in> set (p_resources p). r_resource_id r = i \<and> P r" by blast
    next
      assume "\<exists>r \<in> set (p_resources p). r_resource_id r = i \<and> P r"
      then obtain r' where "r' \<in> set (p_resources p)" "r_resource_id r' = i" "P r'" by blast
      then show "P r" using only by simp
    qed
  qed
  then show ?thesis by (auto simp: check_interval_def Let_def res_simps wf_interval_def ids_iff)
qed

subsection \<open>The whole problem\<close>

lemma contract_iff:
  assumes "nul_free p"
  shows "validate_exact_shape_v2 p = Inr () \<and> validate_planning_problem_v2_contract p = Inr () \<longleftrightarrow>
    wf_unique p \<and> 0 < p_tick_seconds p \<and> parses (p_horizon_start_utc p) \<and> parses (p_horizon_end_utc p)
    \<and> utc (p_horizon_start_utc p) < utc (p_horizon_end_utc p)
    \<and> (\<forall>d \<in> set (p_demands p). wf_demand d) \<and> (\<forall>r \<in> set (p_resources p). wf_resource r)
    \<and> (\<forall>op \<in> set (p_operations p). wf_operation p op) \<and> (\<forall>a \<in> set (p_anchors p). wf_anchor p a)
    \<and> (\<forall>e \<in> set (p_edges p). wf_edge p e \<and> e_predecessor e \<noteq> e_successor e) \<and> (\<forall>l \<in> set (p_locks p). wf_lock p l)
    \<and> (\<forall>u \<in> set (p_intervals p). wf_interval p u)"
proof -
  let ?shape = "\<lambda>op. list_all (\<lambda>present. present = (op_status op = RUNNING))
      [op_actual_start_at_utc op \<noteq> None, op_assigned_resource_id op \<noteq> None, op_remaining_seconds op \<noteq> None]"
  have shape: "validate_exact_shape_v2 p = Inr () \<longleftrightarrow> (\<forall>op \<in> set (p_operations p). ?shape op)"
    unfolding validate_exact_shape_v2_def Let_def by (rule check_each_iff) (simp only: require_or_Inr_iff)
  have each: "check_each check_demand (p_demands p) = Inr () \<longleftrightarrow> (\<forall>d \<in> set (p_demands p). wf_demand d)"
    "check_each check_resource (p_resources p) = Inr () \<longleftrightarrow> (\<forall>r \<in> set (p_resources p). wf_resource r)"
    "check_each (check_anchor p (utc (p_horizon_start_utc p))) (p_anchors p) = Inr () \<longleftrightarrow> (\<forall>a \<in> set (p_anchors p). wf_anchor p a)"
    "check_each (check_edge p) (p_edges p) = Inr () \<longleftrightarrow> (\<forall>e \<in> set (p_edges p). wf_edge p e \<and> e_predecessor e \<noteq> e_successor e)"
    by (rule check_each_iff, simp only: check_demand_iff check_resource_iff check_anchor_iff check_edge_iff)+
  have ops: "(check_each (check_operation p) (p_operations p) = Inr () \<and> (\<forall>op \<in> set (p_operations p). ?shape op))
      \<longleftrightarrow> (\<forall>op \<in> set (p_operations p). wf_operation p op)" if t: "0 < p_tick_seconds p"
  proof
    assume c: "check_each (check_operation p) (p_operations p) = Inr () \<and> (\<forall>op \<in> set (p_operations p). ?shape op)"
    show "\<forall>op \<in> set (p_operations p). wf_operation p op"
      using check_each_okD [OF conjunct1 [OF c]] c check_operation_iff [OF t] by blast
  next
    assume "\<forall>op \<in> set (p_operations p). wf_operation p op"
    then show "check_each (check_operation p) (p_operations p) = Inr () \<and> (\<forall>op \<in> set (p_operations p). ?shape op)"
      using check_each_okI [of "p_operations p" "check_operation p"] check_operation_iff [OF t] by blast
  qed
  have locks: "check_each (check_lock p (utc (p_horizon_start_utc p))) (p_locks p) = Inr () \<longleftrightarrow> (\<forall>l \<in> set (p_locks p). wf_lock p l)"
    if "distinct (operation_ids p)" by (rule check_each_iff) (rule check_lock_iff [OF that])
  have ints: "check_each (check_interval p (utc (p_horizon_start_utc p)) (utc (p_horizon_end_utc p))) (p_intervals p) = Inr ()
      \<longleftrightarrow> (\<forall>u \<in> set (p_intervals p). wf_interval p u)"
    if "distinct (resource_ids p)" by (rule check_each_iff) (rule check_interval_iff [OF that])
  have u: "wf_unique p \<longleftrightarrow> distinct (map d_demand_order_id (p_demands p)) \<and> distinct (resource_ids p)
     \<and> distinct (operation_ids p) \<and> distinct (anchor_ids p) \<and> set (operation_ids p) \<inter> set (anchor_ids p) = {}
     \<and> distinct (map a_execution_fact_id (p_anchors p))
     \<and> distinct (map e_precedence_edge_id (p_edges p)) \<and> distinct (map logical_edge (p_edges p))
     \<and> distinct (map l_lock_id (p_locks p)) \<and> distinct (map interval_key (p_intervals p))"
    unfolding wf_unique_def logical_edges_distinct [OF assms] intervals_distinct [OF assms] resource_ids_def operation_ids_def anchor_ids_def
      distinct_append by blast
  have "validate_planning_problem_v2_contract p = Inr () \<longleftrightarrow> wf_unique p
    \<and> 0 < p_tick_seconds p \<and> parses (p_horizon_start_utc p) \<and> parses (p_horizon_end_utc p)
    \<and> utc (p_horizon_start_utc p) < utc (p_horizon_end_utc p)
    \<and> check_each check_demand (p_demands p) = Inr () \<and> check_each check_resource (p_resources p) = Inr ()
    \<and> check_each (check_operation p) (p_operations p) = Inr () \<and> check_each (check_anchor p (utc (p_horizon_start_utc p))) (p_anchors p) = Inr ()
    \<and> check_each (check_edge p) (p_edges p) = Inr () \<and> check_each (check_lock p (utc (p_horizon_start_utc p))) (p_locks p) = Inr ()
    \<and> check_each (check_interval p (utc (p_horizon_start_utc p)) (utc (p_horizon_end_utc p))) (p_intervals p) = Inr ()"
    unfolding u validate_planning_problem_v2_contract_def bind_res_Inr_iff violation_utc_ok_iff check_duration_ok_iff check_seq_ok_iff
    by (simp add: res_simps) blast
  then show ?thesis unfolding shape each using ops locks ints u by blast
qed

lemma accepted_iff:
  assumes "nul_free p"
  shows "accepted p \<longleftrightarrow> well_formed p"
proof -
  have versions: "check_versions p = Inr () \<longleftrightarrow> wf_versions p" by (simp add: check_versions_def res_simps wf_versions_def)
  have caps: "bind_res (require_v1_capability_contract (p_required_capabilities p)) (\<lambda>_. Inr ()) = Inr ()
      \<longleftrightarrow> distinct (p_required_capabilities p) \<and> set (p_required_capabilities p) \<subseteq> set v1_supported_names"
    by (simp add: bind_res_Inr_iff capability_contract_ok_iff)
  have pairs: "set (edge_pairs p) = (\<lambda>e. (e_predecessor e, e_successor e)) ` set (p_edges p)" by (auto simp: edge_pairs_def)
  have loops: "e_predecessor e \<noteq> e_successor e" if "acyclic (set (edge_pairs p))" "e \<in> set (p_edges p)" for e
  proof
    assume "e_predecessor e = e_successor e"
    then have "(e_successor e, e_successor e) \<in> set (edge_pairs p)" using that(2) by (force simp: pairs)
    then show False using that(1) by (auto simp: acyclic_def)
  qed
  have nodes: "set (edge_pairs p) \<subseteq> set (graph_nodes p) \<times> set (graph_nodes p)" if "\<forall>e \<in> set (p_edges p). wf_edge p e"
  proof -
    have "e_predecessor e \<in> set (graph_nodes p) \<and> e_successor e \<in> set (graph_nodes p)" if "wf_edge p e" for e
      using that by (auto simp: wf_edge_def graph_nodes_set ids_iff)
    then show ?thesis using that unfolding pairs by auto
  qed
  have "accepted p \<longleftrightarrow> (validate_exact_shape_v2 p = Inr () \<and> validate_planning_problem_v2_contract p = Inr ()) \<and> wf_versions p
      \<and> (distinct (p_required_capabilities p) \<and> set (p_required_capabilities p) \<subseteq> set v1_supported_names)
      \<and> set (edge_pairs p) \<subseteq> set (graph_nodes p) \<times> set (graph_nodes p) \<and> acyclic (set (edge_pairs p))"
    unfolding accepted_def validate_built_problem_v2_def check_seq_ok_iff caps [symmetric] versions [symmetric] validate_dag_ok_iff [symmetric]
    by (auto simp: as_problem_error_ok_iff bind_res_Inr_iff)
  then show ?thesis unfolding contract_iff [OF assms] well_formed_def pairs [symmetric] using loops nodes by blast
qed

end
