(* ===== verification/Example.thy ===== *)
theory Example
  imports Scheduler_Total Scheduler_Search Scheduler_Discard Problem_Wellformed
begin

section \<open>A concrete problem\<close>

text \<open>
  A small problem the witnesses evaluate: a completed anchor, a running operation, two operations
  still to schedule on two machines in two workshops, precedence edges with lags, a hard lock and a
  maintenance interval, on a grid of one minute. The digest of the witnesses maps every text to the
  same word, so that the declared hash is known without running SHA-256.
\<close>

definition sample_digest :: "string \<Rightarrow> string" where
  "sample_digest s = ''d0''"

definition machine :: "string \<Rightarrow> string \<Rightarrow> resource_doc" where
  "machine i w = \<lparr>r_resource_id = i, r_resource_code = i, r_resource_type = ''MACHINE'',
     r_status = ''ACTIVE'', r_factory_id = ''f'', r_workshop_id = w, r_production_line_id = ''l'',
     r_resource_group_id = ''g'', r_calendar_id = ''cal'', r_capabilities = [], r_capacity = 1\<rparr>"

definition choice :: "string \<Rightarrow> int \<Rightarrow> option_doc" where
  "choice r seconds = \<lparr>o_resource_id = r, o_setup_seconds = 0, o_cycle_seconds_per_unit = 1,
     o_final_duration_seconds = seconds, o_duration_source = ''std'', o_source_version = ''1''\<rparr>"

definition ex_operation :: "string \<Rightarrow> string \<Rightarrow> option_doc list \<Rightarrow> operation_doc" where
  "ex_operation i d opts = \<lparr>op_id = i, op_demand_order_id = d, op_status = NOT_STARTED,
     op_release_at_utc = ''2026-01-05T08:00:00Z'', op_material_ready_at_utc = ''2026-01-05T08:00:30Z'',
     op_required_capabilities = [], op_resource_options = opts,
     op_actual_start_at_utc = None, op_assigned_resource_id = None, op_remaining_seconds = None\<rparr>"

definition ex_running :: operation_doc where
  "ex_running = (ex_operation ''op-1'' ''d-1'' [choice ''m-1'' 600])
     \<lparr>op_status := RUNNING, op_release_at_utc := ''2026-01-05T07:00:00Z'',
      op_material_ready_at_utc := ''2026-01-05T07:00:00Z'',
      op_actual_start_at_utc := Some ''2026-01-05T07:55:00Z'',
      op_assigned_resource_id := Some ''m-1'', op_remaining_seconds := Some 90\<rparr>"

definition ex_demand :: "string \<Rightarrow> string \<Rightarrow> demand_doc" where
  "ex_demand i due = \<lparr>d_demand_order_id = i, d_due_at_utc = due, d_due_source_system = ''erp'',
     d_due_source_version = ''1'', d_due_source_record_id = ''r'', d_priority_weight = 2,
     d_priority_source_system = ''erp'', d_priority_source_version = ''1'', d_priority_source_record_id = ''r''\<rparr>"

definition ex_edge :: "string \<Rightarrow> string \<Rightarrow> string \<Rightarrow> int option \<Rightarrow> edge_doc" where
  "ex_edge i u v m = \<lparr>e_precedence_edge_id = i, e_predecessor = u, e_successor = v,
     e_min_lag_seconds = 0, e_transport_lag_seconds = 120, e_max_lag_seconds = m\<rparr>"

definition ex_problem :: problem where
  "ex_problem = \<lparr>p_problem_version = ''planning-problem.v2'', p_schema_set_version = ''2.3.0'',
     p_snapshot_id = ''snap'', p_builder_version = ''planning-problem-builder.v2'', p_problem_hash = ''sha256:d0'',
     p_canonicalization_version = ''canonical-json.v1'',
     p_hash_projection_version = ''planning-problem-hash-projection.v2'', p_tick_seconds = 60,
     p_horizon_start_utc = ''2026-01-05T08:00:00Z'', p_horizon_end_utc = ''2026-01-05T08:20:00Z'',
     p_demands = [ex_demand ''d-1'' ''2026-01-05T08:04:00Z''],
     p_resources = [machine ''m-1'' ''w-1'', machine ''m-2'' ''w-2''],
     p_operations = [ex_running, ex_operation ''op-2'' ''d-1'' [choice ''m-1'' 60, choice ''m-2'' 30],
       ex_operation ''op-3'' ''d-1'' [choice ''m-2'' 100]],
     p_anchors = [\<lparr>a_operation_id = ''op-0'', a_execution_fact_id = ''fact-0'', a_resource_id = ''m-1'',
       a_actual_start_at_utc = ''2026-01-05T07:00:00Z'', a_actual_end_at_utc = ''2026-01-05T07:55:00Z'',
       a_source_system = ''mes'', a_source_version = ''1'', a_source_record_id = ''r''\<rparr>],
     p_edges = [ex_edge ''e-1'' ''op-0'' ''op-1'' None, ex_edge ''e-2'' ''op-1'' ''op-2'' (Some 600)],
     p_locks = [\<lparr>l_lock_id = ''lock-1'', l_operation_id = ''op-3'', l_lock_type = HARD_LOCK, l_resource_id = ''m-2'',
       l_start_at_utc = ''2026-01-05T08:05:00Z'', l_end_at_utc = ''2026-01-05T08:07:00Z'',
       l_source_system = ''aps'', l_source_version = ''1'', l_source_record_id = ''r''\<rparr>],
     p_intervals = [\<lparr>u_calendar_id = ''cal'', u_resource_id = ''m-1'',
       u_start_utc = ''2026-01-05T08:02:00Z'', u_end_utc = ''2026-01-05T08:08:00Z''\<rparr>],
     p_required_capabilities = [''DAG_ROUTING'']\<rparr>"

subsection \<open>What the witnesses use of it\<close>

lemma ex_accepted: "accepted ex_problem"
  unfolding accepted_def by code_simp

lemma ex_hash: "p_problem_hash ex_problem = problem_v2_hash_for sample_digest ex_problem"
  by (simp add: problem_v2_hash_for_def sample_digest_def ex_problem_def)

lemma ex_readable: "readable ex_problem"
  by code_simp

lemma ex_whole_seconds: "whole_seconds ex_problem"
  by code_simp

lemma ex_all_served: "all_served ex_problem"
  by code_simp

lemma ex_context: "context_of ex_problem = Inr \<lparr>cx_problem = ex_problem, cx_horizon_ticks = 20\<rparr>"
proof -
  have "exact_seconds (horizon_end ex_problem) (horizon_start ex_problem) = Inr 1200" by code_simp
  then show ?thesis by (simp add: context_of_def) (simp add: ex_problem_def)
qed

lemma ex_checked: "checked_context sample_digest ex_problem = Inr \<lparr>cx_problem = ex_problem, cx_horizon_ticks = 20\<rparr>"
  using ex_accepted ex_hash ex_context by (simp add: checked_context_def accepted_def)

lemma ex_validated: "validated_problem sample_digest ex_problem = Inr ()"
  using ex_accepted ex_hash by (simp add: validated_problem_ok_iff)

lemma ex_good: "good_context \<lparr>cx_problem = ex_problem, cx_horizon_ticks = 20\<rparr>"
  by (rule checked_context_ok(3) [OF ex_checked])

definition built_ticks :: "(schedule_failure + candidate_doc) res \<Rightarrow> (string \<times> int \<times> int) list option" where
  "built_ticks r = (case r of Inr (Inr c) \<Rightarrow>
     Some (map (\<lambda>a. (ad_operation_id a, ad_start_tick a, ad_end_tick a)) (cd_assignments c)) | _ \<Rightarrow> None)"

lemma ex_built:
  "\<exists>cand. build_schedule \<lparr>cx_problem = ex_problem, cx_horizon_ticks = 20\<rparr> EDD = Inr (Inr cand)"
proof -
  have "built_ticks (build_schedule \<lparr>cx_problem = ex_problem, cx_horizon_ticks = 20\<rparr> EDD)
      = Some [(''op-1'', 0, 2), (''op-2'', 4, 5), (''op-3'', 5, 7)]" by code_simp
  then show ?thesis by (auto simp: built_ticks_def split: sum.splits)
qed

lemma ex_feasible:
  "\<exists>res. schedule_reference sample_digest ex_problem EDD = Inr res \<and> rr_status res = FEASIBLE"
proof -
  obtain res where res: "schedule_reference sample_digest ex_problem EDD = Inr res"
    "rr_status res = FEASIBLE \<or> rr_status res = HEURISTIC_FAILURE"
    using schedule_reference_total [OF ex_accepted ex_hash ex_readable ex_whole_seconds ex_all_served] by blast
  obtain cand where b: "build_schedule \<lparr>cx_problem = ex_problem, cx_horizon_ticks = 20\<rparr> EDD = Inr (Inr cand)"
    using ex_built by blast
  obtain rep where "validate_problem_schedule sample_digest ex_problem (candidate_json cand) = Inr rep"
    "rep_status rep = PASS"
    using built_candidate_passes [OF ex_checked ex_readable b] by blast
  then have "rr_status res = FEASIBLE"
    using res(1) b by (auto simp: schedule_reference_def ex_checked finish_candidate_def reference_success_def res_simps)
  with res(1) show ?thesis by blast
qed

definition off_grid :: problem where
  "off_grid = ex_problem\<lparr>p_locks := map (\<lambda>l. l\<lparr>l_start_at_utc := ''2026-01-05T08:05:30Z''\<rparr>) (p_locks ex_problem)\<rparr>"

definition failed_code :: "(schedule_failure + candidate_doc) res \<Rightarrow> string option" where
  "failed_code r = (case r of Inr (Inl f) \<Rightarrow> Some (sf_code f) | _ \<Rightarrow> None)"

lemma off_grid_fails:
  "\<exists>res. schedule_reference sample_digest off_grid EDD = Inr res \<and> rr_status res = HEURISTIC_FAILURE"
proof -
  have "accepted off_grid" unfolding accepted_def by code_simp
  moreover have "p_problem_hash off_grid = problem_v2_hash_for sample_digest off_grid"
    by (simp add: problem_v2_hash_for_def sample_digest_def ex_problem_def off_grid_def)
  moreover have "context_of off_grid = Inr \<lparr>cx_problem = off_grid, cx_horizon_ticks = 20\<rparr>"
    using ex_context by (auto simp: context_of_def off_grid_def res_simps)
  ultimately have "checked_context sample_digest off_grid = Inr \<lparr>cx_problem = off_grid, cx_horizon_ticks = 20\<rparr>"
    by (simp add: checked_context_def accepted_def)
  moreover have "failed_code (build_schedule \<lparr>cx_problem = off_grid, cx_horizon_ticks = 20\<rparr> EDD)
      = Some ''FIXED_ASSIGNMENT_OFF_GRID''" by code_simp
  ultimately show ?thesis
    by (auto simp: schedule_reference_def failed_code_def reference_failure_def split: sum.splits)
qed

definition unserved :: problem where
  "unserved = ex_problem\<lparr>p_demands := ex_demand ''d-2'' ''2026-01-05T08:04:00Z'' # p_demands ex_problem\<rparr>"

lemma unserved_checked:
  "checked_context sample_digest unserved = Inr \<lparr>cx_problem = unserved, cx_horizon_ticks = 20\<rparr>"
proof -
  have "accepted unserved" unfolding accepted_def by code_simp
  moreover have "p_problem_hash unserved = problem_v2_hash_for sample_digest unserved"
    by (simp add: problem_v2_hash_for_def sample_digest_def ex_problem_def unserved_def)
  moreover have "context_of unserved = Inr \<lparr>cx_problem = unserved, cx_horizon_ticks = 20\<rparr>"
    using ex_context by (auto simp: context_of_def unserved_def res_simps)
  ultimately show ?thesis by (simp add: checked_context_def accepted_def)
qed

lemma unserved_built:
  "\<exists>cand. build_schedule \<lparr>cx_problem = unserved, cx_horizon_ticks = 20\<rparr> EDD = Inr (Inr cand)"
proof -
  have "built_ticks (build_schedule \<lparr>cx_problem = unserved, cx_horizon_ticks = 20\<rparr> EDD)
      = Some [(''op-1'', 0, 2), (''op-2'', 4, 5), (''op-3'', 5, 7)]" by code_simp
  then show ?thesis by (auto simp: built_ticks_def split: sum.splits)
qed

lemma unserved_readable: "readable unserved" "whole_seconds unserved"
  by code_simp+

lemma empty_candidate: "\<exists>vs. collect_violations ex_problem [] = Inr vs"
proof -
  have "is_ok (collect_violations ex_problem [])" by code_simp
  then show ?thesis by (simp add: is_ok_iff)
qed

lemma empty_candidate_incomplete: "collect_violations ex_problem [] = Inr vs \<Longrightarrow> reported vs C001"
proof -
  have "list_ex (\<lambda>v. v_constraint_id v = C001) (projr (collect_violations ex_problem []))" by code_simp
  then show "collect_violations ex_problem [] = Inr vs \<Longrightarrow> reported vs C001"
    by (auto simp: reported_def list_ex_iff)
qed

text \<open>A problem whose horizon starts half a second past the minute.\<close>

definition half_second :: problem where
  "half_second = ex_problem\<lparr>p_horizon_start_utc := ''2026-01-05T08:00:00.500000Z'', p_horizon_end_utc := ''2026-01-05T08:20:00.500000Z'',
     p_operations := [(ex_operation ''op-2'' ''d-1'' [choice ''m-1'' 60])\<lparr>op_release_at_utc := ''2026-01-05T08:00:00.500000Z'',
       op_material_ready_at_utc := ''2026-01-05T08:00:00.500000Z''\<rparr>],
     p_anchors := [], p_edges := [], p_locks := [], p_intervals := []\<rparr>"

lemma half_second_accepted: "accepted half_second"
  unfolding accepted_def by code_simp

lemma half_second_checked: "checked_context sample_digest half_second = Inr \<lparr>cx_problem = half_second, cx_horizon_ticks = 20\<rparr>"
proof -
  have "exact_seconds (horizon_end half_second) (horizon_start half_second) = Inr 1200" by code_simp
  then have "context_of half_second = Inr \<lparr>cx_problem = half_second, cx_horizon_ticks = 20\<rparr>"
    by (simp add: context_of_def) (simp add: half_second_def ex_problem_def)
  moreover have "p_problem_hash half_second = problem_v2_hash_for sample_digest half_second"
    by (simp add: problem_v2_hash_for_def sample_digest_def ex_problem_def half_second_def)
  ultimately show ?thesis using half_second_accepted by (simp add: checked_context_def accepted_def)
qed

lemma half_second_built: "\<exists>cand. build_schedule \<lparr>cx_problem = half_second, cx_horizon_ticks = 20\<rparr> EDD = Inr (Inr cand)"
proof -
  have "built_ticks (build_schedule \<lparr>cx_problem = half_second, cx_horizon_ticks = 20\<rparr> EDD) = Some [(''op-2'', 0, 1)]" by code_simp
  then show ?thesis by (auto simp: built_ticks_def split: sum.splits)
qed

lemma half_second_identifiers: "readable_identifiers half_second" "horizon_start half_second mod micros \<noteq> 0" "p_operations half_second \<noteq> []"
  by code_simp+

lemma half_second_returns: "\<exists>res. schedule_reference sample_digest half_second EDD = Inr res"
proof -
  let ?cx = "\<lparr>cx_problem = half_second, cx_horizon_ticks = 20\<rparr>"
  obtain cand where b: "build_schedule ?cx EDD = Inr (Inr cand)" using half_second_built by blast
  have "is_ok (collect_violations half_second (candidate_json (projr (projr (build_schedule ?cx EDD)))))
    \<and> projr (collect_violations half_second (candidate_json (projr (projr (build_schedule ?cx EDD))))) \<noteq> []" by code_simp
  then obtain vs where vs: "collect_violations half_second (candidate_json cand) = Inr vs" "vs \<noteq> []"
    using b by (auto simp: is_ok_iff)
  have "validated_problem sample_digest half_second = Inr ()"
    using half_second_checked by (simp add: validated_problem_ok_iff checked_context_ok)
  then obtain rep where "validate_problem_schedule sample_digest half_second (candidate_json cand) = Inr rep" "rep_status rep \<noteq> PASS"
    using vs by (simp add: validate_problem_schedule_def Let_def sort_key_Nil_iff)
  then show ?thesis by (simp add: schedule_reference_def half_second_checked b finish_candidate_def)
qed

lemma ex_nul_free: "nul_free ex_problem"
  by code_simp

end
