(* ===== verification/State_Machines.thy ===== *)
theory State_Machines
  imports Json Instants
begin

section \<open>Lifecycle state machines\<close>

text \<open>
  \<open>domain/state_machines\<close>: the transition tables of planning runs, schedule versions and export
  jobs (\<open>contracts.py\<close>), the persistence rules of schedule versions (\<open>schedule_version.py\<close>) and of
  export jobs with their attempts, leases and heartbeats (\<open>export_job.py\<close>). States are texts, as in
  the code; a table is a list of pairs.

  The locale \<open>lifecycle\<close> is the contract of a transition table: it stays within its states, stops
  exactly at its terminal states, and reaches every state and a terminal state from each. \<open>staged\<close> adds a
  rank that every transition lowers, which bounds the length of a run. Both are interpreted on the
  tables of the code.
\<close>

subsection \<open>The tables\<close>

datatype machine = PLANNING_RUN | SCHEDULE_VERSION | EXPORT_JOB

definition machine_text :: "machine \<Rightarrow> string" where
  "machine_text m =
     (case m of PLANNING_RUN \<Rightarrow> ''PLANNING_RUN'' | SCHEDULE_VERSION \<Rightarrow> ''SCHEDULE_VERSION''
      | EXPORT_JOB \<Rightarrow> ''EXPORT_JOB'')"

datatype run_state =
    Run_CREATED | Run_INGESTING | Run_VALIDATING | Run_SNAPSHOTTED
  | Run_BUILDING | Run_SOLVING | Run_SOLVED | Run_VERIFYING
  | Run_COMPLETED | Run_DATA_REJECTED | Run_MODEL_INVALID | Run_INFEASIBLE
  | Run_NO_SOLUTION_WITHIN_LIMIT | Run_VALIDATION_FAILED | Run_CANCELLED | Run_FAILED

fun run_text :: "run_state \<Rightarrow> string" where
  "run_text Run_CREATED = ''CREATED''"
| "run_text Run_INGESTING = ''INGESTING''"
| "run_text Run_VALIDATING = ''VALIDATING''"
| "run_text Run_SNAPSHOTTED = ''SNAPSHOTTED''"
| "run_text Run_BUILDING = ''BUILDING''"
| "run_text Run_SOLVING = ''SOLVING''"
| "run_text Run_SOLVED = ''SOLVED''"
| "run_text Run_VERIFYING = ''VERIFYING''"
| "run_text Run_COMPLETED = ''COMPLETED''"
| "run_text Run_DATA_REJECTED = ''DATA_REJECTED''"
| "run_text Run_MODEL_INVALID = ''MODEL_INVALID''"
| "run_text Run_INFEASIBLE = ''INFEASIBLE''"
| "run_text Run_NO_SOLUTION_WITHIN_LIMIT = ''NO_SOLUTION_WITHIN_LIMIT''"
| "run_text Run_VALIDATION_FAILED = ''VALIDATION_FAILED''"
| "run_text Run_CANCELLED = ''CANCELLED''"
| "run_text Run_FAILED = ''FAILED''"

definition run_states :: "run_state list" where
  "run_states =
     [Run_CREATED, Run_INGESTING, Run_VALIDATING, Run_SNAPSHOTTED, Run_BUILDING, Run_SOLVING,
     Run_SOLVED, Run_VERIFYING, Run_COMPLETED, Run_DATA_REJECTED, Run_MODEL_INVALID,
     Run_INFEASIBLE, Run_NO_SOLUTION_WITHIN_LIMIT, Run_VALIDATION_FAILED, Run_CANCELLED, Run_FAILED]"

datatype version_state =
    Version_DRAFT | Version_READY_FOR_REVIEW | Version_APPROVED | Version_PUBLISHED
  | Version_SUPERSEDED | Version_REJECTED

fun version_text :: "version_state \<Rightarrow> string" where
  "version_text Version_DRAFT = ''DRAFT''"
| "version_text Version_READY_FOR_REVIEW = ''READY_FOR_REVIEW''"
| "version_text Version_APPROVED = ''APPROVED''"
| "version_text Version_PUBLISHED = ''PUBLISHED''"
| "version_text Version_SUPERSEDED = ''SUPERSEDED''"
| "version_text Version_REJECTED = ''REJECTED''"

definition version_states :: "version_state list" where
  "version_states =
     [Version_DRAFT, Version_READY_FOR_REVIEW, Version_APPROVED, Version_PUBLISHED,
     Version_SUPERSEDED, Version_REJECTED]"

datatype job_state =
    Job_CREATED | Job_EXPORTING | Job_EXPORTED | Job_EXPORT_FAILED
  | Job_CANCELLED

fun job_text :: "job_state \<Rightarrow> string" where
  "job_text Job_CREATED = ''CREATED''"
| "job_text Job_EXPORTING = ''EXPORTING''"
| "job_text Job_EXPORTED = ''EXPORTED''"
| "job_text Job_EXPORT_FAILED = ''EXPORT_FAILED''"
| "job_text Job_CANCELLED = ''CANCELLED''"

definition job_states :: "job_state list" where
  "job_states =
     [Job_CREATED, Job_EXPORTING, Job_EXPORTED, Job_EXPORT_FAILED, Job_CANCELLED]"

definition run_transitions :: "(run_state \<times> run_state) list" where
  "run_transitions =
     [(Run_CREATED, Run_INGESTING), (Run_CREATED, Run_CANCELLED), (Run_CREATED, Run_FAILED),
     (Run_INGESTING, Run_VALIDATING), (Run_INGESTING, Run_DATA_REJECTED),
     (Run_INGESTING, Run_CANCELLED), (Run_INGESTING, Run_FAILED),
     (Run_VALIDATING, Run_SNAPSHOTTED), (Run_VALIDATING, Run_DATA_REJECTED),
     (Run_VALIDATING, Run_CANCELLED), (Run_VALIDATING, Run_FAILED),
     (Run_SNAPSHOTTED, Run_BUILDING), (Run_SNAPSHOTTED, Run_CANCELLED),
     (Run_SNAPSHOTTED, Run_FAILED), (Run_BUILDING, Run_SOLVING), (Run_BUILDING, Run_MODEL_INVALID),
     (Run_BUILDING, Run_CANCELLED), (Run_BUILDING, Run_FAILED), (Run_SOLVING, Run_SOLVED),
     (Run_SOLVING, Run_MODEL_INVALID), (Run_SOLVING, Run_INFEASIBLE),
     (Run_SOLVING, Run_NO_SOLUTION_WITHIN_LIMIT), (Run_SOLVING, Run_CANCELLED),
     (Run_SOLVING, Run_FAILED), (Run_SOLVED, Run_VERIFYING), (Run_SOLVED, Run_CANCELLED),
     (Run_SOLVED, Run_FAILED), (Run_VERIFYING, Run_COMPLETED),
     (Run_VERIFYING, Run_VALIDATION_FAILED), (Run_VERIFYING, Run_CANCELLED),
     (Run_VERIFYING, Run_FAILED)]"

definition version_transitions :: "(version_state \<times> version_state) list" where
  "version_transitions =
     [(Version_DRAFT, Version_READY_FOR_REVIEW), (Version_READY_FOR_REVIEW, Version_APPROVED),
     (Version_READY_FOR_REVIEW, Version_REJECTED), (Version_APPROVED, Version_PUBLISHED),
     (Version_PUBLISHED, Version_SUPERSEDED)]"

definition job_transitions :: "(job_state \<times> job_state) list" where
  "job_transitions =
     [(Job_CREATED, Job_EXPORTING), (Job_CREATED, Job_CANCELLED), (Job_EXPORTING, Job_EXPORTED),
     (Job_EXPORTING, Job_EXPORT_FAILED), (Job_EXPORTING, Job_CANCELLED),
     (Job_EXPORT_FAILED, Job_EXPORTING)]"

definition run_terminal :: "run_state list" where
  "run_terminal =
     [Run_COMPLETED, Run_DATA_REJECTED, Run_MODEL_INVALID, Run_INFEASIBLE,
     Run_NO_SOLUTION_WITHIN_LIMIT, Run_VALIDATION_FAILED, Run_CANCELLED, Run_FAILED]"

definition version_terminal :: "version_state list" where
  "version_terminal =
     [Version_SUPERSEDED, Version_REJECTED]"

definition job_terminal :: "job_state list" where
  "job_terminal =
     [Job_EXPORTED, Job_CANCELLED]"

text \<open>\<open>_pairs\<close>: the table of the values of the states.\<close>

definition pairs_of :: "('s \<Rightarrow> string) \<Rightarrow> ('s \<times> 's) list \<Rightarrow> (string \<times> string) list" where
  "pairs_of text ts = map (map_prod text text) ts"

definition states_of :: "machine \<Rightarrow> string list" where
  "states_of m =
     (case m of PLANNING_RUN \<Rightarrow> map run_text run_states
      | SCHEDULE_VERSION \<Rightarrow> map version_text version_states
      | EXPORT_JOB \<Rightarrow> map job_text job_states)"

definition terminal_states_of :: "machine \<Rightarrow> string list" where
  "terminal_states_of m =
     (case m of PLANNING_RUN \<Rightarrow> map run_text run_terminal
      | SCHEDULE_VERSION \<Rightarrow> map version_text version_terminal
      | EXPORT_JOB \<Rightarrow> map job_text job_terminal)"

definition transitions_of :: "machine \<Rightarrow> (string \<times> string) list" where
  "transitions_of m =
     (case m of PLANNING_RUN \<Rightarrow> pairs_of run_text run_transitions
      | SCHEDULE_VERSION \<Rightarrow> pairs_of version_text version_transitions
      | EXPORT_JOB \<Rightarrow> pairs_of job_text job_transitions)"

definition transition_error :: "string \<Rightarrow> string \<Rightarrow> string \<Rightarrow> py_exn" where
  "transition_error m source target =
     RaiseDomain ''StateTransitionError'' ''INVALID_STATE_TRANSITION'' (m @ '' '' @ source @ '' -> '' @ target)"

definition machine_named :: "string \<Rightarrow> machine res" where
  "machine_named text =
     (case find (\<lambda>m. machine_text m = text) [PLANNING_RUN, SCHEDULE_VERSION, EXPORT_JOB] of
        None \<Rightarrow> Inl (transition_error text ''<unknown>'' ''<unknown>'')
      | Some m \<Rightarrow> Inr m)"

definition states_for :: "string \<Rightarrow> string list res" where
  "states_for text = bind_res (machine_named text) (\<lambda>m. Inr (states_of m))"

definition terminal_states_for :: "string \<Rightarrow> string list res" where
  "terminal_states_for text = bind_res (machine_named text) (\<lambda>m. Inr (terminal_states_of m))"

definition transitions_for :: "string \<Rightarrow> (string \<times> string) list res" where
  "transitions_for text = bind_res (machine_named text) (\<lambda>m. Inr (transitions_of m))"

definition is_transition_allowed :: "string \<Rightarrow> string \<Rightarrow> string \<Rightarrow> bool" where
  "is_transition_allowed text source target =
     (case machine_named text of
        Inl _ \<Rightarrow> False
      | Inr m \<Rightarrow> source \<in> set (states_of m) \<and> target \<in> set (states_of m)
                 \<and> (source, target) \<in> set (transitions_of m))"

definition require_transition :: "string \<Rightarrow> string \<Rightarrow> string \<Rightarrow> unit res" where
  "require_transition text source target =
     bind_res (machine_named text) (\<lambda>m.
     require_or (is_transition_allowed (machine_text m) source target)
       (transition_error (machine_text m) source target))"

subsection \<open>Transition tables as lifecycles\<close>

fun reach_within :: "nat \<Rightarrow> ('s \<times> 's) list \<Rightarrow> 's list \<Rightarrow> 's list" where
  "reach_within 0 ts xs = xs"
| "reach_within (Suc n) ts xs = reach_within n ts (remdups (xs @ map snd (filter (\<lambda>(s, _). s \<in> set xs) ts)))"

lemma reach_within_sound:
  "(\<And>x. x \<in> set xs \<Longrightarrow> (i, x) \<in> (set ts)\<^sup>*) \<Longrightarrow> y \<in> set (reach_within n ts xs) \<Longrightarrow> (i, y) \<in> (set ts)\<^sup>*"
proof (induction n arbitrary: xs)
  case (Suc n)
  have "(i, x) \<in> (set ts)\<^sup>*" if x: "x \<in> set (remdups (xs @ map snd (filter (\<lambda>(s, _). s \<in> set xs) ts)))" for x
  proof (cases "x \<in> set xs")
    case False
    then obtain a where "(a, x) \<in> set ts" "a \<in> set xs" using x by auto
    then show ?thesis using Suc.prems(1) by (blast intro: rtrancl.rtrancl_into_rtrancl)
  qed (use Suc.prems(1) in simp)
  then show ?case using Suc.prems(2) by (intro Suc.IH) (simp_all only: reach_within.simps)
qed simp

locale lifecycle =
  fixes initial :: 's and "states" terminal :: "'s list" and transitions :: "('s \<times> 's) list"
  assumes closed: "set transitions \<subseteq> set states \<times> set states"
    and terminal_known: "set terminal \<subseteq> set states"
    and stops: "(s, t) \<in> set transitions \<Longrightarrow> s \<notin> set terminal"
    and progress: "s \<in> set states \<Longrightarrow> s \<notin> set terminal \<Longrightarrow> \<exists>t. (s, t) \<in> set transitions"
    and populated: "s \<in> set states \<Longrightarrow> (initial, s) \<in> (set transitions)\<^sup>*"
    and escapes: "s \<in> set states \<Longrightarrow> \<exists>t \<in> set terminal. (s, t) \<in> (set transitions)\<^sup>*"
begin

lemma terminal_iff_stuck: "s \<in> set states \<Longrightarrow> s \<in> set terminal \<longleftrightarrow> (\<forall>t. (s, t) \<notin> set transitions)"
  using stops progress by blast

lemma terminal_absorbs: "(s, t) \<in> (set transitions)\<^sup>* \<Longrightarrow> s \<in> set terminal \<Longrightarrow> t = s"
  using stops by (metis converse_rtranclE)

lemma reachable_iff: "initial \<in> set states \<Longrightarrow> (initial, s) \<in> (set transitions)\<^sup>* \<longleftrightarrow> s \<in> set states"
  using closed populated by (auto elim: rtranclE)

end

text \<open>A run is a list of states, each step of which is in the table.\<close>

definition run_of :: "('s \<times> 's) list \<Rightarrow> 's list \<Rightarrow> bool" where
  "run_of ts xs = successively (\<lambda>s t. (s, t) \<in> set ts) xs"

lemma run_of_simps [simp]:
  "run_of ts []" "run_of ts [x]" "run_of ts (x # y # ys) \<longleftrightarrow> (x, y) \<in> set ts \<and> run_of ts (y # ys)"
  by (simp_all add: run_of_def)

locale staged = lifecycle +
  fixes rank :: "'s \<Rightarrow> nat"
  assumes descends: "(s, t) \<in> set transitions \<Longrightarrow> rank t < rank s"
begin

lemma run_length: "run_of transitions (s # xs) \<Longrightarrow> length xs \<le> rank s"
proof (induction xs arbitrary: s)
  case (Cons x xs)
  then have "length xs \<le> rank x" "rank x < rank s" using descends by auto
  then show ?case by simp
qed simp

lemma acyclic_table: "acyclic (set transitions)"
proof -
  have "(s, t) \<in> (set transitions)\<^sup>+ \<Longrightarrow> rank t < rank s" for s t
    by (induction rule: trancl_induct) (auto dest: descends)
  then show ?thesis by (auto simp: acyclic_def)
qed

text \<open>A run that cannot be extended ends in a terminal state.\<close>

lemma maximal_run_ends:
  assumes "run_of transitions xs" and "xs \<noteq> []" and "last xs \<in> set states"
    and "\<forall>t. \<not> run_of transitions (xs @ [t])"
  shows "last xs \<in> set terminal"
proof (rule ccontr)
  assume "last xs \<notin> set terminal"
  then obtain t where "(last xs, t) \<in> set transitions" using progress assms(3) by blast
  then have "run_of transitions (xs @ [t])"
    using assms(1,2) by (auto simp: run_of_def successively_append_iff)
  then show False using assms(4) by blast
qed

end

fun run_rank :: "run_state \<Rightarrow> nat" where
  "run_rank Run_CREATED = 8"
| "run_rank Run_INGESTING = 7"
| "run_rank Run_VALIDATING = 6"
| "run_rank Run_SNAPSHOTTED = 5"
| "run_rank Run_BUILDING = 4"
| "run_rank Run_SOLVING = 3"
| "run_rank Run_SOLVED = 2"
| "run_rank Run_VERIFYING = 1"
| "run_rank _ = 0"

fun version_rank :: "version_state \<Rightarrow> nat" where
  "version_rank Version_DRAFT = 4"
| "version_rank Version_READY_FOR_REVIEW = 3"
| "version_rank Version_APPROVED = 2"
| "version_rank Version_PUBLISHED = 1"
| "version_rank _ = 0"

lemma escapes_by_reach:
  assumes "list_all (\<lambda>s. list_ex (\<lambda>t. t \<in> set terminal) (reach_within n ts [s])) states" and "s \<in> set states"
  shows "\<exists>t \<in> set terminal. (s, t) \<in> (set ts)\<^sup>*"
proof -
  obtain t where t: "t \<in> set (reach_within n ts [s])" "t \<in> set terminal"
    using assms by (auto simp: list_all_iff list_ex_iff)
  then have "(s, t) \<in> (set ts)\<^sup>*" using reach_within_sound [of "[s]" s ts t n] by simp
  then show ?thesis using t by blast
qed

lemma populated_by_reach:
  assumes "list_all (\<lambda>s. s \<in> set (reach_within n ts [i])) states" and "s \<in> set states"
  shows "(i, s) \<in> (set ts)\<^sup>*"
  using assms reach_within_sound [of "[i]" i ts s n] by (simp add: list_all_iff)

lemma table_checks:
  assumes "list_all (\<lambda>(s, t). s \<in> set states \<and> t \<in> set states \<and> s \<notin> set terminal) ts"
    and "list_all (\<lambda>t. t \<in> set states) terminal"
    and "list_all (\<lambda>s. s \<in> set terminal \<or> list_ex (\<lambda>(u, _). u = s) ts) states"
    and "list_all (\<lambda>s. s \<in> set (reach_within n ts [i])) states"
    and "list_all (\<lambda>s. list_ex (\<lambda>t. t \<in> set terminal) (reach_within m ts [s])) states"
  shows "lifecycle i states terminal ts"
proof
  show "set ts \<subseteq> set states \<times> set states" "set terminal \<subseteq> set states"
    using assms(1,2) by (auto simp: list_all_iff)
  show "s \<notin> set terminal" if "(s, t) \<in> set ts" for s t using assms(1) that by (auto simp: list_all_iff)
  show "\<exists>t. (s, t) \<in> set ts" if "s \<in> set states" "s \<notin> set terminal" for s
    using assms(3) that by (fastforce simp: list_all_iff list_ex_iff)
  show "(i, s) \<in> (set ts)\<^sup>*" if "s \<in> set states" for s by (rule populated_by_reach [OF assms(4) that])
  show "\<exists>t \<in> set terminal. (s, t) \<in> (set ts)\<^sup>*" if "s \<in> set states" for s
    by (rule escapes_by_reach [OF assms(5) that])
qed

interpretation run: lifecycle Run_CREATED run_states run_terminal run_transitions
  by (rule table_checks [where n = 8 and m = 1]) code_simp+

interpretation version: lifecycle Version_DRAFT version_states version_terminal version_transitions
  by (rule table_checks [where n = 4 and m = 4]) code_simp+

interpretation job: lifecycle Job_CREATED job_states job_terminal job_transitions
  by (rule table_checks [where n = 3 and m = 2]) code_simp+

lemma ranked_by_check:
  "list_all (\<lambda>(s, t). r t < (r s :: nat)) ts \<Longrightarrow> (s, t) \<in> set ts \<Longrightarrow> r t < r s"
  by (auto simp: list_all_iff)

interpretation run: staged Run_CREATED run_states run_terminal run_transitions run_rank
proof
  have "list_all (\<lambda>(s, t). run_rank t < run_rank s) run_transitions" by code_simp
  then show "(s, t) \<in> set run_transitions \<Longrightarrow> run_rank t < run_rank s" for s t
    by (rule ranked_by_check)
qed

interpretation version: staged Version_DRAFT version_states version_terminal version_transitions version_rank
proof
  have "list_all (\<lambda>(s, t). version_rank t < version_rank s) version_transitions" by code_simp
  then show "(s, t) \<in> set version_transitions \<Longrightarrow> version_rank t < version_rank s" for s t
    by (rule ranked_by_check)
qed

lemma text_inj: "inj run_text" "inj version_text" "inj job_text"
proof -
  show "inj run_text"
  proof (rule injI)
    show "s = t" if "run_text s = run_text t" for s t using that by (cases s; cases t; simp)
  qed
  show "inj version_text"
  proof (rule injI)
    show "s = t" if "version_text s = version_text t" for s t using that by (cases s; cases t; simp)
  qed
  show "inj job_text"
  proof (rule injI)
    show "s = t" if "job_text s = job_text t" for s t using that by (cases s; cases t; simp)
  qed
qed

subsection \<open>The tables of texts\<close>

lemma pairs_of_iff: "(x, y) \<in> set (pairs_of f ts) \<longleftrightarrow> (\<exists>s t. x = f s \<and> y = f t \<and> (s, t) \<in> set ts)"
  by (auto simp: pairs_of_def)

lemma pairs_of_rtrancl: "(s, t) \<in> (set ts)\<^sup>* \<Longrightarrow> (f s, f t) \<in> (set (pairs_of f ts))\<^sup>*"
proof (induction rule: rtrancl_induct)
  case (step y z)
  then have "(f y, f z) \<in> set (pairs_of f ts)" by (auto simp: pairs_of_iff)
  with step.IH show ?case by (rule rtrancl.rtrancl_into_rtrancl)
qed simp

lemma lifecycle_map:
  assumes l: "lifecycle i states terminal ts" and f: "inj f"
  shows "lifecycle (f i) (map f states) (map f terminal) (pairs_of f ts)"
proof
  note l = l [unfolded lifecycle_def]
  show "set (pairs_of f ts) \<subseteq> set (map f states) \<times> set (map f states)" "set (map f terminal) \<subseteq> set (map f states)"
    using l by (auto simp: pairs_of_def)
  show "x \<notin> set (map f terminal)" if "(x, y) \<in> set (pairs_of f ts)" for x y
    using that l injD [OF f] by (auto simp: pairs_of_iff) blast
  show "\<exists>y. (x, y) \<in> set (pairs_of f ts)" if "x \<in> set (map f states)" "x \<notin> set (map f terminal)" for x
    using that l by (fastforce simp: pairs_of_iff)
  show "(f i, x) \<in> (set (pairs_of f ts))\<^sup>*" if "x \<in> set (map f states)" for x
    using that l by (auto intro: pairs_of_rtrancl)
  show "\<exists>y \<in> set (map f terminal). (x, y) \<in> (set (pairs_of f ts))\<^sup>*" if x: "x \<in> set (map f states)" for x
  proof -
    obtain s where "x = f s" "s \<in> set states" using x by auto
    then obtain t where "t \<in> set terminal" "(s, t) \<in> (set ts)\<^sup>*" using l by blast
    then show ?thesis using \<open>x = f s\<close> by (auto intro: pairs_of_rtrancl)
  qed
qed

lemma staged_map:
  assumes "staged i states terminal ts r" and f: "inj f"
  shows "staged (f i) (map f states) (map f terminal) (pairs_of f ts) (r \<circ> the_inv f)"
proof -
  have "(s, t) \<in> set ts \<Longrightarrow> r t < r s" for s t using assms(1) by (simp add: staged_def staged_axioms_def)
  then have "staged_axioms (pairs_of f ts) (r \<circ> the_inv f)"
    by (auto simp: staged_axioms_def pairs_of_iff the_inv_f_f [OF f])
  then show ?thesis using assms lifecycle_map by (auto simp: staged_def)
qed

definition initial_of :: "machine \<Rightarrow> string" where
  "initial_of m = (case m of PLANNING_RUN \<Rightarrow> ''CREATED'' | SCHEDULE_VERSION \<Rightarrow> ''DRAFT'' | EXPORT_JOB \<Rightarrow> ''CREATED'')"

interpretation machine: lifecycle "initial_of m" "states_of m" "terminal_states_of m" "transitions_of m" for m
proof (cases m)
  case PLANNING_RUN
  then show "lifecycle (initial_of m) (states_of m) (terminal_states_of m) (transitions_of m)"
    using lifecycle_map [OF run.lifecycle_axioms text_inj(1)]
    by (simp add: initial_of_def states_of_def terminal_states_of_def transitions_of_def)
next
  case SCHEDULE_VERSION
  then show "lifecycle (initial_of m) (states_of m) (terminal_states_of m) (transitions_of m)"
    using lifecycle_map [OF version.lifecycle_axioms text_inj(2)]
    by (simp add: initial_of_def states_of_def terminal_states_of_def transitions_of_def)
next
  case EXPORT_JOB
  then show "lifecycle (initial_of m) (states_of m) (terminal_states_of m) (transitions_of m)"
    using lifecycle_map [OF job.lifecycle_axioms text_inj(3)]
    by (simp add: initial_of_def states_of_def terminal_states_of_def transitions_of_def)
qed

interpretation run_text: staged "run_text Run_CREATED" "map run_text run_states" "map run_text run_terminal"
  "pairs_of run_text run_transitions" "run_rank \<circ> the_inv run_text"
  by (rule staged_map [OF run.staged_axioms text_inj(1)])

interpretation version_text: staged "version_text Version_DRAFT" "map version_text version_states"
  "map version_text version_terminal" "pairs_of version_text version_transitions" "version_rank \<circ> the_inv version_text"
  by (rule staged_map [OF version.staged_axioms text_inj(2)])

lemma run_rank_le: "run_rank s \<le> 8"
  by (cases s) simp_all

lemma version_rank_le: "version_rank s \<le> 4"
  by (cases s) simp_all

subsection \<open>What the guards accept\<close>

lemma machine_named_text [simp]: "machine_named (machine_text m) = Inr m"
  by (cases m) (simp_all add: machine_named_def machine_text_def)

lemma machine_named_Inr_iff: "machine_named text = Inr m \<longleftrightarrow> text = machine_text m"
proof
  show "text = machine_text m" if "machine_named text = Inr m"
    using that unfolding machine_named_def by (auto split: option.splits if_splits)
qed simp

lemma require_transition_iff:
  "require_transition (machine_text m) s t = Inr () \<longleftrightarrow> (s, t) \<in> set (transitions_of m)"
  using machine.closed [of m] by (auto simp: require_transition_def is_transition_allowed_def res_simps)

lemma require_transition_ok:
  "require_transition text s t = Inr () \<longleftrightarrow> (\<exists>m. text = machine_text m \<and> (s, t) \<in> set (transitions_of m))"
  using require_transition_iff
  by (metis (no_types, lifting) bind_res_Inr_iff machine_named_Inr_iff require_transition_def)

lemma accepted_run_length:
  assumes "successively (\<lambda>s t. require_transition ''PLANNING_RUN'' s t = Inr ()) (s # xs)"
  shows "length xs \<le> 8"
proof -
  have "run_of (transitions_of PLANNING_RUN) (s # xs)"
    using assms require_transition_iff [of PLANNING_RUN] by (simp add: run_of_def machine_text_def)
  then have "length xs \<le> (run_rank \<circ> the_inv run_text) s"
    by (intro run_text.run_length) (simp add: transitions_of_def)
  then show ?thesis using run_rank_le [of "the_inv run_text s"] by simp
qed

lemma accepted_version_length:
  assumes "successively (\<lambda>s t. require_transition ''SCHEDULE_VERSION'' s t = Inr ()) (s # xs)"
  shows "length xs \<le> 4"
proof -
  have "run_of (transitions_of SCHEDULE_VERSION) (s # xs)"
    using assms require_transition_iff [of SCHEDULE_VERSION] by (simp add: run_of_def machine_text_def)
  then have "length xs \<le> (version_rank \<circ> the_inv version_text) s"
    by (intro version_text.run_length) (simp add: transitions_of_def)
  then show ?thesis using version_rank_le [of "the_inv version_text s"] by simp
qed

end
