(* ===== verification/Lifecycle_Documents.thy ===== *)
theory Lifecycle_Documents
  imports State_Machines
begin

section \<open>Schedule versions and export jobs under persistence\<close>

text \<open>
  \<open>domain/state_machines/schedule_version.py\<close> and \<open>export_job.py\<close>: the checks a repository applies
  before it replaces a stored document. Documents are JSON objects, read with \<open>dict.get\<close>. The
  histories below are the sequences of replacements these checks let through; the lemmas show what
  every history keeps: the immutable content of a schedule version, and for an export job the
  attempt counter, the lease and its expiry.
\<close>

subsection \<open>Schedule versions\<close>

definition mutable_state_fields :: "string list" where
  "mutable_state_fields = [''state'', ''decision'', ''publication'', ''superseded_by'', ''allowed_actions'']"

definition immutable_schedule_projection :: "json_object \<Rightarrow> json_object" where
  "immutable_schedule_projection doc = filter (\<lambda>(key, _). key \<notin> set mutable_state_fields) doc"

definition immutable_schedule_fingerprint :: "(string \<Rightarrow> string) \<Rightarrow> json_object \<Rightarrow> string" where
  "immutable_schedule_fingerprint digest doc =
     ''sha256:'' @ digest (json_dumps (JObj (immutable_schedule_projection doc)))"

definition version_error :: "string \<Rightarrow> py_exn" where
  "version_error message = RaiseDomain ''ScheduleVersionPersistenceTransitionError'' message ''''"

definition require_schedule_version_transition ::
  "(string \<Rightarrow> string) \<Rightarrow> json_object \<Rightarrow> json_object \<Rightarrow> (string \<times> string) res" where
  "require_schedule_version_transition digest current candidate =
     (case (dict_get current ''state'', dict_get candidate ''state'') of
        (JStr source, JStr target) \<Rightarrow>
          (case require_transition ''SCHEDULE_VERSION'' source target of
             Inl _ \<Rightarrow> Inl (version_error ''unsupported ScheduleVersion transition'')
           | Inr _ \<Rightarrow>
               if immutable_schedule_fingerprint digest current \<noteq> immutable_schedule_fingerprint digest candidate
               then Inl (version_error ''ScheduleVersion immutable identity, lineage, validation, or content changed'')
               else Inr (source, target))
      | _ \<Rightarrow> Inl (version_error ''ScheduleVersion state must be non-empty text''))"

definition is_published_content_immutable :: "string \<Rightarrow> bool" where
  "is_published_content_immutable state = (state \<in> set [''PUBLISHED'', ''SUPERSEDED''])"

lemma version_transition_iff:
  "require_schedule_version_transition digest current candidate = Inr (source, target) \<longleftrightarrow>
     dict_get current ''state'' = JStr source \<and> dict_get candidate ''state'' = JStr target
     \<and> (source, target) \<in> set (transitions_of SCHEDULE_VERSION)
     \<and> immutable_schedule_fingerprint digest current = immutable_schedule_fingerprint digest candidate"
proof (cases "\<exists>s t. dict_get current ''state'' = JStr s \<and> dict_get candidate ''state'' = JStr t")
  case False
  then show ?thesis by (auto simp: require_schedule_version_transition_def split: json.splits)
next
  case True
  then obtain s t where st: "dict_get current ''state'' = JStr s" "dict_get candidate ''state'' = JStr t" by blast
  have r: "require_transition ''SCHEDULE_VERSION'' s t = Inr u \<longleftrightarrow> (s, t) \<in> set (transitions_of SCHEDULE_VERSION)" for u
    using require_transition_iff [of SCHEDULE_VERSION s t] by (simp add: machine_text_def)
  then show ?thesis using st
    by (cases "require_transition ''SCHEDULE_VERSION'' s t") (auto simp: require_schedule_version_transition_def)
qed

text \<open>A history of one schedule version, oldest document first.\<close>

fun version_history :: "(string \<Rightarrow> string) \<Rightarrow> json_object list \<Rightarrow> bool" where
  "version_history digest (a # b # docs) \<longleftrightarrow>
     is_ok (require_schedule_version_transition digest a b) \<and> version_history digest (b # docs)"
| "version_history digest _ \<longleftrightarrow> True"

lemma version_history_fingerprint:
  "version_history digest docs \<Longrightarrow> d \<in> set docs \<Longrightarrow>
     immutable_schedule_fingerprint digest d = immutable_schedule_fingerprint digest (hd docs)"
proof (induction digest docs arbitrary: d rule: version_history.induct)
  case (1 digest a b docs)
  then obtain s t where "require_schedule_version_transition digest a b = Inr (s, t)" by (auto simp: is_ok_iff)
  then have "immutable_schedule_fingerprint digest b = immutable_schedule_fingerprint digest a"
    by (simp add: version_transition_iff)
  with 1 show ?case by auto
qed auto

definition state_text :: "json_object \<Rightarrow> string" where
  "state_text doc = (case dict_get doc ''state'' of JStr s \<Rightarrow> s | _ \<Rightarrow> '''')"

lemma version_history_run:
  "version_history digest docs \<Longrightarrow>
     successively (\<lambda>s t. require_transition ''SCHEDULE_VERSION'' s t = Inr ()) (map state_text docs)"
proof (induction digest docs rule: version_history.induct)
  case (1 digest a b docs)
  then obtain s t where "require_schedule_version_transition digest a b = Inr (s, t)" by (auto simp: is_ok_iff)
  then have "require_transition ''SCHEDULE_VERSION'' (state_text a) (state_text b) = Inr ()"
    using require_transition_iff [of SCHEDULE_VERSION]
    by (simp add: version_transition_iff state_text_def machine_text_def)
  then show ?case using 1 by simp
qed auto

lemma version_history_bounded: "version_history digest docs \<Longrightarrow> length docs \<le> 5"
  using accepted_version_length [of "state_text (hd docs)" "map state_text (tl docs)"] version_history_run
  by (cases docs) fastforce+

subsection \<open>Export jobs\<close>

definition job_error :: "string \<Rightarrow> py_exn" where
  "job_error message = RaiseDomain ''ExportJobPersistenceTransitionError'' message ''''"

definition lease_error :: "string \<Rightarrow> py_exn" where
  "lease_error message = RaiseDomain ''ExportJobLeaseError'' message ''''"

definition attempt_of :: "json_object \<Rightarrow> int res" where
  "attempt_of doc =
     (case dict_get doc ''attempt'' of
        JInt n \<Rightarrow> if n < 0 then Inl (job_error ''ExportJob attempt must be a non-negative integer'') else Inr n
      | _ \<Rightarrow> Inl (job_error ''ExportJob attempt must be a non-negative integer''))"

definition is_text :: "json \<Rightarrow> bool" where
  "is_text v = (case v of JStr _ \<Rightarrow> True | _ \<Rightarrow> False)"

definition require_export_job_transition ::
  "json_object \<Rightarrow> json_object \<Rightarrow> instant option \<Rightarrow> (string \<times> string) res" where
  "require_export_job_transition current candidate lease_expires_at_utc =
     (case (dict_get current ''state'', dict_get candidate ''state'') of
        (JStr source, JStr target) \<Rightarrow>
          (case require_transition ''EXPORT_JOB'' source target of
             Inl _ \<Rightarrow> Inl (job_error ''unsupported ExportJob transition'')
           | Inr _ \<Rightarrow>
               bind_res (attempt_of current) (\<lambda>current_attempt.
               bind_res (attempt_of candidate) (\<lambda>candidate_attempt.
               if target = ''EXPORTING'' then
                 if candidate_attempt \<noteq> current_attempt + 1
                 then Inl (job_error ''claim/retry must increment ExportJob attempt exactly once'')
                 else if \<not> is_text (dict_get candidate ''lease_reference'')
                 then Inl (lease_error ''EXPORTING requires a lease reference'')
                 else if lease_expires_at_utc = None
                 then Inl (lease_error ''EXPORTING requires an explicit lease expiry'')
                 else Inr (source, target)
               else
                 if candidate_attempt \<noteq> current_attempt
                 then Inl (job_error ''non-claim transition must preserve ExportJob attempt'')
                 else if dict_get candidate ''lease_reference'' \<noteq> JNull
                 then Inl (lease_error ''non-EXPORTING state must release its lease'')
                 else if lease_expires_at_utc \<noteq> None
                 then Inl (lease_error ''non-EXPORTING state cannot retain lease expiry'')
                 else Inr (source, target))))
      | _ \<Rightarrow> Inl (job_error ''ExportJob state must be non-empty text''))"

definition require_export_job_heartbeat ::
  "json_object \<Rightarrow> json_object \<Rightarrow> string \<Rightarrow> instant \<Rightarrow> instant \<Rightarrow> instant \<Rightarrow> unit res" where
  "require_export_job_heartbeat current candidate expected_lease_reference stored_lease_expires_at_utc
       observed_at_utc new_lease_expires_at_utc =
     check_seq
       [require_or (dict_get current ''state'' = JStr ''EXPORTING'')
          (lease_error ''only EXPORTING jobs can heartbeat''),
        require_or (dict_get candidate ''state'' = JStr ''EXPORTING'')
          (lease_error ''heartbeat cannot change ExportJob state''),
        require_or (dict_get current ''lease_reference'' = JStr expected_lease_reference)
          (lease_error ''worker does not own the active ExportJob lease''),
        require_or (dict_get candidate ''lease_reference'' = JStr expected_lease_reference)
          (lease_error ''heartbeat must preserve the active lease reference''),
        require_or (observed_at_utc < stored_lease_expires_at_utc) (lease_error ''ExportJob lease has expired''),
        require_or (observed_at_utc < new_lease_expires_at_utc)
          (lease_error ''heartbeat lease expiry must be in the future''),
        bind_res (attempt_of candidate) (\<lambda>candidate_attempt.
        bind_res (attempt_of current) (\<lambda>current_attempt.
        require_or (candidate_attempt = current_attempt)
          (job_error ''heartbeat must preserve ExportJob attempt'')))]"

text \<open>
  \<open>job_history doc expiry claims\<close>: the job is stored as \<open>doc\<close> with the lease expiry \<open>expiry\<close> after some
  accepted transitions and heartbeats, \<open>claims\<close> of which claimed the job.
\<close>

inductive job_history :: "json_object \<Rightarrow> instant option \<Rightarrow> int \<Rightarrow> bool" where
  created: "dict_get doc ''state'' = JStr ''CREATED'' \<Longrightarrow> dict_get doc ''attempt'' = JInt 0 \<Longrightarrow>
     dict_get doc ''lease_reference'' = JNull \<Longrightarrow> job_history doc None 0"
| claim: "job_history doc expiry n \<Longrightarrow>
     require_export_job_transition doc doc' expiry' = Inr (source, ''EXPORTING'') \<Longrightarrow> job_history doc' expiry' (n + 1)"
| move: "job_history doc expiry n \<Longrightarrow>
     require_export_job_transition doc doc' expiry' = Inr (source, target) \<Longrightarrow> target \<noteq> ''EXPORTING'' \<Longrightarrow>
     job_history doc' expiry' n"
| heartbeat: "job_history doc (Some expiry) n \<Longrightarrow>
     require_export_job_heartbeat doc doc' lease expiry now expiry' = Inr () \<Longrightarrow> job_history doc' (Some expiry') n"

lemma attempt_of_Inr_iff: "attempt_of doc = Inr n \<longleftrightarrow> dict_get doc ''attempt'' = JInt n \<and> 0 \<le> n"
  by (auto simp: attempt_of_def split: json.splits if_splits)

lemma job_transition_iff:
  "require_export_job_transition current candidate expiry = Inr (source, target) \<longleftrightarrow>
     dict_get current ''state'' = JStr source \<and> dict_get candidate ''state'' = JStr target
     \<and> (source, target) \<in> set (transitions_of EXPORT_JOB)
     \<and> (\<exists>n. attempt_of current = Inr n
          \<and> attempt_of candidate = Inr (if target = ''EXPORTING'' then n + 1 else n))
     \<and> (if target = ''EXPORTING'' then is_text (dict_get candidate ''lease_reference'') \<and> expiry \<noteq> None
        else dict_get candidate ''lease_reference'' = JNull \<and> expiry = None)"
proof -
  have r: "require_transition ''EXPORT_JOB'' s t = Inr u \<longleftrightarrow> (s, t) \<in> set (transitions_of EXPORT_JOB)" for s t u
    using require_transition_iff [of EXPORT_JOB s t] by (simp add: machine_text_def)
  show ?thesis
  proof (cases "\<exists>s t. dict_get current ''state'' = JStr s \<and> dict_get candidate ''state'' = JStr t")
    case False
    then show ?thesis by (auto simp: require_export_job_transition_def split: json.splits)
  next
    case True
    then obtain s t where st: "dict_get current ''state'' = JStr s" "dict_get candidate ''state'' = JStr t" by blast
    show ?thesis
    proof (cases "require_transition ''EXPORT_JOB'' s t")
      case (Inl e)
      then show ?thesis using st r [of s t "()"] by (auto simp: require_export_job_transition_def)
    next
      case (Inr u)
      then have "(s, t) \<in> set (transitions_of EXPORT_JOB)" using r by blast
      then show ?thesis using st Inr
        by (cases "t = ''EXPORTING''") (auto simp: require_export_job_transition_def res_simps)
    qed
  qed
qed

lemma job_history_invariant:
  assumes "job_history doc expiry n"
  shows "dict_get doc ''attempt'' = JInt n \<and> 0 \<le> n
    \<and> (dict_get doc ''state'' = JStr ''EXPORTING'' \<longleftrightarrow> expiry \<noteq> None)
    \<and> (dict_get doc ''state'' = JStr ''EXPORTING'' \<longleftrightarrow> is_text (dict_get doc ''lease_reference''))
    \<and> (\<exists>s. dict_get doc ''state'' = JStr s \<and> (''CREATED'', s) \<in> (set (transitions_of EXPORT_JOB))\<^sup>*)"
  using assms
proof (induction rule: job_history.induct)
  case (claim doc expiry n doc' expiry' source)
  then show ?case by (auto simp: job_transition_iff attempt_of_Inr_iff intro: rtrancl.rtrancl_into_rtrancl)
next
  case (move doc expiry n doc' expiry' source target)
  then show ?case
    by (auto simp: job_transition_iff attempt_of_Inr_iff is_text_def intro: rtrancl.rtrancl_into_rtrancl)
next
  case (heartbeat doc expiry n doc' lease now expiry')
  then show ?case
    by (auto simp: require_export_job_heartbeat_def res_simps attempt_of_Inr_iff is_text_def)
qed (auto simp: is_text_def)

text \<open>A stored job whose lease has run out accepts no heartbeat, and no worker but the owner may send one.\<close>

lemma heartbeat_needs_live_lease:
  assumes "require_export_job_heartbeat doc doc' lease expiry now expiry' = Inr ()"
  shows "now < expiry \<and> now < expiry' \<and> dict_get doc ''lease_reference'' = JStr lease
    \<and> dict_get doc' ''lease_reference'' = JStr lease"
  using assms by (auto simp: require_export_job_heartbeat_def res_simps)

lemma job_history_finished:
  assumes "job_history doc expiry n" and "dict_get doc ''state'' = JStr s" and "s \<in> set (terminal_states_of EXPORT_JOB)"
  shows "require_export_job_transition doc doc' expiry' \<noteq> Inr (s', t)"
  using assms(2,3) machine.stops [of s _ EXPORT_JOB] by (auto simp: job_transition_iff)

end
