(* ===== verification/Json_Text.thy ===== *)
theory Json_Text
  imports Json
begin

section \<open>Canonical JSON text determines the document\<close>

text \<open>
  \<open>json.dumps\<close> with sorted keys is injective up to the order of the keys: two values with the same
  canonical text have the same sorted form. The proof reads the two texts side by side: every
  printed value is followed by the end of the text or by a delimiter, so that it is known where it
  ends (the texts form a prefix-free code relative to the delimiters).
\<close>

fun sorted_form :: "json \<Rightarrow> json" where
  "sorted_form (JArr vs) = JArr (map sorted_form vs)"
| "sorted_form (JObj kvs) = JObj (sort_key fst (map (\<lambda>(k, v). (k, sorted_form v)) kvs))"
| "sorted_form v = v"

subsection \<open>Decimal text\<close>

lemma digit_char_code: "n < 10 \<Longrightarrow> (of_char (digit_char n) :: nat) = 48 + n"
  by (simp add: digit_char_def of_char_of)

lemma digit_char_inj: "m < 10 \<Longrightarrow> n < 10 \<Longrightarrow> digit_char m = digit_char n \<longleftrightarrow> m = n"
  by (metis digit_char_code add_left_cancel)

definition number_char :: "char \<Rightarrow> bool" where
  "number_char c \<longleftrightarrow> c = CHR ''-'' \<or> c \<in> digit_char ` {..<10}"

lemma show_nat_chars: "c \<in> set (show_nat n) \<Longrightarrow> c \<in> digit_char ` {..<10}"
proof (induction n rule: show_nat.induct)
  case (1 n)
  then show ?case
    by (subst (asm) show_nat.simps) (auto split: if_splits)
qed

lemma show_nat_nonempty [simp]: "show_nat n \<noteq> []"
  by (subst show_nat.simps) simp

lemma show_nat_inj: "show_nat m = show_nat n \<Longrightarrow> m = n"
proof (induction m arbitrary: n rule: show_nat.induct)
  case (1 m)
  show ?case
  proof (cases "m < 10 \<or> n < 10")
    case True
    have "length (show_nat k) = 1 \<longleftrightarrow> k < 10" for k
      by (subst show_nat.simps) simp
    then have "m < 10" "n < 10" using True 1(2) by metis+
    then show ?thesis using 1(2) by (simp add: show_nat.simps [of m] show_nat.simps [of n] digit_char_inj)
  next
    case False
    then have "show_nat (m div 10) = show_nat (n div 10)" "digit_char (m mod 10) = digit_char (n mod 10)"
      using 1(2) by (simp_all add: show_nat.simps [of m] show_nat.simps [of n])
    then have "m div 10 = n div 10" "m mod 10 = n mod 10"
      using 1(1) False digit_char_inj by auto
    then show ?thesis by (metis div_mult_mod_eq)
  qed
qed

lemma minus_not_digit: "CHR ''-'' \<notin> digit_char ` {..<10}"
proof
  assume "CHR ''-'' \<in> digit_char ` {..<10}"
  then obtain n where "n < 10" "CHR ''-'' = digit_char n" by auto
  then have "(of_char (CHR ''-'') :: nat) = 48 + n" using digit_char_code by metis
  then show False by simp
qed

lemma show_int_inj: "show_int m = show_int n \<Longrightarrow> m = n"
proof -
  have "hd (show_nat k) \<noteq> CHR ''-''" for k
    using show_nat_chars [of "hd (show_nat k)" k] minus_not_digit hd_in_set [OF show_nat_nonempty] by metis
  then have "show_nat k \<noteq> CHR ''-'' # cs" "CHR ''-'' # cs \<noteq> show_nat k" for k cs by (metis list.sel(1))+
  then show "show_int m = show_int n \<Longrightarrow> m = n"
    by (auto simp: show_int_def split: if_splits dest: show_nat_inj)
qed

lemma show_int_chars: "c \<in> set (show_int n) \<Longrightarrow> number_char c"
  using show_nat_chars by (auto simp: show_int_def number_char_def split: if_splits)

lemma show_int_nonempty [simp]: "show_int n \<noteq> []"
  by (simp add: show_int_def)

subsection \<open>Quoted text\<close>

lemma quote_char_code: "quote_char = CHR 0x22"
proof -
  have "(of_char quote_char :: nat) = of_char (CHR 0x22)" by (simp add: quote_char_def)
  then show ?thesis by (simp only: of_char_eq_iff)
qed

lemma hex_char_inj: "m < 16 \<Longrightarrow> n < 16 \<Longrightarrow> hex_char m = hex_char n \<longleftrightarrow> m = n"
proof -
  assume mn: "m < 16" "n < 16"
  have code: "(of_char (hex_char k) :: nat) = (if k < 10 then 48 + k else 87 + k)" if "k < 16" for k
    using that by (simp add: hex_char_def digit_char_def of_char_of)
  have "hex_char m = hex_char n \<longleftrightarrow> (of_char (hex_char m) :: nat) = of_char (hex_char n)" by (rule of_char_eq_iff [symmetric])
  also have "\<dots> \<longleftrightarrow> m = n" unfolding code [OF mn(1)] code [OF mn(2)] using mn by (cases "m < 10"; cases "n < 10"; simp)
  finally show ?thesis .
qed

lemma escape_char_split:
  assumes "escape_char c @ x = escape_char d @ y"
  shows "c = d \<and> x = y"
proof -
  let ?n = "of_char c :: nat" and ?m = "of_char d :: nat"
  have bs: "(of_char backslash :: nat) = 92" by (simp add: backslash_def)
  have "?n = ?m \<and> x = y"
  proof (cases "?n < 32 \<and> ?m < 32")
    case True
    then have "?n div 16 < 16" "?m div 16 < 16" "?n mod 16 < 16" "?m mod 16 < 16" by auto
    then show ?thesis using assms True
      by (auto simp: escape_char_def Let_def hex_char_inj split: if_splits) (metis div_mult_mod_eq of_char_eq_iff)+
  next
    case False
    then show ?thesis using assms bs
      by (auto simp: escape_char_def Let_def split: if_splits)
  qed
  then show ?thesis by simp
qed

lemma escape_char_start: "hd (escape_char c) \<noteq> quote_char" "escape_char c \<noteq> []"
proof -
  have "(of_char quote_char :: nat) = 34" "(of_char backslash :: nat) = 92"
    by (simp_all add: quote_char_def backslash_def)
  then show "hd (escape_char c) \<noteq> quote_char" "escape_char c \<noteq> []"
    by (auto simp: escape_char_def Let_def split: if_splits)
qed

lemma quoted_body_split:
  "concat (map escape_char s) @ quote_char # x = concat (map escape_char t) @ quote_char # y \<Longrightarrow> s = t \<and> x = y"
proof (induction s arbitrary: t)
  case Nil
  then show ?case
    using escape_char_start by (cases t) (auto simp: hd_append, metis append_is_Nil_conv hd_append2 list.sel(1))
next
  case (Cons c s)
  show ?case
  proof (cases t)
    case Nil
    then show ?thesis
      using Cons.prems escape_char_start by (auto, metis append_is_Nil_conv hd_append2 list.sel(1))
  next
    case (Cons d t')
    have e: "escape_char c @ concat (map escape_char s) @ quote_char # x
        = escape_char d @ concat (map escape_char t') @ quote_char # y"
      using Cons.prems \<open>t = d # t'\<close> by simp
    then show ?thesis using escape_char_split [OF e] Cons.IH \<open>t = d # t'\<close> by blast
  qed
qed

lemma quote_text_split: "quote_text s @ x = quote_text t @ y \<Longrightarrow> s = t \<and> x = y"
  using quoted_body_split [of s x t y] by (simp add: quote_text_def)

subsection \<open>Values\<close>

definition delimited :: "string \<Rightarrow> bool" where
  "delimited r \<longleftrightarrow> r = [] \<or> hd r \<in> {CHR '','', CHR '']'', CHR ''}''}"

lemma delimited_simps [simp]: "delimited []" "delimited (c # cs) \<longleftrightarrow> c \<in> {CHR '','', CHR '']'', CHR ''}''}"
  by (simp_all add: delimited_def)

lemma delimiter_not_number: "c \<in> {CHR '','', CHR '']'', CHR ''}'', CHR ''n'', CHR ''t'', CHR ''f'', CHR ''['', CHR ''{'', quote_char} \<Longrightarrow> \<not> number_char c"
proof
  assume c: "c \<in> {CHR '','', CHR '']'', CHR ''}'', CHR ''n'', CHR ''t'', CHR ''f'', CHR ''['', CHR ''{'', quote_char}" and "number_char c"
  moreover have "c \<noteq> CHR ''-''" using c by (auto simp: quote_char_code)
  ultimately obtain n where "n < 10" "c = digit_char n" by (auto simp: number_char_def)
  then have "(of_char c :: nat) = 48 + n" by (simp add: digit_char_code)
  then show False using c \<open>n < 10\<close> by (auto simp: quote_char_code)
qed

lemma show_int_split:
  assumes "show_int m @ x = show_int n @ y" and "delimited x" and "delimited y"
  shows "m = n \<and> x = y"
proof -
  have whole: "takeWhile number_char (show_int k @ z) = show_int k" if "delimited z" for k z
  proof -
    have "takeWhile number_char z = []"
      using that delimiter_not_number by (cases z) (auto simp: delimited_def)
    then show ?thesis using show_int_chars by (simp add: takeWhile_append2)
  qed
  have "show_int m = show_int n" using whole [OF assms(2), of m] whole [OF assms(3), of n] assms(1) by simp
  then show ?thesis using assms(1) show_int_inj by simp
qed

text \<open>The first character of a printed value tells its kind.\<close>

fun kind_of :: "json \<Rightarrow> nat" where
  "kind_of JNull = 0"
| "kind_of (JBool b) = (if b then 1 else 2)"
| "kind_of (JInt _) = 3"
| "kind_of (JStr _) = 4"
| "kind_of (JArr _) = 5"
| "kind_of (JObj _) = 6"

definition kind_of_char :: "char \<Rightarrow> nat" where
  "kind_of_char c =
     (if c = CHR ''n'' then 0 else if c = CHR ''t'' then 1 else if c = CHR ''f'' then 2
      else if c = quote_char then 4 else if c = CHR ''['' then 5 else if c = CHR ''{'' then 6 else 3)"

lemma json_dumps_nonempty [simp]: "json_dumps v \<noteq> []"
  by (cases v) (auto simp: quote_text_def)

lemma dumps_kind: "kind_of v = kind_of_char (hd (json_dumps v))"
proof (cases v)
  case (JInt n)
  have "number_char (hd (show_int n))" using show_int_chars hd_in_set [OF show_int_nonempty] by blast
  then have "kind_of_char (hd (show_int n)) = 3"
    using delimiter_not_number by (auto simp: kind_of_char_def)
  then show ?thesis using JInt by simp
qed (auto simp: kind_of_char_def quote_text_def quote_char_code)

lemma dumps_start: "hd (json_dumps v) \<notin> {CHR '','', CHR '']'', CHR ''}''}"
proof (cases v)
  case (JInt n)
  have "number_char (hd (show_int n))" using show_int_chars hd_in_set [OF show_int_nonempty] by blast
  then show ?thesis using delimiter_not_number JInt by auto
qed (auto simp: quote_text_def quote_char_code)

text \<open>A list of items, printed with commas and closed by a bracket.\<close>

lemma comma_join_Cons: "comma_join (x # xs) = x @ (if xs = [] then [] else CHR '','' # comma_join xs)"
  by (cases xs) simp_all

lemma comma_join_split:
  assumes item: "\<And>a b x y. a \<in> set as \<Longrightarrow> f a @ x = f b @ y \<Longrightarrow> delimited x \<Longrightarrow> delimited y \<Longrightarrow> g a = g b \<and> x = y"
    and start: "\<And>a. f a \<noteq> [] \<and> hd (f a) \<notin> {CHR '','', CHR '']'', CHR ''}''}"
    and close: "c \<in> {CHR '']'', CHR ''}''}"
    and e: "comma_join (map f as) @ c # x = comma_join (map f bs) @ c # y"
  shows "map g as = map g bs \<and> x = y"
  using item e
proof (induction as arbitrary: bs)
  case Nil
  show ?case
  proof (cases bs)
    case (Cons b bs')
    then have "hd (f b) = c" using Nil.prems(2) start [of b] by (simp add: comma_join_Cons, metis hd_append2 list.sel(1))
    then show ?thesis using start [of b] close by auto
  qed (use Nil in simp)
next
  case (Cons a as)
  note IH = Cons.IH and prems = Cons.prems
  show ?case
  proof (cases bs)
    case Nil
    then have "hd (f a) = c" using prems(2) start [of a] by (simp add: comma_join_Cons, metis hd_append2 list.sel(1))
    then show ?thesis using start [of a] close by auto
  next
    case (Cons b bs')
    let ?rest = "\<lambda>zs z. (if zs = [] then [] else CHR '','' # comma_join (map f zs)) @ c # z"
    have e: "f a @ ?rest as x = f b @ ?rest bs' y" using prems(2) Cons by (simp add: comma_join_Cons)
    have "delimited (?rest zs z)" for zs z using close by auto
    then have ab: "g a = g b" and r: "?rest as x = ?rest bs' y" using prems(1) [OF _ e] by auto
    have "(as = []) = (bs' = [])" using r close by (auto split: if_splits)
    then have "comma_join (map f as) @ c # x = comma_join (map f bs') @ c # y" using r by (auto split: if_splits)
    moreover have "g a' = g b' \<and> s = t" if "a' \<in> set as" "f a' @ s = f b' @ t" "delimited s" "delimited t" for a' b' s t
      using prems(1) [OF _ that(2-4)] that(1) by simp
    ultimately have "map g as = map g bs' \<and> x = y" by (rule IH [rotated])
    then show ?thesis using ab Cons by simp
  qed
qed

lemma sort_key_map: "sort_key k (map h xs) = map h (sort_key (k \<circ> h) xs)"
proof -
  have "insort_key k (h x) (map h ys) = map h (insort_key (k \<circ> h) x ys)" for x ys
    by (induction ys) auto
  then show ?thesis by (induction xs) auto
qed

definition member_text :: "string \<times> json \<Rightarrow> string" where
  "member_text kv = quote_text (fst kv) @ CHR '':'' # json_dumps (snd kv)"

lemma dumps_object:
  "json_dumps (JObj kvs) = CHR ''{'' # comma_join (map member_text (sort_key fst kvs)) @ ''}''"
proof -
  have "sort_key fst (map (\<lambda>(k, v). (k, json_dumps v)) kvs) = map (\<lambda>(k, v). (k, json_dumps v)) (sort_key fst kvs)"
    by (simp add: sort_key_map comp_def case_prod_beta)
  moreover have "(\<lambda>(k, t). quote_text k @ '':'' @ t) \<circ> (\<lambda>(k, v). (k, json_dumps v)) = member_text"
    by (auto simp: member_text_def)
  ultimately show ?thesis by (simp only: json_dumps.simps map_map) simp
qed

lemma sorted_form_object:
  "sorted_form (JObj kvs) = JObj (map (map_prod id sorted_form) (sort_key fst kvs))"
  by (simp add: sort_key_map comp_def case_prod_beta map_prod_def)

lemma member_start: "member_text kv \<noteq> [] \<and> hd (member_text kv) \<notin> {CHR '','', CHR '']'', CHR ''}''}"
  by (simp add: member_text_def quote_text_def quote_char_code)

lemma dumps_split:
  "json_dumps v @ x = json_dumps w @ y \<Longrightarrow> delimited x \<Longrightarrow> delimited y \<Longrightarrow> sorted_form v = sorted_form w \<and> x = y"
proof (induction v arbitrary: w x y)
  case (JArr vs)
  then have "kind_of w = 5" using dumps_kind [of w] dumps_kind [of "JArr vs"] by (metis hd_append2 json_dumps_nonempty kind_of.simps(5))
  then obtain ws where w: "w = JArr ws" by (cases w) (auto split: if_splits)
  have "map sorted_form vs = map sorted_form ws \<and> x = y"
  proof (rule comma_join_split [where f = json_dumps and c = "CHR '']''"])
    show "comma_join (map json_dumps vs) @ CHR '']'' # x = comma_join (map json_dumps ws) @ CHR '']'' # y"
      using JArr.prems(1) by (simp add: w)
    show "json_dumps a \<noteq> [] \<and> hd (json_dumps a) \<notin> {CHR '','', CHR '']'', CHR ''}''}" for a
      using dumps_start by simp
    show "sorted_form a = sorted_form b \<and> s = t"
      if "a \<in> set vs" "json_dumps a @ s = json_dumps b @ t" "delimited s" "delimited t" for a b s t
      using JArr.IH that by blast
  qed simp
  then show ?case by (simp add: w)
next
  case (JObj kvs)
  then have "kind_of w = 6" using dumps_kind [of w] dumps_kind [of "JObj kvs"] by (metis hd_append2 json_dumps_nonempty kind_of.simps(6))
  then obtain lvs where w: "w = JObj lvs" by (cases w) (auto split: if_splits)
  have item: "map_prod id sorted_form a = map_prod id sorted_form b \<and> s = t"
    if a: "a \<in> set (sort_key fst kvs)" and e: "member_text a @ s = member_text b @ t" and d: "delimited s" "delimited t"
    for a b s t
  proof -
    have q: "quote_text (fst a) @ CHR '':'' # json_dumps (snd a) @ s = quote_text (fst b) @ CHR '':'' # json_dumps (snd b) @ t"
      using e by (simp add: member_text_def)
    have "snd a \<in> Basic_BNFs.snds a" by (simp add: Basic_BNFs.snds.simps prod_eq_iff)
    moreover have ab: "fst a = fst b" "json_dumps (snd a) @ s = json_dumps (snd b) @ t"
      using quote_text_split [OF q] by simp_all
    moreover have "a \<in> set kvs" using a by simp
    ultimately have "sorted_form (snd a) = sorted_form (snd b) \<and> s = t" using JObj.IH d by blast
    then show ?thesis using ab(1) by (simp add: prod_eq_iff)
  qed
  have "map (map_prod id sorted_form) (sort_key fst kvs) = map (map_prod id sorted_form) (sort_key fst lvs) \<and> x = y"
  proof (rule comma_join_split [where f = member_text and c = "CHR ''}''"])
    show "comma_join (map member_text (sort_key fst kvs)) @ CHR ''}'' # x
        = comma_join (map member_text (sort_key fst lvs)) @ CHR ''}'' # y"
      using JObj.prems(1) unfolding w dumps_object by simp
  qed (use item member_start in blast)+
  then show ?case unfolding w sorted_form_object by simp
next
  case (JInt n)
  then have "kind_of w = 3" using dumps_kind [of w] dumps_kind [of "JInt n"] by (metis hd_append2 json_dumps_nonempty kind_of.simps(3))
  then obtain m where "w = JInt m" by (cases w) (auto split: if_splits)
  then show ?case using JInt.prems show_int_split [of n x m y] by simp
next
  case (JStr s)
  then have "kind_of w = 4" using dumps_kind [of w] dumps_kind [of "JStr s"] by (metis hd_append2 json_dumps_nonempty kind_of.simps(4))
  then obtain t where "w = JStr t" by (cases w) (auto split: if_splits)
  then show ?case using JStr.prems(1) quote_text_split [of s x t y] by simp
next
  case JNull
  then have "kind_of w = 0" using dumps_kind [of w] dumps_kind [of JNull] by (metis hd_append2 json_dumps_nonempty kind_of.simps(1))
  then show ?case using JNull by (cases w) (auto split: if_splits)
next
  case (JBool b)
  then have "kind_of w = kind_of (JBool b)" using dumps_kind by (metis hd_append2 json_dumps_nonempty)
  then show ?case using JBool by (cases w) (auto split: if_splits)
qed

lemma sorted_form_dumps [simp]: "json_dumps (sorted_form v) = json_dumps v"
proof (induction v)
  case (JArr vs)
  then have "map (\<lambda>v. json_dumps (sorted_form v)) vs = map json_dumps vs" by simp
  then show ?case by (simp only: sorted_form.simps json_dumps.simps map_map comp_def)
next
  case (JObj kvs)
  have "map member_text (map (map_prod id sorted_form) (sort_key fst kvs)) = map member_text (sort_key fst kvs)"
    using JObj by (auto simp: member_text_def Basic_BNFs.snds.simps)
  moreover have "sort_key fst (map (map_prod id sorted_form) (sort_key fst kvs)) = map (map_prod id sorted_form) (sort_key fst kvs)"
    by (rule sort_key_id_if_sorted) (simp add: comp_def)
  ultimately show ?case unfolding sorted_form_object dumps_object by (simp only:)
qed simp_all

theorem dumps_eq_iff: "json_dumps v = json_dumps w \<longleftrightarrow> sorted_form v = sorted_form w"
proof
  show "json_dumps v = json_dumps w \<Longrightarrow> sorted_form v = sorted_form w"
    using dumps_split [of v "[]" w "[]"] by simp
  show "sorted_form v = sorted_form w \<Longrightarrow> json_dumps v = json_dumps w"
    by (metis sorted_form_dumps)
qed

end
