(* ===== verification/Problem_Identity.thy ===== *)
theory Problem_Identity
  imports Problem_Hash Json_Text
begin

section \<open>The hash identifies the problem\<close>

text \<open>
  When the digest has no collision, two problems have the same hash exactly when their canonical
  documents agree in everything but the hash they declare. Together with the independence of order
  this makes the hash of an accepted problem an identity: the canonical text is an injective
  encoding (\<open>Json_Text\<close>), and every document is recovered from its JSON object.
\<close>

lemma sorted_form_get:
  assumes e: "sorted_form (JObj a) = sorted_form (JObj b)" and a: "distinct (map fst a)" and b: "distinct (map fst b)"
  shows "sorted_form (dict_get a k) = sorted_form (dict_get b k)"
proof -
  have get: "map_of (map (map_prod id sorted_form) (sort_key fst c)) k = map_option sorted_form (map_of c k)"
    if d: "distinct (map fst c)" for c
  proof -
    have "distinct (map fst (sort_key fst c))"
      using d by (metis mset_eq_imp_distinct_iff mset_map mset_sort)
    then have "map_of (sort_key fst c) = map_of c" using d by (simp add: map_of_inject_set)
    moreover have "map_of (map (map_prod id sorted_form) cs) k = map_option sorted_form (map_of cs k)" for cs
      by (induction cs) auto
    ultimately show ?thesis by simp
  qed
  have "map_option sorted_form (map_of a k) = map_option sorted_form (map_of b k)"
    using get [OF a] get [OF b] e unfolding sorted_form_object by simp
  then show ?thesis by (cases "map_of a k"; cases "map_of b k") (auto simp: dict_get_def)
qed

lemma map_eq_by_inj:
  assumes "map f xs = map f ys" and "\<And>x y. x \<in> set xs \<Longrightarrow> y \<in> set ys \<Longrightarrow> f x = f y \<Longrightarrow> x = y"
  shows "xs = ys"
proof -
  have "length xs = length ys" using assms(1) by (metis length_map)
  then show ?thesis using assms by (induction xs ys rule: list_induct2) auto
qed

lemma sorted_array_inj:
  assumes "sorted_form (JArr (map f xs)) = sorted_form (JArr (map f ys))"
    and "\<And>x y. x \<in> set xs \<Longrightarrow> y \<in> set ys \<Longrightarrow> sorted_form (f x) = sorted_form (f y) \<Longrightarrow> x = y"
  shows "xs = ys"
  using assms map_eq_by_inj [of "sorted_form \<circ> f" xs ys] by simp

lemma jstrs_inj: "sorted_form (jstrs xs) = sorted_form (jstrs ys) \<Longrightarrow> xs = ys"
  unfolding jstrs_def by (erule sorted_array_inj) simp

lemma jopt_text_inj: "sorted_form (jopt JStr x) = sorted_form (jopt JStr y) \<Longrightarrow> x = y"
  by (auto simp: jopt_def split: option.splits)

lemma jopt_int_inj: "sorted_form (jopt JInt x) = sorted_form (jopt JInt y) \<Longrightarrow> x = y"
  by (auto simp: jopt_def split: option.splits)

subsection \<open>Every document is recovered from its object\<close>

lemma demand_json_inj:
  assumes "sorted_form (demand_json d) = sorted_form (demand_json e)"
  shows "d = (e :: demand_doc)"
proof -
  note g = sorted_form_get [OF assms [unfolded demand_json_def]]
  show ?thesis
    using g [of "''demand_order_id''"] g [of "''due_at_utc''"] g [of "''due_source_record_id''"]
      g [of "''due_source_system''"] g [of "''due_source_version''"] g [of "''priority_source_record_id''"]
      g [of "''priority_source_system''"] g [of "''priority_source_version''"] g [of "''priority_weight''"]
    by (cases d; cases e) (simp add: dict_get_def)
qed

lemma resource_json_inj:
  assumes "sorted_form (resource_json r) = sorted_form (resource_json s)"
  shows "r = (s :: resource_doc)"
proof -
  note g = sorted_form_get [OF assms [unfolded resource_json_def]]
  show ?thesis
    using g [of "''calendar_id''"] g [of "''capacity''"] g [of "''factory_id''"] g [of "''production_line_id''"]
      g [of "''resource_code''"] g [of "''resource_group_id''"] g [of "''resource_id''"] g [of "''resource_type''"]
      g [of "''status''"] g [of "''workshop_id''"] g [of "''capabilities''"]
    by (cases r; cases s) (simp add: dict_get_def jstrs_inj)
qed

lemma option_json_inj:
  assumes "sorted_form (option_json r) = sorted_form (option_json s)"
  shows "r = (s :: option_doc)"
proof -
  note g = sorted_form_get [OF assms [unfolded option_json_def]]
  show ?thesis
    using g [of "''cycle_seconds_per_unit''"] g [of "''duration_source''"] g [of "''final_duration_seconds''"]
      g [of "''resource_id''"] g [of "''setup_seconds''"] g [of "''source_version''"]
    by (cases r; cases s) (simp add: dict_get_def)
qed

lemma anchor_json_inj:
  assumes "sorted_form (anchor_json r) = sorted_form (anchor_json s)"
  shows "r = (s :: anchor_doc)"
proof -
  note g = sorted_form_get [OF assms [unfolded anchor_json_def]]
  show ?thesis
    using g [of "''actual_end_at_utc''"] g [of "''actual_start_at_utc''"] g [of "''execution_fact_id''"]
      g [of "''operation_id''"] g [of "''resource_id''"] g [of "''source_record_id''"]
      g [of "''source_system''"] g [of "''source_version''"]
    by (cases r; cases s) (simp add: dict_get_def)
qed

lemma lock_json_inj:
  assumes "sorted_form (lock_json r) = sorted_form (lock_json s)"
  shows "r = (s :: lock_doc)"
proof -
  note g = sorted_form_get [OF assms [unfolded lock_json_def]]
  have "lock_type_text x = lock_type_text y \<Longrightarrow> x = y" for x y by (cases x; cases y) simp_all
  then show ?thesis
    using g [of "''end_at_utc''"] g [of "''lock_id''"] g [of "''lock_type''"] g [of "''operation_id''"]
      g [of "''resource_id''"] g [of "''source_record_id''"] g [of "''source_system''"]
      g [of "''source_version''"] g [of "''start_at_utc''"]
    by (cases r; cases s) (simp add: dict_get_def)
qed

lemma interval_json_inj:
  assumes "sorted_form (interval_json r) = sorted_form (interval_json s)"
  shows "r = (s :: interval_doc)"
proof -
  note g = sorted_form_get [OF assms [unfolded interval_json_def]]
  show ?thesis
    using g [of "''calendar_id''"] g [of "''end_utc''"] g [of "''resource_id''"] g [of "''start_utc''"]
    by (cases r; cases s) (simp add: dict_get_def)
qed

lemma edge_json_inj:
  assumes "sorted_form (edge_json r) = sorted_form (edge_json s)"
  shows "r = (s :: edge_doc)"
proof -
  have "sorted_form (dict_get (object_of (edge_json r)) k) = sorted_form (dict_get (object_of (edge_json s)) k)" for k
  proof (rule sorted_form_get)
    show "sorted_form (JObj (object_of (edge_json r))) = sorted_form (JObj (object_of (edge_json s)))"
      using assms by (simp add: edge_json_def object_of_def)
    show "distinct (map fst (object_of (edge_json r)))" "distinct (map fst (object_of (edge_json s)))"
      by (simp_all add: edge_json_def object_of_def split: option.splits)
  qed
  note g = this [unfolded edge_json_def object_of_def]
  show ?thesis
    using g [of "''min_lag_seconds''"] g [of "''precedence_edge_id''"] g [of "''predecessor_operation_id''"]
      g [of "''successor_operation_id''"] g [of "''transport_lag_seconds''"] g [of "''max_lag_seconds''"]
    by (cases r; cases s) (auto simp: dict_get_def split: option.splits)
qed


text \<open>A document that is not running leaves out the facts of execution, which an accepted problem has empty.\<close>

definition facts_match :: "operation_doc \<Rightarrow> bool" where
  "facts_match op \<longleftrightarrow> op_status op = NOT_STARTED \<longrightarrow>
     op_actual_start_at_utc op = None \<and> op_assigned_resource_id op = None \<and> op_remaining_seconds op = None"

lemma operation_json_inj:
  assumes "sorted_form (operation_json r) = sorted_form (operation_json s)" and f: "facts_match r" "facts_match s"
  shows "r = (s :: operation_doc)"
proof -
  have "sorted_form (dict_get (object_of (operation_json r)) k) = sorted_form (dict_get (object_of (operation_json s)) k)" for k
  proof (rule sorted_form_get)
    show "sorted_form (JObj (object_of (operation_json r))) = sorted_form (JObj (object_of (operation_json s)))"
      using assms by (simp add: operation_json_def object_of_def)
    show "distinct (map fst (object_of (operation_json r)))"
      by (cases "op_status r") (simp_all add: operation_json_def object_of_def)
    show "distinct (map fst (object_of (operation_json s)))"
      by (cases "op_status s") (simp_all add: operation_json_def object_of_def)
  qed
  note g = this [unfolded operation_json_def object_of_def]
  have "status_text x = status_text y \<Longrightarrow> x = y" for x y by (cases x; cases y) simp_all
  then have st: "op_status r = op_status s" using g [of "''status''"] by (simp add: dict_get_def)
  have opts: "op_resource_options r = op_resource_options s"
    using g [of "''resource_options''"] option_json_inj by (auto simp: dict_get_def intro: sorted_array_inj)
  have caps: "op_required_capabilities r = op_required_capabilities s"
    using g [of "''required_capabilities''"] by (auto simp: dict_get_def intro: jstrs_inj)
  have base: "op_demand_order_id r = op_demand_order_id s" "op_material_ready_at_utc r = op_material_ready_at_utc s"
    "op_id r = op_id s" "op_release_at_utc r = op_release_at_utc s"
    using g [of "''demand_order_id''"] g [of "''material_ready_at_utc''"] g [of "''operation_id''"] g [of "''release_at_utc''"]
    by (simp_all add: dict_get_def)
  have "op_actual_start_at_utc r = op_actual_start_at_utc s \<and> op_assigned_resource_id r = op_assigned_resource_id s
      \<and> op_remaining_seconds r = op_remaining_seconds s"
  proof (cases "op_status r")
    case NOT_STARTED
    then show ?thesis using f st by (simp add: facts_match_def)
  next
    case RUNNING
    then show ?thesis
      using g [of "''actual_start_at_utc''"] g [of "''assigned_resource_id''"] g [of "''remaining_seconds''"] st
      by (auto simp: dict_get_def intro: jopt_text_inj jopt_int_inj)
  qed
  then show ?thesis using st opts caps base by (cases r; cases s) simp
qed

subsection \<open>The hash\<close>

definition without_hash :: "problem \<Rightarrow> problem" where
  "without_hash p = p\<lparr>p_problem_hash := ''''\<rparr>"

lemma projection_get:
  assumes "sorted_form (JObj (problem_v2_hash_projection p)) = sorted_form (JObj (problem_v2_hash_projection q))"
    and "k \<noteq> ''problem_hash''"
  shows "sorted_form (dict_get (problem_object (canonical_problem_document_v2 p)) k)
    = sorted_form (dict_get (problem_object (canonical_problem_document_v2 q)) k)"
proof -
  let ?inner = "\<lambda>p. filter (\<lambda>(k, _). k \<noteq> ''problem_hash'') (problem_object (canonical_problem_document_v2 p))"
  have i: "sorted_form (JObj (?inner p)) = sorted_form (JObj (?inner q))"
    using sorted_form_get [OF assms(1) [unfolded problem_v2_hash_projection_def], of "''problem''"]
    by (simp add: dict_get_def del: sorted_form.simps)
  have d: "distinct (map fst (?inner p))" for p by (simp add: problem_object_def)
  have "dict_get (?inner p) k = dict_get (problem_object (canonical_problem_document_v2 p)) k" for p
  proof -
    have "map_of (filter (\<lambda>(k, _). k \<noteq> ''problem_hash'') xs) k = map_of xs k" for xs :: json_object
      using assms(2) by (induction xs) auto
    then show ?thesis by (simp add: dict_get_def)
  qed
  then show ?thesis using sorted_form_get [OF i d d, of k] by simp
qed

lemma projection_inj:
  assumes e: "sorted_form (JObj (problem_v2_hash_projection p)) = sorted_form (JObj (problem_v2_hash_projection q))"
    and f: "list_all facts_match (p_operations p)" "list_all facts_match (p_operations q)"
  shows "without_hash (canonical_problem_document_v2 p) = without_hash (canonical_problem_document_v2 q)"
proof -
  let ?c = canonical_problem_document_v2
  note g = projection_get [OF e]
  have m: "facts_match op" if "op \<in> set (p_operations (?c p)) \<or> op \<in> set (p_operations (?c q))" for op
    using that f by (auto simp: canonical_problem_document_v2_def list_all_iff facts_match_def canonical_operation_v2_def)
  have arr: "xs = ys" if "k \<noteq> ''problem_hash''" "dict_get (problem_object (?c p)) k = JArr (map h xs)"
      "dict_get (problem_object (?c q)) k = JArr (map h ys)"
      "\<And>x y. x \<in> set xs \<Longrightarrow> y \<in> set ys \<Longrightarrow> sorted_form (h x) = sorted_form (h y) \<Longrightarrow> x = y"
    for k xs ys and h :: "'a \<Rightarrow> json"
    using g [OF that(1)] that(2-4) by (intro sorted_array_inj [of h]) auto
  have "p_operations (?c p) = p_operations (?c q)"
    using m operation_json_inj by (intro arr [of "''operation_instances''" operation_json]) (auto simp: problem_object_def dict_get_def)
  moreover have "p_demands (?c p) = p_demands (?c q)"
    using demand_json_inj by (intro arr [of "''delivery_demands''" demand_json]) (auto simp: problem_object_def dict_get_def)
  moreover have "p_resources (?c p) = p_resources (?c q)"
    using resource_json_inj by (intro arr [of "''resources''" resource_json]) (auto simp: problem_object_def dict_get_def)
  moreover have "p_anchors (?c p) = p_anchors (?c q)"
    using anchor_json_inj by (intro arr [of "''historical_completion_anchors''" anchor_json]) (auto simp: problem_object_def dict_get_def)
  moreover have "p_edges (?c p) = p_edges (?c q)"
    using edge_json_inj by (intro arr [of "''precedence_edges''" edge_json]) (auto simp: problem_object_def dict_get_def)
  moreover have "p_locks (?c p) = p_locks (?c q)"
    using lock_json_inj by (intro arr [of "''operation_locks''" lock_json]) (auto simp: problem_object_def dict_get_def)
  moreover have "p_intervals (?c p) = p_intervals (?c q)"
    using interval_json_inj by (intro arr [of "''resource_unavailable_intervals''" interval_json]) (auto simp: problem_object_def dict_get_def)
  moreover have "p_required_capabilities (?c p) = p_required_capabilities (?c q)"
    using g [of "''required_capabilities''"] by (intro jstrs_inj) (auto simp: problem_object_def dict_get_def)
  moreover have "p_problem_version (?c p) = p_problem_version (?c q)" "p_schema_set_version (?c p) = p_schema_set_version (?c q)"
    "p_snapshot_id (?c p) = p_snapshot_id (?c q)" "p_builder_version (?c p) = p_builder_version (?c q)"
    "p_canonicalization_version (?c p) = p_canonicalization_version (?c q)"
    "p_hash_projection_version (?c p) = p_hash_projection_version (?c q)"
    "p_tick_seconds (?c p) = p_tick_seconds (?c q)" "p_horizon_start_utc (?c p) = p_horizon_start_utc (?c q)"
    "p_horizon_end_utc (?c p) = p_horizon_end_utc (?c q)"
    using g [of "''problem_version''"] g [of "''schema_set_version''"] g [of "''snapshot_id''"]
      g [of "''problem_builder_version''"] g [of "''canonicalization_version''"]
      g [of "''problem_hash_projection_version''"] g [of "''tick_seconds''"] g [of "''horizon_start_utc''"]
      g [of "''horizon_end_utc''"]
    by (simp_all add: problem_object_def dict_get_def)
  ultimately show ?thesis
    by (cases "?c p"; cases "?c q") (simp add: without_hash_def)
qed

lemma accepted_facts_match:
  assumes "accepted p"
  shows "list_all facts_match (p_operations p)"
  using accepted_shape [OF assms]
  by (auto simp: validate_exact_shape_v2_def res_simps Let_def list_all_iff facts_match_def dest!: check_each_okD)

lemma hash_eq_iff:
  assumes d: "inj digest" and a: "accepted p" "accepted q"
  shows "problem_v2_hash_for digest p = problem_v2_hash_for digest q \<longleftrightarrow>
    without_hash (canonical_problem_document_v2 p) = without_hash (canonical_problem_document_v2 q)"
proof
  assume "problem_v2_hash_for digest p = problem_v2_hash_for digest q"
  then have "json_dumps (JObj (problem_v2_hash_projection p)) = json_dumps (JObj (problem_v2_hash_projection q))"
    using injD [OF d] unfolding problem_v2_hash_for_def by blast
  then show "without_hash (canonical_problem_document_v2 p) = without_hash (canonical_problem_document_v2 q)"
    using projection_inj accepted_facts_match a unfolding dumps_eq_iff by blast
next
  have "filter (\<lambda>(k, _). k \<noteq> ''problem_hash'') (problem_object (without_hash x))
      = filter (\<lambda>(k, _). k \<noteq> ''problem_hash'') (problem_object x)" for x
    by (simp add: problem_object_def without_hash_def)
  then show "problem_v2_hash_for digest p = problem_v2_hash_for digest q"
    if "without_hash (canonical_problem_document_v2 p) = without_hash (canonical_problem_document_v2 q)"
    using that unfolding problem_v2_hash_for_def problem_v2_hash_projection_def by metis
qed

end
