(* ===== verification/Stamps.thy ===== *)
theory Stamps
  imports Instants Json
begin

section \<open>Naive and aware instants\<close>

text \<open>
  Some checks call \<open>datetime.fromisoformat\<close> without asking for a time zone: a date alone, to which the
  code appends \<open>+00:00\<close>, is read as a naive midnight. Comparing a naive with an aware \<open>datetime\<close>
  raises \<open>TypeError\<close>.
\<close>

datatype stamp = Aware instant | Naive instant

definition stamp_of_text :: "string \<Rightarrow> stamp option" where
  "stamp_of_text v =
     (case fromisoformat v of
        Some t \<Rightarrow> Some (Aware t)
      | None \<Rightarrow>
          if length v = separator_at (v @ ''+00:00'')
          then (case iso_date v of
                  None \<Rightarrow> None
                | Some (y, m, d) \<Rightarrow> map_option Naive (make_instant y m d 0 0 0 0))
          else None)"

fun stamp_less :: "stamp \<Rightarrow> stamp \<Rightarrow> bool res" where
  "stamp_less (Aware a) (Aware b) = Inr (a < b)"
| "stamp_less (Naive a) (Naive b) = Inr (a < b)"
| "stamp_less _ _ = Inl RaiseType"

fun stamp_micros :: "stamp \<Rightarrow> instant" where
  "stamp_micros (Aware t) = t"
| "stamp_micros (Naive t) = t"

text \<open>
  \<open>value.replace("Z", "+00:00")\<close> replaces every \<open>Z\<close>; the last one is the offset \<open>fromisoformat\<close>
  reads, the others are part of the text before it.
\<close>

definition offset_text :: "string \<Rightarrow> string" where
  "offset_text s = concat (map (\<lambda>c. if c = CHR ''Z'' then ''+00:00'' else [c]) s)"

text \<open>
  The readers \<open>_utc_second\<close> and \<open>_utc\<close> of the reports, the freeze policy, the projection and its
  precheck differ in the errors they raise: \<open>shape\<close> for a text that is no instant, \<open>precision\<close> for
  one that is not a whole second.
\<close>

definition whole_second :: "py_exn \<Rightarrow> py_exn \<Rightarrow> json \<Rightarrow> stamp res" where
  "whole_second shape precision v =
     (case v of
        JStr s \<Rightarrow>
          if s = [] \<or> last s \<noteq> CHR ''Z'' then Inl shape
          else (case stamp_of_text (offset_text (butlast s)) of
                  None \<Rightarrow> Inl shape
                | Some t \<Rightarrow> if stamp_micros t mod micros \<noteq> 0 then Inl precision else Inr t)
      | _ \<Rightarrow> Inl shape)"

text \<open>\<open>int((later - earlier).total_seconds())\<close> of whole seconds; naive and aware do not mix.\<close>

fun stamp_seconds :: "stamp \<Rightarrow> stamp \<Rightarrow> int res" where
  "stamp_seconds (Aware a) (Aware b) = Inr ((a - b) div micros)"
| "stamp_seconds (Naive a) (Naive b) = Inr ((a - b) div micros)"
| "stamp_seconds _ _ = Inl RaiseType"

end
