(* ===== verification/Planning_Run.thy ===== *)
theory Planning_Run
  imports State_Machines Stamps
begin

section \<open>Planning runs, attempts and work items\<close>

text \<open>
  \<open>domain/planning_run.py\<close>: the checks every stored planning run, attempt, work item and command
  record passes, with the document it replaces, and \<open>jobs/planning_run_work_item.py\<close>, which builds
  attempts and work items. Documents are decoded JSON objects (what the properties \<open>document\<close>,
  \<open>initial_document\<close> and \<open>prepared_artifacts\<close> return); the JSON Schema catalogue is the argument
  \<open>schema_ok\<close>, and the digest of the fingerprints the argument \<open>digest\<close>.
\<close>

subsection \<open>Fingerprints, timestamps and errors\<close>

definition reject :: "string \<Rightarrow> string \<Rightarrow> py_exn" where
  "reject code field = RaiseDomain ''PlanningRunOrchestrationError'' code field"

definition check_or :: "bool \<Rightarrow> string \<Rightarrow> string \<Rightarrow> unit res" where
  "check_or ok code field = require_or ok (reject code field)"

definition canonical_fingerprint :: "(string \<Rightarrow> string) \<Rightarrow> json \<Rightarrow> string" where
  "canonical_fingerprint digest v = ''sha256:'' @ digest (json_dumps v)"

definition own_fingerprint :: "(string \<Rightarrow> string) \<Rightarrow> json_object \<Rightarrow> string \<Rightarrow> bool" where
  "own_fingerprint digest doc field =
     (dict_get doc field = JStr (canonical_fingerprint digest (JObj (dict_without doc field))))"

definition lower_hex :: "char \<Rightarrow> bool" where
  "lower_hex c = (let n = of_char c :: nat in 48 \<le> n \<and> n \<le> 57 \<or> 97 \<le> n \<and> n \<le> 102)"

definition is_fingerprint :: "json \<Rightarrow> bool" where
  "is_fingerprint v =
     (case v of
        JStr s \<Rightarrow> take 7 s = ''sha256:'' \<and> length s = 71 \<and> list_all lower_hex (drop 7 s)
      | _ \<Rightarrow> False)"

definition is_failure_code :: "json \<Rightarrow> bool" where
  "is_failure_code v =
     (case v of
        JStr (c # cs) \<Rightarrow>
          (let upper = (\<lambda>c. 65 \<le> (of_char c :: nat) \<and> (of_char c :: nat) \<le> 90)
           in upper c \<and> length cs \<le> 63 \<and> list_all (\<lambda>c. upper c \<or> is_digit c \<or> c = CHR ''_'') cs)
      | _ \<Rightarrow> False)"

definition utc_stamp :: "json \<Rightarrow> string \<Rightarrow> stamp res" where
  "utc_stamp v field =
     (case v of
        JStr s \<Rightarrow>
          if s = [] \<or> last s \<noteq> CHR ''Z'' then Inl (reject ''LINEAGE_INVALID'' field)
          else (case stamp_of_text (butlast s) of
                  None \<Rightarrow> Inl (reject ''LINEAGE_INVALID'' field)
                | Some t \<Rightarrow> Inr t)
      | _ \<Rightarrow> Inl (reject ''LINEAGE_INVALID'' field))"

text \<open>\<open>value + 1\<close>, and \<open>type(value) is int\<close>.\<close>

definition plus_one :: "json \<Rightarrow> int res" where
  "plus_one v = (case v of JInt n \<Rightarrow> Inr (n + 1) | JBool b \<Rightarrow> Inr (if b then 2 else 1) | _ \<Rightarrow> Inl RaiseType)"

definition whole_number :: "json \<Rightarrow> int option" where
  "whole_number v = (case v of JInt n \<Rightarrow> Some n | _ \<Rightarrow> None)"

definition require_fields :: "json_object \<Rightarrow> string list \<Rightarrow> string \<Rightarrow> unit res" where
  "require_fields doc fields field = check_or (set (map fst doc) = set fields) ''LINEAGE_INVALID'' field"

definition require_fingerprint :: "json \<Rightarrow> string \<Rightarrow> unit res" where
  "require_fingerprint v field = check_or (is_fingerprint v) ''LINEAGE_INVALID'' field"

definition require_audit_reference :: "json \<Rightarrow> string \<Rightarrow> unit res" where
  "require_audit_reference v field =
     (case v of
        JObj ref \<Rightarrow>
          check_seq
            [require_fields ref [''document_version'', ''artifact_id'', ''fingerprint''] field,
             check_or (dict_get ref ''document_version'' = JStr ''audit-event.v1''
                 \<and> (\<exists>s \<in> set_option (case dict_get ref ''artifact_id'' of JStr s \<Rightarrow> Some s | _ \<Rightarrow> None). s \<noteq> []))
               ''LINEAGE_INVALID'' field,
             require_fingerprint (dict_get ref ''fingerprint'') field]
      | _ \<Rightarrow> Inl (reject ''LINEAGE_INVALID'' field))"

definition derived_identity :: "(string \<Rightarrow> string) \<Rightarrow> string \<Rightarrow> json \<Rightarrow> string" where
  "derived_identity digest label v = label @ ''-'' @ digest (json_dumps v)"

subsection \<open>States of runs\<close>

definition planning_run_states :: "string list" where
  "planning_run_states = [''CREATED'', ''INGESTING'', ''VALIDATING'', ''SNAPSHOTTED'', ''BUILDING'', ''SOLVING'',
     ''SOLVED'', ''VERIFYING'', ''COMPLETED'', ''DATA_REJECTED'', ''MODEL_INVALID'', ''INFEASIBLE'',
     ''NO_SOLUTION_WITHIN_LIMIT'', ''VALIDATION_FAILED'', ''CANCELLED'', ''FAILED'']"

definition planning_run_terminal_states :: "string list" where
  "planning_run_terminal_states = [''COMPLETED'', ''DATA_REJECTED'', ''MODEL_INVALID'', ''INFEASIBLE'',
     ''NO_SOLUTION_WITHIN_LIMIT'', ''VALIDATION_FAILED'', ''CANCELLED'', ''FAILED'']"

definition planning_run_transitions :: "(string \<times> string) list" where
  "planning_run_transitions =
     [(''CREATED'', ''INGESTING''), (''CREATED'', ''CANCELLED''), (''CREATED'', ''FAILED''),
      (''INGESTING'', ''VALIDATING''), (''INGESTING'', ''DATA_REJECTED''), (''INGESTING'', ''CANCELLED''),
      (''INGESTING'', ''FAILED''),
      (''VALIDATING'', ''SNAPSHOTTED''), (''VALIDATING'', ''DATA_REJECTED''), (''VALIDATING'', ''CANCELLED''),
      (''VALIDATING'', ''FAILED''),
      (''SNAPSHOTTED'', ''BUILDING''), (''SNAPSHOTTED'', ''CANCELLED''), (''SNAPSHOTTED'', ''FAILED''),
      (''BUILDING'', ''SOLVING''), (''BUILDING'', ''MODEL_INVALID''), (''BUILDING'', ''CANCELLED''),
      (''BUILDING'', ''FAILED''),
      (''SOLVING'', ''SOLVED''), (''SOLVING'', ''MODEL_INVALID''), (''SOLVING'', ''INFEASIBLE''),
      (''SOLVING'', ''NO_SOLUTION_WITHIN_LIMIT''), (''SOLVING'', ''CANCELLED''), (''SOLVING'', ''FAILED''),
      (''SOLVED'', ''VERIFYING''), (''SOLVED'', ''CANCELLED''), (''SOLVED'', ''FAILED''),
      (''VERIFYING'', ''COMPLETED''), (''VERIFYING'', ''VALIDATION_FAILED''), (''VERIFYING'', ''CANCELLED''),
      (''VERIFYING'', ''FAILED'')]"

definition immutable_run_fields :: "string list" where
  "immutable_run_fields = [''planning_run_version'', ''schema_set_version'', ''canonicalization_version'',
     ''transition_registry_version'', ''error_registry_version'', ''planning_run_id'', ''effective_scope'',
     ''ingress'', ''runtime_resolution'', ''inputs'', ''created_at_utc'']"

definition artifact_fields :: "string list" where
  "artifact_fields = [''import_quality_report'', ''snapshot'', ''problem'', ''planning_solution'',
     ''solver_report'', ''validation_report'', ''schedule_version'']"

definition require_planning_run_transition :: "string \<Rightarrow> string \<Rightarrow> unit res" where
  "require_planning_run_transition from_state to_state =
     check_or (\<not> (from_state \<notin> set planning_run_states \<or> to_state \<notin> set planning_run_states
         \<or> from_state \<in> set planning_run_terminal_states
         \<or> (from_state, to_state) \<notin> set planning_run_transitions))
       ''INVALID_STATE_TRANSITION'' ''planning_run.last_transition''"

record run_aggregate =
  ra_document :: json_object
  ra_initial_document :: json_object
  ra_prepared_artifacts :: json_object

subsection \<open>The stored run\<close>

text \<open>The pieces of \<open>verify_planning_run\<close>, in the order of the code.\<close>

definition check_run_schema :: "(string \<Rightarrow> json_object \<Rightarrow> bool) \<Rightarrow> run_aggregate \<Rightarrow> unit res" where
  "check_run_schema schema_ok run =
     (let doc = ra_document run; v2 = (dict_get doc ''planning_run_version'' = JStr ''planning-run.v2'')
      in check_or ((v2 \<longrightarrow> ''runtime_replan'' \<in> set (map fst (ra_prepared_artifacts run)))
           \<and> schema_ok (if v2 then ''urn:plantnexus:aps:schema:planning-run:v2''
                        else ''urn:plantnexus:aps:schema:planning-run:v1'') doc)
         ''LINEAGE_INVALID'' ''planning_run'')"

definition check_run_lineage :: "(string \<Rightarrow> string) \<Rightarrow> run_aggregate \<Rightarrow> unit res" where
  "check_run_lineage digest run =
     (let doc = ra_document run; initial = ra_initial_document run;
          scope = dict_get doc ''effective_scope''; runtime = dict_get doc ''runtime_resolution''
      in check_seq
        ([check_or (dict_get initial ''state'' = JStr ''CREATED'' \<and> py_eq (dict_get initial ''revision'') (JInt 1))
            ''LINEAGE_INVALID'' ''initial_planning_run'']
         @ map (\<lambda>field. check_or (py_eq (dict_get doc field) (dict_get initial field))
             ''LINEAGE_INVALID'' (''planning_run.'' @ field)) immutable_run_fields
         @ [check_or (own_fingerprint digest doc ''run_fingerprint'') ''LINEAGE_INVALID'' ''planning_run.run_fingerprint'',
            check_or (is_object scope \<and> own_fingerprint digest (object_of scope) ''scope_fingerprint'')
              ''SCOPE_MISMATCH'' ''planning_run.effective_scope'',
            check_or (is_object runtime \<and> own_fingerprint digest (object_of runtime) ''resolution_fingerprint'')
              ''RUNTIME_RESOLUTION_FAILED'' ''planning_run.runtime_resolution'']))"

definition check_run_evidence :: "json_object \<Rightarrow> (json_object \<times> int \<times> json list) res" where
  "check_run_evidence doc =
     (case dict_get doc ''last_transition'' of
        JObj transition \<Rightarrow>
          (case dict_get transition ''sequence'' of
             JInt sequence \<Rightarrow>
               bind_res (check_seq
                 [check_or (py_eq (dict_get doc ''revision'') (JInt (sequence + 1)))
                    ''LINEAGE_INVALID'' ''planning_run.revision'',
                  check_or (py_eq (dict_get doc ''state'') (dict_get transition ''to_state''))
                    ''INVALID_STATE_TRANSITION'' ''planning_run.last_transition.to_state'',
                  check_or (py_eq (dict_get doc ''updated_at_utc'') (dict_get transition ''occurred_at_utc''))
                    ''LINEAGE_INVALID'' ''planning_run.updated_at_utc'']) (\<lambda>_.
               case (dict_get doc ''audit_references'', dict_get doc ''revision'') of
                 (JArr audits, JInt revision) \<Rightarrow>
                   bind_res (check_or (int (length audits) = revision) ''LINEAGE_INVALID'' ''planning_run.audit_references'')
                     (\<lambda>_. Inr (transition, sequence, audits))
               | _ \<Rightarrow> Inl (reject ''LINEAGE_INVALID'' ''planning_run.audit_references''))
           | _ \<Rightarrow> Inl (reject ''LINEAGE_INVALID'' ''planning_run.revision''))
      | _ \<Rightarrow> Inl (reject ''LINEAGE_INVALID'' ''planning_run.last_transition''))"

definition check_run_audits :: "json_object \<Rightarrow> json_object \<Rightarrow> json list \<Rightarrow> unit res" where
  "check_run_audits doc transition audits =
     check_seq
       [check_each (\<lambda>i ref. require_audit_reference ref (indexed ''planning_run.audit_references'' i)) audits,
        require_or (audits \<noteq> []) (RaiseDomain ''IndexError'' '''' ''''),
        check_or (py_eq (dict_get transition ''audit'') (last audits)) ''LINEAGE_INVALID'' ''planning_run.audit_references'',
        check_or (\<not> is_object (dict_get doc ''cancellation'')
            \<or> py_eq (dict_get (object_of (dict_get doc ''cancellation'')) ''audit'') (dict_get transition ''audit''))
          ''LINEAGE_INVALID'' ''planning_run.cancellation.audit'']"

definition check_run_pair :: "json_object \<Rightarrow> int \<Rightarrow> unit res" where
  "check_run_pair transition sequence =
     (let from_state = dict_get transition ''from_state''; to_state = dict_get transition ''to_state''
      in if sequence = 0 then
           check_or (from_state = JNull \<and> to_state = JStr ''CREATED'')
             ''INVALID_STATE_TRANSITION'' ''planning_run.last_transition''
         else (case (from_state, to_state) of
                 (JStr s, JStr t) \<Rightarrow> require_planning_run_transition s t
               | _ \<Rightarrow> Inl (reject ''INVALID_STATE_TRANSITION'' ''planning_run.last_transition'')))"

definition check_run_succession :: "json_object \<Rightarrow> json_object \<Rightarrow> int \<Rightarrow> json_object \<Rightarrow> unit res" where
  "check_run_succession doc transition sequence previous =
     (let stale = reject ''INVALID_STATE_TRANSITION'' ''planning_run.last_transition'';
          previous_state = dict_get previous ''state'';
          previous_transition = dict_get previous ''last_transition'';
          previous_sequence = (if is_object previous_transition
            then dict_get (object_of previous_transition) ''sequence'' else JNull)
      in bind_res (text_in previous_state planning_run_terminal_states) (\<lambda>terminal.
         bind_res (require_or (\<not> terminal) stale) (\<lambda>_.
         bind_res (require_or (py_eq (dict_get transition ''from_state'') previous_state) stale) (\<lambda>_.
         bind_res (plus_one (dict_get previous ''revision'')) (\<lambda>next.
         require_or (py_eq (dict_get doc ''revision'') (JInt next)
             \<and> whole_number previous_sequence = Some (sequence - 1)) stale)))))"

definition check_run_clock :: "json_object \<Rightarrow> json_object \<Rightarrow> unit res" where
  "check_run_clock doc previous =
     bind_res (dict_item doc ''updated_at_utc'') (\<lambda>now.
     bind_res (utc_stamp now ''planning_run.updated_at_utc'') (\<lambda>now_at.
     bind_res (dict_item previous ''updated_at_utc'') (\<lambda>before.
     bind_res (utc_stamp before ''previous.updated_at_utc'') (\<lambda>before_at.
     bind_res (stamp_less now_at before_at) (\<lambda>backwards.
     check_or (\<not> backwards) ''LINEAGE_INVALID'' ''planning_run.updated_at_utc'')))))"

text \<open>Artifacts are written once.\<close>

definition check_write_once :: "string \<Rightarrow> json_object \<Rightarrow> json_object \<Rightarrow> unit res" where
  "check_write_once field before after =
     check_seq (map (\<lambda>name. check_or (dict_get before name = JNull \<or> py_eq (dict_get after name) (dict_get before name))
       ''LINEAGE_INVALID'' (field @ ''.'' @ name)) artifact_fields)"

definition check_run_history :: "json_object \<Rightarrow> json list \<Rightarrow> json_object \<Rightarrow> unit res" where
  "check_run_history doc audits previous =
     check_seq
       [check_run_clock doc previous,
        check_or (case dict_get previous ''audit_references'' of
            JArr before \<Rightarrow> py_eq (JArr (butlast audits)) (JArr before)
          | _ \<Rightarrow> False) ''LINEAGE_INVALID'' ''planning_run.audit_references'',
        (case (dict_get previous ''artifacts'', dict_get doc ''artifacts'') of
           (JObj before, JObj after) \<Rightarrow> check_write_once ''planning_run.artifacts'' before after
         | _ \<Rightarrow> Inr ())]"

definition check_run_artifacts :: "run_aggregate \<Rightarrow> unit res" where
  "check_run_artifacts run =
     (let doc = ra_document run; runtime = object_of (dict_get doc ''runtime_resolution'')
      in case dict_get doc ''artifacts'' of
           JObj artifacts \<Rightarrow>
             check_seq
               (map (\<lambda>name. check_or (dict_get artifacts name = JNull
                     \<or> py_eq (dict_get artifacts name) (dict_get (ra_prepared_artifacts run) name))
                   ''LINEAGE_INVALID'' (''planning_run.artifacts.'' @ name))
                 [''import_quality_report'', ''snapshot'', ''problem'']
                @ [check_or (\<not> is_object (dict_get doc ''attempt'')
                       \<or> py_eq (dict_get (object_of (dict_get doc ''attempt'')) ''runtime_resolution_fingerprint'')
                           (dict_get runtime ''resolution_fingerprint''))
                     ''RUNTIME_RESOLUTION_FAILED'' ''planning_run.attempt.runtime_resolution_fingerprint''])
         | _ \<Rightarrow> Inl (reject ''LINEAGE_INVALID'' ''planning_run.artifacts''))"

definition verify_planning_run ::
  "(string \<Rightarrow> string) \<Rightarrow> (string \<Rightarrow> json_object \<Rightarrow> bool) \<Rightarrow> run_aggregate \<Rightarrow> json_object option \<Rightarrow> unit res" where
  "verify_planning_run digest schema_ok run previous =
     bind_res (check_seq [check_run_schema schema_ok run, check_run_lineage digest run]) (\<lambda>_.
     bind_res (check_run_evidence (ra_document run)) (\<lambda>(transition, sequence, audits).
     check_seq
       [check_run_audits (ra_document run) transition audits,
        check_run_pair transition sequence,
        (case previous of
           None \<Rightarrow> Inr ()
         | Some before \<Rightarrow>
             check_seq [check_run_succession (ra_document run) transition sequence before,
                        check_run_history (ra_document run) audits before]),
        check_run_artifacts run]))"

subsection \<open>Attempts\<close>

datatype attempt_status =
    QUEUED | ACTIVE | DISPATCH_FAILED | TIMED_OUT | CANCEL_REQUESTED | CANCELLED | SUCCEEDED | FAILED

definition attempt_statuses :: "attempt_status list" where
  "attempt_statuses = [QUEUED, ACTIVE, DISPATCH_FAILED, TIMED_OUT, CANCEL_REQUESTED, CANCELLED, SUCCEEDED, FAILED]"

fun attempt_status_text :: "attempt_status \<Rightarrow> string" where
  "attempt_status_text QUEUED = ''QUEUED''"
| "attempt_status_text ACTIVE = ''ACTIVE''"
| "attempt_status_text DISPATCH_FAILED = ''DISPATCH_FAILED''"
| "attempt_status_text TIMED_OUT = ''TIMED_OUT''"
| "attempt_status_text CANCEL_REQUESTED = ''CANCEL_REQUESTED''"
| "attempt_status_text CANCELLED = ''CANCELLED''"
| "attempt_status_text SUCCEEDED = ''SUCCEEDED''"
| "attempt_status_text FAILED = ''FAILED''"

definition attempt_status_named :: "json \<Rightarrow> attempt_status option" where
  "attempt_status_named v = find (\<lambda>s. v = JStr (attempt_status_text s)) attempt_statuses"

definition attempt_terminal_statuses :: "attempt_status list" where
  "attempt_terminal_statuses = [DISPATCH_FAILED, TIMED_OUT, CANCELLED, SUCCEEDED, FAILED]"

definition attempt_retryable_statuses :: "attempt_status list" where
  "attempt_retryable_statuses = [DISPATCH_FAILED, TIMED_OUT]"

definition attempt_transitions :: "(attempt_status \<times> attempt_status) list" where
  "attempt_transitions =
     [(QUEUED, ACTIVE), (QUEUED, DISPATCH_FAILED), (QUEUED, TIMED_OUT), (QUEUED, CANCELLED),
      (ACTIVE, SUCCEEDED), (ACTIVE, FAILED), (ACTIVE, TIMED_OUT), (ACTIVE, CANCEL_REQUESTED),
      (ACTIVE, CANCELLED), (CANCEL_REQUESTED, CANCELLED), (CANCEL_REQUESTED, FAILED),
      (CANCEL_REQUESTED, TIMED_OUT)]"

definition attempt_field_names :: "string list" where
  "attempt_field_names = [''attempt_version'', ''attempt_id'', ''planning_run_id'', ''attempt_number'', ''revision'',
     ''status'', ''expected_run_revision'', ''expected_run_state'', ''expected_run_fingerprint'',
     ''runtime_resolution_fingerprint'', ''extension_set_fingerprint'', ''available_at_utc'', ''timeout_at_utc'',
     ''started_at_utc'', ''finished_at_utc'', ''failure_code'', ''result_references'', ''audit'',
     ''attempt_fingerprint'']"

definition check_attempt_identity ::
  "(string \<Rightarrow> string) \<Rightarrow> json_object \<Rightarrow> json_object \<Rightarrow> attempt_status res" where
  "check_attempt_identity digest run doc =
     bind_res (check_seq
       [require_fields doc attempt_field_names ''planning_run_attempt'',
        check_or (dict_get doc ''attempt_version'' = JStr ''planning-run-attempt.v1'')
          ''LINEAGE_INVALID'' ''planning_run_attempt.attempt_version'',
        check_or (py_eq (dict_get doc ''planning_run_id'') (dict_get run ''planning_run_id''))
          ''LINEAGE_INVALID'' ''planning_run_attempt.planning_run_id'',
        check_or (own_fingerprint digest doc ''attempt_fingerprint'')
          ''LINEAGE_INVALID'' ''planning_run_attempt.attempt_fingerprint'',
        check_or (case (dict_get doc ''attempt_number'', dict_get doc ''revision'') of
            (JInt number, JInt revision) \<Rightarrow> 1 \<le> number \<and> 1 \<le> revision
          | _ \<Rightarrow> False) ''LINEAGE_INVALID'' ''planning_run_attempt'']) (\<lambda>_.
     case attempt_status_named (dict_get doc ''status'') of
       None \<Rightarrow> Inl (reject ''LINEAGE_INVALID'' ''planning_run_attempt.status'')
     | Some status \<Rightarrow> Inr status)"

definition check_attempt_binding :: "json_object \<Rightarrow> json_object \<Rightarrow> unit res" where
  "check_attempt_binding run doc =
     (let runtime = dict_get run ''runtime_resolution'';
          extension_set = (if is_object runtime then dict_get (object_of runtime) ''extension_set'' else JNull)
      in bind_res (check_seq
        [require_fingerprint (dict_get doc ''expected_run_fingerprint'') ''planning_run_attempt.expected_run_fingerprint'',
         require_fingerprint (dict_get doc ''runtime_resolution_fingerprint'')
           ''planning_run_attempt.runtime_resolution_fingerprint'',
         require_fingerprint (dict_get doc ''extension_set_fingerprint'')
           ''planning_run_attempt.extension_set_fingerprint'',
         check_or (is_object runtime
             \<and> py_eq (dict_get doc ''runtime_resolution_fingerprint'') (dict_get (object_of runtime) ''resolution_fingerprint'')
             \<and> is_object extension_set
             \<and> py_eq (dict_get doc ''extension_set_fingerprint'')
                 (dict_get (object_of extension_set) ''extension_set_fingerprint''))
           ''RUNTIME_RESOLUTION_FAILED'' ''planning_run_attempt.runtime_resolution_fingerprint'',
         check_or (case dict_get doc ''expected_run_revision'' of JInt n \<Rightarrow> 1 \<le> n | _ \<Rightarrow> False)
           ''LINEAGE_INVALID'' ''planning_run_attempt.expected_run'']) (\<lambda>_.
      bind_res (text_in (dict_get doc ''expected_run_state'') planning_run_states) (\<lambda>known.
      check_or known ''LINEAGE_INVALID'' ''planning_run_attempt.expected_run'')))"

definition check_attempt_window :: "json_object \<Rightarrow> (stamp \<times> stamp) res" where
  "check_attempt_window doc =
     bind_res (utc_stamp (dict_get doc ''available_at_utc'') ''attempt.available_at_utc'') (\<lambda>available.
     bind_res (utc_stamp (dict_get doc ''timeout_at_utc'') ''attempt.timeout_at_utc'') (\<lambda>timeout.
     bind_res (stamp_less available timeout) (\<lambda>ordered.
     bind_res (check_or ordered ''LINEAGE_INVALID'' ''planning_run_attempt.timeout_at_utc'') (\<lambda>_.
     Inr (available, timeout)))))"

definition check_attempt_evidence :: "attempt_status \<Rightarrow> json_object \<Rightarrow> unit res" where
  "check_attempt_evidence status doc =
     (let started = dict_get doc ''started_at_utc''; finished = dict_get doc ''finished_at_utc'';
          failure_code = dict_get doc ''failure_code''
      in if status = QUEUED then
           check_or (started = JNull \<and> finished = JNull \<and> failure_code = JNull)
             ''LINEAGE_INVALID'' ''planning_run_attempt.status''
         else if status \<in> set [ACTIVE, CANCEL_REQUESTED] then
           check_or (started \<noteq> JNull \<and> finished = JNull \<and> failure_code = JNull)
             ''LINEAGE_INVALID'' ''planning_run_attempt.status''
         else check_seq
           [check_or (finished \<noteq> JNull) ''LINEAGE_INVALID'' ''planning_run_attempt.finished_at_utc'',
            check_or (\<not> (status \<in> set [SUCCEEDED, FAILED] \<and> started = JNull))
              ''LINEAGE_INVALID'' ''planning_run_attempt.started_at_utc'',
            check_or (\<not> (status = DISPATCH_FAILED \<and> started \<noteq> JNull))
              ''LINEAGE_INVALID'' ''planning_run_attempt.started_at_utc'',
            check_or (\<not> (status \<in> set [DISPATCH_FAILED, TIMED_OUT, FAILED] \<and> \<not> is_failure_code failure_code))
              ''LINEAGE_INVALID'' ''planning_run_attempt.failure_code'',
            check_or (\<not> (status \<in> set [CANCELLED, SUCCEEDED] \<and> failure_code \<noteq> JNull))
              ''LINEAGE_INVALID'' ''planning_run_attempt.failure_code''])"

definition check_attempt_results :: "json_object \<Rightarrow> unit res" where
  "check_attempt_results doc =
     check_or (is_object (dict_get doc ''result_references'')
         \<and> set (map fst (object_of (dict_get doc ''result_references''))) = set artifact_fields)
       ''LINEAGE_INVALID'' ''planning_run_attempt.result_references''"

definition check_attempt_times :: "stamp \<Rightarrow> stamp \<Rightarrow> json_object \<Rightarrow> unit res" where
  "check_attempt_times available timeout doc =
     (let started = dict_get doc ''started_at_utc''; finished = dict_get doc ''finished_at_utc''
      in bind_res
        (if started = JNull then Inr ()
         else bind_res (utc_stamp started ''attempt.started_at_utc'') (\<lambda>started_at.
              bind_res (stamp_less started_at available) (\<lambda>early.
              bind_res (if early then Inr True else stamp_less timeout started_at) (\<lambda>outside.
              check_or (\<not> outside) ''LINEAGE_INVALID'' ''planning_run_attempt.started_at_utc'')))) (\<lambda>_.
      if finished \<noteq> JNull \<and> started \<noteq> JNull then
        bind_res (utc_stamp finished ''attempt.finished_at_utc'') (\<lambda>finished_at.
        bind_res (utc_stamp started ''attempt.started_at_utc'') (\<lambda>started_at.
        bind_res (stamp_less finished_at started_at) (\<lambda>backwards.
        check_or (\<not> backwards) ''LINEAGE_INVALID'' ''planning_run_attempt.finished_at_utc'')))
      else Inr ()))"

definition immutable_attempt_fields :: "string list" where
  "immutable_attempt_fields = [''attempt_version'', ''attempt_id'', ''planning_run_id'', ''attempt_number'',
     ''expected_run_revision'', ''expected_run_state'', ''expected_run_fingerprint'',
     ''runtime_resolution_fingerprint'', ''extension_set_fingerprint'', ''available_at_utc'', ''timeout_at_utc'']"

definition check_attempt_succession :: "attempt_status \<Rightarrow> json_object \<Rightarrow> json_object \<Rightarrow> unit res" where
  "check_attempt_succession status doc previous =
     bind_res (check_or (list_all (\<lambda>f. py_eq (dict_get doc f) (dict_get previous f)) immutable_attempt_fields)
       ''LINEAGE_INVALID'' ''planning_run_attempt'') (\<lambda>_.
     case attempt_status_named (dict_get previous ''status'') of
       None \<Rightarrow> Inl (reject ''LINEAGE_INVALID'' ''previous_attempt.status'')
     | Some old_status \<Rightarrow>
         bind_res (check_or ((old_status, status) \<in> set attempt_transitions)
           ''STALE_ATTEMPT'' ''planning_run_attempt.status'') (\<lambda>_.
         bind_res (plus_one (dict_get previous ''revision'')) (\<lambda>next.
         check_seq
           [check_or (py_eq (dict_get doc ''revision'') (JInt next)) ''STALE_ATTEMPT'' ''planning_run_attempt.status'',
            check_or (dict_get previous ''started_at_utc'' = JNull
                \<or> py_eq (dict_get doc ''started_at_utc'') (dict_get previous ''started_at_utc''))
              ''LINEAGE_INVALID'' ''planning_run_attempt.started_at_utc'',
            check_or (is_object (dict_get previous ''result_references''))
              ''LINEAGE_INVALID'' ''previous_attempt.result_references'',
            check_write_once ''planning_run_attempt.result_references''
              (object_of (dict_get previous ''result_references'')) (object_of (dict_get doc ''result_references'')),
            require_audit_reference (dict_get previous ''audit'') ''previous_attempt.audit'',
            check_or (\<not> py_eq (dict_get doc ''audit'') (dict_get previous ''audit''))
              ''LINEAGE_INVALID'' ''planning_run_attempt.audit''])))"

definition verify_attempt ::
  "(string \<Rightarrow> string) \<Rightarrow> run_aggregate \<Rightarrow> json_object \<Rightarrow> json_object option \<Rightarrow> unit res" where
  "verify_attempt digest run doc previous =
     bind_res (check_attempt_identity digest (ra_document run) doc) (\<lambda>status.
     bind_res (check_attempt_binding (ra_document run) doc) (\<lambda>_.
     bind_res (check_attempt_window doc) (\<lambda>(available, timeout).
     check_seq
       [check_attempt_evidence status doc,
        check_attempt_results doc,
        check_attempt_times available timeout doc,
        require_audit_reference (dict_get doc ''audit'') ''planning_run_attempt.audit'',
        (case previous of None \<Rightarrow> Inr () | Some before \<Rightarrow> check_attempt_succession status doc before)])))"

subsection \<open>Work items\<close>

definition work_item_field_names :: "string list" where
  "work_item_field_names = [''work_item_version'', ''work_item_id'', ''planning_run_id'', ''attempt_id'',
     ''attempt_number'', ''expected_run_revision'', ''expected_run_state'', ''expected_run_fingerprint'',
     ''runtime_resolution'', ''prepared_artifacts'', ''inputs'', ''available_at_utc'', ''timeout_at_utc'',
     ''correlation_id'', ''audit'', ''work_item_fingerprint'']"

definition verify_work_item ::
  "(string \<Rightarrow> string) \<Rightarrow> run_aggregate \<Rightarrow> json_object \<Rightarrow> bool \<Rightarrow> json_object \<Rightarrow> unit res" where
  "verify_work_item digest run attempt bind_attempt_audit doc =
     check_seq
       [require_fields doc work_item_field_names ''planning_run_work_item'',
        check_or (dict_get doc ''work_item_version'' = JStr ''planning-run-work-item.v1'')
          ''LINEAGE_INVALID'' ''planning_run_work_item.work_item_version'',
        check_or (py_eq (dict_get doc ''planning_run_id'') (dict_get (ra_document run) ''planning_run_id'')
            \<and> list_all (\<lambda>f. py_eq (dict_get doc f) (dict_get attempt f))
                [''attempt_id'', ''attempt_number'', ''expected_run_revision'', ''expected_run_state'',
                 ''expected_run_fingerprint'', ''available_at_utc'', ''timeout_at_utc'']
            \<and> py_eq (dict_get doc ''runtime_resolution'') (dict_get (ra_document run) ''runtime_resolution'')
            \<and> py_eq (dict_get doc ''prepared_artifacts'') (JObj (ra_prepared_artifacts run))
            \<and> py_eq (dict_get doc ''inputs'') (dict_get (ra_document run) ''inputs'')
            \<and> (bind_attempt_audit \<longrightarrow> py_eq (dict_get doc ''audit'') (dict_get attempt ''audit'')))
          ''LINEAGE_INVALID'' ''planning_run_work_item'',
        require_audit_reference (dict_get doc ''audit'') ''planning_run_work_item.audit'',
        check_or (own_fingerprint digest doc ''work_item_fingerprint'')
          ''LINEAGE_INVALID'' ''planning_run_work_item.work_item_fingerprint'']"

definition command_field_names :: "string list" where
  "command_field_names = [''command_record_version'', ''command_id'', ''operation'', ''planning_run_id'',
     ''scope_fingerprint'', ''key_reference'', ''request_fingerprint'', ''occurred_at_utc'', ''audit'', ''result'',
     ''record_fingerprint'']"

definition verify_command_record :: "(string \<Rightarrow> string) \<Rightarrow> json_object \<Rightarrow> unit res" where
  "verify_command_record digest doc =
     (let result = dict_get doc ''result''; planning_run = dict_get (object_of result) ''planning_run'';
          attempt = dict_get (object_of result) ''attempt''; work_item = dict_get (object_of result) ''work_item'';
          same = (\<lambda>v. py_eq (dict_get (object_of v) ''planning_run_id'') (dict_get doc ''planning_run_id''))
      in bind_res (check_seq
        ([require_fields doc command_field_names ''planning_run_command'',
          check_or (dict_get doc ''command_record_version'' = JStr ''planning-run-command-record.v1'')
            ''LINEAGE_INVALID'' ''planning_run_command.command_record_version'']
         @ map (\<lambda>f. require_fingerprint (dict_get doc f) (''planning_run_command.'' @ f))
             [''scope_fingerprint'', ''key_reference'', ''request_fingerprint''])) (\<lambda>_.
      bind_res (utc_stamp (dict_get doc ''occurred_at_utc'') ''planning_run_command.occurred_at_utc'') (\<lambda>_.
      check_seq
        [check_or (own_fingerprint digest doc ''record_fingerprint'')
           ''LINEAGE_INVALID'' ''planning_run_command.record_fingerprint'',
         check_or (is_object result
             \<and> set (map fst (object_of result)) = set [''planning_run'', ''attempt'', ''work_item''])
           ''LINEAGE_INVALID'' ''planning_run_command.result'',
         require_audit_reference (dict_get doc ''audit'') ''planning_run_command.audit'',
         check_or (is_object planning_run \<and> (attempt = JNull \<or> is_object attempt)
             \<and> (work_item = JNull \<or> is_object work_item) \<and> same planning_run
             \<and> (is_object attempt \<longrightarrow> same attempt)
             \<and> (is_object work_item \<longrightarrow>
                  is_object attempt \<and> same work_item
                  \<and> py_eq (dict_get (object_of work_item) ''attempt_id'') (dict_get (object_of attempt) ''attempt_id'')))
           ''LINEAGE_INVALID'' ''planning_run_command.result''])))"

subsection \<open>Building attempts and work items\<close>

text \<open>
  \<open>jobs/planning_run_work_item.py\<close>. The results are read back from their canonical bytes, which
  changes the order of the keys only.
\<close>

definition with_fingerprint :: "(string \<Rightarrow> string) \<Rightarrow> json_object \<Rightarrow> string \<Rightarrow> json_object" where
  "with_fingerprint digest doc field =
     (let result = dict_set doc field (JStr '''')
      in dict_set result field (JStr (canonical_fingerprint digest (JObj (dict_without result field)))))"

definition extension_set_fingerprint :: "json_object \<Rightarrow> json res" where
  "extension_set_fingerprint runtime =
     (let extension_set = dict_get runtime ''extension_set'';
          fingerprint = dict_get (object_of extension_set) ''extension_set_fingerprint''
      in case (extension_set, fingerprint) of
           (JObj _, JStr _) \<Rightarrow> Inr fingerprint
         | _ \<Rightarrow> Inl RaiseValue)"

definition create_queued_attempt ::
  "(string \<Rightarrow> string) \<Rightarrow> run_aggregate \<Rightarrow> int \<Rightarrow> string \<Rightarrow> string \<Rightarrow> json_object \<Rightarrow> json_object res" where
  "create_queued_attempt digest run attempt_number available_at_utc timeout_at_utc audit_reference =
     (let doc = ra_document run in
      bind_res (dict_item doc ''runtime_resolution'') (\<lambda>runtime.
      bind_res (dict_item doc ''planning_run_id'') (\<lambda>planning_run_id.
      bind_res (dict_item doc ''run_fingerprint'') (\<lambda>run_fingerprint.
      bind_res (dict_item doc ''revision'') (\<lambda>revision.
      bind_res (dict_item doc ''state'') (\<lambda>state.
      bind_res (require_or (is_object runtime) RaiseType) (\<lambda>_.
      bind_res (dict_item (object_of runtime) ''resolution_fingerprint'') (\<lambda>resolution_fingerprint.
      bind_res (extension_set_fingerprint (object_of runtime)) (\<lambda>extension_fingerprint.
      bind_res (dict_item doc ''artifacts'') (\<lambda>artifacts.
      let attempt = with_fingerprint digest
        [(''attempt_version'', JStr ''planning-run-attempt.v1''),
         (''attempt_id'', JStr (derived_identity digest ''planning-run-attempt'' (JObj
            [(''planning_run_id'', planning_run_id), (''attempt_number'', JInt attempt_number),
             (''expected_run_fingerprint'', run_fingerprint)]))),
         (''planning_run_id'', planning_run_id),
         (''attempt_number'', JInt attempt_number),
         (''revision'', JInt 1),
         (''status'', JStr (attempt_status_text QUEUED)),
         (''expected_run_revision'', revision),
         (''expected_run_state'', state),
         (''expected_run_fingerprint'', run_fingerprint),
         (''runtime_resolution_fingerprint'', resolution_fingerprint),
         (''extension_set_fingerprint'', extension_fingerprint),
         (''available_at_utc'', JStr available_at_utc),
         (''timeout_at_utc'', JStr timeout_at_utc),
         (''started_at_utc'', JNull),
         (''finished_at_utc'', JNull),
         (''failure_code'', JNull),
         (''result_references'', artifacts),
         (''audit'', JObj audit_reference)] ''attempt_fingerprint''
      in bind_res (verify_attempt digest run attempt None) (\<lambda>_. Inr attempt)))))))))))"

definition create_work_item ::
  "(string \<Rightarrow> string) \<Rightarrow> run_aggregate \<Rightarrow> json_object \<Rightarrow> string \<Rightarrow> json_object res" where
  "create_work_item digest run attempt correlation_id =
     (let doc = ra_document run in
      bind_res (dict_item doc ''planning_run_id'') (\<lambda>planning_run_id.
      bind_res (map_res (dict_item attempt) [''attempt_id'', ''attempt_number'', ''expected_run_revision'',
         ''expected_run_state'', ''expected_run_fingerprint'']) (\<lambda>identity.
      bind_res (dict_item doc ''runtime_resolution'') (\<lambda>runtime.
      bind_res (dict_item doc ''inputs'') (\<lambda>inputs.
      bind_res (map_res (dict_item attempt) [''available_at_utc'', ''timeout_at_utc'', ''audit'']) (\<lambda>window.
      let item = with_fingerprint digest
        [(''work_item_version'', JStr ''planning-run-work-item.v1''),
         (''work_item_id'', JStr (derived_identity digest ''planning-run-work-item'' (JObj
            [(''planning_run_id'', planning_run_id), (''attempt_id'', identity ! 0), (''attempt_number'', identity ! 1)]))),
         (''planning_run_id'', planning_run_id),
         (''attempt_id'', identity ! 0),
         (''attempt_number'', identity ! 1),
         (''expected_run_revision'', identity ! 2),
         (''expected_run_state'', identity ! 3),
         (''expected_run_fingerprint'', identity ! 4),
         (''runtime_resolution'', runtime),
         (''prepared_artifacts'', JObj (ra_prepared_artifacts run)),
         (''inputs'', inputs),
         (''available_at_utc'', window ! 0),
         (''timeout_at_utc'', window ! 1),
         (''correlation_id'', JStr correlation_id),
         (''audit'', window ! 2)] ''work_item_fingerprint''
      in bind_res (verify_work_item digest run attempt True item) (\<lambda>_. Inr item)))))))"

definition transition_attempt ::
  "(string \<Rightarrow> string) \<Rightarrow> run_aggregate \<Rightarrow> json_object \<Rightarrow> attempt_status \<Rightarrow> string \<Rightarrow> json_object
     \<Rightarrow> string option \<Rightarrow> json_object \<Rightarrow> json_object res" where
  "transition_attempt digest run previous to_status occurred_at_utc audit_reference failure_code result_references =
     bind_res (dict_item previous ''started_at_utc'') (\<lambda>old_started.
     bind_res (dict_item previous ''finished_at_utc'') (\<lambda>old_finished.
     bind_res (dict_item previous ''revision'') (\<lambda>old_revision.
     bind_res (plus_one old_revision) (\<lambda>revision.
     let started = (if to_status = ACTIVE \<and> old_started = JNull then JStr occurred_at_utc else old_started);
         finished = (if to_status \<in> set [DISPATCH_FAILED, TIMED_OUT, CANCELLED, SUCCEEDED, FAILED]
                     then JStr occurred_at_utc else old_finished);
         attempt = with_fingerprint digest
           (foldl (\<lambda>d (k, v). dict_set d k v) previous
             [(''revision'', JInt revision), (''status'', JStr (attempt_status_text to_status)),
              (''started_at_utc'', started), (''finished_at_utc'', finished),
              (''failure_code'', jopt JStr failure_code), (''result_references'', JObj result_references),
              (''audit'', JObj audit_reference)]) ''attempt_fingerprint''
     in bind_res (verify_attempt digest run attempt (Some previous)) (\<lambda>_. Inr attempt)))))"

end
