(* ===== verification/Run_History.thy ===== *)
theory Run_History
  imports Planning_Run
begin

section \<open>What the stored history of a planning run keeps\<close>

text \<open>
  A step replaces a verified run (or attempt) by one that verifies against it. The lemmas say what
  every sequence of steps keeps, whatever the documents are: the states follow the transition
  table and so the sequence is short, revisions count the steps, the audit history only grows, and
  artifacts are written once.
\<close>

lemma check_or_iff [res_simps]: "check_or ok code field = Inr u \<longleftrightarrow> ok"
  by (simp add: check_or_def require_or_Inr_iff)

subsection \<open>The two tables of planning runs\<close>

lemma run_tables_agree:
  "planning_run_states = states_of PLANNING_RUN"
  "planning_run_terminal_states = terminal_states_of PLANNING_RUN"
  "planning_run_transitions = transitions_of PLANNING_RUN"
  by (simp_all add: planning_run_states_def planning_run_terminal_states_def planning_run_transitions_def
      states_of_def terminal_states_of_def transitions_of_def pairs_of_def run_states_def run_terminal_def
      run_transitions_def)

lemma planning_run_transition_iff:
  "require_planning_run_transition s t = Inr () \<longleftrightarrow> (s, t) \<in> set (transitions_of PLANNING_RUN)"
proof -
  have "s \<in> set (states_of PLANNING_RUN) \<and> t \<in> set (states_of PLANNING_RUN) \<and> s \<notin> set (terminal_states_of PLANNING_RUN)"
    if "(s, t) \<in> set (transitions_of PLANNING_RUN)"
    using machine.closed [of PLANNING_RUN] machine.stops [OF that] that by auto
  then show ?thesis by (auto simp: require_planning_run_transition_def run_tables_agree res_simps)
qed

subsection \<open>Verified runs\<close>

definition run_ok :: "(string \<Rightarrow> string) \<Rightarrow> (string \<Rightarrow> json_object \<Rightarrow> bool) \<Rightarrow> run_aggregate \<Rightarrow> bool" where
  "run_ok digest schema_ok r \<longleftrightarrow> (\<exists>previous. verify_planning_run digest schema_ok r previous = Inr ())"

definition run_step :: "(string \<Rightarrow> string) \<Rightarrow> (string \<Rightarrow> json_object \<Rightarrow> bool) \<Rightarrow> run_aggregate \<Rightarrow> run_aggregate \<Rightarrow> bool" where
  "run_step digest schema_ok r r' \<longleftrightarrow>
     run_ok digest schema_ok r \<and> verify_planning_run digest schema_ok r' (Some (ra_document r)) = Inr ()"

definition run_revision :: "run_aggregate \<Rightarrow> int" where
  "run_revision r = (case dict_get (ra_document r) ''revision'' of JInt n \<Rightarrow> n | _ \<Rightarrow> 0)"

definition run_audits :: "run_aggregate \<Rightarrow> json list" where
  "run_audits r = (case dict_get (ra_document r) ''audit_references'' of JArr vs \<Rightarrow> vs | _ \<Rightarrow> [])"

definition run_state_text :: "run_aggregate \<Rightarrow> string" where
  "run_state_text r = (case dict_get (ra_document r) ''state'' of JStr s \<Rightarrow> s | _ \<Rightarrow> '''')"

definition run_artifact :: "run_aggregate \<Rightarrow> string \<Rightarrow> json" where
  "run_artifact r name = dict_get (object_of (dict_get (ra_document r) ''artifacts'')) name"

lemma evidence_iff:
  "check_run_evidence doc = Inr (transition, sequence, audits) \<longleftrightarrow>
     dict_get doc ''last_transition'' = JObj transition \<and> dict_get transition ''sequence'' = JInt sequence
     \<and> py_eq (dict_get doc ''state'') (dict_get transition ''to_state'')
     \<and> py_eq (dict_get doc ''updated_at_utc'') (dict_get transition ''occurred_at_utc'')
     \<and> dict_get doc ''audit_references'' = JArr audits \<and> dict_get doc ''revision'' = JInt (sequence + 1)
     \<and> int (length audits) = sequence + 1"
proof (cases "\<exists>tr sq. dict_get doc ''last_transition'' = JObj tr \<and> dict_get tr ''sequence'' = JInt sq")
  case False
  then show ?thesis by (auto simp: check_run_evidence_def split: json.splits)
next
  case True
  then obtain tr sq where t: "dict_get doc ''last_transition'' = JObj tr" "dict_get tr ''sequence'' = JInt sq" by blast
  show ?thesis
  proof (cases "\<exists>vs n. dict_get doc ''audit_references'' = JArr vs \<and> dict_get doc ''revision'' = JInt n")
    case False
    then show ?thesis using t by (auto simp: check_run_evidence_def res_simps split: json.splits)
  next
    case True
    then show ?thesis using t by (auto simp: check_run_evidence_def res_simps)
  qed
qed

lemma verified_run:
  assumes "verify_planning_run digest schema_ok r previous = Inr ()"
  obtains transition sequence audits where
    "check_run_evidence (ra_document r) = Inr (transition, sequence, audits)" "audits \<noteq> []" "0 \<le> sequence"
    "check_run_pair transition sequence = Inr ()"
    "\<And>before. previous = Some before \<Longrightarrow>
       check_run_succession (ra_document r) transition sequence before = Inr ()
       \<and> check_run_history (ra_document r) audits before = Inr ()"
    "is_object (dict_get (ra_document r) ''artifacts'')"
proof -
  obtain transition sequence audits where e: "check_run_evidence (ra_document r) = Inr (transition, sequence, audits)"
    and rest: "check_run_audits (ra_document r) transition audits = Inr ()" "check_run_pair transition sequence = Inr ()"
      "(case previous of None \<Rightarrow> Inr () | Some before \<Rightarrow>
          check_seq [check_run_succession (ra_document r) transition sequence before,
                     check_run_history (ra_document r) audits before]) = Inr ()"
      "check_run_artifacts r = Inr ()"
    using assms by (auto simp: verify_planning_run_def res_simps)
  have "audits \<noteq> []" using rest(1) by (auto simp: check_run_audits_def res_simps)
  moreover have "0 \<le> sequence" using e \<open>audits \<noteq> []\<close> by (cases audits) (auto simp: evidence_iff)
  moreover have "is_object (dict_get (ra_document r) ''artifacts'')"
    using rest(4) by (auto simp: check_run_artifacts_def Let_def is_object_def split: json.splits)
  ultimately show ?thesis using that [OF e _ _ rest(2)] rest(3) by (cases previous) (auto simp: res_simps)
qed

lemma run_ok_facts:
  assumes "run_ok digest schema_ok r"
  shows "1 \<le> run_revision r \<and> int (length (run_audits r)) = run_revision r
    \<and> dict_get (ra_document r) ''state'' = JStr (run_state_text r)"
proof -
  obtain previous where "verify_planning_run digest schema_ok r previous = Inr ()" using assms by (auto simp: run_ok_def)
  then obtain transition sequence audits where v:
    "check_run_evidence (ra_document r) = Inr (transition, sequence, audits)" "0 \<le> sequence"
    "check_run_pair transition sequence = Inr ()" by (rule verified_run) blast
  have "\<exists>t. dict_get transition ''to_state'' = JStr t"
    using v(3) by (auto simp: check_run_pair_def Let_def res_simps split: if_splits json.splits)
  then show ?thesis using v by (auto simp: evidence_iff run_revision_def run_audits_def run_state_text_def)
qed

lemma run_step_facts:
  assumes "run_step digest schema_ok r r'"
  shows "(run_state_text r, run_state_text r') \<in> set (transitions_of PLANNING_RUN)"
    and "run_revision r' = run_revision r + 1"
    and "py_eq (JArr (butlast (run_audits r'))) (JArr (run_audits r))"
    and "name \<in> set artifact_fields \<Longrightarrow> run_artifact r name = JNull \<or> py_eq (run_artifact r' name) (run_artifact r name)"
    and "run_ok digest schema_ok r'"
proof -
  have v: "verify_planning_run digest schema_ok r' (Some (ra_document r)) = Inr ()" and ok: "run_ok digest schema_ok r"
    using assms by (simp_all add: run_step_def)
  show ok': "run_ok digest schema_ok r'" using v by (auto simp: run_ok_def)
  obtain transition sequence audits where e: "check_run_evidence (ra_document r') = Inr (transition, sequence, audits)"
    and pair: "check_run_pair transition sequence = Inr ()"
    and succ: "check_run_succession (ra_document r') transition sequence (ra_document r) = Inr ()"
    and hist: "check_run_history (ra_document r') audits (ra_document r) = Inr ()"
    and art: "is_object (dict_get (ra_document r') ''artifacts'')"
    using v by (rule verified_run) blast
  note ev = e [unfolded evidence_iff]
  obtain previous where "verify_planning_run digest schema_ok r previous = Inr ()" using ok by (auto simp: run_ok_def)
  then obtain transition0 sequence0 audits0 where e0: "check_run_evidence (ra_document r) = Inr (transition0, sequence0, audits0)"
    and "0 \<le> sequence0" and art0: "is_object (dict_get (ra_document r) ''artifacts'')"
    by (rule verified_run) blast
  note ev0 = e0 [unfolded evidence_iff]
  have seq: "sequence = sequence0 + 1"
    using succ ev0 by (auto simp: check_run_succession_def Let_def res_simps is_object_def object_of_def whole_number_def)
  then show "run_revision r' = run_revision r + 1" using ev ev0 by (simp add: run_revision_def)
  have st: "dict_get (ra_document r) ''state'' = JStr (run_state_text r)"
    "dict_get (ra_document r') ''state'' = JStr (run_state_text r')"
    using run_ok_facts [OF ok] run_ok_facts [OF ok'] by simp_all
  have from_state: "dict_get transition ''from_state'' = JStr (run_state_text r)"
    using succ st(1) by (auto simp: check_run_succession_def Let_def res_simps)
  have "dict_get transition ''to_state'' = JStr (run_state_text r')" using ev st(2) by simp
  then show "(run_state_text r, run_state_text r') \<in> set (transitions_of PLANNING_RUN)"
    using pair from_state seq \<open>0 \<le> sequence0\<close> by (simp add: check_run_pair_def planning_run_transition_iff)
  show "py_eq (JArr (butlast (run_audits r'))) (JArr (run_audits r))"
    using hist ev ev0 by (simp add: check_run_history_def res_simps run_audits_def)
  show "run_artifact r name = JNull \<or> py_eq (run_artifact r' name) (run_artifact r name)" if "name \<in> set artifact_fields"
  proof -
    obtain a a' where "dict_get (ra_document r) ''artifacts'' = JObj a" "dict_get (ra_document r') ''artifacts'' = JObj a'"
      using art art0 by (auto simp: is_object_def split: json.splits)
    then show ?thesis using hist that
      by (auto simp: check_run_history_def res_simps check_write_once_def run_artifact_def object_of_def)
  qed
qed

subsection \<open>Histories of runs\<close>

lemma py_eq_take:
  assumes "py_eq (JArr xs) (JArr ys)" shows "py_eq (JArr (take n xs)) (JArr (take n ys))"
proof -
  have "p \<in> set (zip xs ys)" if "p \<in> set (zip (take n xs) (take n ys))" for p
    using that by (metis in_set_takeD take_zip)
  then show ?thesis using assms by simp
qed

abbreviation run_steps where
  "run_steps digest schema_ok \<equiv> (run_step digest schema_ok)\<^sup>*\<^sup>*"

text \<open>A value that every step keeps, up to Python's equality, is kept by every sequence of steps.\<close>

lemma kept_by_steps:
  assumes "step\<^sup>*\<^sup>* r r'" and "\<And>y z. step y z \<Longrightarrow> py_eq (p z) (p y)"
  shows "p r' = p r \<or> py_eq (p r') (p r)"
  using assms(1)
proof (induction rule: rtranclp_induct)
  case (step y z)
  show ?case using step.IH assms(2) [OF step(2)] py_eq_trans by metis
qed simp

lemma written_once_by_steps:
  assumes "step\<^sup>*\<^sup>* r r'" and "\<And>y z. step y z \<Longrightarrow> p y = JNull \<or> py_eq (p z) (p y)" and "p r \<noteq> JNull"
  shows "p r' = p r \<or> py_eq (p r') (p r)"
  using assms(1)
proof (induction rule: rtranclp_induct)
  case (step y z)
  have "p y \<noteq> JNull" using step.IH assms(3) by auto
  then have "py_eq (p z) (p y)" using assms(2) [OF step(2)] by simp
  then show ?case using step.IH py_eq_trans by metis
qed simp

lemma run_steps_artifacts:
  assumes "run_steps digest schema_ok r r'" and "name \<in> set artifact_fields" and "run_artifact r name \<noteq> JNull"
  shows "run_artifact r' name = run_artifact r name \<or> py_eq (run_artifact r' name) (run_artifact r name)"
  using written_once_by_steps [of "run_step digest schema_ok" r r' "\<lambda>r. run_artifact r name"]
    run_step_facts(4) [OF _ assms(2)] assms(1,3) by blast

lemma run_steps_revision:
  assumes "run_steps digest schema_ok r r'"
  shows "run_revision r \<le> run_revision r'
    \<and> (run_audits r = take (length (run_audits r)) (run_audits r')
       \<or> py_eq (JArr (take (nat (run_revision r)) (run_audits r'))) (JArr (run_audits r)))"
  using assms
proof (induction rule: rtranclp_induct)
  case (step y z)
  have oky: "run_ok digest schema_ok y" using step(2) by (simp add: run_step_def)
  have okz: "run_ok digest schema_ok z" using run_step_facts(5) [OF step(2)] .
  have "run_ok digest schema_ok r"
    using step(1) oky by (cases rule: converse_rtranclpE) (auto simp: run_step_def)
  then have len: "nat (run_revision r) = length (run_audits r)" using run_ok_facts by force
  have ly: "int (length (run_audits y)) = run_revision y" and lz: "int (length (run_audits z)) = run_revision z"
    using run_ok_facts [OF oky] run_ok_facts [OF okz] by simp_all
  have rev: "run_revision z = run_revision y + 1" by (rule run_step_facts(2) [OF step(2)])
  let ?n = "length (run_audits r)"
  have n: "?n \<le> length (run_audits y)" using step.IH len ly by linarith
  have b: "py_eq (JArr (butlast (run_audits z))) (JArr (run_audits y))" by (rule run_step_facts(3) [OF step(2)])
  have "take ?n (butlast (run_audits z)) = take ?n (run_audits z)"
    using n ly lz rev by (simp add: take_butlast)
  then have "py_eq (JArr (take ?n (run_audits z))) (JArr (take ?n (run_audits y)))"
    using py_eq_take [OF b, of ?n] by simp
  then have "py_eq (JArr (take ?n (run_audits z))) (JArr (run_audits r))"
    using step.IH len py_eq_trans by (metis)
  then show ?case using step.IH rev len by simp
qed simp

fun run_history :: "(string \<Rightarrow> string) \<Rightarrow> (string \<Rightarrow> json_object \<Rightarrow> bool) \<Rightarrow> run_aggregate list \<Rightarrow> bool" where
  "run_history digest schema_ok (r # r' # rs) \<longleftrightarrow> run_step digest schema_ok r r' \<and> run_history digest schema_ok (r' # rs)"
| "run_history digest schema_ok _ \<longleftrightarrow> True"

lemma run_history_table:
  "run_history digest schema_ok rs \<Longrightarrow> run_of (transitions_of PLANNING_RUN) (map run_state_text rs)"
  by (induction digest schema_ok rs rule: run_history.induct) (auto dest: run_step_facts(1))

lemma run_history_bounded: "run_history digest schema_ok rs \<Longrightarrow> length rs \<le> 9"
proof -
  assume h: "run_history digest schema_ok rs"
  have "run_of (transitions_of PLANNING_RUN) (map run_state_text rs)" by (rule run_history_table [OF h])
  then have "successively (\<lambda>s t. require_transition ''PLANNING_RUN'' s t = Inr ()) (map run_state_text rs)"
    using require_transition_iff [of PLANNING_RUN] by (simp add: run_of_def machine_text_def)
  then show ?thesis
    using accepted_run_length [of "run_state_text (hd rs)" "map run_state_text (tl rs)"] by (cases rs) auto
qed

lemma terminal_run_is_final:
  assumes "run_state_text r \<in> set planning_run_terminal_states"
  shows "\<not> run_step digest schema_ok r r'"
  using run_step_facts(1) [of digest schema_ok r r'] assms machine.stops [of "run_state_text r" _ PLANNING_RUN]
  by (auto simp: run_tables_agree)

lemma terminal_run_is_last:
  assumes "run_history digest schema_ok rs" and "k < length rs"
    and "run_state_text (rs ! k) \<in> set (terminal_states_of PLANNING_RUN)"
  shows "Suc k = length rs"
proof (rule ccontr)
  assume "Suc k \<noteq> length rs"
  then have "Suc k < length rs" using assms(2) by simp
  then have "(run_state_text (rs ! k), run_state_text (rs ! Suc k)) \<in> set (transitions_of PLANNING_RUN)"
    using run_history_table [OF assms(1)] successively_nth [of _ "map run_state_text rs" k] by (simp add: run_of_def)
  then show False using machine.stops assms(3) by blast
qed

end
