(* ===== verification/Attempt_History.thy ===== *)
theory Attempt_History
  imports Run_History
begin

section \<open>What the stored history of an attempt keeps\<close>

text \<open>
  An attempt of a planning run is a chain of documents, each checked against the one before
  (\<open>verify_attempt\<close> with \<open>previous\<close>), under the run as it is stored at that moment. The statuses
  follow \<open>ATTEMPT_TRANSITIONS\<close>, a staged lifecycle, so a chain has at most four documents.
\<close>

subsection \<open>The status table\<close>

fun attempt_rank :: "attempt_status \<Rightarrow> nat" where
  "attempt_rank QUEUED = 3"
| "attempt_rank ACTIVE = 2"
| "attempt_rank CANCEL_REQUESTED = 1"
| "attempt_rank _ = 0"

interpretation attempt: lifecycle QUEUED attempt_statuses attempt_terminal_statuses attempt_transitions
  by (rule table_checks [where n = 3 and m = 2]) code_simp+

interpretation attempt: staged QUEUED attempt_statuses attempt_terminal_statuses attempt_transitions attempt_rank
proof
  have "list_all (\<lambda>(s, t). attempt_rank t < attempt_rank s) attempt_transitions" by code_simp
  then show "(s, t) \<in> set attempt_transitions \<Longrightarrow> attempt_rank t < attempt_rank s" for s t
    by (rule ranked_by_check)
qed

lemma attempt_statuses_all [simp]: "s \<in> set attempt_statuses"
  by (cases s) (simp_all add: attempt_statuses_def)

lemma attempt_status_text_inj: "attempt_status_text s = attempt_status_text t \<Longrightarrow> s = t"
  by (cases s; cases t; simp)

lemma find_unique:
  "(\<And>x y. P x \<Longrightarrow> P y \<Longrightarrow> x = y) \<Longrightarrow> find P xs = Some z \<longleftrightarrow> z \<in> set xs \<and> P z"
  by (induction xs) auto

lemma attempt_status_named_iff: "attempt_status_named v = Some s \<longleftrightarrow> v = JStr (attempt_status_text s)"
  unfolding attempt_status_named_def by (subst find_unique) (auto dest: attempt_status_text_inj)

lemma attempt_terminal_iff: "s \<in> set attempt_terminal_statuses \<longleftrightarrow> s \<notin> {QUEUED, ACTIVE, CANCEL_REQUESTED}"
  by (cases s) (simp_all add: attempt_terminal_statuses_def)

subsection \<open>Verified attempts\<close>

definition attempt_ok :: "(string \<Rightarrow> string) \<Rightarrow> json_object \<Rightarrow> bool" where
  "attempt_ok digest doc \<longleftrightarrow> (\<exists>run previous. verify_attempt digest run doc previous = Inr ())"

definition attempt_step :: "(string \<Rightarrow> string) \<Rightarrow> json_object \<Rightarrow> json_object \<Rightarrow> bool" where
  "attempt_step digest doc doc' \<longleftrightarrow>
     attempt_ok digest doc \<and> (\<exists>run. verify_attempt digest run doc' (Some doc) = Inr ())"

definition attempt_revision :: "json_object \<Rightarrow> int" where
  "attempt_revision doc = (case dict_get doc ''revision'' of JInt n \<Rightarrow> n | _ \<Rightarrow> 0)"

definition attempt_result :: "json_object \<Rightarrow> string \<Rightarrow> json" where
  "attempt_result doc name = dict_get (object_of (dict_get doc ''result_references'')) name"

lemma verified_attempt:
  assumes "verify_attempt digest run doc previous = Inr ()"
  obtains status available timeout where "attempt_status_named (dict_get doc ''status'') = Some status"
    "check_attempt_window doc = Inr (available, timeout)"
    "check_attempt_evidence status doc = Inr ()" "check_attempt_times available timeout doc = Inr ()"
    "\<exists>n. dict_get doc ''revision'' = JInt n \<and> 1 \<le> n"
    "is_object (dict_get doc ''result_references'')"
    "\<And>before. previous = Some before \<Longrightarrow> check_attempt_succession status doc before = Inr ()"
proof -
  obtain status window where i: "check_attempt_identity digest (ra_document run) doc = Inr status"
    and w: "check_attempt_window doc = Inr window"
    and r: "check_attempt_evidence status doc = Inr ()" "check_attempt_results doc = Inr ()"
      "check_attempt_times (fst window) (snd window) doc = Inr ()"
      "(case previous of None \<Rightarrow> Inr () | Some before \<Rightarrow> check_attempt_succession status doc before) = Inr ()"
    using assms by (auto simp: verify_attempt_def res_simps)
  have "attempt_status_named (dict_get doc ''status'') = Some status"
    "\<exists>n. dict_get doc ''revision'' = JInt n \<and> 1 \<le> n"
    using i by (auto simp: check_attempt_identity_def res_simps split: option.splits json.splits)
  moreover have "is_object (dict_get doc ''result_references'')"
    using r(2) by (simp add: check_attempt_results_def res_simps)
  ultimately show ?thesis using that [of status "fst window" "snd window"] w r by (cases previous) auto
qed

lemma attempt_ok_facts:
  assumes "attempt_ok digest doc"
  obtains status n where "dict_get doc ''status'' = JStr (attempt_status_text status)"
    "dict_get doc ''revision'' = JInt n" "1 \<le> n" "is_object (dict_get doc ''result_references'')"
    "check_attempt_evidence status doc = Inr ()"
  using assms by (auto simp: attempt_ok_def attempt_status_named_iff elim!: verified_attempt)

lemma attempt_step_facts:
  assumes "attempt_step digest doc doc'"
  obtains s s' where "dict_get doc ''status'' = JStr (attempt_status_text s)"
    "dict_get doc' ''status'' = JStr (attempt_status_text s')" "(s, s') \<in> set attempt_transitions"
    "attempt_revision doc' = attempt_revision doc + 1"
    "\<And>f. f \<in> set immutable_attempt_fields \<Longrightarrow> py_eq (dict_get doc' f) (dict_get doc f)"
    "dict_get doc ''started_at_utc'' = JNull \<or> py_eq (dict_get doc' ''started_at_utc'') (dict_get doc ''started_at_utc'')"
    "\<And>name. name \<in> set artifact_fields \<Longrightarrow>
       attempt_result doc name = JNull \<or> py_eq (attempt_result doc' name) (attempt_result doc name)"
    "\<not> py_eq (dict_get doc' ''audit'') (dict_get doc ''audit'')" "attempt_ok digest doc'"
proof -
  obtain run where v: "verify_attempt digest run doc' (Some doc) = Inr ()" using assms by (auto simp: attempt_step_def)
  then have ok': "attempt_ok digest doc'" by (auto simp: attempt_ok_def)
  obtain s n where s: "dict_get doc ''status'' = JStr (attempt_status_text s)" "dict_get doc ''revision'' = JInt n"
    using assms by (auto simp: attempt_step_def elim: attempt_ok_facts)
  obtain s' m where s': "attempt_status_named (dict_get doc' ''status'') = Some s'" "dict_get doc' ''revision'' = JInt m"
    and succ: "check_attempt_succession s' doc' doc = Inr ()" using v by (rule verified_attempt) blast
  have named: "attempt_status_named (dict_get doc ''status'') = Some s" using s(1) by (simp add: attempt_status_named_iff)
  note c = succ [unfolded check_attempt_succession_def named]
  show ?thesis
  proof (rule that [OF s(1) _ _ _ _ _ _ _ ok'])
    show "dict_get doc' ''status'' = JStr (attempt_status_text s')" using s'(1) by (simp add: attempt_status_named_iff)
    show "(s, s') \<in> set attempt_transitions" using c by (auto simp: res_simps)
    show "attempt_revision doc' = attempt_revision doc + 1"
      using c s(2) s'(2) by (auto simp: res_simps plus_one_def attempt_revision_def)
    show "py_eq (dict_get doc' f) (dict_get doc f)" if "f \<in> set immutable_attempt_fields" for f
      using c that by (auto simp: res_simps list_all_iff)
    show "dict_get doc ''started_at_utc'' = JNull
      \<or> py_eq (dict_get doc' ''started_at_utc'') (dict_get doc ''started_at_utc'')" using c by (auto simp: res_simps)
    show "attempt_result doc name = JNull \<or> py_eq (attempt_result doc' name) (attempt_result doc name)"
      if "name \<in> set artifact_fields" for name
      using c that by (auto simp: res_simps check_write_once_def attempt_result_def)
    show "\<not> py_eq (dict_get doc' ''audit'') (dict_get doc ''audit'')" using c by (auto simp: res_simps)
  qed
qed


subsection \<open>Chains of attempt documents\<close>

fun attempt_history :: "(string \<Rightarrow> string) \<Rightarrow> json_object list \<Rightarrow> bool" where
  "attempt_history digest (d # d' # ds) \<longleftrightarrow> attempt_step digest d d' \<and> attempt_history digest (d' # ds)"
| "attempt_history digest _ \<longleftrightarrow> True"

abbreviation attempt_steps where
  "attempt_steps digest \<equiv> (attempt_step digest)\<^sup>*\<^sup>*"

definition attempt_status_of :: "json_object \<Rightarrow> attempt_status" where
  "attempt_status_of doc = (case attempt_status_named (dict_get doc ''status'') of None \<Rightarrow> QUEUED | Some s \<Rightarrow> s)"

lemma attempt_status_of_text: "dict_get doc ''status'' = JStr (attempt_status_text s) \<Longrightarrow> attempt_status_of doc = s"
  using attempt_status_named_iff [of "dict_get doc ''status''" s] by (simp add: attempt_status_of_def)

lemma attempt_step_table: "attempt_step digest d d' \<Longrightarrow> (attempt_status_of d, attempt_status_of d') \<in> set attempt_transitions"
  by (erule attempt_step_facts) (simp add: attempt_status_of_text)

lemma attempt_history_table: "attempt_history digest ds \<Longrightarrow> run_of attempt_transitions (map attempt_status_of ds)"
  by (induction digest ds rule: attempt_history.induct) (auto dest: attempt_step_table)

lemma attempt_history_bounded:
  assumes "attempt_history digest ds" shows "length ds \<le> 4"
proof (cases ds)
  case (Cons d ds')
  have "run_of attempt_transitions (attempt_status_of d # map attempt_status_of ds')"
    using attempt_history_table [OF assms] Cons by simp
  then have "length (map attempt_status_of ds') \<le> attempt_rank (attempt_status_of d)" by (rule attempt.run_length)
  moreover have "attempt_rank s \<le> 3" for s by (cases s) simp_all
  ultimately have "length ds' \<le> 3" by (metis length_map le_trans)
  then show ?thesis using Cons by simp
qed simp

lemma attempt_steps_keep_field:
  assumes "attempt_steps digest d d'" and "f \<in> set immutable_attempt_fields"
  shows "dict_get d' f = dict_get d f \<or> py_eq (dict_get d' f) (dict_get d f)"
proof (rule kept_by_steps [OF assms(1), of "\<lambda>d. dict_get d f"])
  show "py_eq (dict_get z f) (dict_get y f)" if "attempt_step digest y z" for y z
    using that by (rule attempt_step_facts) (use assms(2) in blast)
qed

lemma attempt_steps_keep_result:
  assumes "attempt_steps digest d d'" and "name \<in> set artifact_fields" and "attempt_result d name \<noteq> JNull"
  shows "attempt_result d' name = attempt_result d name \<or> py_eq (attempt_result d' name) (attempt_result d name)"
proof (rule written_once_by_steps [OF assms(1), of "\<lambda>d. attempt_result d name"])
  show "attempt_result y name = JNull \<or> py_eq (attempt_result z name) (attempt_result y name)"
    if "attempt_step digest y z" for y z
    using that by (rule attempt_step_facts) (use assms(2) in blast)
qed (rule assms(3))

lemma attempt_steps_keep_start:
  assumes "attempt_steps digest d d'" and "dict_get d ''started_at_utc'' \<noteq> JNull"
  shows "dict_get d' ''started_at_utc'' = dict_get d ''started_at_utc''
    \<or> py_eq (dict_get d' ''started_at_utc'') (dict_get d ''started_at_utc'')"
proof (rule written_once_by_steps [OF assms(1), of "\<lambda>d. dict_get d ''started_at_utc''"])
  show "dict_get y ''started_at_utc'' = JNull \<or> py_eq (dict_get z ''started_at_utc'') (dict_get y ''started_at_utc'')"
    if "attempt_step digest y z" for y z
    using that by (rule attempt_step_facts) blast
qed (rule assms(2))

lemma attempt_revisions:
  assumes "attempt_history digest (d # ds)" and "k \<le> length ds"
  shows "attempt_revision ((d # ds) ! k) = attempt_revision d + int k"
  using assms
proof (induction ds arbitrary: d k)
  case (Cons d' ds)
  show ?case
  proof (cases k)
    case (Suc j)
    have "attempt_revision d' = attempt_revision d + 1" using Cons.prems(1) by (auto elim: attempt_step_facts)
    then show ?thesis using Cons.IH [of d' j] Cons.prems Suc by simp
  qed simp
qed simp

lemma terminal_attempt_is_final: "attempt_status_of d \<in> set attempt_terminal_statuses \<Longrightarrow> \<not> attempt_step digest d d'"
  using attempt_step_table attempt.stops by blast


lemma started_is_text:
  assumes "attempt_ok digest d" and "dict_get d ''started_at_utc'' \<noteq> JNull"
  obtains s where "dict_get d ''started_at_utc'' = JStr s"
proof -
  obtain available timeout where "check_attempt_times available timeout d = Inr ()"
    using assms(1) by (auto simp: attempt_ok_def elim: verified_attempt)
  then obtain t where "utc_stamp (dict_get d ''started_at_utc'') ''attempt.started_at_utc'' = Inr t"
    using assms(2) by (auto simp: check_attempt_times_def Let_def res_simps)
  then show ?thesis using that by (auto simp: utc_stamp_def split: json.splits)
qed

lemma attempt_starts_once:
  assumes "attempt_steps digest d d'" and "attempt_ok digest d" and "dict_get d ''started_at_utc'' \<noteq> JNull"
  shows "dict_get d' ''started_at_utc'' = dict_get d ''started_at_utc''"
proof -
  obtain s where "dict_get d ''started_at_utc'' = JStr s" using assms(2,3) by (rule started_is_text)
  then show ?thesis using attempt_steps_keep_start [OF assms(1,3)] by auto
qed

subsection \<open>Building the next document of an attempt\<close>

lemma dict_without_set: "dict_without (dict_set kvs k v) k = dict_without kvs k"
  by (induction kvs k v rule: dict_set.induct) (simp_all add: dict_without_def)

lemma with_fingerprint_own: "own_fingerprint digest (with_fingerprint digest doc f) f"
  by (simp add: own_fingerprint_def with_fingerprint_def Let_def dict_without_set)

lemma with_fingerprint_get [simp]: "g \<noteq> f \<Longrightarrow> dict_get (with_fingerprint digest doc f) g = dict_get doc g"
  by (simp add: with_fingerprint_def Let_def)

lemma with_fingerprint_keys [simp]: "fst ` set (with_fingerprint digest doc f) = insert f (fst ` set doc)"
  by (simp add: with_fingerprint_def Let_def)

text \<open>
  What a transition of an attempt needs besides a pair of the table: the outcome fits the status,
  and the moment lies in the window of the attempt and not before its start.
\<close>

definition outcome_fits :: "attempt_status \<Rightarrow> string option \<Rightarrow> bool" where
  "outcome_fits to_status failure_code =
     (if to_status \<in> set [DISPATCH_FAILED, TIMED_OUT, FAILED]
      then (case failure_code of None \<Rightarrow> False | Some c \<Rightarrow> is_failure_code (JStr c))
      else failure_code = None)"

definition moment_fits :: "json_object \<Rightarrow> attempt_status \<Rightarrow> string \<Rightarrow> bool" where
  "moment_fits doc to_status at =
     (if to_status = CANCEL_REQUESTED then True
      else if to_status = ACTIVE then
        (case (check_attempt_window doc, utc_stamp (JStr at) ''attempt.started_at_utc'') of
           (Inr (available, timeout), Inr t) \<Rightarrow> stamp_less t available = Inr False \<and> stamp_less timeout t = Inr False
         | _ \<Rightarrow> False)
      else if dict_get doc ''started_at_utc'' = JNull then True
      else (case (utc_stamp (dict_get doc ''started_at_utc'') ''attempt.started_at_utc'',
                  utc_stamp (JStr at) ''attempt.finished_at_utc'') of
              (Inr started, Inr t) \<Rightarrow> stamp_less t started = Inr False
            | _ \<Rightarrow> False))"

definition next_attempt ::
  "(string \<Rightarrow> string) \<Rightarrow> json_object \<Rightarrow> attempt_status \<Rightarrow> string \<Rightarrow> json_object \<Rightarrow> string option \<Rightarrow> json_object \<Rightarrow> json_object" where
  "next_attempt digest previous to_status occurred_at_utc audit failure_code results =
     with_fingerprint digest
       (foldl (\<lambda>d (k, v). dict_set d k v) previous
         [(''revision'', JInt (attempt_revision previous + 1)), (''status'', JStr (attempt_status_text to_status)),
          (''started_at_utc'', if to_status = ACTIVE \<and> dict_get previous ''started_at_utc'' = JNull
             then JStr occurred_at_utc else dict_get previous ''started_at_utc''),
          (''finished_at_utc'', if to_status \<in> set attempt_terminal_statuses then JStr occurred_at_utc
             else dict_get previous ''finished_at_utc''),
          (''failure_code'', jopt JStr failure_code), (''result_references'', JObj results), (''audit'', JObj audit)])
       ''attempt_fingerprint''"

lemma transition_attempt_eq:
  assumes "verify_attempt digest run previous before = Inr ()"
  shows "transition_attempt digest run previous to_status at audit failure_code results =
    (let attempt = next_attempt digest previous to_status at audit failure_code results
     in bind_res (verify_attempt digest run attempt (Some previous)) (\<lambda>_. Inr attempt))"
proof -
  have keys: "fst ` set previous = set attempt_field_names"
    using assms by (auto simp: verify_attempt_def check_attempt_identity_def require_fields_def res_simps)
  have present: "dict_item previous f = Inr (dict_get previous f)" if "f \<in> set attempt_field_names" for f
    using that keys by (intro dict_item_present) simp
  have "dict_item previous ''started_at_utc'' = Inr (dict_get previous ''started_at_utc'')"
    "dict_item previous ''finished_at_utc'' = Inr (dict_get previous ''finished_at_utc'')"
    "dict_item previous ''revision'' = Inr (dict_get previous ''revision'')"
    by (rule present, simp add: attempt_field_names_def)+
  moreover obtain n where "dict_get previous ''revision'' = JInt n" using assms by (auto elim: verified_attempt)
  ultimately show ?thesis
    by (simp add: transition_attempt_def next_attempt_def plus_one_def attempt_revision_def Let_def
        attempt_terminal_statuses_def del: foldl_Cons)
qed


lemma next_attempt_get [simp]:
  "f \<in> set immutable_attempt_fields \<Longrightarrow> dict_get (next_attempt digest d s at audit code results) f = dict_get d f"
  "dict_get (next_attempt digest d s at audit code results) ''revision'' = JInt (attempt_revision d + 1)"
  "dict_get (next_attempt digest d s at audit code results) ''status'' = JStr (attempt_status_text s)"
  "dict_get (next_attempt digest d s at audit code results) ''started_at_utc''
     = (if s = ACTIVE \<and> dict_get d ''started_at_utc'' = JNull then JStr at else dict_get d ''started_at_utc'')"
  "dict_get (next_attempt digest d s at audit code results) ''finished_at_utc''
     = (if s \<in> set attempt_terminal_statuses then JStr at else dict_get d ''finished_at_utc'')"
  "dict_get (next_attempt digest d s at audit code results) ''failure_code'' = jopt JStr code"
  "dict_get (next_attempt digest d s at audit code results) ''result_references'' = JObj results"
  "dict_get (next_attempt digest d s at audit code results) ''audit'' = JObj audit"
  by (auto simp: next_attempt_def immutable_attempt_fields_def)

lemma next_attempt_keys: "fst ` set (next_attempt digest d s at audit code results) =
    insert ''attempt_fingerprint'' (set [''revision'', ''status'', ''started_at_utc'', ''finished_at_utc'', ''failure_code'',
      ''result_references'', ''audit''] \<union> fst ` set d)"
  by (auto simp: next_attempt_def)


lemma next_attempt_succession:
  assumes ok: "attempt_ok digest d" and keys: "distinct_keys (JObj d)"
    and s: "dict_get d ''status'' = JStr (attempt_status_text s)" and step: "(s, s') \<in> set attempt_transitions"
    and once: "\<And>name. name \<in> set artifact_fields \<Longrightarrow> attempt_result d name = JNull \<or> py_eq (dict_get results name) (attempt_result d name)"
    and audit: "require_audit_reference (dict_get d ''audit'') ''previous_attempt.audit'' = Inr ()"
      "\<not> py_eq (JObj audit) (dict_get d ''audit'')"
    and started: "s' = ACTIVE \<Longrightarrow> dict_get d ''started_at_utc'' = JNull"
  shows "check_attempt_succession s' (next_attempt digest d s' at audit code results) d = Inr ()"
proof -
  have same: "py_eq (dict_get d f) (dict_get d f)" for f by (rule py_eq_refl [OF distinct_keys_get [OF keys]])
  obtain n where n: "dict_get d ''revision'' = JInt n" and obj: "is_object (dict_get d ''result_references'')"
    using ok by (auto elim: attempt_ok_facts)
  have named: "attempt_status_named (dict_get d ''status'') = Some s" using s by (simp add: attempt_status_named_iff)
  have "list_all (\<lambda>f. py_eq (dict_get (next_attempt digest d s' at audit code results) f) (dict_get d f)) immutable_attempt_fields"
    using same by (simp add: list_all_iff)
  moreover have "check_write_once ''planning_run_attempt.result_references'' (object_of (dict_get d ''result_references'')) results = Inr ()"
    using once by (auto simp: check_write_once_def attempt_result_def res_simps)
  ultimately show ?thesis
    using step started audit obj same n
    by (auto simp: check_attempt_succession_def named res_simps plus_one_def attempt_revision_def object_of_def)
qed

lemma next_attempt_evidence:
  assumes ev: "check_attempt_evidence s d = Inr ()" and step: "(s, s') \<in> set attempt_transitions"
    and outcome: "outcome_fits s' code"
  shows "check_attempt_evidence s' (next_attempt digest d s' at audit code results) = Inr ()"
proof -
  have "s = QUEUED \<or> s = ACTIVE \<or> s = CANCEL_REQUESTED" using step by (auto simp: attempt_transitions_def)
  then show ?thesis
    using ev step outcome
    by (elim disjE; cases s'; cases code)
      (simp_all add: check_attempt_evidence_def Let_def res_simps outcome_fits_def attempt_transitions_def
        attempt_terminal_statuses_def jopt_def)
qed

lemma next_attempt_times:
  assumes t: "check_attempt_times available timeout d = Inr ()" and w: "check_attempt_window d = Inr (available, timeout)"
    and ev: "check_attempt_evidence s d = Inr ()" and step: "(s, s') \<in> set attempt_transitions"
    and m: "moment_fits d s' at"
  shows "check_attempt_times available timeout (next_attempt digest d s' at audit code results) = Inr ()"
proof (cases "s' = ACTIVE")
  case True
  then have "s = QUEUED" using step by (auto simp: attempt_transitions_def)
  then have "dict_get d ''started_at_utc'' = JNull" "dict_get d ''finished_at_utc'' = JNull"
    using ev by (simp_all add: check_attempt_evidence_def Let_def res_simps)
  then show ?thesis using m True w
    by (auto simp: check_attempt_times_def Let_def moment_fits_def attempt_terminal_iff res_simps split: sum.splits)
next
  case False
  then show ?thesis using t m
    by (cases "s' = CANCEL_REQUESTED")
      (auto simp: check_attempt_times_def Let_def moment_fits_def attempt_terminal_iff res_simps split: sum.splits if_splits)
qed


lemma next_attempt_bound:
  "check_attempt_binding run (next_attempt digest d s at audit code results) = check_attempt_binding run d"
  "check_attempt_window (next_attempt digest d s at audit code results) = check_attempt_window d"
proof -
  let ?d' = "next_attempt digest d s at audit code results"
  have *: "dict_get ?d' ''expected_run_fingerprint'' = dict_get d ''expected_run_fingerprint''"
    "dict_get ?d' ''runtime_resolution_fingerprint'' = dict_get d ''runtime_resolution_fingerprint''"
    "dict_get ?d' ''extension_set_fingerprint'' = dict_get d ''extension_set_fingerprint''"
    "dict_get ?d' ''expected_run_revision'' = dict_get d ''expected_run_revision''"
    "dict_get ?d' ''expected_run_state'' = dict_get d ''expected_run_state''"
    "dict_get ?d' ''available_at_utc'' = dict_get d ''available_at_utc''"
    "dict_get ?d' ''timeout_at_utc'' = dict_get d ''timeout_at_utc''"
    by (rule next_attempt_get(1), simp add: immutable_attempt_fields_def)+
  then show "check_attempt_binding run ?d' = check_attempt_binding run d"
    "check_attempt_window ?d' = check_attempt_window d"
    by (simp_all only: check_attempt_binding_def check_attempt_window_def)
qed

lemma next_attempt_identity:
  assumes "check_attempt_identity digest run d = Inr s"
  shows "check_attempt_identity digest run (next_attempt digest d s' at audit code results) = Inr s'"
proof -
  let ?d' = "next_attempt digest d s' at audit code results"
  have same: "dict_get ?d' ''attempt_version'' = dict_get d ''attempt_version''"
    "dict_get ?d' ''planning_run_id'' = dict_get d ''planning_run_id''"
    "dict_get ?d' ''attempt_number'' = dict_get d ''attempt_number''"
    by (rule next_attempt_get(1), simp add: immutable_attempt_fields_def)+
  have keys: "fst ` set d = set attempt_field_names" and revision: "1 \<le> attempt_revision d"
    using assms by (auto simp: check_attempt_identity_def require_fields_def res_simps attempt_revision_def split: json.splits)
  have fields: "fst ` set ?d' = set attempt_field_names"
    unfolding next_attempt_keys keys by (auto simp: attempt_field_names_def)
  have "own_fingerprint digest ?d' ''attempt_fingerprint''"
    unfolding next_attempt_def by (rule with_fingerprint_own)
  moreover have "attempt_status_named (JStr (attempt_status_text s')) = Some s'" by (simp add: attempt_status_named_iff)
  ultimately show ?thesis using assms fields revision
    by (auto simp: check_attempt_identity_def require_fields_def res_simps same split: json.splits)
qed

lemma audit_reference_field: "require_audit_reference v f = Inr () \<Longrightarrow> require_audit_reference v g = Inr ()"
  by (cases v) (simp_all add: require_audit_reference_def require_fields_def require_fingerprint_def res_simps)

lemma transition_attempt_accepted:
  assumes v: "verify_attempt digest run d before = Inr ()" and keys: "distinct_keys (JObj d)"
    and s: "dict_get d ''status'' = JStr (attempt_status_text s)" and step: "(s, s') \<in> set attempt_transitions"
    and outcome: "outcome_fits s' code" and moment: "moment_fits d s' at"
    and audit: "require_audit_reference (JObj audit) ''planning_run_attempt.audit'' = Inr ()"
      "\<not> py_eq (JObj audit) (dict_get d ''audit'')"
    and results: "set (map fst results) = set artifact_fields"
      "\<And>name. name \<in> set artifact_fields \<Longrightarrow> attempt_result d name = JNull \<or> py_eq (dict_get results name) (attempt_result d name)"
  shows "transition_attempt digest run d s' at audit code results = Inr (next_attempt digest d s' at audit code results)"
proof -
  let ?d' = "next_attempt digest d s' at audit code results"
  have ok: "attempt_ok digest d" using v by (auto simp: attempt_ok_def)
  obtain u available timeout where i: "check_attempt_identity digest (ra_document run) d = Inr u"
    and b: "check_attempt_binding (ra_document run) d = Inr ()"
    and w: "check_attempt_window d = Inr (available, timeout)" and ev: "check_attempt_evidence u d = Inr ()"
    and t: "check_attempt_times available timeout d = Inr ()"
    and old: "require_audit_reference (dict_get d ''audit'') ''planning_run_attempt.audit'' = Inr ()"
    using v by (auto simp: verify_attempt_def res_simps)
  have "u = s" using i s by (auto simp: check_attempt_identity_def res_simps attempt_status_named_iff split: option.splits)
      (metis attempt_status_named_iff option.inject)
  note ev = ev [unfolded this]
  have old': "require_audit_reference (dict_get d ''audit'') ''previous_attempt.audit'' = Inr ()"
    using old audit_reference_field by blast
  have started: "dict_get d ''started_at_utc'' = JNull" if "s' = ACTIVE"
    using that step ev by (auto simp: attempt_transitions_def check_attempt_evidence_def Let_def res_simps)
  have "check_attempt_results ?d' = Inr ()" using results(1) by (simp add: check_attempt_results_def res_simps is_object_def object_of_def)
  moreover have "check_attempt_succession s' ?d' d = Inr ()"
    by (rule next_attempt_succession [OF ok keys s step results(2) old' audit(2) started])
  ultimately have "verify_attempt digest run ?d' (Some d) = Inr ()"
    using next_attempt_identity [OF i] b w next_attempt_evidence [OF ev step outcome]
      next_attempt_times [OF t w ev step moment] audit(1)
    by (simp add: verify_attempt_def next_attempt_bound res_simps)
  then show ?thesis by (simp add: transition_attempt_eq [OF v] Let_def)
qed

lemma transition_attempt_sound:
  assumes "verify_attempt digest run d before = Inr ()"
    and "transition_attempt digest run d s' at audit code results = Inr d'"
  shows "attempt_step digest d d' \<and> d' = next_attempt digest d s' at audit code results
    \<and> verify_attempt digest run d' (Some d) = Inr ()"
  using assms(2) unfolding transition_attempt_eq [OF assms(1)]
  using assms(1) by (auto simp: Let_def res_simps attempt_step_def attempt_ok_def)

lemma attempt_history_steps: "attempt_history digest (d # ds) \<Longrightarrow> d' \<in> set ds \<Longrightarrow> attempt_steps digest d d'"
proof (induction ds arbitrary: d)
  case (Cons e ds)
  then have "attempt_step digest d e" "d' = e \<or> d' \<in> set ds" "attempt_history digest (e # ds)" by simp_all
  then show ?case using Cons.IH [of e] by (auto intro: converse_rtranclp_into_rtranclp)
qed simp

end
