(* ===== verification/Run_Example.thy ===== *)
theory Run_Example
  imports Attempt_History
begin

section \<open>A stored run and an attempt\<close>

text \<open>
  A planning run that was created and began ingestion, and an attempt of it that is queued and then
  active, under a constant digest and a schema catalogue that accepts everything.
\<close>

definition ex_digest :: "string \<Rightarrow> string" where
  "ex_digest s = replicate 64 CHR ''0''"

definition ex_schema_ok :: "string \<Rightarrow> json_object \<Rightarrow> bool" where
  "ex_schema_ok schema_id doc = True"

definition ex_fingerprint :: json where
  "ex_fingerprint = JStr (''sha256:'' @ replicate 64 CHR ''0'')"

definition ex_audit :: "string \<Rightarrow> json_object" where
  "ex_audit name = [(''document_version'', JStr ''audit-event.v1''), (''artifact_id'', JStr name),
     (''fingerprint'', ex_fingerprint)]"

definition ex_artifacts :: json_object where
  "ex_artifacts = map (\<lambda>f. (f, JNull)) artifact_fields"

definition ex_transition :: "string \<Rightarrow> json \<Rightarrow> int \<Rightarrow> string list \<Rightarrow> json_object" where
  "ex_transition state from_state sequence audits =
     [(''sequence'', JInt sequence), (''from_state'', from_state), (''to_state'', JStr state),
      (''occurred_at_utc'', JStr ''2026-01-01T00:00:00Z''), (''audit'', JObj (ex_audit (last audits)))]"

definition ex_run_document :: "string \<Rightarrow> json \<Rightarrow> int \<Rightarrow> string list \<Rightarrow> json_object" where
  "ex_run_document state from_state sequence audits =
     [(''planning_run_version'', JStr ''planning-run.v1''), (''planning_run_id'', JStr ''run''),
      (''effective_scope'', JObj [(''scope_fingerprint'', ex_fingerprint)]),
      (''runtime_resolution'', JObj [(''resolution_fingerprint'', ex_fingerprint),
         (''extension_set'', JObj [(''extension_set_fingerprint'', ex_fingerprint)])]),
      (''revision'', JInt (sequence + 1)), (''state'', JStr state),
      (''updated_at_utc'', JStr ''2026-01-01T00:00:00Z''),
      (''last_transition'', JObj (ex_transition state from_state sequence audits)),
      (''audit_references'', JArr (map (\<lambda>a. JObj (ex_audit a)) audits)),
      (''artifacts'', JObj ex_artifacts), (''run_fingerprint'', ex_fingerprint)]"

definition ex_created :: run_aggregate where
  "ex_created = \<lparr>ra_document = ex_run_document ''CREATED'' JNull 0 [''a1''],
     ra_initial_document = ex_run_document ''CREATED'' JNull 0 [''a1''], ra_prepared_artifacts = []\<rparr>"

definition ex_ingesting :: run_aggregate where
  "ex_ingesting = ex_created\<lparr>ra_document := ex_run_document ''INGESTING'' (JStr ''CREATED'') 1 [''a1'', ''a2'']\<rparr>"

definition ex_attempt :: "json_object" where
  "ex_attempt =
     [(''attempt_version'', JStr ''planning-run-attempt.v1''), (''attempt_id'', JStr ''attempt''),
      (''planning_run_id'', JStr ''run''), (''attempt_number'', JInt 1), (''revision'', JInt 1),
      (''status'', JStr ''QUEUED''), (''expected_run_revision'', JInt 1), (''expected_run_state'', JStr ''CREATED''),
      (''expected_run_fingerprint'', ex_fingerprint), (''runtime_resolution_fingerprint'', ex_fingerprint),
      (''extension_set_fingerprint'', ex_fingerprint), (''available_at_utc'', JStr ''2026-01-01T00:00:00Z''),
      (''timeout_at_utc'', JStr ''2026-01-01T01:00:00Z''), (''started_at_utc'', JNull), (''finished_at_utc'', JNull),
      (''failure_code'', JNull), (''result_references'', JObj ex_artifacts), (''audit'', JObj (ex_audit ''a3'')),
      (''attempt_fingerprint'', ex_fingerprint)]"

lemma ex_fingerprint_ok [simp]: "is_fingerprint ex_fingerprint"
  by (simp add: is_fingerprint_def ex_fingerprint_def lower_hex_def Let_def eval_nat_numeral)

lemma ex_audit_ok [simp]: "name \<noteq> '''' \<Longrightarrow> require_audit_reference (JObj (ex_audit name)) field = Inr ()"
  by (simp add: require_audit_reference_def ex_audit_def require_fields_def require_fingerprint_def check_or_def
      dict_get_def check_seq.simps)

lemma ex_own [simp]: "own_fingerprint ex_digest doc f \<longleftrightarrow> dict_get doc f = ex_fingerprint"
  by (simp add: own_fingerprint_def canonical_fingerprint_def ex_digest_def ex_fingerprint_def)

lemma ex_stamps:
  "utc_stamp (JStr ''2026-01-01T00:00:00Z'') f = Inr (Aware 63902822400000000)"
  "utc_stamp (JStr ''2026-01-01T00:30:00Z'') f = Inr (Aware 63902824200000000)"
  "utc_stamp (JStr ''2026-01-01T01:00:00Z'') f = Inr (Aware 63902826000000000)"
proof -
  have "stamp_of_text ''2026-01-01T00:00:00'' = Some (Aware 63902822400000000)"
    "stamp_of_text ''2026-01-01T00:30:00'' = Some (Aware 63902824200000000)"
    "stamp_of_text ''2026-01-01T01:00:00'' = Some (Aware 63902826000000000)" by code_simp+
  then show "utc_stamp (JStr ''2026-01-01T00:00:00Z'') f = Inr (Aware 63902822400000000)"
    "utc_stamp (JStr ''2026-01-01T00:30:00Z'') f = Inr (Aware 63902824200000000)"
    "utc_stamp (JStr ''2026-01-01T01:00:00Z'') f = Inr (Aware 63902826000000000)" by (simp_all add: utc_stamp_def)
qed

lemma ex_run_get:
  "dict_get (ex_run_document s f n as) ''planning_run_version'' = JStr ''planning-run.v1''"
  "dict_get (ex_run_document s f n as) ''planning_run_id'' = JStr ''run''"
  "dict_get (ex_run_document s f n as) ''effective_scope'' = JObj [(''scope_fingerprint'', ex_fingerprint)]"
  "dict_get (ex_run_document s f n as) ''runtime_resolution'' = JObj [(''resolution_fingerprint'', ex_fingerprint),
     (''extension_set'', JObj [(''extension_set_fingerprint'', ex_fingerprint)])]"
  "dict_get (ex_run_document s f n as) ''revision'' = JInt (n + 1)"
  "dict_get (ex_run_document s f n as) ''state'' = JStr s"
  "dict_get (ex_run_document s f n as) ''updated_at_utc'' = JStr ''2026-01-01T00:00:00Z''"
  "dict_get (ex_run_document s f n as) ''audit_references'' = JArr (map (\<lambda>a. JObj (ex_audit a)) as)"
  "dict_get (ex_run_document s f n as) ''artifacts'' = JObj ex_artifacts"
  "dict_get (ex_run_document s f n as) ''run_fingerprint'' = ex_fingerprint"
  "dict_get (ex_run_document s f n as) ''last_transition'' = JObj (ex_transition s f n as)"
  "dict_get (ex_run_document s f n as) ''cancellation'' = JNull" "dict_get (ex_run_document s f n as) ''attempt'' = JNull"
  by (simp_all add: ex_run_document_def dict_get_def)

lemma ex_transition_get:
  "dict_get (ex_transition s f n as) ''sequence'' = JInt n" "dict_get (ex_transition s f n as) ''from_state'' = f"
  "dict_get (ex_transition s f n as) ''to_state'' = JStr s"
  "dict_get (ex_transition s f n as) ''occurred_at_utc'' = JStr ''2026-01-01T00:00:00Z''"
  "dict_get (ex_transition s f n as) ''audit'' = JObj (ex_audit (last as))"
  by (simp_all add: ex_transition_def dict_get_def)

lemma ex_audit_eq [simp]: "py_eq (JObj (ex_audit a)) (JObj (ex_audit b)) \<longleftrightarrow> a = b"
  by (auto simp: ex_audit_def ex_fingerprint_def)

declare py_eq.simps(1) [simp del]

lemma ex_artifact_get [simp]: "dict_get ex_artifacts name = JNull"
  by (auto simp: ex_artifacts_def dict_get_def split: option.splits dest!: map_of_SomeD)

lemma ex_immutable:
  "g \<in> set immutable_run_fields \<Longrightarrow> py_eq (dict_get (ex_run_document s f n as) g) (dict_get (ex_run_document s' f' n' as') g)"
  by (auto simp: immutable_run_fields_def ex_run_document_def dict_get_def ex_fingerprint_def py_eq.simps(1))

lemma ex_run_lineage:
  "check_run_schema ex_schema_ok \<lparr>ra_document = ex_run_document s f n as, ra_initial_document = i, ra_prepared_artifacts = p\<rparr> = Inr ()"
  "check_run_lineage ex_digest \<lparr>ra_document = ex_run_document s f n as,
     ra_initial_document = ex_run_document ''CREATED'' JNull 0 bs, ra_prepared_artifacts = p\<rparr> = Inr ()"
  "check_run_artifacts \<lparr>ra_document = ex_run_document s f n as, ra_initial_document = i, ra_prepared_artifacts = p\<rparr> = Inr ()"
proof -
  have "dict_get [(''scope_fingerprint'', ex_fingerprint)] ''scope_fingerprint'' = ex_fingerprint"
    "dict_get ((''resolution_fingerprint'', ex_fingerprint) # xs) ''resolution_fingerprint'' = ex_fingerprint" for xs
    by (simp_all add: dict_get_def)
  then show "check_run_lineage ex_digest \<lparr>ra_document = ex_run_document s f n as,
     ra_initial_document = ex_run_document ''CREATED'' JNull 0 bs, ra_prepared_artifacts = p\<rparr> = Inr ()"
    by (auto simp: check_run_lineage_def ex_run_get res_simps Let_def is_object_def object_of_def ex_immutable)
qed (auto simp: check_run_schema_def ex_schema_ok_def check_run_artifacts_def ex_run_get res_simps Let_def is_object_def)

lemma ex_run_evidence:
  "int (length as) = n + 1 \<Longrightarrow>
     check_run_evidence (ex_run_document s f n as) = Inr (ex_transition s f n as, n, map (\<lambda>a. JObj (ex_audit a)) as)"
  by (simp add: evidence_iff ex_run_get ex_transition_get)

lemma ex_run_audits:
  "as \<noteq> [] \<Longrightarrow> [] \<notin> set as \<Longrightarrow>
     check_run_audits (ex_run_document s f n as) (ex_transition s f n as) (map (\<lambda>a. JObj (ex_audit a)) as) = Inr ()"
  by (auto simp: check_run_audits_def ex_run_get ex_transition_get res_simps is_object_def last_map
      intro!: check_each_okI ex_audit_ok)

lemma ex_created_ok: "verify_planning_run ex_digest ex_schema_ok ex_created None = Inr ()"
proof -
  have "check_run_pair (ex_transition ''CREATED'' JNull 0 [''a1'']) 0 = Inr ()"
    by (simp add: check_run_pair_def ex_transition_get res_simps)
  then show ?thesis
    using ex_run_audits [of "[''a1'']" "''CREATED''" JNull 0]
    by (simp add: verify_planning_run_def ex_created_def ex_run_lineage ex_run_evidence res_simps)
qed

lemma ex_run_step: "run_step ex_digest ex_schema_ok ex_created ex_ingesting"
proof -
  let ?t = "ex_transition ''INGESTING'' (JStr ''CREATED'') 1 [''a1'', ''a2'']"
  let ?d = "ex_run_document ''CREATED'' JNull 0 [''a1'']"
  let ?d' = "ex_run_document ''INGESTING'' (JStr ''CREATED'') 1 [''a1'', ''a2'']"
  have "check_run_pair ?t 1 = Inr ()"
    by (simp add: check_run_pair_def ex_transition_get planning_run_transition_iff run_tables_agree(3) [symmetric]
        planning_run_transitions_def)
  moreover have "check_run_succession ?d' ?t 1 ?d = Inr ()"
    by (simp add: check_run_succession_def ex_run_get ex_transition_get Let_def is_object_def object_of_def text_in_def
        plus_one_def whole_number_def planning_run_terminal_states_def)
  moreover have "check_run_clock ?d' ?d = Inr ()"
    by (simp add: check_run_clock_def dict_item_def ex_run_document_def ex_stamps res_simps)
  ultimately have "verify_planning_run ex_digest ex_schema_ok ex_ingesting (Some ?d) = Inr ()"
    using ex_run_audits [of "[''a1'', ''a2'']" "''INGESTING''" "JStr ''CREATED''" 1]
    by (simp add: verify_planning_run_def ex_ingesting_def ex_created_def ex_run_lineage ex_run_evidence
        res_simps check_run_history_def ex_run_get check_write_once_def)
  then show ?thesis using ex_created_ok by (auto simp: run_step_def run_ok_def ex_created_def)
qed

lemma ex_attempt_get:
  "dict_get ex_attempt ''attempt_version'' = JStr ''planning-run-attempt.v1''"
  "dict_get ex_attempt ''planning_run_id'' = JStr ''run''" "dict_get ex_attempt ''attempt_number'' = JInt 1"
  "dict_get ex_attempt ''revision'' = JInt 1" "dict_get ex_attempt ''status'' = JStr (attempt_status_text QUEUED)"
  "dict_get ex_attempt ''expected_run_revision'' = JInt 1" "dict_get ex_attempt ''expected_run_state'' = JStr ''CREATED''"
  "dict_get ex_attempt ''expected_run_fingerprint'' = ex_fingerprint"
  "dict_get ex_attempt ''runtime_resolution_fingerprint'' = ex_fingerprint"
  "dict_get ex_attempt ''extension_set_fingerprint'' = ex_fingerprint"
  "dict_get ex_attempt ''available_at_utc'' = JStr ''2026-01-01T00:00:00Z''"
  "dict_get ex_attempt ''timeout_at_utc'' = JStr ''2026-01-01T01:00:00Z''"
  "dict_get ex_attempt ''started_at_utc'' = JNull" "dict_get ex_attempt ''finished_at_utc'' = JNull"
  "dict_get ex_attempt ''failure_code'' = JNull" "dict_get ex_attempt ''result_references'' = JObj ex_artifacts"
  "dict_get ex_attempt ''audit'' = JObj (ex_audit ''a3'')" "dict_get ex_attempt ''attempt_fingerprint'' = ex_fingerprint"
  by (simp_all add: ex_attempt_def dict_get_def)

lemma ex_fingerprint_eq [simp]: "py_eq ex_fingerprint v \<longleftrightarrow> v = ex_fingerprint"
  by (auto simp: ex_fingerprint_def)

lemma ex_attempt_identity: "check_attempt_identity ex_digest (ra_document ex_created) ex_attempt = Inr QUEUED"
proof -
  have "set (map fst ex_attempt) = set attempt_field_names" by (simp add: ex_attempt_def attempt_field_names_def)
  moreover have "attempt_status_named (JStr (attempt_status_text QUEUED)) = Some QUEUED"
    using attempt_status_named_iff [of _ QUEUED] by blast
  ultimately show ?thesis
    by (simp add: check_attempt_identity_def require_fields_def ex_attempt_get ex_created_def ex_run_get res_simps
        del: attempt_status_text.simps)
qed

lemma ex_attempt_binding: "check_attempt_binding (ra_document ex_created) ex_attempt = Inr ()"
proof -
  have "dict_get [(''resolution_fingerprint'', ex_fingerprint), (''extension_set'', JObj xs)] ''resolution_fingerprint'' = ex_fingerprint"
    "dict_get [(''resolution_fingerprint'', ex_fingerprint), (''extension_set'', JObj xs)] ''extension_set'' = JObj xs"
    "dict_get [(''extension_set_fingerprint'', ex_fingerprint)] ''extension_set_fingerprint'' = ex_fingerprint" for xs
    by (simp_all add: dict_get_def)
  then show ?thesis
    by (simp add: check_attempt_binding_def ex_attempt_get ex_created_def ex_run_get res_simps require_fingerprint_def
        is_object_def object_of_def Let_def text_in_def planning_run_states_def)
qed

lemma ex_attempt_window:
  "check_attempt_window ex_attempt = Inr (Aware 63902822400000000, Aware 63902826000000000)"
  by (simp add: check_attempt_window_def ex_attempt_get ex_stamps res_simps)

lemma ex_artifact_keys: "set (map fst ex_artifacts) = set artifact_fields"
  by (simp add: ex_artifacts_def)

lemma ex_attempt_ok: "verify_attempt ex_digest ex_created ex_attempt None = Inr ()"
  using ex_artifact_keys
  by (simp add: verify_attempt_def ex_attempt_identity ex_attempt_binding ex_attempt_window res_simps
      check_attempt_evidence_def check_attempt_results_def check_attempt_times_def ex_attempt_get is_object_def object_of_def)

lemma ex_attempt_distinct: "distinct_keys (JObj ex_attempt)"
  by (simp add: ex_attempt_def ex_artifacts_def artifact_fields_def ex_audit_def ex_fingerprint_def)

lemma ex_moment: "moment_fits ex_attempt ACTIVE ''2026-01-01T00:30:00Z''"
  by (simp add: moment_fits_def ex_attempt_window ex_stamps)

lemma ex_attempt_step:
  "attempt_step ex_digest ex_attempt
     (next_attempt ex_digest ex_attempt ACTIVE ''2026-01-01T00:30:00Z'' (ex_audit ''a4'') None ex_artifacts)"
proof -
  have "transition_attempt ex_digest ex_created ex_attempt ACTIVE ''2026-01-01T00:30:00Z'' (ex_audit ''a4'') None ex_artifacts
    = Inr (next_attempt ex_digest ex_attempt ACTIVE ''2026-01-01T00:30:00Z'' (ex_audit ''a4'') None ex_artifacts)"
    using ex_artifact_keys
    by (intro transition_attempt_accepted [OF ex_attempt_ok ex_attempt_distinct ex_attempt_get(5) _ _ ex_moment])
      (simp_all add: attempt_transitions_def outcome_fits_def ex_attempt_get attempt_result_def object_of_def)
  from transition_attempt_sound [OF ex_attempt_ok this] show ?thesis by blast
qed

end
