(* ===== verification/Float_Ratio.thy ===== *)
theory Float_Ratio
  imports Complex_Main "HOL-Library.Log_Nat"
begin

section \<open>Ratios of integers in floating point\<close>

text \<open>
  What \<open>round(a / b, 12)\<close> gives for integers: Python's true division returns the double nearest to
  the quotient, ties to even, and \<open>round\<close> with a number of digits returns the double nearest to
  the decimal that is nearest to it, ties to even. Doubles are the rationals they stand for. The
  quotients of the code lie far inside the range of normal doubles, so the exponent is not bounded.
\<close>

definition round_half_even :: "rat \<Rightarrow> int" where
  "round_half_even q =
     (let f = \<lfloor>q\<rfloor>; r = q - of_int f
      in if r < 1 / 2 then f else if 1 / 2 < r then f + 1 else if even f then f else f + 1)"

definition binary_power :: "int \<Rightarrow> rat" where
  "binary_power e = (if 0 \<le> e then 2 ^ nat e else 1 / 2 ^ nat (- e))"

text \<open>The exponent of the binade of a positive rational.\<close>

definition binade :: "rat \<Rightarrow> int" where
  "binade q =
     (case quotient_of q of (a, b) \<Rightarrow>
        let k = int (floorlog 2 (nat a)) - int (floorlog 2 (nat b))
        in if binary_power k \<le> q then k else k - 1)"

definition nearest_double :: "rat \<Rightarrow> rat" where
  "nearest_double q =
     (if q = 0 then 0
      else let unit = binary_power (binade q - 52) in of_int (round_half_even (q / unit)) * unit)"

definition true_division :: "int \<Rightarrow> int \<Rightarrow> rat" where
  "true_division a b = nearest_double (of_int a / of_int b)"

definition round_digits :: "nat \<Rightarrow> rat \<Rightarrow> rat" where
  "round_digits n x = nearest_double (of_int (round_half_even (x * 10 ^ n)) / 10 ^ n)"

definition rounded_ratio :: "int \<Rightarrow> int \<Rightarrow> rat" where
  "rounded_ratio a b = round_digits 12 (true_division a b)"

subsection \<open>Bounds\<close>

lemma round_half_even_close: "\<bar>of_int (round_half_even q) - q\<bar> \<le> 1 / 2"
proof -
  have "of_int \<lfloor>q\<rfloor> \<le> q" "q < of_int \<lfloor>q\<rfloor> + 1" by linarith+
  then show ?thesis unfolding round_half_even_def Let_def by (simp split: if_split)
qed

lemma round_half_even_of_int [simp]: "round_half_even (of_int n) = n"
  by (simp add: round_half_even_def)

lemma round_half_even_le: assumes "q \<le> of_int n" shows "round_half_even q \<le> n"
proof (cases "q = of_int n")
  case False
  then have "\<lfloor>q\<rfloor> < n" using assms by linarith
  then show ?thesis by (auto simp: round_half_even_def Let_def)
qed simp

lemma round_half_even_nonneg: "0 \<le> q \<Longrightarrow> 0 \<le> round_half_even q"
  by (auto simp: round_half_even_def Let_def)

lemma binary_power_pos [simp]: "0 < binary_power e"
  by (simp add: binary_power_def)

lemma binary_power_nonneg [simp]: "0 \<le> binary_power e"
  by (simp add: binary_power_def)

lemma binary_power_add: "binary_power (a + b) = binary_power a * binary_power b"
proof -
  have "(2::rat) ^ m / 2 ^ n = binary_power (int m - int n)" for m n
  proof (cases "n \<le> m")
    case True
    then show ?thesis by (simp add: binary_power_def power_diff nat_diff_distrib)
  next
    case False
    then show ?thesis by (simp add: binary_power_def power_diff nat_diff_distrib)
  qed
  moreover have "binary_power e = 2 ^ nat e / 2 ^ nat (- e)" for e by (simp add: binary_power_def)
  moreover have "int (nat a + nat b) - int (nat (- a) + nat (- b)) = a + b" by simp
  ultimately show ?thesis by (metis power_add times_divide_times_eq)
qed

lemma binary_power_values: "binary_power 0 = 1" "binary_power 1 = 2" "binary_power 53 = 9007199254740992" "binary_power (-52) = 1 / 4503599627370496"
  by (simp_all add: binary_power_def)

lemma binary_power_mono: "a \<le> b \<Longrightarrow> binary_power a \<le> binary_power b"
proof -
  assume "a \<le> b"
  have "1 \<le> binary_power (b - a)" using \<open>a \<le> b\<close> by (simp add: binary_power_def)
  then have "binary_power a * 1 \<le> binary_power a * binary_power (b - a)" using binary_power_pos [of a] by (intro mult_left_mono) simp_all
  also have "\<dots> = binary_power b" using binary_power_add [of a "b - a"] by simp
  finally show ?thesis by simp
qed

lemma floorlog_binade: "0 < n \<Longrightarrow> binary_power (int (floorlog 2 n) - 1) \<le> of_nat n \<and> of_nat n < binary_power (int (floorlog 2 n))"
proof -
  assume n: "0 < n"
  obtain k where k: "floorlog 2 n = Suc k" using n by (simp add: floorlog_def)
  have "2 ^ k \<le> n \<and> n < 2 ^ Suc k" using n floorlog_bounds [of n 2] by (simp add: k)
  then have "(2::rat) ^ k \<le> of_nat n \<and> of_nat n < (2::rat) ^ Suc k"
    by (metis of_nat_le_iff of_nat_less_iff of_nat_numeral of_nat_power)
  moreover have "nat (1 + int k) = Suc k" by simp
  ultimately show ?thesis by (simp add: k binary_power_def del: power_Suc)
qed

lemma binade_bounds:
  assumes "0 < q"
  shows "binary_power (binade q) \<le> q \<and> q < binary_power (binade q + 1)"
proof -
  obtain a b where ab: "quotient_of q = (a, b)" by fastforce
  have b: "0 < b" by (rule quotient_of_denom_pos [OF ab])
  have q: "q = of_int a / of_int b" by (rule quotient_of_div [OF ab])
  then have a: "0 < a" using assms b by (simp add: zero_less_divide_iff)
  define m n where "m = int (floorlog 2 (nat a))" and "n = int (floorlog 2 (nat b))"
  have A: "binary_power (m - 1) \<le> of_int a" "of_int a < binary_power m" using floorlog_binade [of "nat a"] a by (simp_all add: m_def)
  have B: "binary_power (n - 1) \<le> of_int b" "of_int b < binary_power n" using floorlog_binade [of "nat b"] b by (simp_all add: n_def)
  have low: "binary_power (m - n - 1) \<le> q"
  proof -
    have "binary_power (m - n - 1) * of_int b \<le> binary_power (m - n - 1) * binary_power n"
      using B(2) binary_power_pos [of "m - n - 1"] by (intro mult_left_mono) simp_all
    also have "\<dots> = binary_power (m - 1)" using binary_power_add [of "m - n - 1" n] by simp
    also have "\<dots> \<le> of_int a" by (rule A(1))
    finally show ?thesis using b by (simp add: q pos_le_divide_eq)
  qed
  have high: "q < binary_power (m - n + 1)"
  proof -
    have "of_int a < binary_power m" by (rule A(2))
    also have "\<dots> = binary_power (m - n + 1) * binary_power (n - 1)" using binary_power_add [of "m - n + 1" "n - 1"] by simp
    also have "\<dots> \<le> binary_power (m - n + 1) * of_int b" using B(1) binary_power_pos [of "m - n + 1"] by (intro mult_left_mono) simp_all
    finally show ?thesis using b by (simp add: q pos_divide_less_eq)
  qed
  show ?thesis using low high by (auto simp: binade_def ab Let_def m_def [symmetric] n_def [symmetric])
qed


lemma nearest_double_close:
  assumes "0 \<le> q"
  shows "\<bar>nearest_double q - q\<bar> \<le> q / 9007199254740992"
proof (cases "q = 0")
  case False
  then have q: "0 < q" using assms by simp
  define u where "u = binary_power (binade q - 52)"
  have u: "0 < u" by (simp add: u_def)
  have "u = binary_power (binade q) / 4503599627370496"
    using binary_power_add [of "binade q" "-52"] by (simp add: u_def binary_power_values)
  then have small: "u \<le> q / 4503599627370496" using binade_bounds [OF q] by (simp add: divide_right_mono)
  have "nearest_double q - q = (of_int (round_half_even (q / u)) - q / u) * u"
    using u False by (simp add: nearest_double_def u_def [symmetric] Let_def left_diff_distrib)
  then have "\<bar>nearest_double q - q\<bar> = \<bar>of_int (round_half_even (q / u)) - q / u\<bar> * u" using u by (simp add: abs_mult)
  also have "\<dots> \<le> 1 / 2 * u" using round_half_even_close [of "q / u"] u by (intro mult_right_mono) simp_all
  also have "\<dots> \<le> q / 9007199254740992" using small by simp
  finally show ?thesis .
qed (simp add: nearest_double_def)

lemma nearest_double_unit:
  assumes "0 \<le> q" and "q \<le> 1"
  shows "0 \<le> nearest_double q \<and> nearest_double q \<le> 1"
proof (cases "q = 0 \<or> q = 1")
  case False
  then have q: "0 < q" "q < 1" using assms by auto
  define u where "u = binary_power (binade q - 52)"
  have u: "0 < u" by (simp add: u_def)
  have top: "binary_power (binade q + 1) = of_int 9007199254740992 * u"
    using binary_power_add [of "binade q - 52" 53] by (simp add: u_def binary_power_values add.commute)
  have "binade q < 0"
  proof (rule ccontr)
    assume "\<not> binade q < 0"
    then have "binary_power 0 \<le> binary_power (binade q)" by (intro binary_power_mono) simp
    then show False using binade_bounds [OF q(1)] q(2) by (simp add: binary_power_values)
  qed
  then have one: "binary_power (binade q + 1) \<le> 1"
    using binary_power_mono [of "binade q + 1" 0] by (simp add: binary_power_values)
  have "q / u < of_int 9007199254740992"
    using binade_bounds [OF q(1)] u by (simp add: top pos_divide_less_eq)
  then have "round_half_even (q / u) \<le> 9007199254740992" by (intro round_half_even_le) simp
  then have "of_int (round_half_even (q / u)) * u \<le> of_int 9007199254740992 * u" using u by (intro mult_right_mono) auto
  then have "nearest_double q \<le> 1" using top one False by (simp add: nearest_double_def u_def [symmetric] Let_def)
  moreover have "0 \<le> nearest_double q"
    using u q(1) round_half_even_nonneg [of "q / u"] False by (simp add: nearest_double_def u_def [symmetric] Let_def)
  ultimately show ?thesis by simp
next
  case True
  have "nearest_double 1 = 1"
  proof -
    have "binade 1 = 0" by (simp add: binade_def binary_power_def floorlog_def)
    then have "(1::rat) / binary_power (binade 1 - 52) = of_int 4503599627370496" by (simp add: binary_power_values)
    then show ?thesis using \<open>binade 1 = 0\<close> round_half_even_of_int [of 4503599627370496]
      by (simp add: nearest_double_def Let_def binary_power_values del: round_half_even_of_int)
  qed
  then show ?thesis using True by (auto simp: nearest_double_def)
qed

lemma round_digits_unit:
  assumes "0 \<le> x" and "x \<le> 1"
  shows "0 \<le> round_digits n x \<and> round_digits n x \<le> 1"
proof -
  have "round_half_even (x * 10 ^ n) \<le> 10 ^ n" using assms(2) by (intro round_half_even_le) simp
  then have "of_int (round_half_even (x * 10 ^ n)) \<le> (10 ^ n :: rat)"
    by (metis of_int_le_iff of_int_numeral of_int_power)
  moreover have "0 \<le> round_half_even (x * 10 ^ n)" using assms(1) by (simp add: round_half_even_nonneg)
  ultimately show ?thesis unfolding round_digits_def by (intro nearest_double_unit) (simp_all add: divide_le_eq)
qed

text \<open>A ratio of a part to the whole stays between 0 and 1 and is within \<open>10 ^ -12\<close> of the quotient.\<close>

lemma rounded_ratio_bounds:
  assumes "0 \<le> a" and "a \<le> b" and "0 < b"
  shows "0 \<le> rounded_ratio a b \<and> rounded_ratio a b \<le> 1 \<and> \<bar>rounded_ratio a b - of_int a / of_int b\<bar> \<le> 1 / 10 ^ 12"
proof -
  define q x y :: rat where "q = of_int a / of_int b" and "x = nearest_double q"
    and "y = of_int (round_half_even (x * 10 ^ 12)) / 10 ^ 12"
  have q: "0 \<le> q" "q \<le> 1" using assms by (simp_all add: q_def)
  have x: "0 \<le> x" "x \<le> 1" using nearest_double_unit [OF q] by (simp_all add: x_def)
  have r: "rounded_ratio a b = nearest_double y" by (simp add: rounded_ratio_def round_digits_def true_division_def x_def q_def y_def)
  have unit: "0 \<le> rounded_ratio a b \<and> rounded_ratio a b \<le> 1"
    using round_digits_unit [OF x] by (simp add: rounded_ratio_def true_division_def x_def q_def)
  have y0: "0 \<le> y" using x(1) by (simp add: y_def round_half_even_nonneg)
  have "y * 10 ^ 12 = of_int (round_half_even (x * 10 ^ 12))" by (simp add: y_def)
  then have "\<bar>y * 10 ^ 12 - x * 10 ^ 12\<bar> \<le> 1 / 2" using round_half_even_close [of "x * 10 ^ 12"] by simp
  then have "\<bar>(y - x) * 10 ^ 12\<bar> \<le> 1 / 2" by (simp only: left_diff_distrib)
  then have yx: "\<bar>y - x\<bar> \<le> 1 / 2000000000000" by (simp only: abs_mult) simp
  have xq: "\<bar>x - q\<bar> \<le> 1 / 9007199254740992" using nearest_double_close [OF q(1)] q(2) by (simp add: x_def)
  have "\<bar>nearest_double y - y\<bar> \<le> y / 9007199254740992" by (rule nearest_double_close [OF y0])
  moreover have "y \<le> 2" using yx x(2) by linarith
  ultimately have "\<bar>nearest_double y - y\<bar> \<le> 2 / 9007199254740992" by simp
  then have "\<bar>rounded_ratio a b - q\<bar> \<le> 1 / 1000000000000" using yx xq unfolding r by linarith
  then show ?thesis using unit by (simp add: q_def)
qed

end
