(* ===== verification/Schedule_Kpi.thy ===== *)
theory Schedule_Kpi
  imports Reference_Scheduler Float_Ratio
begin

section \<open>Key figures of a schedule\<close>

text \<open>
  \<open>planning/reporting/kpi.py\<close>: the figures that are recomputed from a problem and its assignments,
  delivery per demand, utilization per resource and the makespan (\<open>calculate_schedule_kpi_metrics\<close>).
  Assignments are the documents of \<open>Reference_Scheduler\<close>.
\<close>

definition kpi_reject :: "string \<Rightarrow> string \<Rightarrow> py_exn" where
  "kpi_reject code field = RaiseDomain ''ReportingContractError'' code field"

definition kpi_exact_seconds :: "instant \<Rightarrow> instant \<Rightarrow> string \<Rightarrow> int res" where
  "kpi_exact_seconds later earlier field =
     (let value = later - earlier
      in if value mod micros \<noteq> 0 then Inl (kpi_reject ''INVALID_CONTRACT'' field)
         else Inr (value div micros))"

subsection \<open>Merged intervals\<close>

text \<open>The loop body; \<open>merged[-1]\<close> is the last interval.\<close>

definition merge_step :: "(instant \<times> instant) list \<Rightarrow> instant \<times> instant \<Rightarrow> (instant \<times> instant) list" where
  "merge_step merged interval =
     (case interval of (start, end) \<Rightarrow>
        if merged = [] \<or> snd (last merged) < start then merged @ [(start, end)]
        else if snd (last merged) < end then butlast merged @ [(fst (last merged), end)]
        else merged)"

text \<open>\<open>sorted\<close> on pairs: by the first component, ties by the second.\<close>

definition sorted_intervals :: "(instant \<times> instant) list \<Rightarrow> (instant \<times> instant) list" where
  "sorted_intervals intervals = sort_key fst (sort_key snd intervals)"

definition merged_intervals :: "(instant \<times> instant) list \<Rightarrow> (instant \<times> instant) list" where
  "merged_intervals intervals = foldl merge_step [] (sorted_intervals intervals)"

definition merged_interval_seconds :: "(instant \<times> instant) list \<Rightarrow> int res" where
  "merged_interval_seconds intervals =
     (if intervals = [] then Inr 0
      else bind_res (map_res (\<lambda>(start, end). kpi_exact_seconds end start ''resource interval'')
             (merged_intervals intervals)) (\<lambda>lengths. Inr (sum_list lengths)))"

subsection \<open>Resources\<close>

record resource_row =
  rw_resource_id :: string
  rw_resource_code :: string
  rw_calendar_id :: string
  rw_available_seconds :: int
  rw_planned_busy_seconds :: int
  rw_utilization :: "rat option"

definition planned_busy :: "problem \<Rightarrow> assignment_doc list \<Rightarrow> string \<Rightarrow> int" where
  "planned_busy p assignments resource_id =
     sum_list (map (\<lambda>a. (ad_end_tick a - ad_start_tick a) * p_tick_seconds p)
       (filter (\<lambda>a. ad_resource_id a = resource_id) assignments))"

text \<open>The unavailable intervals, cut at the horizon; one that lies outside of it is dropped.\<close>

definition clipped_interval ::
  "instant \<Rightarrow> instant \<Rightarrow> interval_doc \<Rightarrow> (string \<times> instant \<times> instant) list res" where
  "clipped_interval horizon_start_at horizon_end_at item =
     bind_res (parse_utc_instant (u_start_utc item)) (\<lambda>from.
     bind_res (parse_utc_instant (u_end_utc item)) (\<lambda>until.
     let start = max from horizon_start_at; end = min until horizon_end_at
     in Inr (if start < end then [(u_resource_id item, start, end)] else [])))"

definition intervals_on :: "(string \<times> instant \<times> instant) list \<Rightarrow> string \<Rightarrow> (instant \<times> instant) list" where
  "intervals_on closures resource_id = map snd (filter (\<lambda>(r, _). r = resource_id) closures)"

definition resource_row_of ::
  "problem \<Rightarrow> assignment_doc list \<Rightarrow> int \<Rightarrow> (string \<times> instant \<times> instant) list \<Rightarrow> resource_doc \<Rightarrow> resource_row res" where
  "resource_row_of p assignments horizon_seconds closures resource =
     (let resource_id = r_resource_id resource; busy = planned_busy p assignments resource_id in
      bind_res (merged_interval_seconds (intervals_on closures resource_id)) (\<lambda>closed.
      let available = horizon_seconds - closed in
      if available < busy
      then Inl (kpi_reject ''INVALID_COUNT'' (''resources.'' @ resource_id @ ''.planned_busy_seconds''))
      else Inr \<lparr>rw_resource_id = resource_id, rw_resource_code = r_resource_code resource,
                rw_calendar_id = r_calendar_id resource, rw_available_seconds = available,
                rw_planned_busy_seconds = busy,
                rw_utilization = (if available = 0 then None else Some (rounded_ratio busy available))\<rparr>))"

definition resource_rows :: "problem \<Rightarrow> assignment_doc list \<Rightarrow> resource_row list res" where
  "resource_rows p assignments =
     bind_res (parse_utc_instant (p_horizon_start_utc p)) (\<lambda>horizon_start_at.
     bind_res (parse_utc_instant (p_horizon_end_utc p)) (\<lambda>horizon_end_at.
     bind_res (kpi_exact_seconds horizon_end_at horizon_start_at ''problem.horizon'') (\<lambda>horizon_seconds.
     bind_res (collect_res (clipped_interval horizon_start_at horizon_end_at) (p_intervals p)) (\<lambda>closures.
     map_res (resource_row_of p assignments horizon_seconds closures) (sort_key r_resource_id (p_resources p))))))"

subsection \<open>Deliveries\<close>

record delivery_row =
  dr_demand_order_id :: string
  dr_due_at_utc :: string
  dr_priority_weight :: int
  dr_completion_tick :: int
  dr_completion_at_utc :: string
  dr_tardiness_seconds :: int
  dr_weighted_tardiness_seconds :: int
  dr_on_time :: bool

definition completions :: "problem \<Rightarrow> assignment_doc list \<Rightarrow> (string \<times> int) list res" where
  "completions p assignments =
     map_res (\<lambda>a. bind_res (key_error (operation_by_id p (ad_operation_id a))) (\<lambda>op.
       Inr (op_demand_order_id op, ad_end_tick a))) assignments"

definition delivery_row_of :: "problem \<Rightarrow> instant \<Rightarrow> (string \<times> int) list \<Rightarrow> demand_doc \<Rightarrow> delivery_row res" where
  "delivery_row_of p horizon_start_at completion_ticks demand =
     (let demand_id = d_demand_order_id demand;
          ticks = map snd (filter (\<lambda>(i, _). i = demand_id) completion_ticks) in
      bind_res (require_or (ticks \<noteq> []) (kpi_reject ''INVALID_COUNT'' (''delivery_demands.'' @ demand_id))) (\<lambda>_.
      let completion_tick = Max (set ticks) in
      bind_res (add_seconds horizon_start_at (completion_tick * p_tick_seconds p)) (\<lambda>completion_at.
      bind_res (parse_utc_instant (d_due_at_utc demand)) (\<lambda>due_at.
      bind_res (kpi_exact_seconds completion_at due_at demand_id) (\<lambda>late.
      let tardiness = max 0 late in
      Inr \<lparr>dr_demand_order_id = demand_id, dr_due_at_utc = d_due_at_utc demand,
           dr_priority_weight = d_priority_weight demand, dr_completion_tick = completion_tick,
           dr_completion_at_utc = format_utc_instant completion_at, dr_tardiness_seconds = tardiness,
           dr_weighted_tardiness_seconds = d_priority_weight demand * tardiness,
           dr_on_time = (tardiness = 0)\<rparr>)))))"

definition delivery_rows :: "problem \<Rightarrow> assignment_doc list \<Rightarrow> delivery_row list res" where
  "delivery_rows p assignments =
     bind_res (parse_utc_instant (p_horizon_start_utc p)) (\<lambda>horizon_start_at.
     bind_res (require_or (set (map ad_operation_id assignments) = set (operation_ids p)
         \<and> length assignments = length (remdups (operation_ids p)))
       (kpi_reject ''INVALID_COUNT'' ''solution.assignments'')) (\<lambda>_.
     bind_res (completions p assignments) (\<lambda>completion_ticks.
     map_res (delivery_row_of p horizon_start_at completion_ticks) (sort_key d_demand_order_id (p_demands p)))))"

subsection \<open>All figures\<close>

record kpi_metrics =
  km_delivery_rows :: "delivery_row list"
  km_resource_rows :: "resource_row list"
  km_order_count :: int
  km_on_time_order_count :: int
  km_total_tardiness_seconds :: int
  km_weighted_tardiness_seconds :: int
  km_makespan_seconds :: int
  km_scheduled_operation_count :: int
  km_unscheduled_operation_count :: int

definition calculate_schedule_kpi_metrics :: "problem \<Rightarrow> assignment_doc list \<Rightarrow> kpi_metrics res" where
  "calculate_schedule_kpi_metrics p assignments =
     bind_res (delivery_rows p assignments) (\<lambda>deliveries.
     bind_res (resource_rows p assignments) (\<lambda>resources.
     Inr \<lparr>km_delivery_rows = deliveries, km_resource_rows = resources,
          km_order_count = int (length deliveries),
          km_on_time_order_count = int (length (filter dr_on_time deliveries)),
          km_total_tardiness_seconds = sum_list (map dr_tardiness_seconds deliveries),
          km_weighted_tardiness_seconds = sum_list (map dr_weighted_tardiness_seconds deliveries),
          km_makespan_seconds =
            (if assignments = [] then 0 else Max (set (map ad_end_tick assignments)) * p_tick_seconds p),
          km_scheduled_operation_count = int (length assignments),
          km_unscheduled_operation_count = int (length (p_operations p)) - int (length assignments)\<rparr>))"

text \<open>The ratio of \<open>delivery_document\<close>.\<close>

definition on_time_order_ratio :: "kpi_metrics \<Rightarrow> rat option" where
  "on_time_order_ratio m =
     (if km_order_count m = 0 then None
      else Some (rounded_ratio (km_on_time_order_count m) (km_order_count m)))"

definition late_order_count :: "kpi_metrics \<Rightarrow> int" where
  "late_order_count m = km_order_count m - km_on_time_order_count m"

end
