(* ===== verification/Kpi_Correct.thy ===== *)
theory Kpi_Correct
  imports Schedule_Kpi Scheduler_Total
begin

section \<open>The key figures are right\<close>

text \<open>
  Merging intervals measures their union; a feasible schedule that ends within the horizon never
  keeps a resource busy longer than it is available; and the figures of a reference schedule are
  the metrics the scheduler reports.
\<close>

subsection \<open>Measuring intervals\<close>

definition covered :: "(instant \<times> instant) list \<Rightarrow> instant set" where
  "covered xs = (\<Union>(s, e) \<in> set xs. {s..<e})"

lemma covered_simps [simp]:
  "covered [] = {}" "covered ((s, e) # xs) = {s..<e} \<union> covered xs" "covered (xs @ ys) = covered xs \<union> covered ys"
  by (auto simp: covered_def)

lemma finite_covered [simp]: "finite (covered xs)"
  by (auto simp: covered_def)

lemma card_disjoint_intervals:
  assumes "sorted_wrt (\<lambda>x y. {fst x..<snd x} \<inter> {fst y..<snd y} = {}) xs" and "\<forall>x \<in> set xs. fst x \<le> snd x"
  shows "sum_list (map (\<lambda>x. snd x - fst x) xs) = int (card (covered xs))"
  using assms
proof (induction xs)
  case (Cons x xs)
  have "{fst x..<snd x} \<inter> covered xs = {}" using Cons.prems(1) by (auto simp: covered_def)
  then have "card (covered (x # xs)) = card {fst x..<snd x} + card (covered xs)"
    by (cases x) (simp add: card_Un_disjoint)
  then show ?case using Cons by simp
qed simp

text \<open>The intervals merged so far are apart from each other, the next one starts no earlier than the last.\<close>

definition apart :: "(instant \<times> instant) list \<Rightarrow> bool" where
  "apart ms \<longleftrightarrow> sorted_wrt (\<lambda>x y. snd x < fst y) ms \<and> (\<forall>x \<in> set ms. fst x < snd x)"

definition merging :: "(instant \<times> instant) list \<Rightarrow> (instant \<times> instant) list \<Rightarrow> bool" where
  "merging seen ms \<longleftrightarrow>
     apart ms \<and> covered ms = covered seen \<and> (ms = [] \<longleftrightarrow> seen = [])
     \<and> (\<forall>x \<in> set ms. fst x \<in> fst ` set seen \<and> snd x \<in> snd ` set seen)"

lemma merge_step_ok:
  assumes m: "merging seen ms" and x: "s < e" and later: "\<forall>y \<in> set seen. fst y \<le> s"
  shows "merging (seen @ [(s, e)]) (merge_step ms (s, e))"
proof (cases ms rule: rev_cases)
  case Nil
  then show ?thesis using m x by (simp add: merging_def merge_step_def apart_def)
next
  case (snoc init l)
  obtain a b where l: "l = (a, b)" by fastforce
  have a: "a \<le> s" using m later snoc l by (auto simp: merging_def)
  have ab: "a < b" and init: "\<forall>y \<in> set init. snd y < a" using m snoc l by (auto simp: merging_def apart_def sorted_wrt_append)
  consider "b < s" | "s \<le> b" "b < e" | "s \<le> b" "e \<le> b" by linarith
  then show ?thesis
  proof cases
    case 1
    then have "\<forall>y \<in> set ms. snd y < s" using init ab snoc l by auto
    then show ?thesis using m 1 x snoc l by (auto simp: merging_def merge_step_def apart_def sorted_wrt_append)
  next
    case 2
    have "{a..<e} = {a..<b} \<union> {s..<e}" using 2 a ab by auto
    then show ?thesis using m 2 x a snoc l
      by (auto simp: merging_def merge_step_def apart_def sorted_wrt_append)
  next
    case 3
    have "{s..<e} \<subseteq> {a..<b}" using 3 a by auto
    then show ?thesis using m 3 snoc l by (auto simp: merging_def merge_step_def)
  qed
qed

lemma merge_all_ok:
  assumes "merging seen ms" and "sorted (map fst (seen @ xs))" and "\<forall>x \<in> set xs. fst x < snd x"
  shows "merging (seen @ xs) (foldl merge_step ms xs)"
  using assms
proof (induction xs arbitrary: seen ms)
  case (Cons x xs)
  obtain s e where x: "x = (s, e)" by fastforce
  have "merging (seen @ [x]) (merge_step ms x)"
    using Cons.prems unfolding x by (intro merge_step_ok) (auto simp: sorted_append)
  then show ?case using Cons.IH [of "seen @ [x]" "merge_step ms x"] Cons.prems by simp
qed simp

lemma sorted_intervals_set [simp]: "set (sorted_intervals xs) = set xs"
  by (simp add: sorted_intervals_def)

lemma merged_intervals_ok:
  assumes "\<forall>x \<in> set xs. fst x < snd x"
  shows "merging (sorted_intervals xs) (merged_intervals xs)"
proof -
  have "merging [] []" by (simp add: merging_def apart_def)
  moreover have "sorted (map fst (sorted_intervals xs))" by (simp add: sorted_intervals_def)
  ultimately show ?thesis using merge_all_ok [of "[]" "[]" "sorted_intervals xs"] assms by (simp add: merged_intervals_def)
qed

lemma kpi_exact_whole: "whole a \<Longrightarrow> whole b \<Longrightarrow> kpi_exact_seconds a b f = Inr ((a - b) div micros)"
  by (simp add: kpi_exact_seconds_def whole_def Let_def mod_diff_eq [symmetric])

lemma whole_diff: "whole a \<Longrightarrow> whole b \<Longrightarrow> (a - b) div micros * micros = a - b"
proof -
  assume "whole a" "whole b"
  then have "(a - b) mod micros = 0" by (simp add: whole_def mod_diff_eq [symmetric])
  then show ?thesis using div_mult_mod_eq [of "a - b" micros] by simp
qed

lemma whole_sum:
  "(\<And>x. x \<in> set ms \<Longrightarrow> whole (fst x) \<and> whole (snd x)) \<Longrightarrow>
     sum_list (map (\<lambda>x. (snd x - fst x) div micros) ms) * micros = sum_list (map (\<lambda>x. snd x - fst x) ms)"
  by (induction ms) (simp_all add: whole_diff distrib_right)

lemma merged_seconds_measure:
  assumes "\<forall>x \<in> set xs. fst x < snd x \<and> whole (fst x) \<and> whole (snd x)"
  shows "\<exists>n. merged_interval_seconds xs = Inr n \<and> n * micros = int (card (covered xs))"
proof (cases "xs = []")
  case False
  let ?ms = "merged_intervals xs"
  let ?len = "\<lambda>x. (snd x - fst x) div micros"
  have m: "merging (sorted_intervals xs) ?ms" using assms by (intro merged_intervals_ok) blast
  have w: "whole (fst x) \<and> whole (snd x)" if "x \<in> set ?ms" for x
    using m that assms by (fastforce simp: merging_def)
  then have "map_res (\<lambda>(start, end). kpi_exact_seconds end start ''resource interval'') ?ms = Inr (map ?len ?ms)"
    by (intro map_res_total) (auto simp: kpi_exact_whole)
  then have r: "merged_interval_seconds xs = Inr (sum_list (map ?len ?ms))"
    using False by (simp add: merged_interval_seconds_def)
  have "sum_list (map ?len ?ms) * micros = sum_list (map (\<lambda>x. snd x - fst x) ?ms)"
    by (rule whole_sum) (rule w)
  also have "\<dots> = int (card (covered ?ms))"
  proof (rule card_disjoint_intervals)
    have "sorted_wrt (\<lambda>x y. snd x < fst y) ?ms" using m by (simp add: merging_def apart_def)
    then show "sorted_wrt (\<lambda>x y. {fst x..<snd x} \<inter> {fst y..<snd y} = {}) ?ms"
      by (rule sorted_wrt_mono_rel [rotated]) auto
  qed (use m in \<open>auto simp: merging_def apart_def\<close>)
  also have "covered ?ms = covered xs" using m by (simp add: merging_def) (simp add: covered_def)
  finally show ?thesis using r by blast
qed (simp add: merged_interval_seconds_def)

subsection \<open>Busy and available time\<close>

text \<open>The assignments write down a schedule: one per operation, with its resource and its ticks.\<close>

definition writes_down :: "assignment_doc list \<Rightarrow> schedule \<Rightarrow> bool" where
  "writes_down as \<sigma> \<longleftrightarrow>
     distinct (map ad_operation_id as) \<and> set (map ad_operation_id as) = dom \<sigma>
     \<and> (\<forall>a \<in> set as. \<sigma> (ad_operation_id a) =
          Some \<lparr>sl_resource = ad_resource_id a, sl_start = ad_start_tick a, sl_end = ad_end_tick a\<rparr>)"

definition within_horizon :: "problem \<Rightarrow> schedule \<Rightarrow> bool" where
  "within_horizon p \<sigma> \<longleftrightarrow>
     (\<forall>i s. \<sigma> i = Some s \<longrightarrow> 0 \<le> sl_start s \<and> sl_start s \<le> sl_end s \<and> tick_instant p (sl_end s) \<le> horizon_end p)"

definition busy_span :: "problem \<Rightarrow> assignment_doc \<Rightarrow> instant \<times> instant" where
  "busy_span p a = (tick_instant p (ad_start_tick a), tick_instant p (ad_end_tick a))"

lemma sorted_wrt_distinct:
  "distinct (map f xs) \<Longrightarrow> (\<And>a b. a \<in> set xs \<Longrightarrow> b \<in> set xs \<Longrightarrow> f a \<noteq> f b \<Longrightarrow> Q a b) \<Longrightarrow> sorted_wrt Q xs"
  by (induction xs) auto

lemma planned_busy_measure:
  assumes w: "writes_down as \<sigma>" and f: "feasible p \<sigma>" and h: "within_horizon p \<sigma>" and t: "0 < p_tick_seconds p"
  shows "planned_busy p as r * micros = int (card (covered (map (busy_span p) (filter (\<lambda>a. ad_resource_id a = r) as))))"
proof -
  let ?as = "filter (\<lambda>a. ad_resource_id a = r) as"
  let ?spans = "map (busy_span p) ?as"
  have slot: "\<sigma> (ad_operation_id a) = Some \<lparr>sl_resource = ad_resource_id a, sl_start = ad_start_tick a, sl_end = ad_end_tick a\<rparr>"
    if "a \<in> set as" for a using w that by (simp add: writes_down_def)
  have "(ad_end_tick a - ad_start_tick a) * p_tick_seconds p * micros = snd (busy_span p a) - fst (busy_span p a)" for a
    by (simp add: busy_span_def tick_instant_def algebra_simps)
  then have "planned_busy p as r * micros = sum_list (map (\<lambda>x. snd x - fst x) ?spans)"
    unfolding planned_busy_def by (induction as) (simp_all add: distrib_right)
  also have "\<dots> = int (card (covered ?spans))"
  proof (rule card_disjoint_intervals)
    have disjoint: "{fst (busy_span p a)..<snd (busy_span p a)} \<inter> {fst (busy_span p b)..<snd (busy_span p b)} = {}"
      if "ad_operation_id a \<noteq> ad_operation_id b" "a \<in> set as" "b \<in> set as" "ad_resource_id a = r" "ad_resource_id b = r" for a b
    proof -
      have ex: "exclusive \<sigma>" using f by (simp add: feasible_def)
      have "ad_end_tick a \<le> ad_start_tick b \<or> ad_end_tick b \<le> ad_start_tick a"
        using ex [unfolded exclusive_def, rule_format, OF that(1) slot [OF that(2)] slot [OF that(3)]] that by simp
      then have "snd (busy_span p a) \<le> fst (busy_span p b) \<or> snd (busy_span p b) \<le> fst (busy_span p a)"
        using t by (simp add: busy_span_def)
      then show ?thesis by auto
    qed
    have "distinct (map ad_operation_id ?as)" using w by (simp add: writes_down_def distinct_map_filter)
    then show "sorted_wrt (\<lambda>x y. {fst x..<snd x} \<inter> {fst y..<snd y} = {}) ?spans"
      unfolding sorted_wrt_map by (rule sorted_wrt_distinct) (rule disjoint; simp)
    show "\<forall>x \<in> set ?spans. fst x \<le> snd x"
    proof
      fix x assume "x \<in> set ?spans"
      then obtain a where a: "a \<in> set as" "x = busy_span p a" by auto
      then have "ad_start_tick a \<le> ad_end_tick a"
        using h [unfolded within_horizon_def, rule_format, OF slot [OF a(1)]] by simp
      then show "fst x \<le> snd x" using t a(2) by (simp add: busy_span_def)
    qed
  qed
  finally show ?thesis .
qed

definition clip :: "problem \<Rightarrow> interval_doc \<Rightarrow> (string \<times> instant \<times> instant) list" where
  "clip p u =
     (let start = max (utc (u_start_utc u)) (horizon_start p); end = min (utc (u_end_utc u)) (horizon_end p)
      in if start < end then [(u_resource_id u, start, end)] else [])"

abbreviation closures_of :: "problem \<Rightarrow> (string \<times> instant \<times> instant) list" where
  "closures_of p \<equiv> concat (map (clip p) (p_intervals p))"

lemma clipped_all:
  assumes "problem_facts p"
  shows "collect_res (clipped_interval (horizon_start p) (horizon_end p)) (p_intervals p) = Inr (closures_of p)"
proof (rule collect_res_total)
  fix u assume "u \<in> set (p_intervals p)"
  then have "parses (u_start_utc u)" "parses (u_end_utc u)"
    using assms by (auto simp: problem_facts_def list_all_iff interval_ok_def)
  then show "clipped_interval (horizon_start p) (horizon_end p) u = Inr (clip p u)"
    by (simp add: clipped_interval_def clip_def parses_iff Let_def)
qed

lemma intervals_on_member:
  assumes "x \<in> set (intervals_on (closures_of p) r)"
  obtains u where "u \<in> set (p_intervals p)" "u_resource_id u = r" "fst x < snd x"
    "fst x = max (utc (u_start_utc u)) (horizon_start p)" "snd x = min (utc (u_end_utc u)) (horizon_end p)"
proof -
  obtain u where "u \<in> set (p_intervals p)" "(r, x) \<in> set (clip p u)"
    using assms by (auto simp: intervals_on_def)
  then show ?thesis using that [of u] by (auto simp: clip_def Let_def split: if_splits)
qed

definition whole_calendar :: "problem \<Rightarrow> bool" where
  "whole_calendar p \<longleftrightarrow>
     whole (horizon_start p) \<and> whole (horizon_end p)
     \<and> list_all (\<lambda>u. whole (utc (u_start_utc u)) \<and> whole (utc (u_end_utc u))) (p_intervals p)"

lemma closed_measure:
  assumes "whole_calendar p"
  shows "\<exists>n. merged_interval_seconds (intervals_on (closures_of p) r) = Inr n
    \<and> n * micros = int (card (covered (intervals_on (closures_of p) r)))"
proof (rule merged_seconds_measure, rule ballI)
  fix x assume "x \<in> set (intervals_on (closures_of p) r)"
  then obtain u where "u \<in> set (p_intervals p)" "fst x < snd x"
    "fst x = max (utc (u_start_utc u)) (horizon_start p)" "snd x = min (utc (u_end_utc u)) (horizon_end p)"
    by (rule intervals_on_member)
  moreover from this(1) have "whole (utc (u_start_utc u))" "whole (utc (u_end_utc u))"
    using assms by (auto simp: whole_calendar_def list_all_iff)
  ultimately show "fst x < snd x \<and> whole (fst x) \<and> whole (snd x)"
    using assms by (simp add: whole_calendar_def max_def min_def)
qed

lemma busy_fits:
  assumes facts: "problem_facts p" and f: "feasible p \<sigma>" and w: "writes_down as \<sigma>" and h: "within_horizon p \<sigma>"
    and r: "shut * micros = int (card (covered (intervals_on (closures_of p) r)))"
  shows "(planned_busy p as r + shut) * micros \<le> horizon_end p - horizon_start p"
proof -
  let ?busy = "covered (map (busy_span p) (filter (\<lambda>a. ad_resource_id a = r) as))"
  let ?closed = "covered (intervals_on (closures_of p) r)"
  have t: "0 < p_tick_seconds p" using facts by (simp add: problem_facts_def)
  have slot: "\<exists>s. \<sigma> (ad_operation_id a) = Some s \<and> sl_resource s = ad_resource_id a \<and> sl_start s = ad_start_tick a
      \<and> sl_end s = ad_end_tick a" if "a \<in> set as" for a using w that by (simp add: writes_down_def)
  have apart: "snd (busy_span p a) \<le> utc (u_start_utc u) \<or> utc (u_end_utc u) \<le> fst (busy_span p a)"
    if a: "a \<in> set as" "ad_resource_id a = r" and u: "u \<in> set (p_intervals p)" "u_resource_id u = r" for a u
  proof -
    have "ad_operation_id a \<in> set (operation_ids p)" using f slot [OF a(1)] by (auto simp: feasible_def)
    then obtain op where op: "op \<in> set (p_operations p)" "op_id op = ad_operation_id a" by (auto simp: operation_ids_def)
    obtain s where "\<sigma> (op_id op) = Some s" "sl_resource s = r" "sl_start s = ad_start_tick a" "sl_end s = ad_end_tick a"
      using slot [OF a(1)] a(2) op(2) by auto
    moreover then have "slot_ok p op s" using f op(1) by (simp add: feasible_def)
    ultimately show ?thesis using u by (auto simp: slot_ok_def busy_span_def)
  qed
  have "x \<notin> ?closed" if busy: "x \<in> ?busy" for x
  proof
    assume "x \<in> ?closed"
    then obtain i where i: "i \<in> set (intervals_on (closures_of p) r)" "fst i \<le> x" "x < snd i" by (force simp: covered_def)
    obtain a where a: "a \<in> set as" "ad_resource_id a = r" "fst (busy_span p a) \<le> x" "x < snd (busy_span p a)"
      using busy by (auto simp: covered_def)
    obtain u where "u \<in> set (p_intervals p)" "u_resource_id u = r" "utc (u_start_utc u) \<le> x" "x < utc (u_end_utc u)"
      using intervals_on_member [OF i(1)] i(2,3) by (metis max.bounded_iff min_less_iff_conj less_le_trans order_less_le min_def max_def)
    then show False using apart [OF a(1,2)] a(3,4) by force
  qed
  then have "?busy \<inter> ?closed = {}" by blast
  then have "int (card ?busy) + int (card ?closed) = int (card (?busy \<union> ?closed))" by (simp add: card_Un_disjoint)
  also have "\<dots> \<le> int (card {horizon_start p..<horizon_end p})"
  proof -
    have "fst (busy_span p a) \<ge> horizon_start p \<and> snd (busy_span p a) \<le> horizon_end p" if "a \<in> set as" for a
    proof -
      obtain s where s: "\<sigma> (ad_operation_id a) = Some s" "sl_start s = ad_start_tick a" "sl_end s = ad_end_tick a"
        using slot [OF \<open>a \<in> set as\<close>] by blast
      then have "0 \<le> ad_start_tick a" "tick_instant p (ad_end_tick a) \<le> horizon_end p"
        using h [unfolded within_horizon_def, rule_format, OF s(1)] by simp_all
      moreover then have "tick_instant p 0 \<le> tick_instant p (ad_start_tick a)" using t by (simp only: tick_instant_le_iff)
      ultimately show ?thesis by (simp add: busy_span_def)
    qed
    moreover have "fst x \<ge> horizon_start p \<and> snd x \<le> horizon_end p" if "x \<in> set (intervals_on (closures_of p) r)" for x
      using that by (rule intervals_on_member) simp
    ultimately have "?busy \<union> ?closed \<subseteq> {horizon_start p..<horizon_end p}" by (force simp: covered_def)
    then have "card (?busy \<union> ?closed) \<le> card {horizon_start p..<horizon_end p}" by (rule card_mono [rotated]) simp
    then show ?thesis by (simp only: of_nat_le_iff)
  qed
  also have "\<dots> = horizon_end p - horizon_start p" using facts by (simp add: problem_facts_def)
  finally show ?thesis using r planned_busy_measure [OF w f h t, of r] by (simp add: distrib_right)
qed

text \<open>So every row is built, with a utilization between 0 and 1.\<close>

definition resource_row_ok :: "problem \<Rightarrow> assignment_doc list \<Rightarrow> resource_doc \<Rightarrow> resource_row \<Rightarrow> bool" where
  "resource_row_ok p as r row \<longleftrightarrow>
     rw_resource_id row = r_resource_id r \<and> rw_planned_busy_seconds row = planned_busy p as (r_resource_id r)
     \<and> 0 \<le> rw_planned_busy_seconds row \<and> rw_planned_busy_seconds row \<le> rw_available_seconds row
     \<and> (rw_available_seconds row * micros = horizon_end p - horizon_start p
          - int (card (covered (intervals_on (closures_of p) (r_resource_id r)))))
     \<and> (case rw_utilization row of
          None \<Rightarrow> rw_available_seconds row = 0
        | Some u \<Rightarrow> 0 \<le> u \<and> u \<le> 1
            \<and> \<bar>u - of_int (rw_planned_busy_seconds row) / of_int (rw_available_seconds row)\<bar> \<le> 1 / 10 ^ 12)"

lemma resource_row_built:
  assumes facts: "problem_facts p" and f: "feasible p \<sigma>" and w: "writes_down as \<sigma>" and h: "within_horizon p \<sigma>"
    and c: "whole_calendar p"
  shows "\<exists>row. resource_row_of p as ((horizon_end p - horizon_start p) div micros) (closures_of p) r = Inr row
    \<and> resource_row_ok p as r row"
proof -
  let ?i = "r_resource_id r"
  let ?busy = "planned_busy p as ?i"
  let ?hs = "(horizon_end p - horizon_start p) div micros"
  obtain shut where shut: "merged_interval_seconds (intervals_on (closures_of p) ?i) = Inr shut"
    "shut * micros = int (card (covered (intervals_on (closures_of p) ?i)))" using closed_measure [OF c] by blast
  have horizon: "?hs * micros = horizon_end p - horizon_start p"
    using c by (intro whole_diff) (simp_all add: whole_calendar_def)
  have "(?busy + shut) * micros \<le> ?hs * micros" using busy_fits [OF facts f w h shut(2)] horizon by simp
  then have fits: "?busy \<le> ?hs - shut" by (simp add: micros_def)
  have "0 \<le> ?busy * micros"
    using planned_busy_measure [OF w f h] facts by (simp add: problem_facts_def)
  then have pos: "0 \<le> ?busy" by (simp add: micros_def)
  have "(?hs - shut) * micros = horizon_end p - horizon_start p - int (card (covered (intervals_on (closures_of p) ?i)))"
    using horizon shut(2) by (simp add: left_diff_distrib)
  then show ?thesis
    using shut(1) fits pos rounded_ratio_bounds [of ?busy "?hs - shut"]
    by (auto simp: resource_row_of_def resource_row_ok_def Let_def)
qed

lemma resource_rows_built:
  assumes facts: "problem_facts p" and f: "feasible p \<sigma>" and w: "writes_down as \<sigma>" and h: "within_horizon p \<sigma>"
    and c: "whole_calendar p"
  shows "\<exists>rows. resource_rows p as = Inr rows \<and> list_all2 (resource_row_ok p as) (sort_key r_resource_id (p_resources p)) rows"
proof -
  let ?hs = "(horizon_end p - horizon_start p) div micros"
  obtain g where g: "\<And>r. resource_row_of p as ?hs (closures_of p) r = Inr (g r)" "\<And>r. resource_row_ok p as r (g r)"
    using resource_row_built [OF assms] by metis
  have "kpi_exact_seconds (horizon_end p) (horizon_start p) ''problem.horizon'' = Inr ?hs"
    using c by (intro kpi_exact_whole) (simp_all add: whole_calendar_def)
  moreover have "parses (p_horizon_start_utc p)" "parses (p_horizon_end_utc p)" using facts by (simp_all add: problem_facts_def)
  moreover have "map_res (resource_row_of p as ?hs (closures_of p)) (sort_key r_resource_id (p_resources p))
    = Inr (map g (sort_key r_resource_id (p_resources p)))" by (rule map_res_total) (rule g(1))
  ultimately have "resource_rows p as = Inr (map g (sort_key r_resource_id (p_resources p)))"
    by (simp add: resource_rows_def parses_iff clipped_all [OF facts])
  moreover have "list_all2 (resource_row_ok p as) rs (map g rs)" for rs
    using g(2) by (simp add: list_all2_map2 list_all2_refl)
  ultimately show ?thesis by blast
qed

subsection \<open>Deliveries\<close>

definition end_ticks :: "problem \<Rightarrow> schedule \<Rightarrow> demand_doc \<Rightarrow> int set" where
  "end_ticks p \<sigma> d =
     {sl_end s | op s. op \<in> set (p_operations p) \<and> op_demand_order_id op = d_demand_order_id d \<and> \<sigma> (op_id op) = Some s}"

definition tardiness :: "problem \<Rightarrow> schedule \<Rightarrow> demand_doc \<Rightarrow> int" where
  "tardiness p \<sigma> d = max 0 ((tick_instant p (Max (end_ticks p \<sigma> d)) - utc (d_due_at_utc d)) div micros)"

definition delivery_row_ok :: "problem \<Rightarrow> schedule \<Rightarrow> demand_doc \<Rightarrow> delivery_row \<Rightarrow> bool" where
  "delivery_row_ok p \<sigma> d row \<longleftrightarrow>
     dr_demand_order_id row = d_demand_order_id d \<and> dr_completion_tick row = Max (end_ticks p \<sigma> d)
     \<and> dr_tardiness_seconds row = tardiness p \<sigma> d
     \<and> dr_weighted_tardiness_seconds row = d_priority_weight d * tardiness p \<sigma> d
     \<and> (dr_on_time row \<longleftrightarrow> tick_instant p (Max (end_ticks p \<sigma> d)) \<le> utc (d_due_at_utc d))"

definition whole_dues :: "problem \<Rightarrow> bool" where
  "whole_dues p \<longleftrightarrow> list_all (\<lambda>d. whole (utc (d_due_at_utc d))) (p_demands p)"

definition demand_of :: "problem \<Rightarrow> assignment_doc \<Rightarrow> string" where
  "demand_of p a = (case operation_by_id p (ad_operation_id a) of None \<Rightarrow> [] | Some op \<Rightarrow> op_demand_order_id op)"

lemma completions_eq:
  assumes facts: "problem_facts p" and f: "feasible p \<sigma>" and w: "writes_down as \<sigma>"
  shows "completions p as = Inr (map (\<lambda>a. (demand_of p a, ad_end_tick a)) as)"
  unfolding completions_def
proof (rule map_res_total)
  fix a assume "a \<in> set as"
  then have "ad_operation_id a \<in> set (operation_ids p)" using w f by (auto simp: writes_down_def feasible_def)
  then obtain op where "operation_by_id p (ad_operation_id a) = Some op" using operation_by_id_ex by metis
  then show "bind_res (key_error (operation_by_id p (ad_operation_id a))) (\<lambda>op. Inr (op_demand_order_id op, ad_end_tick a))
    = Inr (demand_of p a, ad_end_tick a)" by (simp add: key_error_def demand_of_def)
qed

lemma demand_ticks:
  assumes facts: "problem_facts p" and f: "feasible p \<sigma>" and w: "writes_down as \<sigma>"
  shows "set (map snd (filter (\<lambda>(i, _). i = d_demand_order_id d) (map (\<lambda>a. (demand_of p a, ad_end_tick a)) as)))
    = end_ticks p \<sigma> d"
proof -
  have dist: "distinct (operation_ids p)" using facts by (simp add: problem_facts_def)
  have slot: "\<sigma> (ad_operation_id a) = Some \<lparr>sl_resource = ad_resource_id a, sl_start = ad_start_tick a, sl_end = ad_end_tick a\<rparr>"
    if "a \<in> set as" for a using w that by (simp add: writes_down_def)
  have "ad_end_tick a \<in> end_ticks p \<sigma> d" if a: "a \<in> set as" and d: "demand_of p a = d_demand_order_id d" for a
  proof -
    have "ad_operation_id a \<in> set (operation_ids p)" using w f a by (auto simp: writes_down_def feasible_def)
    then obtain op where op: "op \<in> set (p_operations p)" "op_id op = ad_operation_id a" by (auto simp: operation_ids_def)
    then have "operation_by_id p (ad_operation_id a) = Some op" using operation_by_id_member [OF dist op(1)] by simp
    then have "op_demand_order_id op = d_demand_order_id d" using d by (simp add: demand_of_def)
    then show ?thesis using op slot [OF a] by (force simp: end_ticks_def)
  qed
  moreover have "\<exists>a \<in> set as. demand_of p a = d_demand_order_id d \<and> ad_end_tick a = t" if t: "t \<in> end_ticks p \<sigma> d" for t
  proof -
    obtain op s where op: "op \<in> set (p_operations p)" "op_demand_order_id op = d_demand_order_id d" "\<sigma> (op_id op) = Some s" "t = sl_end s"
      using t by (auto simp: end_ticks_def)
    then have "op_id op \<in> set (map ad_operation_id as)" using w by (auto simp: writes_down_def)
    then obtain a where a: "a \<in> set as" "ad_operation_id a = op_id op" by auto
    then have "operation_by_id p (ad_operation_id a) = Some op" using operation_by_id_member [OF dist op(1)] by simp
    then show ?thesis using a op slot [OF a(1)] by (intro bexI [OF _ a(1)]) (simp add: demand_of_def)
  qed
  ultimately show ?thesis by force
qed

lemma end_ticksD: "t \<in> end_ticks p \<sigma> d \<Longrightarrow> \<exists>op s. op \<in> set (p_operations p) \<and> \<sigma> (op_id op) = Some s \<and> t = sl_end s"
  by (auto simp: end_ticks_def)

lemma end_ticks_ok:
  assumes facts: "problem_facts p" and f: "feasible p \<sigma>" and h: "within_horizon p \<sigma>" and s: "all_served p"
    and d: "d \<in> set (p_demands p)"
  shows "finite (end_ticks p \<sigma> d) \<and> end_ticks p \<sigma> d \<noteq> {}
    \<and> representable (tick_instant p (Max (end_ticks p \<sigma> d)))"
proof -
  let ?T = "end_ticks p \<sigma> d"
  have "?T \<subseteq> (\<lambda>op. sl_end (the (\<sigma> (op_id op)))) ` set (p_operations p)" by (force simp: end_ticks_def)
  then have fin: "finite ?T" by (rule finite_subset) simp
  obtain op where op: "op \<in> set (p_operations p)" "op_demand_order_id op = d_demand_order_id d"
    using s d by (auto simp: all_served_def list_all_iff list_ex_iff)
  then obtain x where "\<sigma> (op_id op) = Some x" using f by (force simp: feasible_def operation_ids_def)
  then have ne: "?T \<noteq> {}" using op by (auto simp: end_ticks_def)
  obtain op' :: operation_doc and y where y: "\<sigma> (op_id op') = Some y" "Max ?T = sl_end y"
    using end_ticksD [OF Max_in [OF fin ne]] by auto
  have b: "0 \<le> sl_end y" "tick_instant p (sl_end y) \<le> horizon_end p"
    using h [unfolded within_horizon_def, rule_format, OF y(1)] by simp_all
  have t: "0 < p_tick_seconds p" "parses (p_horizon_start_utc p)" "parses (p_horizon_end_utc p)"
    using facts by (simp_all add: problem_facts_def)
  have "tick_instant p 0 \<le> tick_instant p (sl_end y)" using b(1) t(1) by (simp only: tick_instant_le_iff)
  then have "representable (tick_instant p (sl_end y))"
    using b(2) parses_representable [OF t(2)] parses_representable [OF t(3)] by (auto simp: representable_def)
  then show ?thesis using fin ne y(2) by simp
qed

lemma late_seconds: "(a - b) div micros * micros = a - b \<Longrightarrow> a \<le> b \<longleftrightarrow> max 0 ((a - b) div micros) = 0" for a b :: instant
  by (smt (verit) micros_def mult_nonneg_nonneg mult_nonpos_nonneg zero_less_mult_iff)

lemma delivery_row_built:
  assumes facts: "problem_facts p" and f: "feasible p \<sigma>" and w: "writes_down as \<sigma>" and h: "within_horizon p \<sigma>"
    and s: "all_served p" and hs: "whole (horizon_start p)" and due: "whole (utc (d_due_at_utc d))" and d: "d \<in> set (p_demands p)"
  shows "\<exists>row. delivery_row_of p (horizon_start p) (map (\<lambda>a. (demand_of p a, ad_end_tick a)) as) d = Inr row
    \<and> delivery_row_ok p \<sigma> d row"
proof -
  let ?ticks = "map snd (filter (\<lambda>(i, _). i = d_demand_order_id d) (map (\<lambda>a. (demand_of p a, ad_end_tick a)) as))"
  let ?t = "Max (end_ticks p \<sigma> d)"
  have ticks: "set ?ticks = end_ticks p \<sigma> d" by (rule demand_ticks [OF facts f w])
  note ok = end_ticks_ok [OF facts f h s d]
  have ne: "?ticks \<noteq> []" using ok ticks by (metis list.set(1))
  have add: "add_seconds (horizon_start p) (?t * p_tick_seconds p) = Inr (tick_instant p ?t)"
    using ok by (simp add: add_seconds_def tick_instant_def)
  have wt: "whole (tick_instant p ?t)" using tick_instant_whole hs by (simp add: whole_def)
  have p: "parse_utc_instant (d_due_at_utc d) = Inr (utc (d_due_at_utc d))"
    using facts d by (auto simp: problem_facts_def list_all_iff parses_iff)
  have late: "max 0 ((tick_instant p ?t - utc (d_due_at_utc d)) div micros) = 0 \<longleftrightarrow> tick_instant p ?t \<le> utc (d_due_at_utc d)"
    using whole_diff [OF wt due] late_seconds by blast
  have "\<exists>row. delivery_row_of p (horizon_start p) (map (\<lambda>a. (demand_of p a, ad_end_tick a)) as) d = Inr row
    \<and> dr_demand_order_id row = d_demand_order_id d \<and> dr_completion_tick row = ?t
    \<and> dr_tardiness_seconds row = tardiness p \<sigma> d
    \<and> dr_weighted_tardiness_seconds row = d_priority_weight d * tardiness p \<sigma> d
    \<and> dr_on_time row = (tardiness p \<sigma> d = 0)"
    unfolding delivery_row_of_def Let_def ticks using ne
    by (simp only: add p kpi_exact_whole [OF wt due] bind_res_simps require_or_simps not_False_eq_True tardiness_def
        ex_simps sum.inject simp_thms delivery_row.simps)
  then show ?thesis unfolding delivery_row_ok_def tardiness_def late by blast
qed

lemma delivery_rows_built:
  assumes facts: "problem_facts p" and f: "feasible p \<sigma>" and w: "writes_down as \<sigma>" and h: "within_horizon p \<sigma>"
    and s: "all_served p" and hs: "whole (horizon_start p)" and due: "whole_dues p"
  shows "\<exists>rows. delivery_rows p as = Inr rows
    \<and> list_all2 (delivery_row_ok p \<sigma>) (sort_key d_demand_order_id (p_demands p)) rows"
proof -
  let ?c = "map (\<lambda>a. (demand_of p a, ad_end_tick a)) as"
  let ?ds = "sort_key d_demand_order_id (p_demands p)"
  have "\<exists>row. delivery_row_of p (horizon_start p) ?c d = Inr row \<and> delivery_row_ok p \<sigma> d row" if "d \<in> set ?ds" for d
    using that due by (intro delivery_row_built [OF facts f w h s hs]) (simp_all add: whole_dues_def list_all_iff)
  then obtain g where g: "\<And>d. d \<in> set ?ds \<Longrightarrow> delivery_row_of p (horizon_start p) ?c d = Inr (g d)"
    "\<And>d. d \<in> set ?ds \<Longrightarrow> delivery_row_ok p \<sigma> d (g d)" by metis
  have ids: "set (map ad_operation_id as) = set (operation_ids p)" "distinct (map ad_operation_id as)"
    using w f by (simp_all add: writes_down_def feasible_def)
  have "distinct (operation_ids p)" using facts by (simp add: problem_facts_def)
  then have "length as = length (remdups (operation_ids p))"
    using ids by (metis distinct_card distinct_remdups_id length_map)
  moreover have "parse_utc_instant (p_horizon_start_utc p) = Inr (horizon_start p)"
    using facts by (simp add: problem_facts_def parses_iff)
  moreover have "map_res (delivery_row_of p (horizon_start p) ?c) ?ds = Inr (map g ?ds)"
    by (rule map_res_total) (rule g(1))
  ultimately have "delivery_rows p as = Inr (map g ?ds)"
    using ids(1) completions_eq [OF facts f w] by (simp add: delivery_rows_def)
  moreover have "list_all2 (delivery_row_ok p \<sigma>) ?ds (map g ?ds)"
    using g(2) by (simp add: list_all2_map2 list_all2_same)
  ultimately show ?thesis by blast
qed

subsection \<open>All figures\<close>

definition kpi_ok :: "problem \<Rightarrow> assignment_doc list \<Rightarrow> schedule \<Rightarrow> kpi_metrics \<Rightarrow> bool" where
  "kpi_ok p as \<sigma> m \<longleftrightarrow>
     list_all2 (delivery_row_ok p \<sigma>) (sort_key d_demand_order_id (p_demands p)) (km_delivery_rows m)
     \<and> list_all2 (resource_row_ok p as) (sort_key r_resource_id (p_resources p)) (km_resource_rows m)
     \<and> km_weighted_tardiness_seconds m = sum_list (map (\<lambda>d. d_priority_weight d * tardiness p \<sigma> d) (p_demands p))
     \<and> km_makespan_seconds m = (if as = [] then 0 else Max (set (map ad_end_tick as)) * p_tick_seconds p)
     \<and> km_order_count m = int (length (p_demands p)) \<and> km_on_time_order_count m \<le> km_order_count m
     \<and> km_unscheduled_operation_count m = 0"

lemma sum_list_perm: "mset xs = mset ys \<Longrightarrow> sum_list (map g xs) = sum_list (map g ys)" for g :: "'a \<Rightarrow> int"
  by (metis mset_map sum_mset_sum_list)

lemma kpi_metrics_built:
  assumes facts: "problem_facts p" and f: "feasible p \<sigma>" and w: "writes_down as \<sigma>" and h: "within_horizon p \<sigma>"
    and s: "all_served p" and c: "whole_calendar p" and due: "whole_dues p"
  shows "\<exists>m. calculate_schedule_kpi_metrics p as = Inr m \<and> kpi_ok p as \<sigma> m"
proof -
  let ?ds = "sort_key d_demand_order_id (p_demands p)"
  obtain rows where rows: "resource_rows p as = Inr rows"
    "list_all2 (resource_row_ok p as) (sort_key r_resource_id (p_resources p)) rows"
    using resource_rows_built [OF facts f w h c] by blast
  obtain ds where ds: "delivery_rows p as = Inr ds" "list_all2 (delivery_row_ok p \<sigma>) ?ds ds"
    using delivery_rows_built [OF facts f w h s _ due] c by (auto simp: whole_calendar_def)
  have "map dr_weighted_tardiness_seconds ds = map (\<lambda>d. d_priority_weight d * tardiness p \<sigma> d) ?ds"
    using ds(2) by (induction rule: list_all2_induct) (simp_all add: delivery_row_ok_def)
  moreover have "sum_list (map g ?ds) = sum_list (map g (p_demands p))" for g :: "demand_doc \<Rightarrow> int"
    by (metis mset_map mset_sort sum_mset_sum_list)
  ultimately have sum: "sum_list (map dr_weighted_tardiness_seconds ds) = sum_list (map (\<lambda>d. d_priority_weight d * tardiness p \<sigma> d) (p_demands p))"
    by simp
  have len: "length ds = length (p_demands p)" using ds(2) by (auto dest: list_all2_lengthD)
  have "distinct (operation_ids p)" "distinct (map ad_operation_id as)" "set (map ad_operation_id as) = set (operation_ids p)"
    using facts w f by (simp_all add: problem_facts_def writes_down_def feasible_def)
  then have "length as = length (p_operations p)" by (metis distinct_card length_map operation_ids_def)
  then show ?thesis using rows ds sum len length_filter_le [of dr_on_time ds] by (simp add: calculate_schedule_kpi_metrics_def kpi_ok_def)
qed

subsection \<open>The figures of a reference schedule\<close>

lemma sorted_demands_perm:
  assumes "distinct (map d_demand_order_id (p_demands p))"
  shows "mset (sorted_demands p) = mset (p_demands p)"
proof -
  have known: "demand_by_id p (d_demand_order_id d) = Some d" if "d \<in> set (p_demands p)" for d
    using last_with_key [OF assms that] by (simp add: demand_by_id_def)
  let ?ids = "sorted_ids (map d_demand_order_id (p_demands p))"
  have all: "\<exists>d. demand_by_id p i = Some d \<and> d_demand_order_id d = i" if "i \<in> set ?ids" for i
    using that known by auto
  have "map d_demand_order_id (List.map_filter (demand_by_id p) is) = is"
    if "\<And>i. i \<in> set is \<Longrightarrow> \<exists>d. demand_by_id p i = Some d \<and> d_demand_order_id d = i" for "is"
    using that by (induction "is") (force simp: map_filter_simps)+
  from this [of ?ids] have "map d_demand_order_id (sorted_demands p) = ?ids" using all unfolding sorted_demands_def by blast
  then have "distinct (map d_demand_order_id (sorted_demands p))" by simp
  then have "distinct (sorted_demands p)" "distinct (p_demands p)" using assms by (simp_all add: distinct_map)
  moreover have "set (sorted_demands p) = set (p_demands p)"
    using sorted_demands_mem sorted_demands_in known by fastforce
  ultimately show ?thesis by (simp add: set_eq_iff_mset_eq_distinct)
qed

lemma demand_tardiness_eq:
  assumes facts: "problem_facts p" and f: "feasible p \<sigma>" and w: "writes_down as \<sigma>" and cx: "cx_problem cx = p"
    and t: "demand_tardiness cx (map (\<lambda>a. (demand_of p a, ad_end_tick a)) as) d = Inr x"
  shows "x = d_priority_weight d * tardiness p \<sigma> d \<and> end_ticks p \<sigma> d \<noteq> {}
    \<and> (\<exists>n. utc (d_due_at_utc d) = horizon_start p + n * micros)"
proof -
  let ?ticks = "map snd (filter (\<lambda>(i, _). i = d_demand_order_id d) (map (\<lambda>a. (demand_of p a, ad_end_tick a)) as))"
  have ticks: "set ?ticks = end_ticks p \<sigma> d" by (rule demand_ticks [OF facts f w])
  obtain n m where n: "exact_seconds (utc (d_due_at_utc d)) (horizon_start p) = Inr n" and m: "max_or_raise ?ticks = Inr m"
    and x: "x = d_priority_weight d * max 0 (m * p_tick_seconds p - n)"
    using t unfolding demand_tardiness_def cx by (auto simp only: bind_res_Inr_iff sum.inject)
  have due: "utc (d_due_at_utc d) = horizon_start p + n * micros" using n by (simp only: exact_seconds_ok_iff)
  have ne: "?ticks \<noteq> []" and max: "m = Max (end_ticks p \<sigma> d)" using m unfolding max_or_raise_def ticks by (auto split: if_splits)
  have "tick_instant p m - utc (d_due_at_utc d) = (m * p_tick_seconds p - n) * micros"
    by (simp add: tick_instant_def due algebra_simps)
  then have "tardiness p \<sigma> d = max 0 (m * p_tick_seconds p - n)" by (simp add: tardiness_def max micros_def)
  then show ?thesis using x ne ticks due by (metis set_empty)
qed

lemma list_all2_member: "list_all2 P xs ys \<Longrightarrow> x \<in> set xs \<Longrightarrow> \<exists>y. P x y"
  by (induction rule: list_all2_induct) auto

lemma quality_metrics_figures:
  assumes facts: "problem_facts p" and f: "feasible p \<sigma>" and w: "writes_down (cd_assignments c) \<sigma>" and cx: "cx_problem cx = p"
    and q: "quality_metrics cx c = Inr metrics"
  shows "fst metrics = sum_list (map (\<lambda>d. d_priority_weight d * tardiness p \<sigma> d) (p_demands p))
    \<and> snd metrics = (if cd_assignments c = [] then 0 else Max (set (map ad_end_tick (cd_assignments c))) * p_tick_seconds p)
    \<and> (\<forall>d \<in> set (p_demands p). end_ticks p \<sigma> d \<noteq> {} \<and> (\<exists>n. utc (d_due_at_utc d) = horizon_start p + n * micros))"
proof -
  let ?rows = "map (\<lambda>a. (demand_of p a, ad_end_tick a)) (cd_assignments c)"
  let ?w = "\<lambda>d. d_priority_weight d * tardiness p \<sigma> d"
  have "map_res (completion_row cx) (cd_assignments c) = Inr ?rows"
    using completions_eq [OF facts f w] by (simp add: completions_def completion_row_def [abs_def] cx)
  then obtain ts where ts: "map_res (demand_tardiness cx ?rows) (sorted_demands p) = Inr ts"
    and m: "fst metrics = sum_list ts" "snd metrics = (if cd_assignments c = [] then 0
      else Max (set (map ad_end_tick (cd_assignments c))) * p_tick_seconds p)"
    using q by (auto simp: quality_metrics_def res_simps cx)
  note eq = demand_tardiness_eq [OF facts f w cx]
  have la: "list_all2 (\<lambda>d x. demand_tardiness cx ?rows d = Inr x) (sorted_demands p) ts" using ts by (simp add: map_res_Inr_iff)
  then have "ts = map ?w (sorted_demands p)" by (induction rule: list_all2_induct) (auto dest: eq)
  moreover have perm: "mset (sorted_demands p) = mset (p_demands p)"
    using facts by (intro sorted_demands_perm) (simp add: problem_facts_def)
  then have "sum_list (map ?w (sorted_demands p)) = sum_list (map ?w (p_demands p))" by (rule sum_list_perm)
  moreover have "end_ticks p \<sigma> d \<noteq> {} \<and> (\<exists>n. utc (d_due_at_utc d) = horizon_start p + n * micros)" if "d \<in> set (p_demands p)" for d
  proof -
    have d: "d \<in> set (sorted_demands p)" using that mset_eq_setD [OF perm] by simp
    from list_all2_member [OF la d] show ?thesis using eq by blast
  qed
  ultimately show ?thesis using m by simp
qed

lemma placements_written:
  assumes g: "good_context cx" and ok: "scheduled_ok cx pls"
    and docs: "map_res (assignment_document cx) (sorted_placements pls) = Inr as"
  shows "writes_down as (placed pls) \<and> within_horizon (cx_problem cx) (placed pls)"
proof -
  have part: "distinct (map fst pls)" "\<And>i pl. (i, pl) \<in> set pls \<Longrightarrow> placement_ok cx i pl"
    using ok by (auto simp: scheduled_ok_def partial_ok_def)
  have same: "pl_operation_id pl = i" if "(i, pl) \<in> set pls" for i pl using part(2) [OF that] by (simp add: placement_ok_def)
  have "map pl_operation_id (sorted_placements pls) = map fst (sort_key fst pls)"
    using same by (auto simp: sorted_placements_def)
  moreover have "map ad_operation_id as = map pl_operation_id (sorted_placements pls)"
    using docs assignment_document_ids unfolding map_res_Inr_iff by (induction rule: list_all2_induct) auto
  ultimately have ids: "map ad_operation_id as = map fst (sort_key fst pls)" by simp
  have "distinct (map fst (sort_key fst pls))" using part(1) by (metis mset_eq_imp_distinct_iff mset_map mset_sort)
  then have 1: "distinct (map ad_operation_id as)" using ids by simp
  have 2: "set (map ad_operation_id as) = dom (placed pls)" unfolding ids by (simp add: placed_dom)
  have "placed pls (ad_operation_id a) = Some \<lparr>sl_resource = ad_resource_id a, sl_start = ad_start_tick a, sl_end = ad_end_tick a\<rparr>"
    if a: "a \<in> set as" for a
  proof -
    obtain i pl where pl: "(i, pl) \<in> set pls" "assignment_document cx pl = Inr a"
      using map_res_mem [OF docs a] by (auto simp: sorted_placements_def)
    then have "ad_operation_id a = i \<and> slot_of_placement pl = \<lparr>sl_resource = ad_resource_id a, sl_start = ad_start_tick a, sl_end = ad_end_tick a\<rparr>"
      using same [OF pl(1)] by (auto simp: assignment_document_def res_simps slot_of_placement_def)
    then show ?thesis using pl(1) placed_Some_iff [OF part(1)] by auto
  qed
  moreover have "within_horizon (cx_problem cx) (placed pls)"
  proof -
    have "0 \<le> sl_start s \<and> sl_start s \<le> sl_end s \<and> tick_instant (cx_problem cx) (sl_end s) \<le> horizon_end (cx_problem cx)"
      if s: "placed pls i = Some s" for i s
    proof -
      obtain pl where pl: "(i, pl) \<in> set pls" "slot_of_placement pl = s" using s placed_Some_iff [OF part(1)] by auto
      have "0 \<le> pl_start_tick pl" "pl_start_tick pl < pl_end_tick pl" "pl_end_tick pl \<le> cx_horizon_ticks cx"
        using part(2) [OF pl(1)] by (simp_all add: placement_ok_def)
      moreover from this(3) have "tick_instant (cx_problem cx) (pl_end_tick pl) \<le> horizon_end (cx_problem cx)"
        by (simp only: horizon_tick_iff [OF g])
      ultimately show ?thesis unfolding pl(2) [symmetric] by (simp add: slot_of_placement_def)
    qed
    then show ?thesis by (simp add: within_horizon_def)
  qed
  ultimately show ?thesis using 1 2 by (simp add: writes_down_def)
qed

lemma schedule_kpi:
  assumes r: "schedule_reference digest p algorithm = Inr res" "rr_status res = FEASIBLE" and cal: "whole_calendar p"
  shows "\<exists>c \<sigma> m. rr_candidate res = Some c \<and> feasible p \<sigma> \<and> writes_down (cd_assignments c) \<sigma>
    \<and> calculate_schedule_kpi_metrics p (cd_assignments c) = Inr m \<and> kpi_ok p (cd_assignments c) \<sigma> m
    \<and> rr_weighted_tardiness_seconds res = Some (km_weighted_tardiness_seconds m)
    \<and> rr_makespan_seconds res = Some (km_makespan_seconds m)"
  using r(1)
proof (cases rule: schedule_reference_cases)
  case (candidate cx c)
  note cx = checked_context_ok [OF candidate(1)]
  obtain rep metrics where fin: "quality_metrics cx c = Inr metrics" "res = reference_success p algorithm c rep metrics"
    using candidate(3) r(2)
    by (auto simp: finish_candidate_def reference_failure_def invalid_problem_def res_simps split: sum.splits py_exn.splits if_splits)
  obtain pls where pls: "scheduled_ok cx pls" "fst ` set pls = set (operation_ids p)"
    "map_res (assignment_document cx) (sorted_placements pls) = Inr (cd_assignments c)"
    using build_schedule_ok [OF cx(3) candidate(2)] cx(4) by metis
  have facts: "problem_facts p" by (rule accepted_facts [OF cx(1)])
  have f: "feasible p (placed pls)" using scheduled_feasible [OF cx(3) pls(1)] pls(2) cx(4) by simp
  have w: "writes_down (cd_assignments c) (placed pls)" "within_horizon p (placed pls)"
    using placements_written [OF cx(3) pls(1,3)] cx(4) by simp_all
  note q = quality_metrics_figures [OF facts f w(1) cx(4) fin(1)]
  have "whole_dues p"
    using q cal by (force simp: whole_dues_def list_all_iff whole_def whole_calendar_def)
  moreover have "all_served p"
    using q by (fastforce simp: all_served_def list_all_iff list_ex_iff end_ticks_def)
  ultimately obtain m where m: "calculate_schedule_kpi_metrics p (cd_assignments c) = Inr m" "kpi_ok p (cd_assignments c) (placed pls) m"
    using kpi_metrics_built [OF facts f w _ cal] by blast
  then show ?thesis using q f w(1) fin(2) by (intro exI [of _ c] exI [of _ "placed pls"] exI [of _ m])
      (simp add: reference_success_def kpi_ok_def)
qed (use r(2) in \<open>simp_all add: invalid_problem_def reference_failure_def\<close>)

end
