(* ===== verification/Kpi_Example.thy ===== *)
theory Kpi_Example
  imports Kpi_Correct Example
begin

section \<open>The key figures of the example\<close>

lemma ex_whole_calendar: "whole_calendar ex_problem" "whole_dues ex_problem"
  by code_simp+

lemma ex_written:
  "\<exists>as \<sigma>. feasible ex_problem \<sigma> \<and> writes_down as \<sigma> \<and> within_horizon ex_problem \<sigma>"
proof -
  obtain c where b: "build_schedule \<lparr>cx_problem = ex_problem, cx_horizon_ticks = 20\<rparr> EDD = Inr (Inr c)"
    using ex_built by blast
  obtain pls where pls: "scheduled_ok \<lparr>cx_problem = ex_problem, cx_horizon_ticks = 20\<rparr> pls"
    "fst ` set pls = set (operation_ids ex_problem)"
    "map_res (assignment_document \<lparr>cx_problem = ex_problem, cx_horizon_ticks = 20\<rparr>) (sorted_placements pls) = Inr (cd_assignments c)"
    using build_schedule_ok [OF ex_good b] by (metis sched_context.select_convs(1))
  have "feasible ex_problem (placed pls)" using scheduled_feasible [OF ex_good pls(1)] pls(2) by simp
  then show ?thesis using placements_written [OF ex_good pls(1,3)] by auto
qed

end
