(* ===== verification/Stability.thy ===== *)
theory Stability
  imports Stamps Schedule_Validator
begin

section \<open>Stability of a replanned schedule\<close>

text \<open>
  \<open>planning/reporting/stability.py\<close>: objective OBJ-002, the vector that compares a new schedule with
  the one it replaces. Assignments and soft locks are decoded JSON; the errors are those of
  \<open>domain/change_report.py\<close> without the entity and the message.
\<close>

subsection \<open>Reading values\<close>

definition reject_change_report :: "string \<Rightarrow> string \<Rightarrow> py_exn" where
  "reject_change_report reason field = RaiseDomain ''ChangeReportError'' reason field"

definition invalid_assignment :: "string \<Rightarrow> py_exn" where
  "invalid_assignment field = reject_change_report ''INVALID_ASSIGNMENT'' field"

definition mapping_at :: "json \<Rightarrow> string \<Rightarrow> json_object res" where
  "mapping_at v field = (case v of JObj kvs \<Rightarrow> Inr kvs | _ \<Rightarrow> Inl (invalid_assignment field))"

definition identifier_at :: "json \<Rightarrow> string \<Rightarrow> string res" where
  "identifier_at v field =
     (case identifier_value v of None \<Rightarrow> Inl (invalid_assignment field) | Some s \<Rightarrow> Inr s)"

definition integer_at :: "int \<Rightarrow> json \<Rightarrow> string \<Rightarrow> int res" where
  "integer_at minimum v field =
     (case integer_value v of
        None \<Rightarrow> Inl (invalid_assignment field)
      | Some n \<Rightarrow> if n < minimum then Inl (invalid_assignment field) else Inr n)"

definition utc_second :: "json \<Rightarrow> string \<Rightarrow> stamp res" where
  "utc_second v field = whole_second (invalid_assignment field) (invalid_assignment field) v"

definition identifier_list_at :: "json \<Rightarrow> string \<Rightarrow> string list res" where
  "identifier_list_at v field =
     (case v of
        JArr vs \<Rightarrow>
          bind_res (map_res (\<lambda>item. identifier_at item (field @ ''[]'')) vs) (\<lambda>identifiers.
          bind_res (require_or (distinct identifiers) (invalid_assignment field)) (\<lambda>_.
          Inr (sort identifiers)))
      | _ \<Rightarrow> Inl (invalid_assignment field))"

subsection \<open>Assignments\<close>

record stable_assignment =
  sa_operation_id :: string
  sa_resource_id :: string
  sa_start_tick :: int
  sa_end_tick :: int
  sa_duration_ticks :: int
  sa_start_at_utc :: string
  sa_end_at_utc :: string
  sa_duration_seconds :: int
  sa_lock_ids :: "string list"
  sa_execution_fact_ids :: "string list"

definition assignment_field_names :: "string list" where
  "assignment_field_names = [''operation_id'', ''resource_id'', ''start_tick'', ''end_tick'', ''duration_ticks'',
     ''start_at_utc'', ''end_at_utc'', ''duration_seconds'', ''lock_ids'', ''execution_fact_ids'']"

definition text_of :: "json \<Rightarrow> string" where
  "text_of v = (case v of JStr s \<Rightarrow> s | _ \<Rightarrow> [])"

definition canonical_assignment :: "json \<Rightarrow> string \<Rightarrow> stable_assignment res" where
  "canonical_assignment v field =
     bind_res (mapping_at v field) (\<lambda>a.
     bind_res (identifier_at (dict_get a ''operation_id'') (field @ ''.operation_id'')) (\<lambda>operation_id.
     bind_res (require_or (set (map fst a) = set assignment_field_names) (invalid_assignment field)) (\<lambda>_.
     bind_res (identifier_at (dict_get a ''resource_id'') (field @ ''.resource_id'')) (\<lambda>resource_id.
     bind_res (integer_at 0 (dict_get a ''start_tick'') (field @ ''.start_tick'')) (\<lambda>start_tick.
     bind_res (integer_at 1 (dict_get a ''end_tick'') (field @ ''.end_tick'')) (\<lambda>end_tick.
     bind_res (integer_at 1 (dict_get a ''duration_ticks'') (field @ ''.duration_ticks'')) (\<lambda>duration_ticks.
     bind_res (integer_at 1 (dict_get a ''duration_seconds'') (field @ ''.duration_seconds'')) (\<lambda>duration_seconds.
     bind_res (utc_second (dict_get a ''start_at_utc'') (field @ ''.start_at_utc'')) (\<lambda>start.
     bind_res (utc_second (dict_get a ''end_at_utc'') (field @ ''.end_at_utc'')) (\<lambda>end.
     bind_res (stamp_seconds end start) (\<lambda>occupied_seconds.
     let tick_seconds = occupied_seconds div duration_ticks in
     bind_res (require_or (0 < occupied_seconds \<and> occupied_seconds mod duration_ticks = 0
         \<and> occupied_seconds - tick_seconds < duration_seconds \<and> duration_seconds \<le> occupied_seconds
         \<and> end_tick - start_tick = duration_ticks) (invalid_assignment field)) (\<lambda>_.
     bind_res (identifier_list_at (dict_get a ''lock_ids'') (field @ ''.lock_ids'')) (\<lambda>lock_ids.
     bind_res (identifier_list_at (dict_get a ''execution_fact_ids'') (field @ ''.execution_fact_ids'')) (\<lambda>fact_ids.
     Inr \<lparr>sa_operation_id = operation_id, sa_resource_id = resource_id, sa_start_tick = start_tick,
          sa_end_tick = end_tick, sa_duration_ticks = duration_ticks,
          sa_start_at_utc = text_of (dict_get a ''start_at_utc''), sa_end_at_utc = text_of (dict_get a ''end_at_utc''),
          sa_duration_seconds = duration_seconds, sa_lock_ids = lock_ids, sa_execution_fact_ids = fact_ids\<rparr>))))))))))))))"

type_synonym assignment_index = "(string \<times> stable_assignment) list"

fun index_from :: "nat \<Rightarrow> string \<Rightarrow> assignment_index \<Rightarrow> json list \<Rightarrow> assignment_index res" where
  "index_from i field indexed_so_far [] = Inr indexed_so_far"
| "index_from i field indexed_so_far (v # vs) =
     bind_res (canonical_assignment v (indexed field i)) (\<lambda>a.
     bind_res (require_or (sa_operation_id a \<notin> set (map fst indexed_so_far))
       (reject_change_report ''DUPLICATE_OPERATION'' field)) (\<lambda>_.
     index_from (Suc i) field (indexed_so_far @ [(sa_operation_id a, a)]) vs))"

definition index_assignments :: "json list \<Rightarrow> string \<Rightarrow> assignment_index res" where
  "index_assignments vs field = bind_res (index_from 0 field [] vs) (\<lambda>found. Inr (sort_key fst found))"

subsection \<open>Deltas\<close>

record operation_delta =
  dl_resource_changed :: bool
  dl_start_shift_seconds :: int
  dl_absolute_start_shift_seconds :: int
  dl_end_shift_seconds :: int
  dl_duration_delta_seconds :: int

definition delta_changed :: "operation_delta \<Rightarrow> bool" where
  "delta_changed d = (dl_resource_changed d \<or> dl_start_shift_seconds d \<noteq> 0 \<or> dl_end_shift_seconds d \<noteq> 0)"

definition calculate_operation_delta :: "stable_assignment \<Rightarrow> stable_assignment \<Rightarrow> operation_delta res" where
  "calculate_operation_delta base new =
     bind_res (require_or (sa_operation_id new = sa_operation_id base)
       (invalid_assignment ''new_assignment.operation_id'')) (\<lambda>_.
     bind_res (utc_second (JStr (sa_start_at_utc base)) ''base.start_at_utc'') (\<lambda>base_start.
     bind_res (utc_second (JStr (sa_start_at_utc new)) ''new.start_at_utc'') (\<lambda>new_start.
     bind_res (utc_second (JStr (sa_end_at_utc base)) ''base.end_at_utc'') (\<lambda>base_end.
     bind_res (utc_second (JStr (sa_end_at_utc new)) ''new.end_at_utc'') (\<lambda>new_end.
     bind_res (stamp_seconds new_start base_start) (\<lambda>start_shift.
     bind_res (stamp_seconds new_end base_end) (\<lambda>end_shift.
     Inr \<lparr>dl_resource_changed = (sa_resource_id base \<noteq> sa_resource_id new),
          dl_start_shift_seconds = start_shift, dl_absolute_start_shift_seconds = \<bar>start_shift\<bar>,
          dl_end_shift_seconds = end_shift,
          dl_duration_delta_seconds = sa_duration_seconds new - sa_duration_seconds base\<rparr>)))))))"

subsection \<open>The vector\<close>

definition active_ids :: "string list \<Rightarrow> string list res" where
  "active_ids ids =
     bind_res (map_res (\<lambda>i. identifier_at (JStr i) ''active_operation_ids[]'') ids) (\<lambda>ids.
     bind_res (require_or (distinct ids) (reject_change_report ''DUPLICATE_OPERATION'' ''active_operation_ids'')) (\<lambda>_.
     Inr (sort ids)))"

definition soft_lock_violation :: "assignment_index \<Rightarrow> nat \<Rightarrow> string list \<Rightarrow> json \<Rightarrow> (string \<times> bool) res" where
  "soft_lock_violation new i seen raw =
     (let field = indexed ''active_soft_locks'' i in
      bind_res (mapping_at raw field) (\<lambda>lock.
      bind_res (identifier_at (dict_get lock ''reference_id'') (field @ ''.reference_id'')) (\<lambda>lock_id.
      bind_res (require_or (lock_id \<notin> set seen) (invalid_assignment ''active_soft_locks'')) (\<lambda>_.
      bind_res (identifier_at (dict_get lock ''operation_id'') (field @ ''.operation_id'')) (\<lambda>operation_id.
      bind_res (require_or (dict_get lock ''protection_kind'' = JStr ''SOFT_LOCK''
          \<and> py_eq (dict_get lock ''protection_priority'') (JInt 4)) (invalid_assignment field)) (\<lambda>_.
      case map_of new operation_id of
        None \<Rightarrow> Inl (reject_change_report ''ACTIVE_UNIVERSE_MISMATCH'' ''active_soft_locks.operation_id'')
      | Some a \<Rightarrow>
          bind_res (identifier_at (dict_get lock ''resource_id'') ''soft_lock.resource_id'') (\<lambda>resource_id.
          bind_res (utc_second (dict_get lock ''start_at_utc'') ''soft_lock.start_at_utc'') (\<lambda>target_start.
          bind_res (utc_second (dict_get lock ''end_at_utc'') ''soft_lock.end_at_utc'') (\<lambda>target_end.
          bind_res (stamp_less target_start target_end) (\<lambda>ordered.
          bind_res (require_or ordered (invalid_assignment field)) (\<lambda>_.
          Inr (lock_id, (sa_resource_id a, JStr (sa_start_at_utc a), JStr (sa_end_at_utc a))
             \<noteq> (resource_id, dict_get lock ''start_at_utc'', dict_get lock ''end_at_utc'')))))))))))))"

fun soft_locks_from :: "assignment_index \<Rightarrow> nat \<Rightarrow> string list \<Rightarrow> json list \<Rightarrow> int res" where
  "soft_locks_from new i seen [] = Inr 0"
| "soft_locks_from new i seen (raw # raws) =
     bind_res (soft_lock_violation new i seen raw) (\<lambda>(lock_id, violated).
     bind_res (soft_locks_from new (Suc i) (lock_id # seen) raws) (\<lambda>n.
     Inr (if violated then n + 1 else n)))"

record stability_vector =
  sv_soft_lock_violations :: int
  sv_changed_existing_operations :: int
  sv_resource_changes :: int
  sv_absolute_start_shift_seconds :: int
  sv_unchanged_existing :: int
  sv_comparable_existing :: int

definition stability_score :: "stability_vector \<Rightarrow> int \<times> int \<times> int \<times> int" where
  "stability_score v = (sv_soft_lock_violations v, sv_changed_existing_operations v, sv_resource_changes v,
     sv_absolute_start_shift_seconds v)"

text \<open>\<open>document["unchanged_ratio"]\<close>: status, numerator and denominator.\<close>

definition unchanged_ratio :: "stability_vector \<Rightarrow> string \<times> int \<times> int" where
  "unchanged_ratio v =
     (if sv_comparable_existing v = 0 then (''NOT_APPLICABLE_NO_COMPARABLE_OPERATION'', 0, 0)
      else (''APPLICABLE'', sv_unchanged_existing v, sv_comparable_existing v))"

definition calculate_stability ::
  "json list \<Rightarrow> json list \<Rightarrow> string list \<Rightarrow> json list \<Rightarrow> stability_vector res" where
  "calculate_stability base_assignments new_assignments active_operation_ids active_soft_locks =
     bind_res (index_assignments base_assignments ''base_assignments'') (\<lambda>base.
     bind_res (index_assignments new_assignments ''new_assignments'') (\<lambda>new.
     bind_res (active_ids active_operation_ids) (\<lambda>active.
     bind_res (require_or (map fst new = active)
       (reject_change_report ''ACTIVE_UNIVERSE_MISMATCH'' ''active_operation_ids'')) (\<lambda>_.
     let comparable = sorted_ids (filter (\<lambda>i. i \<in> set active) (map fst base)) in
     bind_res (map_res (\<lambda>i. calculate_operation_delta (the (map_of base i)) (the (map_of new i))) comparable) (\<lambda>deltas.
     let changed = filter delta_changed deltas in
     bind_res (soft_locks_from new 0 [] active_soft_locks) (\<lambda>violations.
     Inr \<lparr>sv_soft_lock_violations = violations,
          sv_changed_existing_operations = int (length changed),
          sv_resource_changes = int (length (filter dl_resource_changed changed)),
          sv_absolute_start_shift_seconds = sum_list (map dl_absolute_start_shift_seconds changed),
          sv_unchanged_existing = int (length comparable) - int (length changed),
          sv_comparable_existing = int (length comparable)\<rparr>))))))"

end
