(* ===== verification/Stability_Correct.thy ===== *)
theory Stability_Correct
  imports Stability
begin

section \<open>The stability vector counts what changed\<close>

text \<open>
  The vector is compared with its meaning: two indexed schedules, the operations they share, and for
  each of them its resource and its start and end. The result does not depend on the order the
  assignments are given in.
\<close>

subsection \<open>Fields of errors do not matter for results\<close>

lemma identifier_at_iff [res_simps]: "identifier_at v f = Inr s \<longleftrightarrow> identifier_value v = Some s"
  by (simp add: identifier_at_def split: option.split)

lemma integer_at_iff [res_simps]: "integer_at m v f = Inr n \<longleftrightarrow> integer_value v = Some n \<and> m \<le> n"
  by (auto simp: integer_at_def split: option.split)

lemma mapping_at_iff [res_simps]: "mapping_at v f = Inr kvs \<longleftrightarrow> v = JObj kvs"
  by (auto simp: mapping_at_def split: json.splits)

lemma utc_second_field: "utc_second v f = Inr t \<Longrightarrow> utc_second v g = Inr t"
  by (auto simp: utc_second_def whole_second_def split: json.splits option.splits if_splits)

lemma utc_second_text: "utc_second v f = Inr t \<Longrightarrow> v = JStr (text_of v)"
  by (auto simp: utc_second_def whole_second_def text_of_def split: json.splits)

lemma utc_second_whole: "utc_second v f = Inr t \<Longrightarrow> stamp_micros t mod micros = 0"
  by (auto simp: utc_second_def whole_second_def split: json.splits option.splits if_splits)

lemma map_res_iff_same: "(\<And>x y. f x = Inr y \<longleftrightarrow> g x = Inr y) \<Longrightarrow> map_res f xs = Inr ys \<longleftrightarrow> map_res g xs = Inr ys"
  by (simp add: map_res_Inr_iff)

lemma identifier_list_field: "identifier_list_at v f = Inr xs \<Longrightarrow> identifier_list_at v g = Inr xs"
proof (cases v)
  case (JArr vs)
  have "map_res (\<lambda>item. identifier_at item (f @ ''[]'')) vs = Inr ys \<longleftrightarrow> map_res (\<lambda>item. identifier_at item (g @ ''[]'')) vs = Inr ys" for ys
    by (rule map_res_iff_same) (simp add: res_simps)
  then show "identifier_list_at v f = Inr xs \<Longrightarrow> identifier_list_at v g = Inr xs"
    using JArr by (auto simp: identifier_list_at_def res_simps)
qed (simp_all add: identifier_list_at_def)

text \<open>The start and the end of an assignment.\<close>

definition start_of :: "stable_assignment \<Rightarrow> stamp" where
  "start_of a = (case utc_second (JStr (sa_start_at_utc a)) [] of Inr t \<Rightarrow> t | Inl _ \<Rightarrow> Naive 0)"

definition end_of :: "stable_assignment \<Rightarrow> stamp" where
  "end_of a = (case utc_second (JStr (sa_end_at_utc a)) [] of Inr t \<Rightarrow> t | Inl _ \<Rightarrow> Naive 0)"

definition timed :: "stable_assignment \<Rightarrow> bool" where
  "timed a \<longleftrightarrow> (\<forall>f. utc_second (JStr (sa_start_at_utc a)) f = Inr (start_of a))
     \<and> (\<forall>f. utc_second (JStr (sa_end_at_utc a)) f = Inr (end_of a))"

lemma timedI:
  assumes "utc_second (JStr (sa_start_at_utc a)) f = Inr s" and "utc_second (JStr (sa_end_at_utc a)) g = Inr e"
  shows "timed a"
  using utc_second_field [OF assms(1)] utc_second_field [OF assms(2)] by (simp add: timed_def start_of_def end_of_def)

lemma canonical_assignment_times:
  assumes "canonical_assignment v f = Inr a"
  shows "\<exists>kvs s e. utc_second (dict_get kvs ''start_at_utc'') (f @ ''.start_at_utc'') = Inr s
    \<and> utc_second (dict_get kvs ''end_at_utc'') (f @ ''.end_at_utc'') = Inr e
    \<and> sa_start_at_utc a = text_of (dict_get kvs ''start_at_utc'') \<and> sa_end_at_utc a = text_of (dict_get kvs ''end_at_utc'')"
  using assms unfolding canonical_assignment_def Let_def bind_res_Inr_iff
  by (elim exE conjE, intro exI conjI) (assumption, assumption, auto)

lemma canonical_assignment_timed:
  assumes "canonical_assignment v f = Inr a" shows "timed a"
proof -
  obtain kvs s e where t: "utc_second (dict_get kvs ''start_at_utc'') (f @ ''.start_at_utc'') = Inr s"
    "utc_second (dict_get kvs ''end_at_utc'') (f @ ''.end_at_utc'') = Inr e"
    "sa_start_at_utc a = text_of (dict_get kvs ''start_at_utc'')" "sa_end_at_utc a = text_of (dict_get kvs ''end_at_utc'')"
    using canonical_assignment_times [OF assms] by (elim exE conjE)
  have "JStr (sa_start_at_utc a) = dict_get kvs ''start_at_utc''" "JStr (sa_end_at_utc a) = dict_get kvs ''end_at_utc''"
    using utc_second_text [OF t(1)] utc_second_text [OF t(2)] t(3,4) by simp_all
  then show ?thesis using timedI t(1,2) by metis
qed

lemma canonical_assignment_field:
  assumes "canonical_assignment v f = Inr a" shows "canonical_assignment v g = Inr a"
  using assms unfolding canonical_assignment_def Let_def bind_res_Inr_iff
  by (elim exE conjE, intro exI conjI)
    (auto simp: res_simps intro: utc_second_field identifier_list_field)

subsection \<open>Indexes\<close>

definition reads :: "json list \<Rightarrow> stable_assignment list \<Rightarrow> bool" where
  "reads vs as \<longleftrightarrow> list_all2 (\<lambda>v a. canonical_assignment v [] = Inr a) vs as"

definition keyed :: "stable_assignment \<Rightarrow> string \<times> stable_assignment" where
  "keyed a = (sa_operation_id a, a)"

lemma fst_keyed [simp]: "fst (keyed a) = sa_operation_id a"
  by (simp add: keyed_def)

lemma index_cons:
  assumes "canonical_assignment v [] = Inr a"
  shows "(sa_operation_id a \<notin> set (map fst acc) \<and> (\<exists>as. reads vs as
      \<and> distinct (map fst (acc @ [keyed a]) @ map sa_operation_id as) \<and> idx = (acc @ [keyed a]) @ map keyed as))
    \<longleftrightarrow> (\<exists>as. reads (v # vs) as \<and> distinct (map fst acc @ map sa_operation_id as) \<and> idx = acc @ map keyed as)"
proof -
  have cons: "reads (v # vs) bs \<longleftrightarrow> (\<exists>as. bs = a # as \<and> reads vs as)" for bs
    using assms by (auto simp: reads_def list_all2_Cons1)
  have R: "(\<exists>bs. reads (v # vs) bs \<and> P bs) \<longleftrightarrow> (\<exists>as. reads vs as \<and> P (a # as))" for P
    unfolding cons by blast
  show ?thesis unfolding R by auto
qed

lemma index_from_iff:
  "distinct (map fst acc) \<Longrightarrow>
     index_from i field acc vs = Inr idx \<longleftrightarrow>
       (\<exists>as. reads vs as \<and> distinct (map fst acc @ map sa_operation_id as) \<and> idx = acc @ map keyed as)"
proof (induction vs arbitrary: i acc)
  case Nil
  then show ?case by (auto simp: reads_def)
next
  case (Cons v vs)
  have field: "canonical_assignment v f = Inr a \<longleftrightarrow> canonical_assignment v [] = Inr a" for f a
    using canonical_assignment_field by blast
  show ?case
  proof (cases "canonical_assignment v []")
    case (Inl e)
    then have "\<not> (\<exists>a. canonical_assignment v (indexed field i) = Inr a)" using field by simp
    then have "index_from i field acc (v # vs) \<noteq> Inr idx" by (cases "canonical_assignment v (indexed field i)") auto
    then show ?thesis using Inl by (auto simp: reads_def list_all2_Cons1)
  next
    case (Inr a)
    then have "canonical_assignment v (indexed field i) = Inr a" using field by blast
    then have "index_from i field acc (v # vs) = Inr idx \<longleftrightarrow> sa_operation_id a \<notin> set (map fst acc)
        \<and> index_from (Suc i) field (acc @ [keyed a]) vs = Inr idx"
      by (auto simp: res_simps keyed_def)
    also have "\<dots> \<longleftrightarrow> sa_operation_id a \<notin> set (map fst acc) \<and> (\<exists>as. reads vs as
        \<and> distinct (map fst (acc @ [keyed a]) @ map sa_operation_id as) \<and> idx = (acc @ [keyed a]) @ map keyed as)"
      using Cons.IH [of "acc @ [keyed a]" "Suc i"] Cons.prems by (intro conj_cong refl) simp
    also have "\<dots> \<longleftrightarrow> (\<exists>as. reads (v # vs) as \<and> distinct (map fst acc @ map sa_operation_id as) \<and> idx = acc @ map keyed as)"
      by (rule index_cons [OF Inr])
    finally show ?thesis .
  qed
qed

lemma index_assignments_iff:
  "index_assignments vs field = Inr idx \<longleftrightarrow>
     (\<exists>as. reads vs as \<and> distinct (map sa_operation_id as) \<and> idx = sort_key fst (map keyed as))"
  using index_from_iff [of "[]" 0 field vs] by (auto simp: index_assignments_def res_simps)

lemma results_perm:
  assumes "list_all2 (\<lambda>v a. f v = Inr a) vs as" and "mset vs = mset vs'"
  obtains as' where "list_all2 (\<lambda>v a. f v = Inr a) vs' as'" "mset as' = mset as"
proof -
  define g where "g v = (case f v of Inr a \<Rightarrow> a | Inl _ \<Rightarrow> undefined)" for v
  have all: "f v = Inr (g v)" if "v \<in> set vs" for v
    using assms(1) that by (auto simp: list_all2_conv_all_nth in_set_conv_nth g_def)
  have "as = map g vs" using assms(1) by (induction rule: list_all2_induct) (simp_all add: g_def)
  moreover have "list_all2 (\<lambda>v a. f v = Inr a) vs' (map g vs')"
    using all mset_eq_setD [OF assms(2)] by (simp add: list_all2_map2 list_all2_same)
  ultimately show ?thesis using that assms(2) by (metis mset_map)
qed

lemma index_assignments_perm:
  assumes "index_assignments vs field = Inr idx" and "mset vs = mset vs'"
  shows "index_assignments vs' field = Inr idx"
proof -
  obtain as where as: "reads vs as" "distinct (map sa_operation_id as)" "idx = sort_key fst (map keyed as)"
    using assms(1) by (auto simp: index_assignments_iff)
  obtain as' where as': "reads vs' as'" "mset as' = mset as"
    using results_perm [OF as(1) [unfolded reads_def] assms(2)] by (metis reads_def)
  have "distinct (map sa_operation_id as')" using as(2) as'(2) by (metis mset_eq_imp_distinct_iff mset_map)
  moreover have "sort_key fst (map keyed as) = sort_key fst (map keyed as')"
    using as(2) as'(2) by (intro sort_key_perm_distinct) (simp_all add: comp_def)
  ultimately show ?thesis using as'(1) as(3) by (auto simp: index_assignments_iff)
qed

lemma index_assignments_facts:
  assumes "index_assignments vs field = Inr idx"
  shows "distinct (map fst idx)" and "sorted (map fst idx)"
    and "(i, a) \<in> set idx \<Longrightarrow> sa_operation_id a = i \<and> timed a"
proof -
  obtain as where as: "reads vs as" "distinct (map sa_operation_id as)" "idx = sort_key fst (map keyed as)"
    using assms by (auto simp: index_assignments_iff)
  have "mset (map fst idx) = mset (map fst (map keyed as))" unfolding as(3) by (simp del: map_map)
  then have "mset (map fst idx) = mset (map sa_operation_id as)" by (simp add: comp_def)
  then show "distinct (map fst idx)" using as(2) by (metis mset_eq_imp_distinct_iff)
  show "sorted (map fst idx)" by (simp add: as(3))
  have "timed b" if "b \<in> set as" for b
    using as(1) that canonical_assignment_timed by (auto simp: reads_def list_all2_conv_all_nth in_set_conv_nth)
  then show "(i, a) \<in> set idx \<Longrightarrow> sa_operation_id a = i \<and> timed a" by (auto simp: as(3) keyed_def)
qed

lemma active_ids_iff: "active_ids ids = Inr xs \<longleftrightarrow> list_all canonical_identifier ids \<and> distinct ids \<and> xs = sort ids"
proof -
  have "map_res (\<lambda>i. identifier_at (JStr i) ''active_operation_ids[]'') ids = Inr ys \<longleftrightarrow> list_all canonical_identifier ids \<and> ys = ids" for ys
    by (induction ids arbitrary: ys) (auto simp: res_simps)
  then show ?thesis by (auto simp: active_ids_def res_simps)
qed

subsection \<open>The meaning of the vector\<close>

definition place_of :: "stable_assignment \<Rightarrow> string \<times> stamp \<times> stamp" where
  "place_of a = (sa_resource_id a, start_of a, end_of a)"

definition shared :: "assignment_index \<Rightarrow> assignment_index \<Rightarrow> string set" where
  "shared base new = fst ` set base \<inter> fst ` set new"

abbreviation moved :: "assignment_index \<Rightarrow> assignment_index \<Rightarrow> string set" where
  "moved base new \<equiv> {i \<in> shared base new. place_of (the (map_of base i)) \<noteq> place_of (the (map_of new i))}"

definition start_shift :: "stable_assignment \<Rightarrow> stable_assignment \<Rightarrow> int" where
  "start_shift base new = \<bar>stamp_micros (start_of new) - stamp_micros (start_of base)\<bar> div micros"

lemma whole_shift:
  assumes "a mod micros = 0" and "b mod micros = 0"
  shows "(a - b) div micros * micros = a - b"
proof -
  have "(a - b) mod micros = 0" using assms by (simp add: mod_diff_eq [symmetric])
  then show ?thesis using div_mult_mod_eq [of "a - b" micros] by simp
qed

lemma stamp_seconds_facts:
  assumes "stamp_seconds t u = Inr n" and "stamp_micros t mod micros = 0" and "stamp_micros u mod micros = 0"
  shows "(n = 0 \<longleftrightarrow> t = u) \<and> \<bar>n\<bar> = \<bar>stamp_micros t - stamp_micros u\<bar> div micros"
proof -
  have n: "n = (stamp_micros t - stamp_micros u) div micros" and kind: "stamp_micros t = stamp_micros u \<longleftrightarrow> t = u"
    using assms(1) by (cases t; cases u; simp)+
  note w = whole_shift [OF assms(2,3)]
  have "\<bar>stamp_micros t - stamp_micros u\<bar> = \<bar>n\<bar> * micros" using w unfolding n by (simp add: abs_mult micros_def)
  then have "\<bar>n\<bar> = \<bar>stamp_micros t - stamp_micros u\<bar> div micros" by (simp add: micros_def)
  moreover have "n = 0 \<longleftrightarrow> stamp_micros t - stamp_micros u = 0" using w unfolding n [symmetric] by (auto simp: micros_def)
  ultimately show ?thesis using kind by simp
qed

lemma delta_meaning:
  assumes d: "calculate_operation_delta base new = Inr d" and t: "timed base" "timed new"
  shows "delta_changed d \<longleftrightarrow> place_of base \<noteq> place_of new"
    and "dl_resource_changed d \<longleftrightarrow> sa_resource_id base \<noteq> sa_resource_id new"
    and "dl_absolute_start_shift_seconds d = start_shift base new"
proof -
  obtain n m where n: "stamp_seconds (start_of new) (start_of base) = Inr n" "stamp_seconds (end_of new) (end_of base) = Inr m"
    and d': "dl_resource_changed d \<longleftrightarrow> sa_resource_id base \<noteq> sa_resource_id new" "dl_start_shift_seconds d = n"
      "dl_absolute_start_shift_seconds d = \<bar>n\<bar>" "dl_end_shift_seconds d = m"
    using d t unfolding calculate_operation_delta_def timed_def by (simp add: res_simps) auto
  have w: "stamp_micros (start_of a) mod micros = 0" "stamp_micros (end_of a) mod micros = 0" if "timed a" for a
    using that utc_second_whole [of "JStr (sa_start_at_utc a)" "[]"] utc_second_whole [of "JStr (sa_end_at_utc a)" "[]"]
    by (simp_all add: timed_def)
  note s = stamp_seconds_facts [OF n(1) w(1) [OF t(2)] w(1) [OF t(1)]]
  note e = stamp_seconds_facts [OF n(2) w(2) [OF t(2)] w(2) [OF t(1)]]
  show "delta_changed d \<longleftrightarrow> place_of base \<noteq> place_of new" 
    using s [THEN conjunct1] e [THEN conjunct1] d' by (auto simp: delta_changed_def place_of_def)
  show "dl_resource_changed d \<longleftrightarrow> sa_resource_id base \<noteq> sa_resource_id new" by (rule d'(1))
  show "dl_absolute_start_shift_seconds d = start_shift base new" using s d'(3) by (simp add: start_shift_def)
qed

lemma deltas_meaning:
  assumes la: "list_all2 (\<lambda>i d. calculate_operation_delta (the (map_of base i)) (the (map_of new i)) = Inr d) common deltas"
    and timed: "\<And>i. i \<in> set common \<Longrightarrow> timed (the (map_of base i)) \<and> timed (the (map_of new i))"
  obtains D where "deltas = map D common"
    "\<And>i. i \<in> set common \<Longrightarrow> delta_changed (D i) \<longleftrightarrow> place_of (the (map_of base i)) \<noteq> place_of (the (map_of new i))"
    "\<And>i. i \<in> set common \<Longrightarrow> dl_resource_changed (D i)
       \<longleftrightarrow> sa_resource_id (the (map_of base i)) \<noteq> sa_resource_id (the (map_of new i))"
    "\<And>i. i \<in> set common \<Longrightarrow> dl_absolute_start_shift_seconds (D i) = start_shift (the (map_of base i)) (the (map_of new i))"
proof -
  let ?delta = "\<lambda>i. calculate_operation_delta (the (map_of base i)) (the (map_of new i))"
  define D where "D i = (case ?delta i of Inr d \<Rightarrow> d | Inl _ \<Rightarrow> undefined)" for i
  have "deltas = map D common" using la by (induction rule: list_all2_induct) (simp_all add: D_def)
  moreover have "?delta i = Inr (D i)" if "i \<in> set common" for i
    using la that by (induction rule: list_all2_induct) (auto simp: D_def)
  ultimately show ?thesis using that [of D] delta_meaning timed by simp
qed

lemma deltas_counted:
  assumes la: "list_all2 (\<lambda>i d. calculate_operation_delta (the (map_of base i)) (the (map_of new i)) = Inr d) common deltas"
    and timed: "\<And>i. i \<in> set common \<Longrightarrow> timed (the (map_of base i)) \<and> timed (the (map_of new i))"
    and common: "distinct common" "set common = shared base new"
  shows "length (filter delta_changed deltas) = card (moved base new)"
    and "length (filter dl_resource_changed (filter delta_changed deltas))
      = card {i \<in> shared base new. sa_resource_id (the (map_of base i)) \<noteq> sa_resource_id (the (map_of new i))}"
    and "sum_list (map dl_absolute_start_shift_seconds (filter delta_changed deltas))
      = (\<Sum>i \<in> shared base new. start_shift (the (map_of base i)) (the (map_of new i)))"
proof -
  let ?B = "\<lambda>i. the (map_of base i)" and ?N = "\<lambda>i. the (map_of new i)"
  obtain D where D: "deltas = map D common"
    "\<And>i. i \<in> set common \<Longrightarrow> delta_changed (D i) \<longleftrightarrow> place_of (?B i) \<noteq> place_of (?N i)"
    "\<And>i. i \<in> set common \<Longrightarrow> dl_resource_changed (D i) \<longleftrightarrow> sa_resource_id (?B i) \<noteq> sa_resource_id (?N i)"
    "\<And>i. i \<in> set common \<Longrightarrow> dl_absolute_start_shift_seconds (D i) = start_shift (?B i) (?N i)"
    using deltas_meaning [OF la timed] by metis
  let ?changed = "filter (\<lambda>i. delta_changed (D i)) common"
  have fd: "filter delta_changed deltas = map D ?changed" by (simp add: D(1) filter_map comp_def)
  have chset: "set ?changed = moved base new" using D(2) common(2) by auto
  show "length (filter delta_changed deltas) = card (moved base new)"
    using distinct_card [of ?changed] common(1) chset fd by simp
  let ?res = "filter (\<lambda>i. dl_resource_changed (D i)) ?changed"
  have "filter dl_resource_changed (filter delta_changed deltas) = map D ?res" unfolding fd by (simp add: filter_map comp_def)
  moreover have "set ?res = {i \<in> shared base new. sa_resource_id (?B i) \<noteq> sa_resource_id (?N i)}"
    using D(2,3) common(2) by (auto simp: place_of_def)
  moreover have "distinct ?res" using common(1) by simp
  ultimately show "length (filter dl_resource_changed (filter delta_changed deltas))
      = card {i \<in> shared base new. sa_resource_id (?B i) \<noteq> sa_resource_id (?N i)}"
    by (metis distinct_card length_map)
  have "sum_list (map dl_absolute_start_shift_seconds (map D ?changed)) = (\<Sum>i \<in> set ?changed. start_shift (?B i) (?N i))"
    using common(1) D(4) by (simp add: sum_list_distinct_conv_sum_set cong: map_cong)
  also have "\<dots> = (\<Sum>i \<in> shared base new. start_shift (?B i) (?N i))"
  proof (rule sum.mono_neutral_left)
    show "\<forall>i \<in> shared base new - set ?changed. start_shift (?B i) (?N i) = 0"
      using chset by (auto simp: place_of_def start_shift_def)
  qed (use chset in \<open>auto simp: shared_def\<close>)
  finally show "sum_list (map dl_absolute_start_shift_seconds (filter delta_changed deltas))
      = (\<Sum>i \<in> shared base new. start_shift (?B i) (?N i))" unfolding fd .
qed

lemma shared_timed:
  assumes "index_assignments bs f = Inr base" and "index_assignments ns g = Inr new" and "i \<in> shared base new"
  shows "timed (the (map_of base i)) \<and> timed (the (map_of new i))"
  using assms(3) index_assignments_facts(1,3) [OF assms(1)] index_assignments_facts(1,3) [OF assms(2)]
  by (force simp: shared_def)

lemma stability_meaning:
  assumes "calculate_stability bs ns ids locks = Inr v"
  obtains base new where "index_assignments bs ''base_assignments'' = Inr base" "index_assignments ns ''new_assignments'' = Inr new"
    "set ids = fst ` set new"
    "sv_comparable_existing v = int (card (shared base new))"
    "sv_changed_existing_operations v = int (card (moved base new))"
    "sv_unchanged_existing v = int (card (shared base new - moved base new))"
    "sv_resource_changes v = int (card {i \<in> shared base new. sa_resource_id (the (map_of base i)) \<noteq> sa_resource_id (the (map_of new i))})"
    "sv_absolute_start_shift_seconds v = (\<Sum>i \<in> shared base new. start_shift (the (map_of base i)) (the (map_of new i)))"
    "soft_locks_from new 0 [] locks = Inr (sv_soft_lock_violations v)"
proof -
  obtain base new active deltas violations where
    b: "index_assignments bs ''base_assignments'' = Inr base" and n: "index_assignments ns ''new_assignments'' = Inr new"
    and a: "active_ids ids = Inr active" and eq: "map fst new = active"
    and ds: "map_res (\<lambda>i. calculate_operation_delta (the (map_of base i)) (the (map_of new i)))
      (sorted_ids (filter (\<lambda>i. i \<in> set active) (map fst base))) = Inr deltas"
    and l: "soft_locks_from new 0 [] locks = Inr violations"
    and v: "v = \<lparr>sv_soft_lock_violations = violations,
      sv_changed_existing_operations = int (length (filter delta_changed deltas)),
      sv_resource_changes = int (length (filter dl_resource_changed (filter delta_changed deltas))),
      sv_absolute_start_shift_seconds = sum_list (map dl_absolute_start_shift_seconds (filter delta_changed deltas)),
      sv_unchanged_existing = int (length (sorted_ids (filter (\<lambda>i. i \<in> set active) (map fst base)))) - int (length (filter delta_changed deltas)),
      sv_comparable_existing = int (length (sorted_ids (filter (\<lambda>i. i \<in> set active) (map fst base))))\<rparr>"
    using assms by (auto simp: calculate_stability_def res_simps Let_def)
  define common where "common = sorted_ids (filter (\<lambda>i. i \<in> set active) (map fst base))"
  have active: "set active = fst ` set new" using eq by force
  have common: "distinct common" "set common = shared base new"
    unfolding common_def shared_def set_sorted_ids set_filter set_map active by (simp, blast)
  have la: "list_all2 (\<lambda>i d. calculate_operation_delta (the (map_of base i)) (the (map_of new i)) = Inr d) common deltas"
    using ds by (simp add: map_res_Inr_iff common_def)
  note count = deltas_counted [OF la shared_timed [OF b n, folded common(2)] common]
  have "moved base new \<subseteq> shared base new" "finite (shared base new)" by (auto simp: shared_def)
  then have rest: "int (card (shared base new - moved base new)) = int (card (shared base new)) - int (card (moved base new))"
    using card_mono [of "shared base new" "moved base new"] by (simp add: card_Diff_subset finite_subset)
  have total: "length common = card (shared base new)" using distinct_card [OF common(1)] common(2) by simp
  have ids: "set ids = fst ` set new" using a active by (auto simp: active_ids_iff)
  show ?thesis
    by (rule that [OF b n ids])
      (simp_all add: v common_def [symmetric] total count rest l del: filter_filter)
qed

subsection \<open>The order of the inputs does not matter\<close>

lemma soft_lock_violation_iff:
  "soft_lock_violation new i seen raw = Inr r
    \<longleftrightarrow> soft_lock_violation new 0 [] raw = Inr r \<and> fst r \<notin> set seen"
  by (cases r) (auto simp: soft_lock_violation_def Let_def res_simps split: option.splits)

abbreviation judged :: "assignment_index \<Rightarrow> json list \<Rightarrow> (string \<times> bool) list \<Rightarrow> bool" where
  "judged new \<equiv> list_all2 (\<lambda>raw r. soft_lock_violation new 0 [] raw = Inr r)"

lemma judged_cons: "judged new (raw # raws) rs \<longleftrightarrow>
    (\<exists>l b rs'. soft_lock_violation new 0 [] raw = Inr (l, b) \<and> judged new raws rs' \<and> rs = (l, b) # rs')"
  by (cases rs) auto

lemma soft_locks_step:
  "soft_locks_from new i seen (raw # raws) = Inr n
    \<longleftrightarrow> (\<exists>l b m. soft_lock_violation new 0 [] raw = Inr (l, b) \<and> l \<notin> set seen
      \<and> soft_locks_from new (Suc i) (l # seen) raws = Inr m \<and> n = (if b then m + 1 else m))"
  using soft_lock_violation_iff [of new i seen raw] by (auto simp: bind_res_Inr_iff split: prod.splits)

lemma soft_locks_from_iff:
  "soft_locks_from new i seen raws = Inr n
    \<longleftrightarrow> (\<exists>rs. judged new raws rs \<and> distinct (map fst rs) \<and> fst ` set rs \<inter> set seen = {}
      \<and> n = int (length (filter snd rs)))"
proof (induction raws arbitrary: i seen n)
  case Nil
  then show ?case by auto
next
  case (Cons raw raws)
  show ?case (is "_ = (\<exists>rs. ?P rs)")
  proof
    assume "soft_locks_from new i seen (raw # raws) = Inr n"
    then obtain l b rs where "soft_lock_violation new 0 [] raw = Inr (l, b)" "l \<notin> set seen" "judged new raws rs"
      "distinct (map fst rs)" "fst ` set rs \<inter> set (l # seen) = {}"
      "n = (if b then int (length (filter snd rs)) + 1 else int (length (filter snd rs)))"
      unfolding soft_locks_step Cons.IH by blast
    then have "?P ((l, b) # rs)" by (auto simp: judged_cons)
    then show "\<exists>rs. ?P rs" ..
  next
    assume "\<exists>rs. ?P rs"
    then obtain l b rs where "soft_lock_violation new 0 [] raw = Inr (l, b)" "judged new raws rs"
      and d: "distinct (map fst ((l, b) # rs))" "fst ` set ((l, b) # rs) \<inter> set seen = {}"
        "n = int (length (filter snd ((l, b) # rs)))"
      unfolding judged_cons by blast
    moreover from d(1,2) have "l \<notin> set seen" "distinct (map fst rs)" "fst ` set rs \<inter> set (l # seen) = {}" by auto
    moreover have "n = (if b then int (length (filter snd rs)) + 1 else int (length (filter snd rs)))" using d(3) by simp
    ultimately show "soft_locks_from new i seen (raw # raws) = Inr n" unfolding soft_locks_step Cons.IH by blast
  qed
qed

text \<open>A soft lock is broken if the new schedule has its operation elsewhere or at texts other than the lock's.\<close>

definition soft_lock_broken :: "assignment_index \<Rightarrow> json \<Rightarrow> bool" where
  "soft_lock_broken new raw =
     (let lock = object_of raw in
      case map_of new (text_of (dict_get lock ''operation_id'')) of
        None \<Rightarrow> False
      | Some a \<Rightarrow> \<not> (dict_get lock ''resource_id'' = JStr (sa_resource_id a)
          \<and> dict_get lock ''start_at_utc'' = JStr (sa_start_at_utc a) \<and> dict_get lock ''end_at_utc'' = JStr (sa_end_at_utc a)))"

lemma identifier_value_iff: "identifier_value v = Some s \<longleftrightarrow> v = JStr s \<and> canonical_identifier s"
  by (cases v) auto

lemma soft_lock_judged:
  assumes "soft_lock_violation new i seen raw = Inr (l, b)"
  shows "b \<longleftrightarrow> soft_lock_broken new raw"
    and "\<exists>kvs. raw = JObj kvs \<and> dict_get kvs ''reference_id'' = JStr l"
    and "text_of (dict_get (object_of raw) ''operation_id'') \<in> fst ` set new"
proof -
  obtain kvs oid a where r: "raw = JObj kvs" "dict_get kvs ''reference_id'' = JStr l" "dict_get kvs ''operation_id'' = JStr oid"
    "map_of new oid = Some a"
    using assms unfolding soft_lock_violation_def Let_def
    by (auto simp: res_simps identifier_value_iff split: option.splits)
  show "b \<longleftrightarrow> soft_lock_broken new raw"
    using assms r unfolding soft_lock_violation_def soft_lock_broken_def Let_def
    by (auto simp: res_simps identifier_value_iff text_of_def object_of_def)
  show "\<exists>kvs. raw = JObj kvs \<and> dict_get kvs ''reference_id'' = JStr l" using r by simp
  show "text_of (dict_get (object_of raw) ''operation_id'') \<in> fst ` set new"
    using r by (force simp: text_of_def object_of_def dest: map_of_SomeD)
qed

lemma soft_locks_counted:
  assumes "soft_locks_from new 0 [] locks = Inr n"
  shows "n = int (length (filter (soft_lock_broken new) locks))"
proof -
  obtain rs where rs: "judged new locks rs" "n = int (length (filter snd rs))" using assms by (auto simp: soft_locks_from_iff)
  have "length (filter snd rs) = length (filter (soft_lock_broken new) locks)"
    using rs(1) by (induction rule: list_all2_induct) (auto dest: soft_lock_judged(1))
  then show ?thesis using rs(2) by simp
qed

lemma soft_locks_perm:
  assumes "soft_locks_from new 0 [] locks = Inr n" and "mset locks = mset locks'"
  shows "soft_locks_from new 0 [] locks' = Inr n"
proof -
  obtain rs where rs: "judged new locks rs" "distinct (map fst rs)" "n = int (length (filter snd rs))"
    using assms(1) by (auto simp: soft_locks_from_iff)
  obtain rs' where rs': "judged new locks' rs'" "mset rs' = mset rs"
    using results_perm [OF rs(1) assms(2)] by blast
  have "distinct (map fst rs')" using rs(2) rs'(2) by (metis mset_eq_imp_distinct_iff mset_map)
  moreover have "length (filter snd rs') = length (filter snd rs)" using rs'(2) by (metis mset_filter size_mset)
  ultimately show ?thesis using rs'(1) rs(3) by (auto simp: soft_locks_from_iff)
qed

lemma active_ids_perm:
  assumes "active_ids ids = Inr xs" and "mset ids = mset ids'"
  shows "active_ids ids' = Inr xs"
proof -
  have "set ids = set ids'" "distinct ids = distinct ids'" "sort ids = sort ids'"
    using assms(2) mset_eq_setD mset_eq_imp_distinct_iff by (blast, blast, metis mset_sort properties_for_sort sorted_sort)
  then show ?thesis using assms(1) by (simp add: active_ids_iff list_all_iff)
qed

lemma stability_perm:
  assumes "calculate_stability bs ns ids locks = Inr v"
    and "mset bs' = mset bs" and "mset ns' = mset ns" and "mset ids' = mset ids" and "mset locks' = mset locks"
  shows "calculate_stability bs' ns' ids' locks' = Inr v"
  using assms(1) index_assignments_perm [OF _ assms(2) [symmetric]] index_assignments_perm [OF _ assms(3) [symmetric]]
    active_ids_perm [OF _ assms(4) [symmetric]] soft_locks_perm [OF _ assms(5) [symmetric]]
  unfolding calculate_stability_def Let_def bind_res_Inr_iff by blast

subsection \<open>Naive and aware instants\<close>

fun is_aware :: "stamp \<Rightarrow> bool" where
  "is_aware (Aware _) = True"
| "is_aware (Naive _) = False"

definition kinds_agree :: "stable_assignment \<Rightarrow> stable_assignment \<Rightarrow> bool" where
  "kinds_agree a b \<longleftrightarrow> is_aware (start_of a) = is_aware (start_of b) \<and> is_aware (end_of a) = is_aware (end_of b)"

lemma stamp_seconds_cases: "stamp_seconds t u = (if is_aware t = is_aware u
    then Inr ((stamp_micros t - stamp_micros u) div micros) else Inl RaiseType)"
  by (cases t; cases u) simp_all

lemma delta_outcome:
  assumes "timed base" and "timed new" and "sa_operation_id base = sa_operation_id new"
  shows "if kinds_agree base new then \<exists>d. calculate_operation_delta base new = Inr d
    else calculate_operation_delta base new = Inl RaiseType"
  using assms by (auto simp: calculate_operation_delta_def timed_def kinds_agree_def stamp_seconds_cases bind_res_simps)

lemma map_res_outcome:
  assumes "\<forall>x \<in> set xs. (\<exists>y. f x = Inr y) \<or> f x = Inl e"
  shows "if \<exists>x \<in> set xs. f x = Inl e then map_res f xs = Inl e else \<exists>ys. map_res f xs = Inr ys"
  using assms by (induction xs) (auto split: if_splits)

lemma shared_outcome:
  assumes b: "index_assignments bs f = Inr base" and n: "index_assignments ns g = Inr new" and i: "i \<in> shared base new"
  shows "if kinds_agree (the (map_of base i)) (the (map_of new i))
    then \<exists>d. calculate_operation_delta (the (map_of base i)) (the (map_of new i)) = Inr d
    else calculate_operation_delta (the (map_of base i)) (the (map_of new i)) = Inl RaiseType"
proof -
  have "sa_operation_id (the (map_of idx i)) = i" if "index_assignments vs h = Inr idx" "i \<in> fst ` set idx" for vs h idx
    using that(2) index_assignments_facts(1,3) [OF that(1)] by force
  then have "sa_operation_id (the (map_of base i)) = sa_operation_id (the (map_of new i))"
    using b n i by (metis IntE shared_def)
  then show ?thesis using delta_outcome shared_timed [OF assms] by blast
qed

lemma stability_outcome:
  assumes b: "index_assignments bs ''base_assignments'' = Inr base" and n: "index_assignments ns ''new_assignments'' = Inr new"
    and a: "active_ids ids = Inr (map fst new)"
  shows "if \<forall>i \<in> shared base new. kinds_agree (the (map_of base i)) (the (map_of new i))
    then (\<exists>v. calculate_stability bs ns ids locks = Inr v) \<longleftrightarrow> (\<exists>k. soft_locks_from new 0 [] locks = Inr k)
    else calculate_stability bs ns ids locks = Inl RaiseType"
proof -
  define common where "common = sorted_ids (filter (\<lambda>i. i \<in> set (map fst new)) (map fst base))"
  have common: "set common = shared base new" unfolding common_def shared_def set_sorted_ids set_filter set_map by blast
  let ?deltas = "map_res (\<lambda>i. calculate_operation_delta (the (map_of base i)) (the (map_of new i))) common"
  have d: "if \<exists>i \<in> shared base new. calculate_operation_delta (the (map_of base i)) (the (map_of new i)) = Inl RaiseType
      then ?deltas = Inl RaiseType else \<exists>ds. ?deltas = Inr ds"
    unfolding common [symmetric] by (rule map_res_outcome) (use shared_outcome [OF b n] common in metis)
  have bad: "calculate_operation_delta (the (map_of base i)) (the (map_of new i)) = Inl RaiseType
      \<longleftrightarrow> \<not> kinds_agree (the (map_of base i)) (the (map_of new i))" if "i \<in> shared base new" for i
    using shared_outcome [OF b n that] by (auto split: if_splits)
  have "calculate_stability bs ns ids locks = bind_res ?deltas (\<lambda>deltas. bind_res (soft_locks_from new 0 [] locks) (\<lambda>k.
      Inr \<lparr>sv_soft_lock_violations = k, sv_changed_existing_operations = int (length (filter delta_changed deltas)),
        sv_resource_changes = int (length (filter dl_resource_changed (filter delta_changed deltas))),
        sv_absolute_start_shift_seconds = sum_list (map dl_absolute_start_shift_seconds (filter delta_changed deltas)),
        sv_unchanged_existing = int (length common) - int (length (filter delta_changed deltas)),
        sv_comparable_existing = int (length common)\<rparr>))"
    by (simp add: calculate_stability_def b n a common_def Let_def require_or_def del: filter_filter)
  then show ?thesis using d bad by (auto simp: bind_res_Inr_iff)
qed

end
