(* ===== verification/Stability_Example.thy ===== *)
theory Stability_Example
  imports Stability_Correct
begin

section \<open>An example of a replanned schedule\<close>

text \<open>
  Two operations: \<open>op-a\<close> moves by an hour to another resource, \<open>op-b\<close> stays. The third document
  gives \<open>op-b\<close> whole days, without a time.
\<close>

definition stable_document :: "string \<Rightarrow> string \<Rightarrow> string \<Rightarrow> string \<Rightarrow> int \<Rightarrow> json" where
  "stable_document op res start finish seconds = JObj
     [(''operation_id'', JStr op), (''resource_id'', JStr res), (''start_tick'', JInt 0), (''end_tick'', JInt 1),
      (''duration_ticks'', JInt 1), (''start_at_utc'', JStr start), (''end_at_utc'', JStr finish),
      (''duration_seconds'', JInt seconds), (''lock_ids'', JArr []), (''execution_fact_ids'', JArr [])]"

definition ex_base_a :: json where
  "ex_base_a = stable_document ''op-a'' ''r1'' ''2026-01-01T08:00:00Z'' ''2026-01-01T09:00:00Z'' 3600"

definition ex_new_a :: json where
  "ex_new_a = stable_document ''op-a'' ''r2'' ''2026-01-01T09:00:00Z'' ''2026-01-01T10:00:00Z'' 3600"

definition ex_b :: json where
  "ex_b = stable_document ''op-b'' ''r1'' ''2026-01-02T08:00:00Z'' ''2026-01-02T09:00:00Z'' 3600"

definition ex_days_b :: json where
  "ex_days_b = stable_document ''op-b'' ''r1'' ''2026-01-02Z'' ''2026-01-03Z'' 86400"

lemma ex_stability: "calculate_stability [ex_b, ex_base_a] [ex_new_a, ex_b] [''op-b'', ''op-a''] [] = Inr
    \<lparr>sv_soft_lock_violations = 0, sv_changed_existing_operations = 1, sv_resource_changes = 1,
     sv_absolute_start_shift_seconds = 3600, sv_unchanged_existing = 1, sv_comparable_existing = 2\<rparr>"
  by code_simp

text \<open>One soft lock asks for what \<open>op-b\<close> has, the other for what \<open>op-a\<close> had before it was moved.\<close>

definition stable_lock :: "string \<Rightarrow> string \<Rightarrow> string \<Rightarrow> string \<Rightarrow> string \<Rightarrow> json" where
  "stable_lock ref op res start finish = JObj
     [(''reference_id'', JStr ref), (''operation_id'', JStr op), (''protection_kind'', JStr ''SOFT_LOCK''),
      (''protection_priority'', JInt 4), (''resource_id'', JStr res), (''start_at_utc'', JStr start),
      (''end_at_utc'', JStr finish)]"

definition ex_kept_lock :: json where
  "ex_kept_lock = stable_lock ''lock-b'' ''op-b'' ''r1'' ''2026-01-02T08:00:00Z'' ''2026-01-02T09:00:00Z''"

definition ex_broken_lock :: json where
  "ex_broken_lock = stable_lock ''lock-a'' ''op-a'' ''r1'' ''2026-01-01T08:00:00Z'' ''2026-01-01T09:00:00Z''"

lemma ex_stability_locks:
  "calculate_stability [ex_b, ex_base_a] [ex_new_a, ex_b] [''op-b'', ''op-a''] [ex_kept_lock, ex_broken_lock] = Inr
    \<lparr>sv_soft_lock_violations = 1, sv_changed_existing_operations = 1, sv_resource_changes = 1,
     sv_absolute_start_shift_seconds = 3600, sv_unchanged_existing = 1, sv_comparable_existing = 2\<rparr>"
  by code_simp

lemma ex_index_base:
  "index_assignments [ex_b] ''base_assignments'' = Inr [(''op-b'', \<lparr>sa_operation_id = ''op-b'', sa_resource_id = ''r1'',
     sa_start_tick = 0, sa_end_tick = 1, sa_duration_ticks = 1, sa_start_at_utc = ''2026-01-02T08:00:00Z'',
     sa_end_at_utc = ''2026-01-02T09:00:00Z'', sa_duration_seconds = 3600, sa_lock_ids = [], sa_execution_fact_ids = []\<rparr>)]"
  by code_simp

lemma ex_index_days:
  "index_assignments [ex_days_b] ''new_assignments'' = Inr [(''op-b'', \<lparr>sa_operation_id = ''op-b'', sa_resource_id = ''r1'',
     sa_start_tick = 0, sa_end_tick = 1, sa_duration_ticks = 1, sa_start_at_utc = ''2026-01-02Z'',
     sa_end_at_utc = ''2026-01-03Z'', sa_duration_seconds = 86400, sa_lock_ids = [], sa_execution_fact_ids = []\<rparr>)]"
  by code_simp

lemma ex_kinds: "is_aware (start_of \<lparr>sa_operation_id = ''op-b'', sa_resource_id = ''r1'',
     sa_start_tick = 0, sa_end_tick = 1, sa_duration_ticks = 1, sa_start_at_utc = ''2026-01-02T08:00:00Z'',
     sa_end_at_utc = ''2026-01-02T09:00:00Z'', sa_duration_seconds = 3600, sa_lock_ids = [], sa_execution_fact_ids = []\<rparr>)"
  "\<not> is_aware (start_of \<lparr>sa_operation_id = ''op-b'', sa_resource_id = ''r1'',
     sa_start_tick = 0, sa_end_tick = 1, sa_duration_ticks = 1, sa_start_at_utc = ''2026-01-02Z'',
     sa_end_at_utc = ''2026-01-03Z'', sa_duration_seconds = 86400, sa_lock_ids = [], sa_execution_fact_ids = []\<rparr>)"
  by code_simp+

lemma ex_active: "active_ids [''op-b''] = Inr [''op-b'']"
  by code_simp

end
