(* ===== verification/Contract_Documents.thy ===== *)
theory Contract_Documents
  imports Stamps Schedule_Validator State_Machines
begin

section \<open>Contract checks of stored documents\<close>

text \<open>
  The checks a schedule version and a planning policy pass before they are used:
  \<open>domain/workspace_contracts.py\<close> for \<open>schedule-version.v1\<close> and \<open>domain/execution_contracts.py\<close> for
  \<open>schedule-version.v2\<close> and \<open>planning-policy.v2\<close>. Both modules dispatch on the version of the
  document; the checks of the other kinds of document are the argument \<open>other\<close>.
\<close>

subsection \<open>Fingerprints\<close>

definition contract_fingerprint :: "(string \<Rightarrow> string) \<Rightarrow> json \<Rightarrow> string" where
  "contract_fingerprint digest v = ''sha256:'' @ digest (json_dumps v)"

definition workspace_fingerprint :: "(string \<Rightarrow> string) \<Rightarrow> json \<Rightarrow> string" where
  "workspace_fingerprint digest v = ''sha256:'' @ digest (json_dumps v)"

text \<open>\<open>fingerprint.removeprefix("sha256:")\<close>.\<close>

definition bare_digest :: "string \<Rightarrow> string" where
  "bare_digest f = (if take 7 f = ''sha256:'' then drop 7 f else f)"

subsection \<open>P4 documents\<close>

definition p4_reject :: "string \<Rightarrow> string \<Rightarrow> py_exn" where
  "p4_reject reason field = RaiseDomain ''P4ContractError'' reason field"

definition p4_mapping :: "json \<Rightarrow> string \<Rightarrow> json_object res" where
  "p4_mapping v field = (case v of JObj kvs \<Rightarrow> Inr kvs | _ \<Rightarrow> Inl (p4_reject ''VERSION_MISMATCH'' field))"

definition p4_sequence :: "json \<Rightarrow> string \<Rightarrow> json list res" where
  "p4_sequence v field = (case v of JArr vs \<Rightarrow> Inr vs | _ \<Rightarrow> Inl (p4_reject ''VERSION_MISMATCH'' field))"

definition p4_integer :: "json \<Rightarrow> string \<Rightarrow> int \<Rightarrow> unit res" where
  "p4_integer v field minimum =
     (case v of
        JInt n \<Rightarrow> require_or (minimum \<le> n) (p4_reject ''VERSION_MISMATCH'' field)
      | _ \<Rightarrow> Inl (p4_reject ''VERSION_MISMATCH'' field))"

definition p4_equal :: "json \<Rightarrow> json \<Rightarrow> string \<Rightarrow> string \<Rightarrow> unit res" where
  "p4_equal actual expected field reason = require_or (py_eq actual expected) (p4_reject reason field)"

definition p4_version_fields :: "(string \<times> string) list" where
  "p4_version_fields =
     [(''execution_event_version'', ''execution-event.v1''),
      (''replan_request_version'', ''replan-request.v1''),
      (''change_report_version'', ''change-report.v1''),
      (''execution_simulation_manifest_version'', ''execution-simulation-manifest.v1''),
      (''planning_policy_version'', ''planning-policy.v2''),
      (''solver_report_version'', ''solver-report.v2''),
      (''schedule_version_version'', ''schedule-version.v2''),
      (''export_manifest_version'', ''export-manifest.v3''),
      (''export_job_version'', ''export-job.v3'')]"

definition p4_document_version :: "json_object \<Rightarrow> string res" where
  "p4_document_version doc =
     (case map snd (filter (\<lambda>(field, expected). dict_get doc field = JStr expected) p4_version_fields) of
        [found] \<Rightarrow> Inr found
      | _ \<Rightarrow> Inl (p4_reject ''UNKNOWN_DOCUMENT'' ''$''))"

definition isolated_environments :: "string list" where
  "isolated_environments = [''DEVELOPMENT'', ''TEST'', ''BENCHMARK'']"

text \<open>A check of \<open>document[field]\<close>, made only when the field is there.\<close>

definition if_present :: "json_object \<Rightarrow> string \<Rightarrow> (json \<Rightarrow> unit res) \<Rightarrow> unit res" where
  "if_present doc field check = (case map_of doc field of None \<Rightarrow> Inr () | Some v \<Rightarrow> check v)"

definition require_simulation_boundary :: "json_object \<Rightarrow> unit res" where
  "require_simulation_boundary doc =
     check_seq
       [if_present doc ''data_plane'' (\<lambda>v. p4_equal v (JStr ''SIMULATION'') ''data_plane'' ''PLANE_VIOLATION''),
        if_present doc ''environment'' (\<lambda>v. bind_res (text_in v isolated_environments)
          (\<lambda>known. require_or known (p4_reject ''PLANE_VIOLATION'' ''environment''))),
        if_present doc ''production_binding'' (\<lambda>v. p4_equal v (JBool False) ''production_binding'' ''PLANE_VIOLATION''),
        if_present doc ''synthetic'' (\<lambda>v. p4_equal v (JBool True) ''synthetic'' ''PLANE_VIOLATION'')]"

definition stage_signatures :: json where
  "stage_signatures = JArr
     [JArr [JInt 1, JStr ''OBJ-001'', JStr ''WEIGHTED_TARDINESS_SECONDS'', JStr ''MINIMIZE''],
      JArr [JInt 2, JStr ''OBJ-002'', JStr ''STABILITY_VECTOR'', JStr ''LEXICOGRAPHIC_MINIMIZE''],
      JArr [JInt 3, JStr ''OBJ-003'', JStr ''MAKESPAN_SECONDS'', JStr ''MINIMIZE'']]"

definition stability_components :: "string list" where
  "stability_components = [''SOFT_LOCK_VIOLATIONS'', ''CHANGED_EXISTING_OPERATIONS'', ''RESOURCE_CHANGES'',
     ''ABSOLUTE_START_SHIFT_SECONDS'']"

definition require_policy :: "json_object \<Rightarrow> unit res" where
  "require_policy doc =
     bind_res (p4_mapping (dict_get doc ''freeze_policy'') ''freeze_policy'') (\<lambda>freeze.
     bind_res (p4_integer (dict_get freeze ''window_seconds'') ''freeze_policy.window_seconds'' 1) (\<lambda>_.
     bind_res (p4_sequence (dict_get doc ''objective_stages'') ''objective_stages'') (\<lambda>stages.
     bind_res (map_res (\<lambda>v. bind_res (p4_mapping v ''objective_stages[]'') (\<lambda>stage.
         Inr (JArr (map (dict_get stage) [''stage_index'', ''objective_id'', ''metric'', ''sense''])))) stages) (\<lambda>signatures.
     bind_res (p4_equal (JArr signatures) stage_signatures ''objective_stages'' ''ORDERING_VIOLATION'') (\<lambda>_.
     bind_res (p4_mapping (stages ! 1) ''objective_stages[1]'') (\<lambda>stability.
     bind_res (p4_sequence (dict_get stability ''components'') ''objective_stages[1].components'') (\<lambda>components.
     p4_equal (JArr components) (jstrs stability_components) ''objective_stages[1].components'' ''ORDERING_VIOLATION'')))))))"

definition require_schedule_version_v2 :: "(string \<Rightarrow> string) \<Rightarrow> json_object \<Rightarrow> unit res" where
  "require_schedule_version_v2 digest doc =
     bind_res (p4_mapping (dict_get doc ''content'') ''content'') (\<lambda>content.
     bind_res (p4_equal (dict_get doc ''content_fingerprint'') (JStr (contract_fingerprint digest (JObj content)))
       ''content_fingerprint'' ''IDENTITY_MISMATCH'') (\<lambda>_.
     bind_res (p4_mapping (dict_get doc ''lineage'') ''lineage'') (\<lambda>lineage.
     p4_equal (dict_get doc ''parent_schedule_version'') (dict_get lineage ''base_schedule_version'')
       ''lineage.base_schedule_version'' ''REFERENCE_MISMATCH'')))"

type_synonym other_checks = "string \<Rightarrow> json_object \<Rightarrow> unit res"

definition require_p4_document :: "(string \<Rightarrow> string) \<Rightarrow> other_checks \<Rightarrow> json_object \<Rightarrow> unit res" where
  "require_p4_document digest other doc =
     bind_res (p4_document_version doc) (\<lambda>version.
     bind_res (p4_equal (dict_get doc ''schema_set_version'') (JStr ''2.8.0'') ''schema_set_version'' ''VERSION_MISMATCH'') (\<lambda>_.
     bind_res (p4_equal (dict_get doc ''canonicalization_version'') (JStr ''canonical-json.v1'')
       ''canonicalization_version'' ''VERSION_MISMATCH'') (\<lambda>_.
     bind_res (require_simulation_boundary doc) (\<lambda>_.
     if version = ''planning-policy.v2'' then require_policy doc
     else if version = ''schedule-version.v2'' then require_schedule_version_v2 digest doc
     else other version doc))))"

subsection \<open>Workspace documents\<close>

definition workspace_error :: "string \<Rightarrow> py_exn" where
  "workspace_error field = RaiseDomain ''WorkspaceContractError'' [] field"

definition workspace_version_fields :: "(string \<times> string) list" where
  "workspace_version_fields =
     [(''schedule_version_version'', ''schedule-version.v1''),
      (''workspace_query_version'', ''workspace-query.v1''),
      (''workspace_command_version'', ''workspace-command.v1''),
      (''schedule_version_comparison_version'', ''schedule-version-comparison.v1''),
      (''audit_event_version'', ''audit-event.v1''),
      (''publication_result_version'', ''publication-result.v1''),
      (''export_job_version'', ''export-job.v1'')]"

definition workspace_document_version :: "json_object \<Rightarrow> string res" where
  "workspace_document_version doc =
     (case map snd (filter (\<lambda>(field, expected). dict_get doc field = JStr expected) workspace_version_fields)
         @ (if dict_get doc ''export_job_version'' = JStr ''export-job.v2'' then [''export-job.v2''] else []) of
        [found] \<Rightarrow> Inr found
      | _ \<Rightarrow> Inl (workspace_error ''$''))"

definition document_schema_set_version :: "string \<Rightarrow> string" where
  "document_schema_set_version version = (if version = ''export-job.v2'' then ''2.7.0'' else ''2.6.0'')"

text \<open>\<open>str.lower\<close> on the code points below 256.\<close>

definition lower_char :: "char \<Rightarrow> char" where
  "lower_char c =
     (let n = of_char c :: nat
      in if 65 \<le> n \<and> n \<le> 90 \<or> 192 \<le> n \<and> n \<le> 222 \<and> n \<noteq> 215 then char_of (n + 32) else c)"

definition forbidden_secret_keys :: "string list" where
  "forbidden_secret_keys = [''authorization'', ''authorization_header'', ''cookie'', ''credential'', ''credentials'',
     ''database_dsn'', ''password'', ''raw_sql'', ''secret'', ''stack_trace'', ''token'']"

lemma check_from_cong [fundef_cong]:
  "xs = ys \<Longrightarrow> (\<And>i x. x \<in> set ys \<Longrightarrow> f i x = g i x) \<Longrightarrow> check_from k f xs = check_from k g ys"
  by (induction ys arbitrary: xs k) auto

fun check_no_secret_keys :: "json \<Rightarrow> string \<Rightarrow> unit res" where
  "check_no_secret_keys (JObj kvs) field =
     check_from 0 (\<lambda>_ kv.
       bind_res (require_or (map lower_char (fst kv) \<notin> set forbidden_secret_keys)
         (workspace_error (field @ ''.'' @ fst kv))) (\<lambda>_.
       check_no_secret_keys (snd kv) (field @ ''.'' @ fst kv))) kvs"
| "check_no_secret_keys (JArr vs) field = check_from 0 (\<lambda>i v. check_no_secret_keys v (indexed field i)) vs"
| "check_no_secret_keys v field = Inr ()"

definition precheck_schedule :: "(string \<Rightarrow> string) \<Rightarrow> json_object \<Rightarrow> unit res" where
  "precheck_schedule digest doc =
     bind_res (text_in (dict_get doc ''state'') (states_of SCHEDULE_VERSION)) (\<lambda>known.
     bind_res (require_or known (workspace_error ''state'')) (\<lambda>_.
     case dict_get doc ''content'' of
       JObj content \<Rightarrow>
         bind_res (require_or (dict_get doc ''content_fingerprint'' = JStr (workspace_fingerprint digest (JObj content)))
           (workspace_error ''content_fingerprint'')) (\<lambda>_.
         case dict_get doc ''lineage'' of
           JObj lineage \<Rightarrow>
             (case dict_get doc ''validation'' of
                JObj validation \<Rightarrow>
                  require_or (py_eq (dict_get validation ''validation_report'') (dict_get lineage ''validation_report''))
                    (workspace_error ''validation.validation_report'')
              | _ \<Rightarrow> Inl (workspace_error ''validation''))
         | _ \<Rightarrow> Inl (workspace_error ''lineage''))
     | _ \<Rightarrow> Inl (workspace_error ''content'')))"

definition require_workspace_document :: "(string \<Rightarrow> string) \<Rightarrow> other_checks \<Rightarrow> json_object \<Rightarrow> unit res" where
  "require_workspace_document digest other doc =
     bind_res (workspace_document_version doc) (\<lambda>version.
     bind_res (require_or (dict_get doc ''schema_set_version'' = JStr (document_schema_set_version version))
       (workspace_error ''schema_set_version'')) (\<lambda>_.
     bind_res (require_or (dict_get doc ''canonicalization_version'' = JStr ''canonical-json.v1'')
       (workspace_error ''canonicalization_version'')) (\<lambda>_.
     bind_res (if version = ''schedule-version.v1'' then precheck_schedule digest doc else other version doc) (\<lambda>_.
     check_no_secret_keys (JObj doc) ''$''))))"

end
