(* ===== verification/Snapshot_Documents.thy ===== *)
theory Snapshot_Documents
  imports Problem_Hash
begin

section \<open>Snapshots and immutable problems\<close>

text \<open>
  The values the replanning components read: an \<open>ImmutablePlanningSnapshot\<close>
  (\<open>snapshots/contracts.py\<close>) with the parts of its document they use (\<open>domain/canonical_records.py\<close>),
  and an \<open>ImmutablePlanningProblemV2\<close> with its verification (\<open>planning/problem/hashing.py\<close>). The
  decoded document stands beside its canonical bytes.
\<close>

record source_doc =
  s_source_system :: string
  s_source_version :: string
  s_source_record_id :: string

text \<open>\<open>NotRequired\<close> fields are options; quantities are integers, as all numbers of the JSON model.\<close>

record execution_fact_doc =
  ef_execution_fact_id :: string
  ef_status :: string
  ef_observed_at_utc :: string
  ef_quantity_unit :: string
  ef_source :: source_doc
  ef_resource_id :: "string option"
  ef_actual_start_at_utc :: "string option"
  ef_actual_end_at_utc :: "string option"
  ef_completed_quantity :: "int option"
  ef_remaining_quantity :: "int option"
  ef_remaining_seconds :: "int option"

record snapshot_lock_doc =
  sl_lock_id :: string
  sl_lock_type :: lock_type
  sl_resource_id :: string
  sl_start_at_utc :: string
  sl_end_at_utc :: string
  sl_source :: source_doc

record snapshot_option_doc = option_doc +
  so_routing_resource_option_id :: string

record instance_doc =
  in_operation_instance_id :: string
  in_demand_order_id :: string
  in_status :: string
  in_release_at_utc :: string
  in_material_ready_at_utc :: string
  in_required_capabilities :: "string list"
  in_resource_options :: "snapshot_option_doc list"
  in_lock_ids :: "string list"
  in_execution_fact_id :: "string option"

record instance_edge_doc =
  ie_predecessor_operation_instance_id :: string
  ie_successor_operation_instance_id :: string

datatype data_plane = PRODUCTION_PLANE | SIMULATION_PLANE

record planning_snapshot =
  sn_snapshot_id :: string
  sn_snapshot_hash :: string
  sn_data_plane :: data_plane
  sn_cutoff_at_utc :: string
  sn_synthetic :: bool
  sn_execution_facts :: "execution_fact_doc list"
  sn_operation_locks :: "snapshot_lock_doc list"
  sn_operation_instances :: "instance_doc list"
  sn_operation_precedence_edges :: "instance_edge_doc list"

text \<open>Dictionaries over the collections; the last record with a key counts.\<close>

definition instance_ids :: "planning_snapshot \<Rightarrow> string list" where
  "instance_ids sn = map in_operation_instance_id (sn_operation_instances sn)"

definition instance_by_id :: "planning_snapshot \<Rightarrow> string \<Rightarrow> instance_doc option" where
  "instance_by_id sn i = last_with (\<lambda>x. in_operation_instance_id x = i) (sn_operation_instances sn)"

definition fact_by_id :: "planning_snapshot \<Rightarrow> string \<Rightarrow> execution_fact_doc option" where
  "fact_by_id sn i = last_with (\<lambda>x. ef_execution_fact_id x = i) (sn_execution_facts sn)"

definition snapshot_lock_by_id :: "planning_snapshot \<Rightarrow> string \<Rightarrow> snapshot_lock_doc option" where
  "snapshot_lock_by_id sn i = last_with (\<lambda>x. sl_lock_id x = i) (sn_operation_locks sn)"

text \<open>\<open>value[key]\<close> of a field that may be missing, and of a dictionary.\<close>

definition need :: "'a option \<Rightarrow> 'a res" where
  "need x = (case x of None \<Rightarrow> Inl RaiseKey | Some v \<Rightarrow> Inr v)"

lemma need_simps [simp]: "need (Some v) = Inr v" "need None = Inl RaiseKey"
  by (simp_all add: need_def)

lemma need_Inr_iff [res_simps]: "need x = Inr v \<longleftrightarrow> x = Some v"
  by (cases x) simp_all

subsection \<open>Immutable problems\<close>

record immutable_problem =
  ip_canonical_bytes :: string
  ip_problem_hash :: string
  ip_snapshot_id :: string
  ip_problem_builder_version :: string
  ip_document :: problem

definition verify_problem_v2 :: "(string \<Rightarrow> string) \<Rightarrow> immutable_problem \<Rightarrow> unit res" where
  "verify_problem_v2 digest ip =
     (let p = ip_document ip; expected_hash = problem_v2_hash_for digest p in
      bind_res (validate_built_problem_v2 p) (\<lambda>_.
      bind_res (require_or (canonical_problem_v2_bytes p = ip_canonical_bytes ip)
        (RaiseProblem ''HASH_MISMATCH'' ''canonical_bytes'')) (\<lambda>_.
      require_or (p_problem_hash p = expected_hash \<and> ip_problem_hash ip = expected_hash
          \<and> ip_snapshot_id ip = p_snapshot_id p \<and> ip_problem_builder_version ip = p_builder_version p)
        (RaiseProblem ''HASH_MISMATCH'' ''problem_hash''))))"

lemma verify_problem_v2_accepted: "verify_problem_v2 digest ip = Inr () \<Longrightarrow> accepted (ip_document ip)"
  by (auto simp: verify_problem_v2_def Let_def res_simps accepted_def)

end
