(* ===== verification/Freeze_Policy.thy ===== *)
theory Freeze_Policy
  imports Contract_Documents Snapshot_Documents
begin

section \<open>The freeze policy\<close>

text \<open>
  \<open>planning/policy/freeze_window.py\<close>: the one approved simulation policy and its resolution against
  a snapshot, which fixes the freeze window \<open>[cutoff, cutoff + window)\<close>. \<open>verify_snapshot\<close> and the
  contract checks of other kinds of document are the arguments \<open>ck\<close>.
\<close>

record contract_checks =
  ck_snapshot :: "planning_snapshot \<Rightarrow> unit res"
  ck_workspace :: other_checks
  ck_p4 :: other_checks

subsection \<open>Exceptions that are caught and wrapped\<close>

text \<open>\<open>except ValueError as error\<close>, with \<open>getattr(error, "field", default)\<close>.\<close>

fun is_value_error :: "py_exn \<Rightarrow> bool" where
  "is_value_error RaiseKey = False"
| "is_value_error RaiseType = False"
| "is_value_error RaiseOverflow = False"
| "is_value_error _ = True"

fun error_field :: "string \<Rightarrow> py_exn \<Rightarrow> string" where
  "error_field _ (RaiseViolation _ field) = field"
| "error_field _ (RaiseProblem _ field) = field"
| "error_field _ (RaiseInput field) = field"
| "error_field _ (RaiseDomain _ _ field) = field"
| "error_field missing _ = missing"

definition rewrap :: "(string \<Rightarrow> py_exn) \<Rightarrow> string \<Rightarrow> 'a res \<Rightarrow> 'a res" where
  "rewrap wrap missing m =
     (case m of
        Inl e \<Rightarrow> if is_value_error e then Inl (wrap (error_field missing e)) else Inl e
      | Inr x \<Rightarrow> Inr x)"

lemma rewrap_ok [simp]: "rewrap wrap missing (Inr x) = Inr x"
  by (simp add: rewrap_def)

lemma rewrap_Inr_iff [res_simps]: "rewrap wrap missing m = Inr x \<longleftrightarrow> m = Inr x"
  by (simp add: rewrap_def split: sum.split)

subsection \<open>Instants\<close>

text \<open>\<open>start + timedelta(seconds=s)\<close> and \<open>value.isoformat(timespec="seconds").replace("+00:00", "Z")\<close>.\<close>

fun stamp_plus :: "stamp \<Rightarrow> int \<Rightarrow> stamp res" where
  "stamp_plus (Aware t) s = bind_res (add_seconds t s) (\<lambda>u. Inr (Aware u))"
| "stamp_plus (Naive t) s = bind_res (add_seconds t s) (\<lambda>u. Inr (Naive u))"

fun format_utc :: "stamp \<Rightarrow> string" where
  "format_utc (Aware t) = format_utc_instant t"
| "format_utc (Naive t) = butlast (format_utc_instant t)"

subsection \<open>The policy\<close>

definition freeze_policy_reject :: "string \<Rightarrow> string \<Rightarrow> py_exn" where
  "freeze_policy_reject reason field = RaiseDomain ''FreezePolicyError'' reason field"

definition hard_constraint_ids :: "string list" where
  "hard_constraint_ids = [''C-001'', ''C-002'', ''C-003'', ''C-004'', ''C-005'', ''C-006'', ''C-007'', ''C-008'',
     ''C-009'', ''C-010'', ''C-011'']"

definition synthetic_source :: json where
  "synthetic_source = JObj
     [(''source_system'', JStr ''plantnexus-synthetic-policy''), (''source_version'', JStr ''1.0.0''),
      (''source_record_id'', JStr ''SIM-P4-FREEZE-001'')]"

definition interval_semantics :: string where
  "interval_semantics = ''HALF_OPEN_START_INCLUSIVE_END_EXCLUSIVE''"

definition replan_policy_document :: json_object where
  "replan_policy_document =
     [(''planning_policy_version'', JStr ''planning-policy.v2''),
      (''schema_set_version'', JStr ''2.8.0''),
      (''policy_id'', JStr ''POLICY-P4-SIM-DYNAMIC-FREEZE-001''),
      (''policy_revision'', JStr ''1.0.0''),
      (''data_plane'', JStr ''SIMULATION''),
      (''policy_source'', synthetic_source),
      (''canonicalization_version'', JStr ''canonical-json.v1''),
      (''constraint_contract_version'', JStr ''constraint-rule-sheet.v1''),
      (''objective_policy_version'', JStr ''objective-policy.v2''),
      (''hard_constraint_ids'', jstrs hard_constraint_ids),
      (''freeze_policy'', JObj
        [(''freeze_policy_version'', JStr ''freeze-policy.v1''),
         (''freeze_policy_id'', JStr ''FREEZE-POLICY-P4-SIM-001''),
         (''freeze_policy_revision'', JStr ''1.0.0''),
         (''source'', synthetic_source),
         (''window_seconds'', JInt 900),
         (''interval_semantics'', JStr interval_semantics)]),
      (''objective_stages'', JArr
        [JObj [(''stage_index'', JInt 1), (''objective_id'', JStr ''OBJ-001''),
           (''metric'', JStr ''WEIGHTED_TARDINESS_SECONDS''), (''sense'', JStr ''MINIMIZE'')],
         JObj [(''stage_index'', JInt 2), (''objective_id'', JStr ''OBJ-002''),
           (''metric'', JStr ''STABILITY_VECTOR''), (''sense'', JStr ''LEXICOGRAPHIC_MINIMIZE''),
           (''components'', jstrs stability_components)],
         JObj [(''stage_index'', JInt 3), (''objective_id'', JStr ''OBJ-003''),
           (''metric'', JStr ''MAKESPAN_SECONDS''), (''sense'', JStr ''MINIMIZE'')]])]"

definition simulation_replan_policy :: "(string \<Rightarrow> string) \<Rightarrow> contract_checks \<Rightarrow> json_object res" where
  "simulation_replan_policy digest ck =
     bind_res (require_p4_document digest (ck_p4 ck) replan_policy_document) (\<lambda>_. Inr replan_policy_document)"

record resolved_freeze_policy =
  rf_policy_id :: json
  rf_policy_revision :: json
  rf_policy_fingerprint :: string
  rf_freeze_policy_id :: json
  rf_freeze_policy_revision :: json
  rf_freeze_policy_fingerprint :: string
  rf_source_system :: json
  rf_source_version :: json
  rf_source_record_id :: json
  rf_window_seconds :: int
  rf_effective_from_utc :: string
  rf_effective_until_utc :: string

definition freeze_resolution_document :: "resolved_freeze_policy \<Rightarrow> string list \<Rightarrow> json" where
  "freeze_resolution_document r effective_lock_ids = JObj
     [(''freeze_policy_version'', JStr ''freeze-policy.v1''),
      (''freeze_policy_id'', rf_freeze_policy_id r),
      (''freeze_policy_revision'', rf_freeze_policy_revision r),
      (''freeze_policy_fingerprint'', JStr (rf_freeze_policy_fingerprint r)),
      (''source'', JObj
        [(''source_system'', rf_source_system r), (''source_version'', rf_source_version r),
         (''source_record_id'', rf_source_record_id r)]),
      (''window_seconds'', JInt (rf_window_seconds r)),
      (''effective_from_utc'', JStr (rf_effective_from_utc r)),
      (''effective_until_utc'', JStr (rf_effective_until_utc r)),
      (''interval_semantics'', JStr interval_semantics),
      (''effective_lock_ids'', jstrs effective_lock_ids)]"

definition policy_reference :: "resolved_freeze_policy \<Rightarrow> json" where
  "policy_reference r = JObj
     [(''planning_policy_version'', JStr ''planning-policy.v2''), (''policy_id'', rf_policy_id r),
      (''policy_revision'', rf_policy_revision r), (''policy_fingerprint'', JStr (rf_policy_fingerprint r))]"

definition freeze_anchor :: "json \<Rightarrow> string \<Rightarrow> stamp res" where
  "freeze_anchor v field =
     (let bad = freeze_policy_reject ''INVALID_FREEZE_ANCHOR'' field in whole_second bad bad v)"

definition resolve_simulation_freeze_policy ::
  "(string \<Rightarrow> string) \<Rightarrow> contract_checks \<Rightarrow> json_object \<Rightarrow> planning_snapshot \<Rightarrow> resolved_freeze_policy res" where
  "resolve_simulation_freeze_policy digest ck policy sn =
     bind_res (require_or (dict_get policy ''data_plane'' = JStr ''SIMULATION'')
       (freeze_policy_reject ''PRODUCTION_NOT_AUTHORIZED'' ''policy.data_plane'')) (\<lambda>_.
     bind_res (rewrap (freeze_policy_reject ''INVALID_POLICY'') ''policy'' (require_p4_document digest (ck_p4 ck) policy)) (\<lambda>_.
     bind_res (simulation_replan_policy digest ck) (\<lambda>approved.
     bind_res (require_or (py_eq (JObj policy) (JObj approved))
       (freeze_policy_reject ''UNAPPROVED_SIMULATION_POLICY'' ''policy'')) (\<lambda>_.
     bind_res (ck_snapshot ck sn) (\<lambda>_.
     bind_res (require_or (sn_data_plane sn = SIMULATION_PLANE \<and> sn_synthetic sn)
       (freeze_policy_reject ''SNAPSHOT_PLANE_MISMATCH'' ''snapshot.data_plane'')) (\<lambda>_.
     bind_res (freeze_anchor (JStr (sn_cutoff_at_utc sn)) ''snapshot.cutoff_at_utc'') (\<lambda>start.
     bind_res (dict_item policy ''freeze_policy'') (\<lambda>freeze_value.
     let freeze = object_of freeze_value in
     case dict_get freeze ''window_seconds'' of
       JInt window \<Rightarrow>
         bind_res (require_or (1 \<le> window)
           (freeze_policy_reject ''INVALID_POLICY'' ''policy.freeze_policy.window_seconds'')) (\<lambda>_.
         bind_res (dict_item freeze ''source'') (\<lambda>source.
         bind_res (dict_item policy ''policy_id'') (\<lambda>policy_id.
         bind_res (dict_item policy ''policy_revision'') (\<lambda>policy_revision.
         bind_res (dict_item freeze ''freeze_policy_id'') (\<lambda>freeze_policy_id.
         bind_res (dict_item freeze ''freeze_policy_revision'') (\<lambda>freeze_policy_revision.
         bind_res (dict_item (object_of source) ''source_system'') (\<lambda>source_system.
         bind_res (dict_item (object_of source) ''source_version'') (\<lambda>source_version.
         bind_res (dict_item (object_of source) ''source_record_id'') (\<lambda>source_record_id.
         bind_res (stamp_plus start window) (\<lambda>until.
         Inr \<lparr>rf_policy_id = policy_id, rf_policy_revision = policy_revision,
           rf_policy_fingerprint = contract_fingerprint digest (JObj policy),
           rf_freeze_policy_id = freeze_policy_id, rf_freeze_policy_revision = freeze_policy_revision,
           rf_freeze_policy_fingerprint = contract_fingerprint digest (JObj freeze),
           rf_source_system = source_system, rf_source_version = source_version,
           rf_source_record_id = source_record_id, rf_window_seconds = window,
           rf_effective_from_utc = sn_cutoff_at_utc sn, rf_effective_until_utc = format_utc until\<rparr>))))))))))
     | _ \<Rightarrow> Inl (freeze_policy_reject ''INVALID_POLICY'' ''policy.freeze_policy.window_seconds'')))))))))"

end
