(* ===== verification/Freeze_Projection.thy ===== *)
theory Freeze_Projection
  imports Freeze_Policy Stability Float_Ratio
begin

section \<open>Projection of effective locks\<close>

text \<open>
  \<open>planning/problem/freeze_projection.py\<close>: what a replanning run may not move. Completed and running
  operations are protected by their execution facts, explicit hard locks by the problem, and the
  assignments of the published base schedule that start inside the freeze window become hard locks.
  The base schedule and the policy are decoded JSON; the document of the projection is an object,
  whose canonical bytes are \<open>json_dumps\<close> of it.
\<close>

subsection \<open>Reading the base schedule\<close>

definition fp_reject :: "string \<Rightarrow> string \<Rightarrow> py_exn" where
  "fp_reject reason field = RaiseDomain ''FreezeProjectionError'' reason field"

definition fp_mapping :: "json \<Rightarrow> string \<Rightarrow> json_object res" where
  "fp_mapping v field =
     (case v of JObj kvs \<Rightarrow> Inr kvs | _ \<Rightarrow> Inl (fp_reject ''INVALID_BASE_SCHEDULE'' field))"

definition fp_sequence :: "json \<Rightarrow> string \<Rightarrow> json list res" where
  "fp_sequence v field =
     (case v of JArr vs \<Rightarrow> Inr vs | _ \<Rightarrow> Inl (fp_reject ''INVALID_BASE_SCHEDULE'' field))"

definition fp_identifier :: "json \<Rightarrow> string \<Rightarrow> string res" where
  "fp_identifier v field =
     (case identifier_value v of None \<Rightarrow> Inl (fp_reject ''INVALID_BASE_SCHEDULE'' field) | Some s \<Rightarrow> Inr s)"

definition fp_integer :: "int \<Rightarrow> json \<Rightarrow> string \<Rightarrow> int res" where
  "fp_integer minimum v field =
     (case v of
        JInt n \<Rightarrow> if minimum \<le> n then Inr n else Inl (fp_reject ''INVALID_BASE_SCHEDULE'' field)
      | _ \<Rightarrow> Inl (fp_reject ''INVALID_BASE_SCHEDULE'' field))"

definition fp_utc_second :: "json \<Rightarrow> string \<Rightarrow> stamp res" where
  "fp_utc_second v field =
     (let bad = fp_reject ''UNREPRESENTABLE_LOCK'' field in whole_second bad bad v)"

definition require_base_schedule :: "(string \<Rightarrow> string) \<Rightarrow> contract_checks \<Rightarrow> json_object \<Rightarrow> unit res" where
  "require_base_schedule digest ck doc =
     (let version = dict_get doc ''schedule_version_version'';
          wrap = rewrap (fp_reject ''INVALID_BASE_SCHEDULE'') ''base_schedule'' in
      bind_res
        (if version = JStr ''schedule-version.v1'' then wrap (require_workspace_document digest (ck_workspace ck) doc)
         else if version = JStr ''schedule-version.v2'' then wrap (require_p4_document digest (ck_p4 ck) doc)
         else Inl (fp_reject ''INVALID_BASE_SCHEDULE'' ''base_schedule.schedule_version_version'')) (\<lambda>_.
      bind_res (fp_identifier (dict_get doc ''schedule_version_id'') ''base_schedule.schedule_version_id'') (\<lambda>_.
      bind_res (require_or (dict_get doc ''state'' = JStr ''PUBLISHED'')
        (fp_reject ''INVALID_BASE_SCHEDULE'' ''base_schedule.state'')) (\<lambda>_.
      bind_res (require_or (dict_get doc ''data_plane'' = JStr ''SIMULATION'' \<and> dict_get doc ''synthetic'' = JBool True)
        (fp_reject ''PLANE_MISMATCH'' ''base_schedule.data_plane'')) (\<lambda>_.
      bind_res (text_in (dict_get doc ''environment'') isolated_environments) (\<lambda>isolated.
      require_or isolated (fp_reject ''PLANE_MISMATCH'' ''base_schedule.data_plane'')))))))"

type_synonym raw_index = "(string \<times> json_object) list"

definition fp_assignment :: "int \<Rightarrow> nat \<Rightarrow> raw_index \<Rightarrow> json \<Rightarrow> (string \<times> json_object) res" where
  "fp_assignment tick_seconds i so_far raw =
     (let field = indexed ''base_schedule.content.assignments'' i in
      bind_res (fp_mapping raw field) (\<lambda>a.
      bind_res (fp_identifier (dict_get a ''operation_id'') (field @ ''.operation_id'')) (\<lambda>operation_id.
      bind_res (require_or (set (map fst a) = set assignment_field_names)
        (fp_reject ''INVALID_BASE_SCHEDULE'' field)) (\<lambda>_.
      bind_res (require_or (operation_id \<notin> set (map fst so_far))
        (fp_reject ''DUPLICATE_OPERATION'' ''base_schedule.content.assignments'')) (\<lambda>_.
      bind_res (fp_identifier (dict_get a ''resource_id'') ''assignment.resource_id'') (\<lambda>_.
      bind_res (fp_utc_second (dict_get a ''start_at_utc'') ''assignment.start_at_utc'') (\<lambda>start.
      bind_res (fp_utc_second (dict_get a ''end_at_utc'') ''assignment.end_at_utc'') (\<lambda>end.
      bind_res (fp_integer 1 (dict_get a ''duration_seconds'') ''assignment.duration_seconds'') (\<lambda>duration_seconds.
      bind_res (fp_integer 0 (dict_get a ''start_tick'') ''assignment.start_tick'') (\<lambda>start_tick.
      bind_res (fp_integer 1 (dict_get a ''end_tick'') ''assignment.end_tick'') (\<lambda>end_tick.
      bind_res (fp_integer 1 (dict_get a ''duration_ticks'') ''assignment.duration_ticks'') (\<lambda>duration_ticks.
      bind_res (stamp_less start end) (\<lambda>ordered.
      bind_res (stamp_seconds end start) (\<lambda>occupied.
      bind_res (require_or (ordered \<and> occupied = duration_ticks * tick_seconds)
        (fp_reject ''INVALID_BASE_SCHEDULE'' ''assignment.duration_seconds'')) (\<lambda>_.
      bind_res (require_or (end_tick - start_tick = duration_ticks \<and> duration_ticks = ceil_ticks duration_seconds tick_seconds)
        (fp_reject ''INVALID_BASE_SCHEDULE'' ''assignment.duration_ticks'')) (\<lambda>_.
      Inr (operation_id, a)))))))))))))))))"

fun fp_assignments_from :: "int \<Rightarrow> nat \<Rightarrow> raw_index \<Rightarrow> json list \<Rightarrow> raw_index res" where
  "fp_assignments_from tick_seconds i so_far [] = Inr so_far"
| "fp_assignments_from tick_seconds i so_far (raw # raws) =
     bind_res (fp_assignment tick_seconds i so_far raw) (\<lambda>entry.
     fp_assignments_from tick_seconds (Suc i) (so_far @ [entry]) raws)"

definition assignment_index :: "json_object \<Rightarrow> int \<Rightarrow> raw_index res" where
  "assignment_index base tick_seconds =
     bind_res (fp_mapping (dict_get base ''content'') ''base_schedule.content'') (\<lambda>content.
     bind_res (fp_sequence (dict_get content ''assignments'') ''base_schedule.content.assignments'') (\<lambda>assignments.
     fp_assignments_from tick_seconds 0 [] assignments))"

subsection \<open>Protected tuples\<close>

record protected_tuple =
  pt_operation_id :: string
  pt_resource_id :: string
  pt_start_at_utc :: string
  pt_end_at_utc :: string

definition tuple_values :: "protected_tuple \<Rightarrow> string \<times> string \<times> string" where
  "tuple_values t = (pt_resource_id t, pt_start_at_utc t, pt_end_at_utc t)"

text \<open>The four values of an indexed assignment are texts.\<close>

definition tuple_from_assignment :: "json_object \<Rightarrow> protected_tuple" where
  "tuple_from_assignment a =
     \<lparr>pt_operation_id = text_of (dict_get a ''operation_id''), pt_resource_id = text_of (dict_get a ''resource_id''),
      pt_start_at_utc = text_of (dict_get a ''start_at_utc''), pt_end_at_utc = text_of (dict_get a ''end_at_utc'')\<rparr>"

definition tuple_from_lock :: "lock_doc \<Rightarrow> protected_tuple" where
  "tuple_from_lock l =
     \<lparr>pt_operation_id = l_operation_id l, pt_resource_id = l_resource_id l, pt_start_at_utc = l_start_at_utc l,
      pt_end_at_utc = l_end_at_utc l\<rparr>"

definition resource_durations :: "operation_doc \<Rightarrow> string \<Rightarrow> int option" where
  "resource_durations op r =
     map_option o_final_duration_seconds (last_with (\<lambda>opt. o_resource_id opt = r) (op_resource_options op))"

text \<open>\<open>ceil(a / b)\<close>: the ceiling of the double nearest to the quotient.\<close>

definition ceil_quotient :: "int \<Rightarrow> int \<Rightarrow> int" where
  "ceil_quotient a b = \<lceil>true_division a b\<rceil>"

definition require_grid_tuple :: "protected_tuple \<Rightarrow> operation_doc \<Rightarrow> stamp \<Rightarrow> stamp \<Rightarrow> int \<Rightarrow> string \<Rightarrow> unit res" where
  "require_grid_tuple t op cutoff horizon_stop tick_seconds failure =
     bind_res (fp_utc_second (JStr (pt_start_at_utc t)) ''lock.start_at_utc'') (\<lambda>start.
     bind_res (fp_utc_second (JStr (pt_end_at_utc t)) ''lock.end_at_utc'') (\<lambda>end.
     bind_res (stamp_less start cutoff) (\<lambda>early.
     bind_res (if early then Inr True else stamp_less horizon_stop end) (\<lambda>outside.
     bind_res (if outside then Inr True else bind_res (stamp_less start end) (\<lambda>ordered. Inr (\<not> ordered))) (\<lambda>rejected.
     bind_res (require_or (\<not> rejected) (fp_reject failure ''lock.interval'')) (\<lambda>_.
     bind_res (stamp_seconds start cutoff) (\<lambda>start_offset.
     bind_res (stamp_seconds end cutoff) (\<lambda>end_offset.
     bind_res (require_or (start_offset mod tick_seconds = 0 \<and> end_offset mod tick_seconds = 0)
       (fp_reject ''UNREPRESENTABLE_LOCK'' ''lock.interval'')) (\<lambda>_.
     bind_res (if op_status op = RUNNING then bind_res (need (op_remaining_seconds op)) (\<lambda>n. Inr (Some n))
               else Inr (resource_durations op (pt_resource_id t))) (\<lambda>expected_seconds.
     case (expected_seconds, resource_durations op (pt_resource_id t)) of
       (Some seconds, Some _) \<Rightarrow>
         require_or (end_offset - start_offset = ceil_quotient seconds tick_seconds * tick_seconds)
           (fp_reject failure ''lock.interval'')
     | _ \<Rightarrow> Inl (fp_reject failure ''lock.resource_id'')))))))))))"

subsection \<open>Evidence\<close>

definition source_json :: "source_doc \<Rightarrow> json" where
  "source_json s = JObj
     [(''source_system'', JStr (s_source_system s)), (''source_version'', JStr (s_source_version s)),
      (''source_record_id'', JStr (s_source_record_id s))]"

definition optional_field :: "string \<Rightarrow> ('a \<Rightarrow> json) \<Rightarrow> 'a option \<Rightarrow> json_object" where
  "optional_field k f x = (case x of None \<Rightarrow> [] | Some v \<Rightarrow> [(k, f v)])"

definition fact_evidence :: "execution_fact_doc \<Rightarrow> json res" where
  "fact_evidence the_fact =
     bind_res (need (ef_actual_start_at_utc the_fact)) (\<lambda>actual_start.
     Inr (JObj
       ([(''status'', JStr (ef_status the_fact)), (''observed_at_utc'', JStr (ef_observed_at_utc the_fact)),
         (''actual_start_at_utc'', JStr actual_start), (''source'', source_json (ef_source the_fact))]
        @ optional_field ''actual_end_at_utc'' JStr (ef_actual_end_at_utc the_fact)
        @ optional_field ''remaining_quantity'' JInt (ef_remaining_quantity the_fact)
        @ optional_field ''remaining_seconds'' JInt (ef_remaining_seconds the_fact)
        @ optional_field ''completed_quantity'' JInt (ef_completed_quantity the_fact)
        @ [(''quantity_unit'', JStr (ef_quantity_unit the_fact))])))"

definition protection_document :: "protected_tuple \<Rightarrow> string \<Rightarrow> int \<Rightarrow> string \<Rightarrow> json \<Rightarrow> json" where
  "protection_document t kind priority reference_id evidence = JObj
     [(''protection_kind'', JStr kind), (''protection_priority'', JInt priority), (''reference_id'', JStr reference_id),
      (''operation_id'', JStr (pt_operation_id t)), (''resource_id'', JStr (pt_resource_id t)),
      (''start_at_utc'', JStr (pt_start_at_utc t)), (''end_at_utc'', JStr (pt_end_at_utc t)),
      (''fact_evidence'', evidence)]"

definition lock_document :: "lock_doc \<Rightarrow> string \<Rightarrow> int \<Rightarrow> json" where
  "lock_document l kind priority = JObj
     [(''protection_kind'', JStr kind), (''protection_priority'', JInt priority), (''reference_id'', JStr (l_lock_id l)),
      (''operation_id'', JStr (l_operation_id l)), (''resource_id'', JStr (l_resource_id l)),
      (''start_at_utc'', JStr (l_start_at_utc l)), (''end_at_utc'', JStr (l_end_at_utc l)),
      (''source'', JObj
        [(''source_system'', JStr (l_source_system l)), (''source_version'', JStr (l_source_version l)),
         (''source_record_id'', JStr (l_source_record_id l))])]"

definition historical_anchor :: "string \<Rightarrow> execution_fact_doc \<Rightarrow> anchor_doc res" where
  "historical_anchor operation_id the_fact =
     bind_res (need (ef_resource_id the_fact)) (\<lambda>resource_id.
     bind_res (need (ef_actual_start_at_utc the_fact)) (\<lambda>actual_start.
     bind_res (need (ef_actual_end_at_utc the_fact)) (\<lambda>actual_end.
     Inr \<lparr>a_operation_id = operation_id, a_execution_fact_id = ef_execution_fact_id the_fact, a_resource_id = resource_id,
       a_actual_start_at_utc = actual_start, a_actual_end_at_utc = actual_end,
       a_source_system = s_source_system (ef_source the_fact), a_source_version = s_source_version (ef_source the_fact),
       a_source_record_id = s_source_record_id (ef_source the_fact)\<rparr>)))"

subsection \<open>Agreement of problem and snapshot\<close>

definition snapshot_option_projection :: "instance_doc \<Rightarrow> option_doc list" where
  "snapshot_option_projection x = sort_key o_resource_id (map option_doc.truncate (in_resource_options x))"

definition shared_fields_agree :: "operation_doc \<Rightarrow> instance_doc \<Rightarrow> bool" where
  "shared_fields_agree op x \<longleftrightarrow>
     op_demand_order_id op = in_demand_order_id x \<and> status_text (op_status op) = in_status x
     \<and> op_release_at_utc op = in_release_at_utc x \<and> op_material_ready_at_utc op = in_material_ready_at_utc x
     \<and> op_required_capabilities op = in_required_capabilities x"

definition active_lock :: "string \<Rightarrow> snapshot_lock_doc \<Rightarrow> lock_doc" where
  "active_lock operation_id l =
     \<lparr>l_lock_id = sl_lock_id l, l_operation_id = operation_id, l_lock_type = sl_lock_type l,
      l_resource_id = sl_resource_id l, l_start_at_utc = sl_start_at_utc l, l_end_at_utc = sl_end_at_utc l,
      l_source_system = s_source_system (sl_source l), l_source_version = s_source_version (sl_source l),
      l_source_record_id = s_source_record_id (sl_source l)\<rparr>"

definition fp_expected_locks :: "planning_snapshot \<Rightarrow> stamp \<Rightarrow> string \<Rightarrow> lock_doc list res" where
  "fp_expected_locks sn horizon_from operation_id =
     bind_res (need (instance_by_id sn operation_id)) (\<lambda>x.
     collect_res (\<lambda>lock_id.
       bind_res (need (snapshot_lock_by_id sn lock_id)) (\<lambda>l.
       bind_res (fp_utc_second (JStr (sl_end_at_utc l)) ''lock.end_at_utc'') (\<lambda>end.
       bind_res (stamp_less horizon_from end) (\<lambda>active.
       Inr (if active then [active_lock operation_id l] else []))))) (in_lock_ids x))"

definition require_problem_snapshot_projection :: "planning_snapshot \<Rightarrow> problem \<Rightarrow> stamp \<Rightarrow> unit res" where
  "require_problem_snapshot_projection sn p horizon_from =
     bind_res (check_each (\<lambda>_ i.
       bind_res (need (operation_by_id p i)) (\<lambda>op.
       bind_res (need (instance_by_id sn i)) (\<lambda>x.
       bind_res (require_or (shared_fields_agree op x)
         (fp_reject ''LINEAGE_MISMATCH'' ''problem.operation_instances'')) (\<lambda>_.
       require_or (sort_key o_resource_id (op_resource_options op) = snapshot_option_projection x)
         (fp_reject ''LINEAGE_MISMATCH'' ''problem.operation_instances.resource_options''))))) (first_seen (operation_ids p))) (\<lambda>_.
     bind_res (collect_res (fp_expected_locks sn horizon_from) (sorted_ids (operation_ids p))) (\<lambda>expected.
     require_or (sort_key l_lock_id (p_locks p) = sort_key l_lock_id expected)
       (fp_reject ''LINEAGE_MISMATCH'' ''problem.operation_locks'')))"

subsection \<open>The projection\<close>

definition derived_lock :: "(string \<Rightarrow> string) \<Rightarrow> protected_tuple \<Rightarrow> json_object \<Rightarrow> problem \<Rightarrow> resolved_freeze_policy \<Rightarrow> json res" where
  "derived_lock digest t base p resolved =
     bind_res (dict_item base ''schedule_version_version'') (\<lambda>version.
     bind_res (dict_item base ''schedule_version_id'') (\<lambda>version_id.
     bind_res (dict_item base ''content_fingerprint'') (\<lambda>content_fingerprint.
     let identity_input = JObj
           [(''freeze_derived_lock_version'', JStr ''freeze-derived-lock.v1''),
            (''base_schedule_version'', JObj
              [(''schedule_version_version'', version), (''schedule_version_id'', version_id),
               (''content_fingerprint'', content_fingerprint)]),
            (''problem_hash'', JStr (p_problem_hash p)),
            (''freeze_policy_fingerprint'', JStr (rf_freeze_policy_fingerprint resolved)),
            (''operation_id'', JStr (pt_operation_id t)), (''resource_id'', JStr (pt_resource_id t)),
            (''start_at_utc'', JStr (pt_start_at_utc t)), (''end_at_utc'', JStr (pt_end_at_utc t))]
     in Inr (JObj
          [(''freeze_derived_lock_version'', JStr ''freeze-derived-lock.v1''),
           (''lock_id'', JStr (''freeze-lock-'' @ bare_digest (contract_fingerprint digest identity_input))),
           (''lock_type'', JStr ''HARD_LOCK''),
           (''operation_id'', JStr (pt_operation_id t)), (''resource_id'', JStr (pt_resource_id t)),
           (''start_at_utc'', JStr (pt_start_at_utc t)), (''end_at_utc'', JStr (pt_end_at_utc t)),
           (''source'', JObj
             [(''source_system'', JStr ''plantnexus-freeze-projector''),
              (''source_version'', JStr ''effective-lock-projection.v1''),
              (''source_record_id'', rf_freeze_policy_id resolved)]),
           (''base_schedule_version_id'', version_id),
           (''base_content_fingerprint'', content_fingerprint),
           (''problem_hash'', JStr (p_problem_hash p)),
           (''freeze_policy_fingerprint'', JStr (rf_freeze_policy_fingerprint resolved))]))))"

text \<open>The completed operations with their facts and protections.\<close>

definition fp_completed_instance :: "planning_snapshot \<Rightarrow> string \<Rightarrow> (string \<times> execution_fact_doc \<times> json) list res" where
  "fp_completed_instance sn i =
       bind_res (need (instance_by_id sn i)) (\<lambda>x.
       if in_status x \<noteq> ''COMPLETED'' then Inr []
       else case in_execution_fact_id x of
         None \<Rightarrow> Inl (fp_reject ''LINEAGE_MISMATCH'' ''snapshot.operation_instances.execution_fact_id'')
       | Some fact_id \<Rightarrow>
           (case fact_by_id sn fact_id of
              None \<Rightarrow> Inl (fp_reject ''LINEAGE_MISMATCH'' ''snapshot.records.execution_facts'')
            | Some the_fact \<Rightarrow>
                bind_res (require_or (ef_status the_fact = ''COMPLETED'')
                  (fp_reject ''LINEAGE_MISMATCH'' ''snapshot.records.execution_facts'')) (\<lambda>_.
                bind_res (need (ef_resource_id the_fact)) (\<lambda>resource_id.
                bind_res (need (ef_actual_start_at_utc the_fact)) (\<lambda>actual_start.
                bind_res (need (ef_actual_end_at_utc the_fact)) (\<lambda>actual_end.
                bind_res (fact_evidence the_fact) (\<lambda>evidence.
                Inr [(i, the_fact, protection_document
                  \<lparr>pt_operation_id = i, pt_resource_id = resource_id, pt_start_at_utc = actual_start, pt_end_at_utc = actual_end\<rparr>
                  ''COMPLETED_EXECUTION_FACT'' 1 fact_id evidence)])))))))"

definition fp_completed :: "planning_snapshot \<Rightarrow> (string \<times> execution_fact_doc \<times> json) list res" where
  "fp_completed sn = collect_res (fp_completed_instance sn) (sorted_ids (instance_ids sn))"

definition required_anchor_ids :: "planning_snapshot \<Rightarrow> string list \<Rightarrow> string list \<Rightarrow> string list" where
  "required_anchor_ids sn completed active =
     map ie_predecessor_operation_instance_id
       (filter (\<lambda>e. ie_predecessor_operation_instance_id e \<in> set completed
           \<and> ie_successor_operation_instance_id e \<in> set active) (sn_operation_precedence_edges sn))"

definition anchor_by_id :: "problem \<Rightarrow> string \<Rightarrow> anchor_doc option" where
  "anchor_by_id p i = last_with (\<lambda>a. a_operation_id a = i) (p_anchors p)"

definition fp_check_anchors :: "planning_snapshot \<Rightarrow> problem \<Rightarrow> (string \<times> execution_fact_doc \<times> json) list \<Rightarrow> unit res" where
  "fp_check_anchors sn p completed =
     (let required = required_anchor_ids sn (map fst completed) (operation_ids p);
          mismatch = fp_reject ''LINEAGE_MISMATCH'' ''problem.historical_completion_anchors'' in
      bind_res (require_or (set (anchor_ids p) = set required) mismatch) (\<lambda>_.
      check_each (\<lambda>_ i.
        bind_res (need (anchor_by_id p i)) (\<lambda>anchor.
        bind_res (need (map_of completed i)) (\<lambda>(the_fact, _).
        bind_res (historical_anchor i the_fact) (\<lambda>expected.
        require_or (anchor = expected) mismatch)))) (sorted_ids required)))"

text \<open>The running operations with the tuples that protect them.\<close>

definition fp_running_operation :: "planning_snapshot \<Rightarrow> problem \<Rightarrow> stamp \<Rightarrow> stamp \<Rightarrow> string \<Rightarrow> (protected_tuple \<times> json) list res" where
  "fp_running_operation sn p cutoff horizon_stop i =
       bind_res (need (operation_by_id p i)) (\<lambda>op.
       if op_status op \<noteq> RUNNING then Inr []
       else
         bind_res (need (instance_by_id sn i)) (\<lambda>x.
         case (in_execution_fact_id x, Option.bind (in_execution_fact_id x) (fact_by_id sn)) of
           (Some fact_id, Some the_fact) \<Rightarrow>
             bind_res (require_or (in_status x = ''RUNNING'' \<and> ef_status the_fact = ''RUNNING''
                 \<and> ef_resource_id the_fact = op_assigned_resource_id op \<and> ef_remaining_seconds the_fact = op_remaining_seconds op)
               (fp_reject ''LINEAGE_MISMATCH'' ''snapshot.records.execution_facts'')) (\<lambda>_.
             bind_res (need (op_remaining_seconds op)) (\<lambda>remaining.
             bind_res (stamp_plus cutoff (ceil_quotient remaining (p_tick_seconds p) * p_tick_seconds p)) (\<lambda>end.
             bind_res (need (op_assigned_resource_id op)) (\<lambda>resource_id.
             let t = \<lparr>pt_operation_id = i, pt_resource_id = resource_id, pt_start_at_utc = sn_cutoff_at_utc sn,
                   pt_end_at_utc = format_utc end\<rparr> in
             bind_res (require_grid_tuple t op cutoff horizon_stop (p_tick_seconds p) ''FACT_LOCK_CONFLICT'') (\<lambda>_.
             bind_res (fact_evidence the_fact) (\<lambda>evidence.
             Inr [(t, protection_document t ''RUNNING_EXECUTION_FACT'' 1 fact_id evidence)]))))))
         | _ \<Rightarrow> Inl (fp_reject ''LINEAGE_MISMATCH'' ''snapshot.records.execution_facts'')))"

definition fp_running :: "planning_snapshot \<Rightarrow> problem \<Rightarrow> stamp \<Rightarrow> stamp \<Rightarrow> (protected_tuple \<times> json) list res" where
  "fp_running sn p cutoff horizon_stop =
     collect_res (fp_running_operation sn p cutoff horizon_stop) (sorted_ids (operation_ids p))"

text \<open>The explicit locks: hard tuples by operation, hard locks and soft locks, in the order of the problem.\<close>

record explicit_locks =
  xl_tuples :: "(string \<times> protected_tuple) list"
  xl_hard :: "json list"
  xl_soft :: "json list"

fun fp_explicit_from :: "problem \<Rightarrow> stamp \<Rightarrow> stamp \<Rightarrow> explicit_locks \<Rightarrow> lock_doc list \<Rightarrow> explicit_locks res" where
  "fp_explicit_from p cutoff horizon_stop acc [] = Inr acc"
| "fp_explicit_from p cutoff horizon_stop acc (l # ls) =
     bind_res (need (operation_by_id p (l_operation_id l))) (\<lambda>op.
     if l_lock_type l = SOFT_LOCK
     then fp_explicit_from p cutoff horizon_stop (acc\<lparr>xl_soft := xl_soft acc @ [lock_document l ''SOFT_LOCK'' 4]\<rparr>) ls
     else
       bind_res (require_grid_tuple (tuple_from_lock l) op cutoff horizon_stop (p_tick_seconds p) ''HARD_LOCK_CONFLICT'') (\<lambda>_.
       bind_res (require_or (case map_of (xl_tuples acc) (l_operation_id l) of
             None \<Rightarrow> True | Some previous \<Rightarrow> tuple_values previous = tuple_values (tuple_from_lock l))
         (fp_reject ''HARD_LOCK_CONFLICT'' ''problem.operation_locks'')) (\<lambda>_.
       fp_explicit_from p cutoff horizon_stop
         (acc\<lparr>xl_tuples := (l_operation_id l, tuple_from_lock l) # xl_tuples acc,
              xl_hard := xl_hard acc @ [lock_document l ''EXPLICIT_HARD_LOCK'' 2]\<rparr>) ls)))"

definition fp_explicit :: "problem \<Rightarrow> stamp \<Rightarrow> stamp \<Rightarrow> explicit_locks res" where
  "fp_explicit p cutoff horizon_stop =
     fp_explicit_from p cutoff horizon_stop \<lparr>xl_tuples = [], xl_hard = [], xl_soft = []\<rparr> (p_locks p)"

definition fp_check_running_locks :: "(string \<times> protected_tuple) list \<Rightarrow> (protected_tuple \<times> json) list \<Rightarrow> unit res" where
  "fp_check_running_locks hard running =
     require_or (list_all (\<lambda>(i, _). case last_with (\<lambda>(t, _). pt_operation_id t = i) running of
         None \<Rightarrow> True | Some (t, _) \<Rightarrow> map_option tuple_values (map_of hard i) = Some (tuple_values t)) hard)
       (fp_reject ''FACT_LOCK_CONFLICT'' ''problem.operation_locks'')"

text \<open>What becomes of one assignment of the base schedule: nothing, an operation outside the window, or a lock.\<close>

definition fp_derive :: "(string \<Rightarrow> string) \<Rightarrow> json_object \<Rightarrow> problem \<Rightarrow> resolved_freeze_policy \<Rightarrow> stamp \<Rightarrow> stamp \<Rightarrow> stamp
    \<Rightarrow> string list \<Rightarrow> (string \<times> protected_tuple) list \<Rightarrow> string \<times> json_object \<Rightarrow> (string + json) list res" where
  "fp_derive digest base p resolved cutoff freeze_end horizon_stop completed hard entry =
     (case entry of (i, a) \<Rightarrow>
        if i \<in> set completed \<or> (case operation_by_id p i of None \<Rightarrow> False | Some op \<Rightarrow> op_status op = RUNNING) then Inr []
        else case operation_by_id p i of
          None \<Rightarrow> Inl (fp_reject ''STALE_BASE'' ''base_schedule.content.assignments'')
        | Some op \<Rightarrow>
            bind_res (fp_utc_second (dict_get a ''start_at_utc'') ''assignment.start_at_utc'') (\<lambda>start.
            bind_res (stamp_less start cutoff) (\<lambda>early.
            bind_res (require_or (\<not> early) (fp_reject ''STALE_BASE'' ''assignment.start_at_utc'')) (\<lambda>_.
            bind_res (stamp_less start freeze_end) (\<lambda>frozen.
            if \<not> frozen then Inr [Inl i]
            else
              bind_res (require_grid_tuple (tuple_from_assignment a) op cutoff horizon_stop (p_tick_seconds p)
                ''FREEZE_LOCK_CONFLICT'') (\<lambda>_.
              bind_res (require_or (case map_of hard i of
                    None \<Rightarrow> True | Some explicit \<Rightarrow> tuple_values explicit = tuple_values (tuple_from_assignment a))
                (fp_reject ''FREEZE_LOCK_CONFLICT'' ''freeze_derived_hard_locks'')) (\<lambda>_.
              bind_res (derived_lock digest (tuple_from_assignment a) base p resolved) (\<lambda>lock.
              Inr [Inr lock]))))))))"

definition lefts :: "('a + 'b) list \<Rightarrow> 'a list" where
  "lefts xs = concat (map (\<lambda>x. case x of Inl a \<Rightarrow> [a] | Inr _ \<Rightarrow> []) xs)"

definition rights :: "('a + 'b) list \<Rightarrow> 'b list" where
  "rights xs = concat (map (\<lambda>x. case x of Inl _ \<Rightarrow> [] | Inr b \<Rightarrow> [b]) xs)"

text \<open>\<open>items.sort(key=lambda item: item[key])\<close> of objects with texts under the key.\<close>

definition sort_by_field :: "string \<Rightarrow> json list \<Rightarrow> json list" where
  "sort_by_field key vs = sort_key (\<lambda>v. text_of (dict_get (object_of v) key)) vs"

record effective_lock_projection =
  lp_document :: json_object
  lp_projection_fingerprint :: string

definition base_reference :: "json_object \<Rightarrow> json res" where
  "base_reference base =
     bind_res (dict_item base ''schedule_version_version'') (\<lambda>version.
     bind_res (dict_item base ''schedule_version_id'') (\<lambda>version_id.
     bind_res (dict_item base ''content_fingerprint'') (\<lambda>content_fingerprint.
     Inr (JObj
       [(''schedule_version_version'', version), (''schedule_version_id'', version_id), (''state'', JStr ''PUBLISHED''),
        (''content_fingerprint'', content_fingerprint)]))))"

definition artifact_reference :: "string \<Rightarrow> string \<Rightarrow> string \<Rightarrow> json" where
  "artifact_reference version artifact_id fingerprint = JObj
     [(''document_version'', JStr version), (''artifact_id'', JStr artifact_id), (''fingerprint'', JStr fingerprint)]"

definition projection_document :: "planning_snapshot \<Rightarrow> immutable_problem \<Rightarrow> json \<Rightarrow> resolved_freeze_policy
    \<Rightarrow> string list \<Rightarrow> (string \<times> execution_fact_doc \<times> json) list \<Rightarrow> (protected_tuple \<times> json) list
    \<Rightarrow> explicit_locks \<Rightarrow> (string + json) list \<Rightarrow> json_object" where
  "projection_document sn ip base_ref resolved base_operation_ids completed running explicit outcomes =
     (let derived = sort_by_field ''lock_id'' (rights outcomes);
          active_ids = sorted_ids (operation_ids (ip_document ip));
          base_ids = sorted_ids base_operation_ids in
      [(''effective_lock_projection_version'', JStr ''effective-lock-projection.v1''),
       (''canonicalization_version'', JStr ''canonical-json.v1''),
       (''data_plane'', JStr ''SIMULATION''),
       (''base_schedule_version'', base_ref),
       (''new_snapshot'', artifact_reference ''planning-snapshot.v2'' (sn_snapshot_id sn) (sn_snapshot_hash sn)),
       (''new_problem'', artifact_reference ''planning-problem.v2''
         (''planning-problem-v2-'' @ bare_digest (ip_problem_hash ip)) (ip_problem_hash ip)),
       (''planning_policy'', policy_reference resolved),
       (''freeze_resolution'', freeze_resolution_document resolved
         (map (\<lambda>v. text_of (dict_get (object_of v) ''lock_id'')) derived)),
       (''base_assignment_operation_ids'', jstrs base_ids),
       (''new_active_operation_ids'', jstrs active_ids),
       (''completed_operation_ids'', jstrs (sorted_ids (map fst completed))),
       (''completed_protections'', JArr (sort_by_field ''operation_id'' (map (snd \<circ> snd) completed))),
       (''added_operation_ids'', jstrs (sorted_ids (filter (\<lambda>i. i \<notin> set base_ids) active_ids))),
       (''outside_freeze_operation_ids'', jstrs (sort (lefts outcomes))),
       (''running_protections'', JArr (sort_by_field ''operation_id'' (map snd running))),
       (''explicit_hard_locks'', JArr (sort_by_field ''reference_id'' (xl_hard explicit))),
       (''freeze_derived_hard_locks'', JArr derived),
       (''soft_locks'', JArr (sort_by_field ''reference_id'' (xl_soft explicit)))])"

definition fp_active_universe :: "planning_snapshot \<Rightarrow> problem \<Rightarrow> unit res" where
  "fp_active_universe sn p =
     require_or (set (operation_ids p)
         = set (filter (\<lambda>i. \<exists>x \<in> set_option (instance_by_id sn i). in_status x \<noteq> ''COMPLETED'') (instance_ids sn)))
       (fp_reject ''LINEAGE_MISMATCH'' ''problem.operation_instances'')"

definition project_effective_locks :: "(string \<Rightarrow> string) \<Rightarrow> contract_checks \<Rightarrow> planning_snapshot \<Rightarrow> immutable_problem
    \<Rightarrow> json_object \<Rightarrow> json_object \<Rightarrow> effective_lock_projection res" where
  "project_effective_locks digest ck sn ip base policy =
     (let p = ip_document ip in
      bind_res (rewrap (fp_reject ''INVALID_SNAPSHOT'') ''snapshot'' (ck_snapshot ck sn)) (\<lambda>_.
      bind_res (rewrap (fp_reject ''INVALID_PROBLEM'') ''problem'' (verify_problem_v2 digest ip)) (\<lambda>_.
      bind_res (require_base_schedule digest ck base) (\<lambda>_.
      bind_res (rewrap (fp_reject ''POLICY_REJECTED'') ''policy'' (resolve_simulation_freeze_policy digest ck policy sn)) (\<lambda>resolved.
      bind_res (require_or (sn_data_plane sn = SIMULATION_PLANE) (fp_reject ''PLANE_MISMATCH'' ''snapshot.data_plane'')) (\<lambda>_.
      bind_res (require_or (p_snapshot_id p = sn_snapshot_id sn \<and> p_horizon_start_utc p = sn_cutoff_at_utc sn)
        (fp_reject ''LINEAGE_MISMATCH'' ''problem.snapshot_id/horizon_start_utc'')) (\<lambda>_.
      bind_res (fp_utc_second (JStr (sn_cutoff_at_utc sn)) ''snapshot.cutoff_at_utc'') (\<lambda>cutoff.
      bind_res (fp_utc_second (JStr (rf_effective_until_utc resolved)) ''freeze.effective_until_utc'') (\<lambda>freeze_end.
      bind_res (fp_utc_second (JStr (p_horizon_end_utc p)) ''problem.horizon_end_utc'') (\<lambda>horizon_stop.
      bind_res (assignment_index base (p_tick_seconds p)) (\<lambda>assignments.
      bind_res (fp_active_universe sn p) (\<lambda>_.
      bind_res (require_problem_snapshot_projection sn p cutoff) (\<lambda>_.
      bind_res (fp_completed sn) (\<lambda>completed.
      bind_res (fp_check_anchors sn p completed) (\<lambda>_.
      bind_res (fp_running sn p cutoff horizon_stop) (\<lambda>running.
      bind_res (fp_explicit p cutoff horizon_stop) (\<lambda>explicit.
      bind_res (fp_check_running_locks (xl_tuples explicit) running) (\<lambda>_.
      bind_res (collect_res (fp_derive digest base p resolved cutoff freeze_end horizon_stop (map fst completed) (xl_tuples explicit))
        (sort_key fst assignments)) (\<lambda>outcomes.
      bind_res (base_reference base) (\<lambda>base_ref.
      let projection = projection_document sn ip base_ref resolved (map fst assignments) completed running explicit outcomes;
          fingerprint = contract_fingerprint digest (JObj projection)
      in Inr \<lparr>lp_document = projection @ [(''projection_fingerprint'', JStr fingerprint)],
              lp_projection_fingerprint = fingerprint\<rparr>))))))))))))))))))))"

end
