(* ===== verification/Freeze_Precheck.thy ===== *)
theory Freeze_Precheck
  imports Freeze_Projection
begin

section \<open>The independent precheck of a projection\<close>

text \<open>
  \<open>planning/validation/freeze_window_precheck.py\<close>: it recomputes the projection from the same inputs
  with code of its own and compares the given projection field by field. Assignments of the base
  schedule stay raw objects, so a resource that is not a text goes further than in the projector.
\<close>

subsection \<open>Reading the base schedule\<close>

definition input_error :: "string \<Rightarrow> string \<Rightarrow> py_exn" where
  "input_error reason field = RaiseDomain ''FreezePrecheckInputError'' reason field"

definition pc_utc :: "json \<Rightarrow> string \<Rightarrow> stamp res" where
  "pc_utc v field = whole_second (input_error ''INVALID_UTC'' field) (input_error ''INVALID_UTC_PRECISION'' field) v"

definition as_mapping :: "json \<Rightarrow> string \<Rightarrow> json_object res" where
  "as_mapping v field = (case v of JObj kvs \<Rightarrow> Inr kvs | _ \<Rightarrow> Inl (input_error ''INVALID_SHAPE'' field))"

definition as_list :: "json \<Rightarrow> string \<Rightarrow> json list res" where
  "as_list v field = (case v of JArr vs \<Rightarrow> Inr vs | _ \<Rightarrow> Inl (input_error ''INVALID_SHAPE'' field))"

definition pc_assignment :: "nat \<Rightarrow> raw_index \<Rightarrow> json \<Rightarrow> (string \<times> json_object) res" where
  "pc_assignment i so_far raw =
     (let field = indexed ''base.content.assignments'' i;
          invalid = input_error ''INVALID_ASSIGNMENT'' ''assignment.duration_seconds'' in
      bind_res (as_mapping raw field) (\<lambda>a.
      case dict_get a ''operation_id'' of
        JStr operation_id \<Rightarrow>
          bind_res (require_or (operation_id \<noteq> []) (input_error ''INVALID_ASSIGNMENT'' ''assignment.operation_id'')) (\<lambda>_.
          bind_res (require_or (set (map fst a) = set assignment_field_names) (input_error ''INVALID_ASSIGNMENT'' field)) (\<lambda>_.
          bind_res (require_or (operation_id \<notin> set (map fst so_far))
            (input_error ''DUPLICATE_OPERATION'' ''base.content.assignments'')) (\<lambda>_.
          bind_res (pc_utc (dict_get a ''start_at_utc'') ''assignment.start_at_utc'') (\<lambda>start.
          bind_res (pc_utc (dict_get a ''end_at_utc'') ''assignment.end_at_utc'') (\<lambda>end.
          case (dict_get a ''duration_seconds'', dict_get a ''start_tick'', dict_get a ''end_tick'', dict_get a ''duration_ticks'') of
            (JInt duration, JInt start_tick, JInt end_tick, JInt duration_ticks) \<Rightarrow>
              bind_res (require_or (1 \<le> duration \<and> 0 \<le> start_tick \<and> 1 \<le> end_tick \<and> 1 \<le> duration_ticks) invalid) (\<lambda>_.
              bind_res (stamp_less start end) (\<lambda>ordered.
              bind_res (require_or ordered invalid) (\<lambda>_.
              bind_res (stamp_seconds end start) (\<lambda>occupied.
              bind_res (require_or (occupied = duration \<and> end_tick - start_tick = duration_ticks) invalid) (\<lambda>_.
              Inr (operation_id, a))))))
          | _ \<Rightarrow> Inl invalid)))))
      | _ \<Rightarrow> Inl (input_error ''INVALID_ASSIGNMENT'' ''assignment.operation_id'')))"

fun pc_assignments_from :: "nat \<Rightarrow> raw_index \<Rightarrow> json list \<Rightarrow> raw_index res" where
  "pc_assignments_from i so_far [] = Inr so_far"
| "pc_assignments_from i so_far (raw # raws) =
     bind_res (pc_assignment i so_far raw) (\<lambda>entry. pc_assignments_from (Suc i) (so_far @ [entry]) raws)"

definition base_assignments :: "(string \<Rightarrow> string) \<Rightarrow> contract_checks \<Rightarrow> json_object \<Rightarrow> raw_index res" where
  "base_assignments digest ck base =
     (let version = dict_get base ''schedule_version_version'';
          wrap = rewrap (input_error ''INVALID_BASE_SCHEDULE'') ''base_schedule'' in
      bind_res
        (if version = JStr ''schedule-version.v1'' then wrap (require_workspace_document digest (ck_workspace ck) base)
         else if version = JStr ''schedule-version.v2'' then wrap (require_p4_document digest (ck_p4 ck) base)
         else Inl (input_error ''UNSUPPORTED_BASE_VERSION'' ''base.schedule_version_version'')) (\<lambda>_.
      bind_res (require_or (dict_get base ''state'' = JStr ''PUBLISHED'') (input_error ''BASE_NOT_PUBLISHED'' ''base.state'')) (\<lambda>_.
      bind_res (require_or (dict_get base ''data_plane'' = JStr ''SIMULATION'' \<and> dict_get base ''synthetic'' = JBool True)
        (input_error ''PLANE_MISMATCH'' ''base.data_plane'')) (\<lambda>_.
      bind_res (text_in (dict_get base ''environment'') isolated_environments) (\<lambda>isolated.
      bind_res (require_or isolated (input_error ''PLANE_MISMATCH'' ''base.data_plane'')) (\<lambda>_.
      bind_res (as_mapping (dict_get base ''content'') ''base.content'') (\<lambda>content.
      bind_res (as_list (dict_get content ''assignments'') ''base.content.assignments'') (\<lambda>assignments.
      pc_assignments_from 0 [] assignments))))))))"

subsection \<open>Protected tuples\<close>

definition pc_protection :: "string \<Rightarrow> int \<Rightarrow> string \<Rightarrow> json \<Rightarrow> json \<Rightarrow> json \<Rightarrow> json \<Rightarrow> json option \<Rightarrow> json option \<Rightarrow> json_object" where
  "pc_protection kind priority reference_id operation_id resource_id start_at_utc end_at_utc source evidence =
     [(''protection_kind'', JStr kind), (''protection_priority'', JInt priority), (''reference_id'', JStr reference_id),
      (''operation_id'', operation_id), (''resource_id'', resource_id), (''start_at_utc'', start_at_utc),
      (''end_at_utc'', end_at_utc)]
     @ optional_field ''source'' id source @ optional_field ''fact_evidence'' id evidence"

definition pc_fact_evidence :: "execution_fact_doc \<Rightarrow> json res" where
  "pc_fact_evidence ef =
     bind_res (need (ef_actual_start_at_utc ef)) (\<lambda>actual_start.
     Inr (JObj
       ([(''status'', JStr (ef_status ef)), (''observed_at_utc'', JStr (ef_observed_at_utc ef)),
         (''actual_start_at_utc'', JStr actual_start), (''source'', source_json (ef_source ef))]
        @ optional_field ''actual_end_at_utc'' JStr (ef_actual_end_at_utc ef)
        @ optional_field ''remaining_quantity'' JInt (ef_remaining_quantity ef)
        @ optional_field ''remaining_seconds'' JInt (ef_remaining_seconds ef)
        @ optional_field ''completed_quantity'' JInt (ef_completed_quantity ef)
        @ [(''quantity_unit'', JStr (ef_quantity_unit ef))])))"

definition pc_historical_anchor :: "string \<Rightarrow> execution_fact_doc \<Rightarrow> anchor_doc res" where
  "pc_historical_anchor operation_id ef =
     bind_res (need (ef_resource_id ef)) (\<lambda>resource_id.
     bind_res (need (ef_actual_start_at_utc ef)) (\<lambda>actual_start.
     bind_res (need (ef_actual_end_at_utc ef)) (\<lambda>actual_end.
     Inr \<lparr>a_operation_id = operation_id, a_execution_fact_id = ef_execution_fact_id ef, a_resource_id = resource_id,
       a_actual_start_at_utc = actual_start, a_actual_end_at_utc = actual_end,
       a_source_system = s_source_system (ef_source ef), a_source_version = s_source_version (ef_source ef),
       a_source_record_id = s_source_record_id (ef_source ef)\<rparr>)))"

definition raw_tuple :: "json_object \<Rightarrow> json" where
  "raw_tuple v = JArr [dict_get v ''resource_id'', dict_get v ''start_at_utc'', dict_get v ''end_at_utc'']"

text \<open>\<open>durations.get(resource_id)\<close>: an unhashable key raises \<open>TypeError\<close>.\<close>

definition operation_durations :: "operation_doc \<Rightarrow> json \<Rightarrow> int option res" where
  "operation_durations op v =
     (case v of
        JStr r \<Rightarrow> Inr (map_option o_final_duration_seconds (last_with (\<lambda>opt. o_resource_id opt = r) (op_resource_options op)))
      | JArr _ \<Rightarrow> Inl RaiseType
      | JObj _ \<Rightarrow> Inl RaiseType
      | _ \<Rightarrow> Inr None)"

definition require_protected_tuple :: "json_object \<Rightarrow> operation_doc \<Rightarrow> stamp \<Rightarrow> stamp \<Rightarrow> int \<Rightarrow> string \<Rightarrow> unit res" where
  "require_protected_tuple v op cutoff horizon_stop tick_seconds reason =
     bind_res (pc_utc (dict_get v ''start_at_utc'') ''protected.start_at_utc'') (\<lambda>start.
     bind_res (pc_utc (dict_get v ''end_at_utc'') ''protected.end_at_utc'') (\<lambda>end.
     bind_res (stamp_less start cutoff) (\<lambda>early.
     bind_res (if early then Inr True else stamp_less horizon_stop end) (\<lambda>outside.
     bind_res (if outside then Inr True else bind_res (stamp_less start end) (\<lambda>ordered. Inr (\<not> ordered))) (\<lambda>rejected.
     bind_res (require_or (\<not> rejected) (input_error reason ''protected.interval'')) (\<lambda>_.
     bind_res (stamp_seconds start cutoff) (\<lambda>start_seconds.
     bind_res (stamp_seconds end cutoff) (\<lambda>end_seconds.
     bind_res (require_or (start_seconds mod tick_seconds = 0 \<and> end_seconds mod tick_seconds = 0)
       (input_error ''UNREPRESENTABLE_LOCK'' ''protected.interval'')) (\<lambda>_.
     bind_res (if op_status op = RUNNING then bind_res (need (op_remaining_seconds op)) (\<lambda>n. Inr (Some n))
               else operation_durations op (dict_get v ''resource_id'')) (\<lambda>duration.
     bind_res (operation_durations op (dict_get v ''resource_id'')) (\<lambda>known.
     case (known, duration) of
       (Some _, Some seconds) \<Rightarrow>
         require_or (end_seconds - start_seconds = ceil_quotient seconds tick_seconds * tick_seconds)
           (input_error reason ''protected.interval'')
     | _ \<Rightarrow> Inl (input_error reason ''protected.resource_id''))))))))))))"

definition pc_derived_lock :: "(string \<Rightarrow> string) \<Rightarrow> json_object \<Rightarrow> json_object \<Rightarrow> problem \<Rightarrow> string \<Rightarrow> json \<Rightarrow> json res" where
  "pc_derived_lock digest a base p freeze_fingerprint freeze_policy_id =
     bind_res (dict_item base ''schedule_version_version'') (\<lambda>version.
     bind_res (dict_item base ''schedule_version_id'') (\<lambda>version_id.
     bind_res (dict_item base ''content_fingerprint'') (\<lambda>content_fingerprint.
     bind_res (dict_item a ''operation_id'') (\<lambda>operation_id.
     bind_res (dict_item a ''resource_id'') (\<lambda>resource_id.
     bind_res (dict_item a ''start_at_utc'') (\<lambda>start_at_utc.
     bind_res (dict_item a ''end_at_utc'') (\<lambda>end_at_utc.
     let identity_input = JObj
           [(''freeze_derived_lock_version'', JStr ''freeze-derived-lock.v1''),
            (''base_schedule_version'', JObj
              [(''schedule_version_version'', version), (''schedule_version_id'', version_id),
               (''content_fingerprint'', content_fingerprint)]),
            (''problem_hash'', JStr (p_problem_hash p)),
            (''freeze_policy_fingerprint'', JStr freeze_fingerprint),
            (''operation_id'', operation_id), (''resource_id'', resource_id),
            (''start_at_utc'', start_at_utc), (''end_at_utc'', end_at_utc)]
     in Inr (JObj
          [(''freeze_derived_lock_version'', JStr ''freeze-derived-lock.v1''),
           (''lock_id'', JStr (''freeze-lock-'' @ bare_digest (contract_fingerprint digest identity_input))),
           (''lock_type'', JStr ''HARD_LOCK''),
           (''operation_id'', operation_id), (''resource_id'', resource_id),
           (''start_at_utc'', start_at_utc), (''end_at_utc'', end_at_utc),
           (''source'', JObj
             [(''source_system'', JStr ''plantnexus-freeze-projector''),
              (''source_version'', JStr ''effective-lock-projection.v1''),
              (''source_record_id'', freeze_policy_id)]),
           (''base_schedule_version_id'', version_id),
           (''base_content_fingerprint'', content_fingerprint),
           (''problem_hash'', JStr (p_problem_hash p)),
           (''freeze_policy_fingerprint'', JStr freeze_fingerprint)]))))))))"

subsection \<open>Agreement of problem and snapshot\<close>

definition pc_expected_locks :: "planning_snapshot \<Rightarrow> stamp \<Rightarrow> string \<Rightarrow> lock_doc list res" where
  "pc_expected_locks sn cutoff operation_id =
     bind_res (need (instance_by_id sn operation_id)) (\<lambda>x.
     collect_res (\<lambda>lock_id.
       bind_res (need (snapshot_lock_by_id sn lock_id)) (\<lambda>l.
       bind_res (pc_utc (JStr (sl_end_at_utc l)) ''lock.end_at_utc'') (\<lambda>end.
       bind_res (stamp_less cutoff end) (\<lambda>active.
       Inr (if active then [active_lock operation_id l] else []))))) (in_lock_ids x))"

definition require_snapshot_problem_equivalence :: "planning_snapshot \<Rightarrow> problem \<Rightarrow> stamp \<Rightarrow> unit res" where
  "require_snapshot_problem_equivalence sn p cutoff =
     bind_res (check_each (\<lambda>_ i.
       bind_res (need (operation_by_id p i)) (\<lambda>op.
       bind_res (need (instance_by_id sn i)) (\<lambda>x.
       bind_res (require_or (shared_fields_agree op x)
         (input_error ''LINEAGE_MISMATCH'' ''problem.operation_instances'')) (\<lambda>_.
       require_or (sort_key o_resource_id (op_resource_options op) = snapshot_option_projection x)
         (input_error ''LINEAGE_MISMATCH'' ''problem.operation_instances.resource_options''))))) (first_seen (operation_ids p))) (\<lambda>_.
     bind_res (collect_res (pc_expected_locks sn cutoff) (sorted_ids (operation_ids p))) (\<lambda>expected.
     require_or (sort_key l_lock_id (p_locks p) = sort_key l_lock_id expected)
       (input_error ''LINEAGE_MISMATCH'' ''problem.operation_locks'')))"

subsection \<open>The expected projection\<close>

definition pc_completed_instance :: "planning_snapshot \<Rightarrow> string \<Rightarrow> (string \<times> execution_fact_doc \<times> json) list res" where
  "pc_completed_instance sn i =
       bind_res (need (instance_by_id sn i)) (\<lambda>x.
       if in_status x \<noteq> ''COMPLETED'' then Inr []
       else case (in_execution_fact_id x, Option.bind (in_execution_fact_id x) (fact_by_id sn)) of
         (Some fact_id, Some ef) \<Rightarrow>
           bind_res (require_or (ef_status ef = ''COMPLETED'')
             (input_error ''MISSING_COMPLETED_AUTHORITY'' ''snapshot.records.execution_facts'')) (\<lambda>_.
           bind_res (need (ef_resource_id ef)) (\<lambda>resource_id.
           bind_res (need (ef_actual_start_at_utc ef)) (\<lambda>actual_start.
           bind_res (need (ef_actual_end_at_utc ef)) (\<lambda>actual_end.
           bind_res (pc_fact_evidence ef) (\<lambda>evidence.
           Inr [(i, ef, JObj (pc_protection ''COMPLETED_EXECUTION_FACT'' 1 fact_id (JStr i) (JStr resource_id)
             (JStr actual_start) (JStr actual_end) None (Some evidence)))])))))
       | _ \<Rightarrow> Inl (input_error ''MISSING_COMPLETED_AUTHORITY'' ''snapshot.records.execution_facts''))"

definition pc_completed :: "planning_snapshot \<Rightarrow> (string \<times> execution_fact_doc \<times> json) list res" where
  "pc_completed sn = collect_res (pc_completed_instance sn) (sorted_ids (instance_ids sn))"

definition pc_check_anchors :: "planning_snapshot \<Rightarrow> problem \<Rightarrow> (string \<times> execution_fact_doc \<times> json) list \<Rightarrow> unit res" where
  "pc_check_anchors sn p completed =
     (let required = required_anchor_ids sn (map fst completed) (operation_ids p);
          mismatch = input_error ''LINEAGE_MISMATCH'' ''problem.historical_completion_anchors'' in
      bind_res (require_or (set (anchor_ids p) = set required) mismatch) (\<lambda>_.
      check_each (\<lambda>_ i.
        bind_res (need (anchor_by_id p i)) (\<lambda>anchor.
        bind_res (need (map_of completed i)) (\<lambda>(ef, _).
        bind_res (pc_historical_anchor i ef) (\<lambda>expected.
        require_or (anchor = expected) mismatch)))) (sorted_ids required)))"

definition pc_running_operation :: "planning_snapshot \<Rightarrow> problem \<Rightarrow> stamp \<Rightarrow> stamp \<Rightarrow> string \<Rightarrow> (string \<times> json_object) list res" where
  "pc_running_operation sn p cutoff horizon_stop i =
       bind_res (need (operation_by_id p i)) (\<lambda>op.
       if op_status op \<noteq> RUNNING then Inr []
       else
         bind_res (need (instance_by_id sn i)) (\<lambda>x.
         case (in_execution_fact_id x, Option.bind (in_execution_fact_id x) (fact_by_id sn)) of
           (Some fact_id, Some ef) \<Rightarrow>
             bind_res (require_or (in_status x = ''RUNNING'' \<and> ef_status ef = ''RUNNING''
                 \<and> ef_resource_id ef = op_assigned_resource_id op \<and> ef_remaining_seconds ef = op_remaining_seconds op)
               (input_error ''MISSING_RUNNING_AUTHORITY'' ''snapshot.records.execution_facts'')) (\<lambda>_.
             bind_res (need (op_remaining_seconds op)) (\<lambda>remaining.
             bind_res (stamp_plus cutoff (ceil_quotient remaining (p_tick_seconds p) * p_tick_seconds p)) (\<lambda>end.
             bind_res (need (op_assigned_resource_id op)) (\<lambda>resource_id.
             let candidate = [(''operation_id'', JStr i), (''resource_id'', JStr resource_id),
                   (''start_at_utc'', JStr (sn_cutoff_at_utc sn)), (''end_at_utc'', JStr (format_utc end))] in
             bind_res (require_protected_tuple candidate op cutoff horizon_stop (p_tick_seconds p) ''RUNNING_FACT_CONFLICT'') (\<lambda>_.
             bind_res (pc_fact_evidence ef) (\<lambda>evidence.
             Inr [(i, pc_protection ''RUNNING_EXECUTION_FACT'' 1 fact_id (JStr i) (JStr resource_id)
               (JStr (sn_cutoff_at_utc sn)) (JStr (format_utc end)) None (Some evidence))]))))))
         | _ \<Rightarrow> Inl (input_error ''MISSING_RUNNING_AUTHORITY'' ''snapshot.records.execution_facts'')))"

definition pc_running :: "planning_snapshot \<Rightarrow> problem \<Rightarrow> stamp \<Rightarrow> stamp \<Rightarrow> (string \<times> json_object) list res" where
  "pc_running sn p cutoff horizon_stop =
     collect_res (pc_running_operation sn p cutoff horizon_stop) (sorted_ids (operation_ids p))"

record raw_locks =
  rl_tuples :: "(string \<times> json) list"
  rl_hard :: "json list"
  rl_soft :: "json list"

definition pc_projected :: "lock_doc \<Rightarrow> json_object" where
  "pc_projected l =
     pc_protection (if l_lock_type l = HARD_LOCK then ''EXPLICIT_HARD_LOCK'' else ''SOFT_LOCK'')
       (if l_lock_type l = HARD_LOCK then 2 else 4) (l_lock_id l) (JStr (l_operation_id l)) (JStr (l_resource_id l))
       (JStr (l_start_at_utc l)) (JStr (l_end_at_utc l))
       (Some (JObj
         [(''source_system'', JStr (l_source_system l)), (''source_version'', JStr (l_source_version l)),
          (''source_record_id'', JStr (l_source_record_id l))])) None"

fun pc_explicit_from :: "problem \<Rightarrow> stamp \<Rightarrow> stamp \<Rightarrow> raw_locks \<Rightarrow> lock_doc list \<Rightarrow> raw_locks res" where
  "pc_explicit_from p cutoff horizon_stop acc [] = Inr acc"
| "pc_explicit_from p cutoff horizon_stop acc (l # ls) =
     (if l_lock_type l = SOFT_LOCK
      then pc_explicit_from p cutoff horizon_stop (acc\<lparr>rl_soft := rl_soft acc @ [JObj (pc_projected l)]\<rparr>) ls
      else
        bind_res (need (operation_by_id p (l_operation_id l))) (\<lambda>op.
        bind_res (require_protected_tuple (pc_projected l) op cutoff horizon_stop (p_tick_seconds p) ''HARD_LOCK_CONFLICT'') (\<lambda>_.
        bind_res (require_or (case map_of (rl_tuples acc) (l_operation_id l) of
              None \<Rightarrow> True | Some previous \<Rightarrow> py_eq previous (raw_tuple (pc_projected l)))
          (input_error ''HARD_LOCK_CONFLICT'' ''problem.operation_locks'')) (\<lambda>_.
        pc_explicit_from p cutoff horizon_stop
          (acc\<lparr>rl_tuples := (l_operation_id l, raw_tuple (pc_projected l)) # rl_tuples acc,
               rl_hard := rl_hard acc @ [JObj (pc_projected l)]\<rparr>) ls))))"

definition pc_explicit :: "problem \<Rightarrow> stamp \<Rightarrow> stamp \<Rightarrow> raw_locks res" where
  "pc_explicit p cutoff horizon_stop =
     pc_explicit_from p cutoff horizon_stop \<lparr>rl_tuples = [], rl_hard = [], rl_soft = []\<rparr> (p_locks p)"

definition pc_check_running_locks :: "(string \<times> json) list \<Rightarrow> (string \<times> json_object) list \<Rightarrow> unit res" where
  "pc_check_running_locks hard running =
     require_or (list_all (\<lambda>(i, _). case last_with (\<lambda>(j, _). j = i) running of
         None \<Rightarrow> True | Some (_, v) \<Rightarrow> (\<exists>observed \<in> set_option (map_of hard i). py_eq observed (raw_tuple v))) hard)
       (input_error ''FACT_LOCK_CONFLICT'' ''problem.operation_locks'')"

definition pc_derive :: "(string \<Rightarrow> string) \<Rightarrow> json_object \<Rightarrow> problem \<Rightarrow> string \<Rightarrow> json \<Rightarrow> stamp \<Rightarrow> stamp \<Rightarrow> stamp
    \<Rightarrow> string list \<Rightarrow> (string \<times> json) list \<Rightarrow> string \<times> json_object \<Rightarrow> (string + json) list res" where
  "pc_derive digest base p freeze_fingerprint freeze_policy_id cutoff freeze_end horizon_stop completed hard entry =
     (case entry of (i, a) \<Rightarrow>
        if i \<in> set completed \<or> (case operation_by_id p i of None \<Rightarrow> False | Some op \<Rightarrow> op_status op = RUNNING) then Inr []
        else case operation_by_id p i of
          None \<Rightarrow> Inl (input_error ''STALE_BASE'' ''base.content.assignments'')
        | Some op \<Rightarrow>
            bind_res (pc_utc (dict_get a ''start_at_utc'') ''assignment.start_at_utc'') (\<lambda>start.
            bind_res (stamp_less start cutoff) (\<lambda>early.
            bind_res (require_or (\<not> early) (input_error ''STALE_BASE'' ''assignment.start_at_utc'')) (\<lambda>_.
            bind_res (stamp_less start freeze_end) (\<lambda>frozen.
            if \<not> frozen then Inr [Inl i]
            else
              bind_res (require_protected_tuple a op cutoff horizon_stop (p_tick_seconds p) ''FREEZE_LOCK_CONFLICT'') (\<lambda>_.
              bind_res (require_or (case map_of hard i of
                    None \<Rightarrow> True | Some explicit \<Rightarrow> py_eq (raw_tuple a) explicit)
                (input_error ''FREEZE_LOCK_CONFLICT'' ''freeze_derived_hard_locks'')) (\<lambda>_.
              bind_res (pc_derived_lock digest a base p freeze_fingerprint freeze_policy_id) (\<lambda>lock.
              Inr [Inr lock]))))))))"

definition pc_active_universe :: "planning_snapshot \<Rightarrow> problem \<Rightarrow> unit res" where
  "pc_active_universe sn p =
     require_or (set (operation_ids p)
         = set (filter (\<lambda>i. \<exists>x \<in> set_option (instance_by_id sn i). in_status x \<noteq> ''COMPLETED'') (instance_ids sn)))
       (input_error ''LINEAGE_MISMATCH'' ''problem.operation_instances'')"

definition expected_document :: "(string \<Rightarrow> string) \<Rightarrow> planning_snapshot \<Rightarrow> immutable_problem \<Rightarrow> json_object \<Rightarrow> json_object
    \<Rightarrow> json_object \<Rightarrow> int \<Rightarrow> stamp \<Rightarrow> string list \<Rightarrow> (string \<times> execution_fact_doc \<times> json) list \<Rightarrow> (string \<times> json_object) list
    \<Rightarrow> raw_locks \<Rightarrow> (string + json) list \<Rightarrow> json_object res" where
  "expected_document digest sn ip base policy freeze window freeze_end base_operation_ids completed running explicit outcomes =
     (let derived = sort_by_field ''lock_id'' (rights outcomes);
          active_ids = sorted_ids (operation_ids (ip_document ip));
          base_ids = sorted_ids base_operation_ids in
      bind_res (dict_item freeze ''source'') (\<lambda>source.
      bind_res (dict_item base ''schedule_version_version'') (\<lambda>version.
      bind_res (dict_item base ''schedule_version_id'') (\<lambda>version_id.
      bind_res (dict_item base ''content_fingerprint'') (\<lambda>content_fingerprint.
      bind_res (dict_item policy ''policy_id'') (\<lambda>policy_id.
      bind_res (dict_item policy ''policy_revision'') (\<lambda>policy_revision.
      bind_res (dict_item freeze ''freeze_policy_id'') (\<lambda>freeze_policy_id.
      bind_res (dict_item freeze ''freeze_policy_revision'') (\<lambda>freeze_policy_revision.
      Inr
        [(''effective_lock_projection_version'', JStr ''effective-lock-projection.v1''),
         (''canonicalization_version'', JStr ''canonical-json.v1''),
         (''data_plane'', JStr ''SIMULATION''),
         (''base_schedule_version'', JObj
           [(''schedule_version_version'', version), (''schedule_version_id'', version_id), (''state'', JStr ''PUBLISHED''),
            (''content_fingerprint'', content_fingerprint)]),
         (''new_snapshot'', artifact_reference ''planning-snapshot.v2'' (sn_snapshot_id sn) (sn_snapshot_hash sn)),
         (''new_problem'', artifact_reference ''planning-problem.v2''
           (''planning-problem-v2-'' @ bare_digest (ip_problem_hash ip)) (ip_problem_hash ip)),
         (''planning_policy'', JObj
           [(''planning_policy_version'', JStr ''planning-policy.v2''), (''policy_id'', policy_id),
            (''policy_revision'', policy_revision),
            (''policy_fingerprint'', JStr (contract_fingerprint digest (JObj policy)))]),
         (''freeze_resolution'', JObj
           [(''freeze_policy_version'', JStr ''freeze-policy.v1''),
            (''freeze_policy_id'', freeze_policy_id),
            (''freeze_policy_revision'', freeze_policy_revision),
            (''freeze_policy_fingerprint'', JStr (contract_fingerprint digest (JObj freeze))),
            (''source'', source),
            (''window_seconds'', JInt window),
            (''effective_from_utc'', JStr (sn_cutoff_at_utc sn)),
            (''effective_until_utc'', JStr (format_utc freeze_end)),
            (''interval_semantics'', JStr interval_semantics),
            (''effective_lock_ids'', jstrs (map (\<lambda>v. text_of (dict_get (object_of v) ''lock_id'')) derived))]),
         (''base_assignment_operation_ids'', jstrs base_ids),
         (''new_active_operation_ids'', jstrs active_ids),
         (''completed_operation_ids'', jstrs (sorted_ids (map fst completed))),
         (''completed_protections'', JArr (sort_by_field ''operation_id'' (map (snd \<circ> snd) completed))),
         (''added_operation_ids'', jstrs (sorted_ids (filter (\<lambda>i. i \<notin> set base_ids) active_ids))),
         (''outside_freeze_operation_ids'', jstrs (sort (lefts outcomes))),
         (''running_protections'', JArr (sort_by_field ''operation_id'' (map (JObj \<circ> snd) running))),
         (''explicit_hard_locks'', JArr (sort_by_field ''reference_id'' (rl_hard explicit))),
         (''freeze_derived_hard_locks'', JArr derived),
         (''soft_locks'', JArr (sort_by_field ''reference_id'' (rl_soft explicit)))])))))))))"

definition expected_projection :: "(string \<Rightarrow> string) \<Rightarrow> contract_checks \<Rightarrow> planning_snapshot \<Rightarrow> immutable_problem
    \<Rightarrow> json_object \<Rightarrow> json_object \<Rightarrow> json_object res" where
  "expected_projection digest ck sn ip base policy =
     (let p = ip_document ip; wrap = rewrap (input_error ''INVALID_AUTHORITATIVE_INPUT'') ''input'' in
      bind_res (wrap (check_seq
        [ck_snapshot ck sn, verify_problem_v2 digest ip, require_p4_document digest (ck_p4 ck) policy])) (\<lambda>_.
      bind_res (require_or (sn_data_plane sn = SIMULATION_PLANE) (input_error ''PLANE_MISMATCH'' ''snapshot.data_plane'')) (\<lambda>_.
      bind_res (simulation_replan_policy digest ck) (\<lambda>approved.
      bind_res (require_or (py_eq (JObj policy) (JObj approved)) (input_error ''UNAPPROVED_SIMULATION_POLICY'' ''policy'')) (\<lambda>_.
      bind_res (require_or (p_snapshot_id p = sn_snapshot_id sn \<and> p_horizon_start_utc p = sn_cutoff_at_utc sn)
        (input_error ''LINEAGE_MISMATCH'' ''problem.snapshot_id'')) (\<lambda>_.
      bind_res (base_assignments digest ck base) (\<lambda>assignments.
      bind_res (pc_utc (JStr (sn_cutoff_at_utc sn)) ''snapshot.cutoff_at_utc'') (\<lambda>cutoff.
      bind_res (pc_utc (JStr (p_horizon_end_utc p)) ''problem.horizon_end_utc'') (\<lambda>horizon_stop.
      bind_res (dict_item policy ''freeze_policy'') (\<lambda>freeze_value.
      let freeze = object_of freeze_value in
      case dict_get freeze ''window_seconds'' of
        JInt window \<Rightarrow>
          bind_res (require_or (1 \<le> window) (input_error ''INVALID_FREEZE_POLICY'' ''freeze.window_seconds'')) (\<lambda>_.
          bind_res (stamp_plus cutoff window) (\<lambda>freeze_end.
          let freeze_fingerprint = contract_fingerprint digest (JObj freeze) in
          bind_res (pc_active_universe sn p) (\<lambda>_.
          bind_res (require_snapshot_problem_equivalence sn p cutoff) (\<lambda>_.
          bind_res (pc_completed sn) (\<lambda>completed.
          bind_res (pc_check_anchors sn p completed) (\<lambda>_.
          bind_res (pc_running sn p cutoff horizon_stop) (\<lambda>running.
          bind_res (pc_explicit p cutoff horizon_stop) (\<lambda>explicit.
          bind_res (pc_check_running_locks (rl_tuples explicit) running) (\<lambda>_.
          bind_res (dict_item freeze ''freeze_policy_id'') (\<lambda>freeze_policy_id.
          bind_res (collect_res (pc_derive digest base p freeze_fingerprint freeze_policy_id cutoff freeze_end horizon_stop
              (map fst completed) (rl_tuples explicit)) (sort_key fst assignments)) (\<lambda>outcomes.
          bind_res (expected_document digest sn ip base policy freeze window freeze_end (map fst assignments) completed running
            explicit outcomes) (\<lambda>expected.
          Inr (expected @ [(''projection_fingerprint'', JStr (contract_fingerprint digest (JObj expected)))])))))))))))))
      | _ \<Rightarrow> Inl (input_error ''INVALID_FREEZE_POLICY'' ''freeze.window_seconds'')))))))))))"

subsection \<open>The report\<close>

definition pc_violation :: "(string \<Rightarrow> string) \<Rightarrow> string \<Rightarrow> string \<Rightarrow> json \<Rightarrow> json \<Rightarrow> json_object" where
  "pc_violation digest check_id field observed expected =
     [(''check_id'', JStr check_id), (''field'', JStr field),
      (''observed_fingerprint'', JStr (contract_fingerprint digest (JObj [(''value'', observed)]))),
      (''expected_fingerprint'', JStr (contract_fingerprint digest (JObj [(''value'', expected)]))),
      (''message'', JStr ''effective-lock projection differs from independent recomputation'')]"

definition projection_root_fields :: "string list" where
  "projection_root_fields = [''effective_lock_projection_version'', ''canonicalization_version'', ''data_plane'',
     ''base_schedule_version'', ''new_snapshot'', ''new_problem'', ''planning_policy'', ''freeze_resolution'',
     ''base_assignment_operation_ids'', ''new_active_operation_ids'', ''completed_operation_ids'', ''completed_protections'',
     ''added_operation_ids'', ''outside_freeze_operation_ids'', ''running_protections'', ''explicit_hard_locks'',
     ''freeze_derived_hard_locks'', ''soft_locks'', ''projection_fingerprint'']"

definition projection_checks :: "(string \<times> string) list" where
  "projection_checks =
     [(''FREEZE-LINEAGE'', ''base_schedule_version''), (''FREEZE-LINEAGE'', ''new_snapshot''),
      (''FREEZE-LINEAGE'', ''new_problem''), (''FREEZE-POLICY'', ''planning_policy''),
      (''FREEZE-POLICY'', ''freeze_resolution''), (''FREEZE-COMPLETENESS'', ''base_assignment_operation_ids''),
      (''FREEZE-COMPLETENESS'', ''new_active_operation_ids''), (''C-007'', ''completed_operation_ids''),
      (''C-007'', ''completed_protections''), (''FREEZE-COMPLETENESS'', ''added_operation_ids''),
      (''FREEZE-BOUNDARY'', ''outside_freeze_operation_ids''), (''C-007'', ''running_protections''),
      (''C-008'', ''explicit_hard_locks''), (''C-008'', ''freeze_derived_hard_locks''), (''FREEZE-SOFT-INPUT'', ''soft_locks'')]"

definition projection_header :: "json_object \<Rightarrow> json" where
  "projection_header doc = JObj (map (\<lambda>k. (k, dict_get doc k))
     [''effective_lock_projection_version'', ''canonicalization_version'', ''data_plane''])"

definition expected_header :: json where
  "expected_header = JObj
     [(''effective_lock_projection_version'', JStr ''effective-lock-projection.v1''),
      (''canonicalization_version'', JStr ''canonical-json.v1''), (''data_plane'', JStr ''SIMULATION'')]"

definition projection_violations :: "(string \<Rightarrow> string) \<Rightarrow> json_object \<Rightarrow> json_object \<Rightarrow> json_object list" where
  "projection_violations digest expected projection =
     (let observed_fingerprint = dict_get projection ''projection_fingerprint'';
          recomputed = JStr (contract_fingerprint digest (JObj (dict_without projection ''projection_fingerprint'')));
          expected_fingerprint = dict_get expected ''projection_fingerprint'' in
      (if set (map fst projection) \<noteq> set projection_root_fields
       then [pc_violation digest ''FREEZE-COMPLETENESS'' ''$'' (jstrs (sort (map fst projection))) (jstrs (sort projection_root_fields))]
       else [])
      @ map (\<lambda>(check_id, field). pc_violation digest check_id field (dict_get projection field) (dict_get expected field))
          (filter (\<lambda>(_, field). \<not> py_eq (dict_get projection field) (dict_get expected field)) projection_checks)
      @ (if py_eq (projection_header projection) expected_header then []
         else [pc_violation digest ''FREEZE-VERSION'' ''header'' (projection_header projection) expected_header])
      @ (if py_eq observed_fingerprint recomputed then []
         else [pc_violation digest ''FREEZE-IDENTITY'' ''projection_fingerprint'' observed_fingerprint recomputed])
      @ (if py_eq observed_fingerprint expected_fingerprint then []
         else [pc_violation digest ''FREEZE-IDENTITY'' ''projection_fingerprint.expected'' observed_fingerprint expected_fingerprint]))"

definition validate_freeze_window_projection :: "(string \<Rightarrow> string) \<Rightarrow> contract_checks \<Rightarrow> planning_snapshot \<Rightarrow> immutable_problem
    \<Rightarrow> json_object \<Rightarrow> json_object \<Rightarrow> json_object \<Rightarrow> json_object res" where
  "validate_freeze_window_projection digest ck sn ip base policy projection =
     bind_res (expected_projection digest ck sn ip base policy) (\<lambda>expected.
     let violations = sort_key (\<lambda>v. (text_of (dict_get v ''check_id''), text_of (dict_get v ''field'')))
           (projection_violations digest expected projection);
         report =
           [(''freeze_window_precheck_version'', JStr ''freeze-window-precheck.v1''),
            (''status'', JStr (if violations = [] then ''PASS'' else ''FAIL'')),
            (''hard_violation_count'', JInt (int (length violations))),
            (''violations'', JArr (map JObj violations)),
            (''projection_fingerprint'', dict_get projection ''projection_fingerprint''),
            (''expected_projection_fingerprint'', dict_get expected ''projection_fingerprint''),
            (''independence'', JObj
              [(''projector_imported'', JBool False), (''cp_sat_imported'', JBool False),
               (''formal_schedule_validator_modified'', JBool False)])]
     in Inr ((''report_id'', JStr (''freeze-precheck-'' @ bare_digest (contract_fingerprint digest (JObj report)))) # report))"

end
