(* ===== verification/Freeze_Agreement.thy ===== *)
theory Freeze_Agreement
  imports Freeze_Precheck
begin

section \<open>The precheck recomputes the projection\<close>

text \<open>
  The projector and the precheck read the same inputs with code of their own. They are compared step
  by step up to the exceptions they raise: \<open>value_of\<close> forgets which exception ended a computation.
\<close>

subsection \<open>Results up to exceptions\<close>

definition value_of :: "'a res \<Rightarrow> 'a option" where
  "value_of m = (case m of Inl _ \<Rightarrow> None | Inr x \<Rightarrow> Some x)"

named_theorems value_simps

lemma value_of_simps [simp]: "value_of (Inr x) = Some x" "value_of (Inl e) = None"
  by (simp_all add: value_of_def)

lemma value_of_Some_iff: "value_of m = Some x \<longleftrightarrow> m = Inr x"
  by (cases m) simp_all

lemma value_of_bind [value_simps]: "value_of (bind_res m f) = Option.bind (value_of m) (\<lambda>x. value_of (f x))"
  by (cases m) simp_all

lemma value_of_require [value_simps]: "value_of (require_or b e) = (if b then Some () else None)"
  by (simp add: require_or_def)

lemma value_of_if [value_simps]: "value_of (if b then m else n) = (if b then value_of m else value_of n)"
  by simp

lemma value_of_map:
  assumes "\<And>x. x \<in> set xs \<Longrightarrow> value_of (g x) = map_option h (value_of (f x))"
  shows "value_of (map_res g xs) = map_option (map h) (value_of (map_res f xs))"
  using assms
proof (induction xs)
  case (Cons x xs)
  then have "value_of (g x) = map_option h (value_of (f x))"
    "value_of (map_res g xs) = map_option (map h) (value_of (map_res f xs))" by simp_all
  then show ?case by (cases "value_of (f x)"; cases "value_of (map_res f xs)") (simp_all add: value_simps)
qed simp

lemma value_of_collect:
  assumes "\<And>x. x \<in> set xs \<Longrightarrow> value_of (g x) = map_option (map h) (value_of (f x))"
  shows "value_of (collect_res g xs) = map_option (map h) (value_of (collect_res f xs))"
  using value_of_map [of xs g "map h" f, OF assms]
  by (cases "value_of (map_res f xs)") (simp_all add: collect_res_def value_simps map_concat)

lemma value_of_collect_same:
  "(\<And>x. x \<in> set xs \<Longrightarrow> value_of (g x) = value_of (f x)) \<Longrightarrow> value_of (collect_res g xs) = value_of (collect_res f xs)"
  using value_of_collect [of xs g id f] by (simp add: option.map_id)

lemma value_of_check_each:
  assumes "\<And>i x. x \<in> set xs \<Longrightarrow> value_of (g i x) = value_of (f i x)"
  shows "value_of (check_each g xs) = value_of (check_each f xs)"
proof -
  have "value_of (check_from k g xs) = value_of (check_from k f xs)" for k
    using assms by (induction xs arbitrary: k) (simp_all add: value_simps)
  then show ?thesis by (simp add: check_each_def)
qed

lemma value_of_whole_second: "value_of (whole_second e1 e2 v) = value_of (whole_second e3 e4 v)"
  by (simp add: whole_second_def split: json.split option.split)

definition second_of :: "json \<Rightarrow> stamp option" where
  "second_of v = value_of (whole_second RaiseValue RaiseValue v)"

lemma value_of_utc [value_simps]: "value_of (pc_utc v f) = second_of v" "value_of (fp_utc_second v f) = second_of v"
  unfolding pc_utc_def fp_utc_second_def second_of_def Let_def by (rule value_of_whole_second)+

lemma whole_second_iff: "whole_second e1 e2 v = Inr t \<longleftrightarrow> second_of v = Some t"
  unfolding second_of_def value_of_whole_second [of RaiseValue RaiseValue v e1 e2] by (simp add: value_of_Some_iff)

lemma bind_option_cong: "m = n \<Longrightarrow> (\<And>x. n = Some x \<Longrightarrow> f x = g x) \<Longrightarrow> Option.bind m f = Option.bind n g"
  by (cases n) simp_all

subsection \<open>Problem and snapshot\<close>

lemma expected_locks_agree: "value_of (pc_expected_locks sn cutoff i) = value_of (fp_expected_locks sn cutoff i)"
  unfolding pc_expected_locks_def fp_expected_locks_def
  by (simp add: value_simps, intro bind_option_cong refl value_of_collect_same) (simp add: value_simps)

lemma equivalence_agrees:
  "value_of (require_snapshot_problem_equivalence sn p cutoff) = value_of (require_problem_snapshot_projection sn p cutoff)"
  unfolding require_snapshot_problem_equivalence_def require_problem_snapshot_projection_def value_of_bind value_of_require
  by (intro bind_option_cong refl value_of_check_each value_of_collect_same expected_locks_agree) (simp add: value_simps)

lemma evidence_same: "pc_fact_evidence = fact_evidence" "pc_historical_anchor = historical_anchor"
  by (simp_all add: fun_eq_iff pc_fact_evidence_def fact_evidence_def pc_historical_anchor_def historical_anchor_def)

lemma protection_same: "JObj (pc_protection kind n ref (JStr i) (JStr r) (JStr s) (JStr e) None (Some evidence))
    = protection_document \<lparr>pt_operation_id = i, pt_resource_id = r, pt_start_at_utc = s, pt_end_at_utc = e\<rparr> kind n ref evidence"
  by (simp add: pc_protection_def protection_document_def optional_field_def)

lemma completed_agrees: "value_of (pc_completed sn) = value_of (fp_completed sn)"
  unfolding pc_completed_def fp_completed_def
  by (rule value_of_collect_same) (auto simp: pc_completed_instance_def fp_completed_instance_def evidence_same protection_same value_simps split: option.split intro!: bind_option_cong)

lemma anchors_agree: "value_of (pc_check_anchors sn p completed) = value_of (fp_check_anchors sn p completed)"
  unfolding pc_check_anchors_def fp_check_anchors_def evidence_same Let_def value_of_bind value_of_require
  by (intro bind_option_cong refl value_of_check_each) (simp add: value_simps case_prod_beta)

subsection \<open>Protected tuples\<close>

definition spelled :: "json_object \<Rightarrow> protected_tuple \<Rightarrow> bool" where
  "spelled v t \<longleftrightarrow> dict_get v ''resource_id'' = JStr (pt_resource_id t)
     \<and> dict_get v ''start_at_utc'' = JStr (pt_start_at_utc t) \<and> dict_get v ''end_at_utc'' = JStr (pt_end_at_utc t)"

lemma spelled_tuple: "spelled v t \<Longrightarrow> raw_tuple v = JArr [JStr (pt_resource_id t), JStr (pt_start_at_utc t), JStr (pt_end_at_utc t)]"
  by (simp add: spelled_def raw_tuple_def)

lemma raw_tuple_eq:
  "spelled v t \<Longrightarrow> spelled w u \<Longrightarrow> py_eq (raw_tuple v) (raw_tuple w) \<longleftrightarrow> tuple_values t = tuple_values u"
  by (auto simp: spelled_tuple tuple_values_def)

lemma operation_durations_text: "operation_durations op (JStr r) = Inr (resource_durations op r)"
  by (simp add: operation_durations_def resource_durations_def)

lemma protected_agrees:
  assumes "spelled v t"
  shows "value_of (require_protected_tuple v op cutoff stop tick reason) = value_of (require_grid_tuple t op cutoff stop tick failure)"
proof -
  have v: "dict_get v ''resource_id'' = JStr (pt_resource_id t)" "dict_get v ''start_at_utc'' = JStr (pt_start_at_utc t)"
    "dict_get v ''end_at_utc'' = JStr (pt_end_at_utc t)" using assms by (simp_all add: spelled_def)
  show ?thesis unfolding require_protected_tuple_def require_grid_tuple_def v operation_durations_text value_of_bind value_of_utc value_of_require
    by (cases "resource_durations op (pt_resource_id t)"; cases "op_remaining_seconds op"; cases "op_status op")
      (simp_all add: value_of_require)
qed

lemma protected_ok:
  assumes "spelled v t" and "require_grid_tuple t op cutoff stop tick failure = Inr ()"
  shows "require_protected_tuple v op cutoff stop tick reason = Inr ()"
proof -
  have "value_of (require_protected_tuple v op cutoff stop tick reason) = Some ()"
    unfolding protected_agrees [OF assms(1), of op cutoff stop tick reason failure] by (simp add: assms(2))
  then show ?thesis by (simp only: value_of_Some_iff)
qed

subsection \<open>Running operations and explicit locks\<close>

definition raw_entry :: "protected_tuple \<times> json \<Rightarrow> string \<times> json_object" where
  "raw_entry e = (pt_operation_id (fst e), object_of (snd e))"

lemma running_operation_agrees:
  "value_of (pc_running_operation sn p cutoff stop i) = map_option (map raw_entry) (value_of (fp_running_operation sn p cutoff stop i))"
proof -
  let ?v = "\<lambda>r e. [(''operation_id'', JStr i), (''resource_id'', JStr r), (''start_at_utc'', JStr (sn_cutoff_at_utc sn)),
    (''end_at_utc'', JStr (format_utc e))]"
  let ?t = "\<lambda>r e. \<lparr>pt_operation_id = i, pt_resource_id = r, pt_start_at_utc = sn_cutoff_at_utc sn, pt_end_at_utc = format_utc e\<rparr>"
  have s: "value_of (require_protected_tuple (?v r e) op cutoff stop tick reason)
      = value_of (require_grid_tuple (?t r e) op cutoff stop tick ''FACT_LOCK_CONFLICT'')" for op tick reason r e
    by (rule protected_agrees) (simp add: spelled_def dict_get_def)
  have b: "raw_entry (?t r e, protection_document (?t r e) kind n ref ev)
      = (i, pc_protection kind n ref (JStr i) (JStr r) (JStr (sn_cutoff_at_utc sn)) (JStr (format_utc e)) None (Some ev))" for r e kind n ref ev
    by (simp add: raw_entry_def object_of_def flip: protection_same)
  show ?thesis unfolding pc_running_operation_def fp_running_operation_def evidence_same
    by (auto simp: value_simps Let_def s b map_option_bind comp_def split: option.split intro!: bind_option_cong)
qed

lemma running_agrees:
  "value_of (pc_running sn p cutoff stop) = map_option (map raw_entry) (value_of (fp_running sn p cutoff stop))"
  unfolding pc_running_def fp_running_def by (rule value_of_collect) (rule running_operation_agrees)

text \<open>A loop over the explicit locks that the projector accepts is accepted by the precheck.\<close>

definition raw_values :: "protected_tuple \<Rightarrow> json" where
  "raw_values t = JArr [JStr (pt_resource_id t), JStr (pt_start_at_utc t), JStr (pt_end_at_utc t)]"

definition raw_explicit :: "explicit_locks \<Rightarrow> raw_locks" where
  "raw_explicit x = \<lparr>rl_tuples = map (\<lambda>(i, t). (i, raw_values t)) (xl_tuples x), rl_hard = xl_hard x, rl_soft = xl_soft x\<rparr>"

lemma raw_values_eq [simp]: "py_eq (raw_values t) (raw_values u) \<longleftrightarrow> tuple_values t = tuple_values u"
  by (auto simp: raw_values_def tuple_values_def)

lemma raw_explicit_tuple: "map_of (rl_tuples (raw_explicit x)) i = map_option raw_values (map_of (xl_tuples x) i)"
  by (simp add: raw_explicit_def map_of_map)

lemma projected_lock:
  "JObj (pc_projected l) = lock_document l (if l_lock_type l = SOFT_LOCK then ''SOFT_LOCK'' else ''EXPLICIT_HARD_LOCK'')
    (if l_lock_type l = SOFT_LOCK then 4 else 2)"
  "spelled (pc_projected l) (tuple_from_lock l)" "raw_tuple (pc_projected l) = raw_values (tuple_from_lock l)"
  by (cases "l_lock_type l"; simp add: pc_projected_def lock_document_def pc_protection_def optional_field_def spelled_def
      tuple_from_lock_def raw_tuple_def raw_values_def dict_get_def)+

lemma explicit_from_agrees:
  "fp_explicit_from p cutoff stop acc ls = Inr x \<Longrightarrow> pc_explicit_from p cutoff stop (raw_explicit acc) ls = Inr (raw_explicit x)"
proof (induction ls arbitrary: acc)
  case (Cons l ls)
  obtain op where op: "operation_by_id p (l_operation_id l) = Some op" using Cons.prems by (auto simp: res_simps)
  show ?case
  proof (cases "l_lock_type l = SOFT_LOCK")
    case True
    have "raw_explicit (acc\<lparr>xl_soft := xl_soft acc @ [lock_document l ''SOFT_LOCK'' 4]\<rparr>)
        = (raw_explicit acc)\<lparr>rl_soft := rl_soft (raw_explicit acc) @ [JObj (pc_projected l)]\<rparr>"
      using True by (simp add: raw_explicit_def projected_lock)
    with Cons.IH [of "acc\<lparr>xl_soft := xl_soft acc @ [lock_document l ''SOFT_LOCK'' 4]\<rparr>"] Cons.prems True op show ?thesis
      by (simp add: res_simps)
  next
    case False
    have grid: "require_grid_tuple (tuple_from_lock l) op cutoff stop (p_tick_seconds p) ''HARD_LOCK_CONFLICT'' = Inr ()"
      and same: "case map_of (xl_tuples acc) (l_operation_id l) of None \<Rightarrow> True | Some t \<Rightarrow> tuple_values t = tuple_values (tuple_from_lock l)"
      using Cons.prems False op by (auto simp: res_simps)
    have "require_protected_tuple (pc_projected l) op cutoff stop (p_tick_seconds p) ''HARD_LOCK_CONFLICT'' = Inr ()"
      by (rule protected_ok [OF projected_lock(2) grid])
    moreover have "raw_explicit (acc\<lparr>xl_tuples := (l_operation_id l, tuple_from_lock l) # xl_tuples acc,
          xl_hard := xl_hard acc @ [lock_document l ''EXPLICIT_HARD_LOCK'' 2]\<rparr>)
        = (raw_explicit acc)\<lparr>rl_tuples := (l_operation_id l, raw_tuple (pc_projected l)) # rl_tuples (raw_explicit acc),
          rl_hard := rl_hard (raw_explicit acc) @ [JObj (pc_projected l)]\<rparr>"
      using False by (simp add: raw_explicit_def projected_lock)
    moreover have "case map_of (rl_tuples (raw_explicit acc)) (l_operation_id l) of None \<Rightarrow> True
        | Some t \<Rightarrow> py_eq t (raw_tuple (pc_projected l))"
      using same by (simp add: raw_explicit_tuple projected_lock(3) split: option.splits)
    moreover have "pc_explicit_from p cutoff stop (raw_explicit (acc\<lparr>xl_tuples := (l_operation_id l, tuple_from_lock l) # xl_tuples acc,
          xl_hard := xl_hard acc @ [lock_document l ''EXPLICIT_HARD_LOCK'' 2]\<rparr>)) ls = Inr (raw_explicit x)"
      by (rule Cons.IH) (use Cons.prems False op grid same in \<open>simp add: res_simps\<close>)
    ultimately show ?thesis using False op by (simp add: res_simps)
  qed
qed simp

lemma explicit_agrees: "fp_explicit p cutoff stop = Inr x \<Longrightarrow> pc_explicit p cutoff stop = Inr (raw_explicit x)"
  unfolding fp_explicit_def pc_explicit_def using explicit_from_agrees by (fastforce simp: raw_explicit_def)

lemma last_with_map: "last_with P (map f xs) = map_option f (last_with (P \<circ> f) xs)"
proof -
  have "find P (map f ys) = map_option f (find (P \<circ> f) ys)" for ys by (induction ys) simp_all
  then show ?thesis by (simp add: last_with_def rev_map)
qed

lemma running_locks_agree:
  assumes "fp_check_running_locks (xl_tuples x) running = Inr ()"
    and "\<And>t j. (t, j) \<in> set running \<Longrightarrow> raw_tuple (object_of j) = raw_values t"
  shows "pc_check_running_locks (rl_tuples (raw_explicit x)) (map raw_entry running) = Inr ()"
proof -
  have find: "last_with (\<lambda>(j, _). j = i) (map raw_entry running) = map_option raw_entry (last_with (\<lambda>(t, _). pt_operation_id t = i) running)" for i
  proof -
    have "(\<lambda>(j, _). j = i) \<circ> raw_entry = (\<lambda>(t, _). pt_operation_id t = i)" by (auto simp: fun_eq_iff raw_entry_def)
    then show ?thesis by (simp add: last_with_map)
  qed
  have ok: "case last_with (\<lambda>(j, _). j = i) (map raw_entry running) of None \<Rightarrow> True
      | Some (_, v) \<Rightarrow> (\<exists>observed \<in> set_option (map_of (rl_tuples (raw_explicit x)) i). py_eq observed (raw_tuple v))"
    if i: "(i, u) \<in> set (xl_tuples x)" for i u
  proof (cases "last_with (\<lambda>(t, _). pt_operation_id t = i) running")
    case None
    then show ?thesis by (simp add: find)
  next
    case (Some tj)
    then obtain t j where tj: "last_with (\<lambda>(t, _). pt_operation_id t = i) running = Some (t, j)" by (cases tj) auto
    then have "(t, j) \<in> set running" by (auto dest: last_with_Some)
    then have r: "raw_tuple (object_of j) = raw_values t" by (rule assms(2))
    have "map_option tuple_values (map_of (xl_tuples x) i) = Some (tuple_values t)"
      using assms(1) i tj by (fastforce simp: fp_check_running_locks_def res_simps list_all_iff)
    then obtain w where w: "map_of (xl_tuples x) i = Some w" "tuple_values w = tuple_values t" by auto
    then show ?thesis using r tj by (simp add: find raw_entry_def raw_explicit_tuple)
  qed
  show ?thesis unfolding pc_check_running_locks_def require_or_Inr_iff list_all_iff
    using ok by (force simp: raw_explicit_def)
qed

subsection \<open>The base schedule\<close>

text \<open>What the projector knows of an assignment it has read.\<close>

definition read_entry :: "string \<times> json_object \<Rightarrow> bool" where
  "read_entry e \<longleftrightarrow> (case e of (i, a) \<Rightarrow> dict_get a ''operation_id'' = JStr i \<and> spelled a (tuple_from_assignment a)
     \<and> set (map fst a) = set assignment_field_names)"

text \<open>The occupied time of an assignment is its duration: no tick is used in part only.\<close>

definition whole_ticks :: "json_object \<Rightarrow> bool" where
  "whole_ticks a \<longleftrightarrow> (\<exists>start end n d. second_of (dict_get a ''start_at_utc'') = Some start
     \<and> second_of (dict_get a ''end_at_utc'') = Some end \<and> stamp_seconds end start = Inr n
     \<and> dict_get a ''duration_seconds'' = JInt d \<and> n = d)"

lemma whole_second_text: "whole_second e1 e2 v = Inr t \<Longrightarrow> \<exists>s. v = JStr s"
  by (auto simp: whole_second_def split: json.splits)

lemma utc_text: "fp_utc_second v f = Inr t \<Longrightarrow> v = JStr (text_of v)"
  unfolding fp_utc_second_def Let_def by (drule whole_second_text) (auto simp: text_of_def)

lemma identifier_text: "fp_identifier v f = Inr s \<longleftrightarrow> v = JStr s \<and> canonical_identifier s"
  by (cases v) (auto simp: fp_identifier_def split: option.split if_splits)

lemma integer_text: "fp_integer m v f = Inr n \<longleftrightarrow> v = JInt n \<and> m \<le> n"
  by (auto simp: fp_integer_def split: json.splits if_splits)

lemma utc_second_of: "fp_utc_second v f = Inr t \<longleftrightarrow> second_of v = Some t" "pc_utc v f = Inr t \<longleftrightarrow> second_of v = Some t"
  by (simp_all add: value_of_utc flip: value_of_Some_iff)

lemma fp_mapping_iff: "fp_mapping v f = Inr kvs \<longleftrightarrow> v = JObj kvs"
  by (auto simp: fp_mapping_def split: json.splits)

lemma fp_sequence_iff: "fp_sequence v f = Inr vs \<longleftrightarrow> v = JArr vs"
  by (auto simp: fp_sequence_def split: json.splits)

lemmas fp_reads = fp_mapping_iff identifier_text integer_text utc_second_of require_or_Inr_iff

lemma fp_assignment_read:
  assumes "fp_assignment tick i so_far raw = Inr e"
  shows "\<exists>a k start finish d st et dt. raw = JObj a \<and> e = (k, a) \<and> dict_get a ''operation_id'' = JStr k
    \<and> canonical_identifier k \<and> set (map fst a) = set assignment_field_names \<and> k \<notin> set (map fst so_far)
    \<and> (\<exists>r. dict_get a ''resource_id'' = JStr r)
    \<and> second_of (dict_get a ''start_at_utc'') = Some start \<and> second_of (dict_get a ''end_at_utc'') = Some finish
    \<and> dict_get a ''duration_seconds'' = JInt d \<and> 1 \<le> d \<and> dict_get a ''start_tick'' = JInt st \<and> 0 \<le> st
    \<and> dict_get a ''end_tick'' = JInt et \<and> 1 \<le> et \<and> dict_get a ''duration_ticks'' = JInt dt \<and> 1 \<le> dt
    \<and> stamp_less start finish = Inr True \<and> stamp_seconds finish start = Inr (dt * tick) \<and> et - st = dt \<and> dt = ceil_ticks d tick"
  using assms unfolding fp_assignment_def Let_def bind_res_Inr_iff fp_reads
  by (elim exE conjE, hypsubst, simp only: sum.inject, intro exI conjI) (rule refl | assumption | erule sym)+

lemma fp_assignment_facts:
  assumes "fp_assignment tick i so_far raw = Inr e"
  shows "read_entry e" and "fst e \<notin> set (map fst so_far)" and "canonical_identifier (fst e)"
proof -
  obtain a k start finish r where *: "e = (k, a)" "dict_get a ''operation_id'' = JStr k" "canonical_identifier k"
    "set (map fst a) = set assignment_field_names" "k \<notin> set (map fst so_far)" "dict_get a ''resource_id'' = JStr r"
    "second_of (dict_get a ''start_at_utc'') = Some start" "second_of (dict_get a ''end_at_utc'') = Some finish"
    using fp_assignment_read [OF assms] by (elim exE conjE)
  have "v = JStr (text_of v)" if "second_of v = Some t" for v t using that utc_text utc_second_of(1) by blast
  then show "read_entry e" using * by (auto simp: read_entry_def spelled_def tuple_from_assignment_def text_of_def)
  show "fst e \<notin> set (map fst so_far)" "canonical_identifier (fst e)" using * by simp_all
qed

lemma assignment_outcome:
  assumes "fp_assignment tick i so_far raw = Inr e"
  shows "pc_assignment j so_far raw = (if whole_ticks (snd e) then Inr e
    else Inl (input_error ''INVALID_ASSIGNMENT'' ''assignment.duration_seconds''))"
proof -
  obtain a k start finish d st et dt where *: "raw = JObj a" "e = (k, a)" "dict_get a ''operation_id'' = JStr k" "canonical_identifier k"
    "set (map fst a) = set assignment_field_names" "k \<notin> set (map fst so_far)"
    "second_of (dict_get a ''start_at_utc'') = Some start" "second_of (dict_get a ''end_at_utc'') = Some finish"
    "dict_get a ''duration_seconds'' = JInt d" "1 \<le> d" "dict_get a ''start_tick'' = JInt st" "0 \<le> st"
    "dict_get a ''end_tick'' = JInt et" "1 \<le> et" "dict_get a ''duration_ticks'' = JInt dt" "1 \<le> dt"
    "stamp_less start finish = Inr True" "stamp_seconds finish start = Inr (dt * tick)" "et - st = dt"
    using fp_assignment_read [OF assms] by (elim exE conjE)
  have u: "pc_utc (dict_get a ''start_at_utc'') f = Inr start" "pc_utc (dict_get a ''end_at_utc'') f = Inr finish" for f
    using *(7,8) by (simp_all add: utc_second_of)
  have "k \<noteq> []" using *(4) by (simp add: canonical_identifier_def)
  moreover have "whole_ticks a \<longleftrightarrow> dt * tick = d" using *(7,8,9,18) by (auto simp: whole_ticks_def)
  ultimately show ?thesis using * u by (simp add: pc_assignment_def as_mapping_def)
qed

lemma assignments_from_agree:
  assumes "fp_assignments_from tick i so_far raws = Inr idx"
  shows "\<exists>new. idx = so_far @ new \<and> list_all read_entry new
    \<and> (distinct (map fst so_far) \<longrightarrow> distinct (map fst idx))
    \<and> pc_assignments_from i so_far raws = (if list_all (\<lambda>e. whole_ticks (snd e)) new then Inr idx
        else Inl (input_error ''INVALID_ASSIGNMENT'' ''assignment.duration_seconds''))"
  using assms
proof (induction raws arbitrary: i so_far)
  case (Cons raw raws)
  obtain e where e: "fp_assignment tick i so_far raw = Inr e" "fp_assignments_from tick (Suc i) (so_far @ [e]) raws = Inr idx"
    using Cons.prems by (auto simp: res_simps)
  obtain new where new: "idx = (so_far @ [e]) @ new" "list_all read_entry new"
    "distinct (map fst (so_far @ [e])) \<longrightarrow> distinct (map fst idx)"
    "pc_assignments_from (Suc i) (so_far @ [e]) raws = (if list_all (\<lambda>e. whole_ticks (snd e)) new then Inr idx
        else Inl (input_error ''INVALID_ASSIGNMENT'' ''assignment.duration_seconds''))"
    using Cons.IH [OF e(2)] by auto
  show ?case
    using new fp_assignment_facts [OF e(1)] assignment_outcome [OF e(1), of i] by (intro exI [of _ "e # new"]) simp
qed simp

lemma assignment_index_agrees:
  assumes idx: "assignment_index base tick = Inr idx" and base: "require_base_schedule digest ck base = Inr ()"
  shows "list_all read_entry idx" and "distinct (map fst idx)"
    and "base_assignments digest ck base = (if list_all (\<lambda>e. whole_ticks (snd e)) idx then Inr idx
        else Inl (input_error ''INVALID_ASSIGNMENT'' ''assignment.duration_seconds''))"
proof -
  obtain content raws where raws: "dict_get base ''content'' = JObj content" "dict_get content ''assignments'' = JArr raws"
    "fp_assignments_from tick 0 [] raws = Inr idx"
    using idx by (auto simp: assignment_index_def res_simps fp_mapping_iff fp_sequence_iff)
  show "list_all read_entry idx" "distinct (map fst idx)" using assignments_from_agree [OF raws(3)] by auto
  show "base_assignments digest ck base = (if list_all (\<lambda>e. whole_ticks (snd e)) idx then Inr idx
        else Inl (input_error ''INVALID_ASSIGNMENT'' ''assignment.duration_seconds''))"
    using base assignments_from_agree [OF raws(3)] raws(1,2)
    by (auto simp: base_assignments_def require_base_schedule_def Let_def res_simps as_mapping_def as_list_def rewrap_ok split: if_splits)
qed

end
