(* ===== verification/Freeze_Correct.thy ===== *)
theory Freeze_Correct
  imports Freeze_Agreement Stability_Correct
begin

section \<open>What the projection promises\<close>

text \<open>
  The precheck passes exactly the projection of the projector, unless a duration of the base schedule
  ends inside a tick; the freeze window is half open; the protections of an operation agree.
\<close>

subsection \<open>The end of the freeze window\<close>

lemma digits2_no_Z: "0 \<le> n \<Longrightarrow> n < 100 \<Longrightarrow> CHR ''Z'' \<notin> set (digits2 n)"
proof -
  assume n: "0 \<le> n" "n < 100"
  have "digit_char k \<noteq> CHR ''Z''" if "k < 10" for k
  proof
    assume "digit_char k = CHR ''Z''"
    then have "(of_char (digit_char k) :: nat) = of_char CHR ''Z''" by (rule arg_cong)
    then show False using that by (simp add: digit_char_def)
  qed
  moreover have "nat (n div 10) < 10" "nat (n mod 10) < 10" using n by auto
  ultimately show ?thesis by (simp add: digits2_def) metis
qed

lemma format_no_Z:
  assumes "representable t"
  shows "butlast (format_utc_instant t) \<noteq> []" and "CHR ''Z'' \<notin> set (butlast (format_utc_instant t))"
    and "last (format_utc_instant t) = CHR ''Z''" and "format_utc_instant t \<noteq> []"
proof -
  define day where "day = t div micros div day_seconds"
  define r where "r = t div micros mod day_seconds"
  have r: "0 \<le> r" "r < day_seconds" by (simp_all add: r_def day_seconds_def)
  have "t div micros < max_ordinal * day_seconds"
    using assms(1) by (simp add: representable_def instant_bound_def micros_def int_div_less_iff)
  then have day: "0 \<le> day" "day < max_ordinal"
    using assms(1) by (simp_all add: day_def representable_def day_seconds_def micros_def
        pos_imp_zdiv_nonneg_iff int_div_less_iff)
  obtain y m d where ymd: "ord2ymd (day + 1) = (y, m, d)" by (cases "ord2ymd (day + 1)") auto
  have yr: "1 \<le> y" "y \<le> 9999" using ord2ymd_year [of "day + 1"] day ymd by simp_all
  have md: "1 \<le> m" "m \<le> 12" "1 \<le> d" "d \<le> 31"
    using ord2ymd_civil_ok [of "day + 1"] ymd days_in_month_le [of m "is_leap y"] by (auto simp: civil_ok_def)
  let ?body = "digits4 y @ ''-'' @ digits2 m @ ''-'' @ digits2 d @ ''T''
    @ digits2 (r div 3600) @ '':'' @ digits2 (r mod 3600 div 60) @ '':'' @ digits2 (r mod 60)"
  have f: "format_utc_instant t = ?body @ ''Z''"
    by (simp add: format_utc_instant_def Let_def ymd flip: day_def r_def)
  have b: "butlast (format_utc_instant t) = ?body" unfolding f by (simp add: butlast_append)
  show "butlast (format_utc_instant t) \<noteq> []" unfolding b by simp
  show "last (format_utc_instant t) = CHR ''Z''" "format_utc_instant t \<noteq> []" unfolding f by simp_all
  note tf = time_fields [OF r]
  have "CHR ''Z'' \<notin> set (digits4 y)" using yr digits2_no_Z [of "y div 100"] digits2_no_Z [of "y mod 100"]
    by (simp add: digits4_def pos_imp_zdiv_nonneg_iff int_div_less_iff)
  then show "CHR ''Z'' \<notin> set (butlast (format_utc_instant t))"
    unfolding b using md tf digits2_no_Z by auto
qed

lemma offset_text_id: "CHR ''Z'' \<notin> set s \<Longrightarrow> offset_text s = s"
  by (induction s) (auto simp: offset_text_def)

lemma second_of_format:
  assumes "representable t" and "t mod micros = 0"
  shows "second_of (JStr (format_utc (Aware t))) = Some (Aware t)" and "second_of (JStr (format_utc (Naive t))) = None"
proof -
  note z = format_no_Z [OF assms(1)]
  have "fromisoformat (butlast (format_utc_instant t)) = Some t"
    using parse_format_instant [OF assms] z(3,4) by (auto simp: parse_utc_instant_def split: option.splits)
  then show "second_of (JStr (format_utc (Aware t))) = Some (Aware t)"
    using z assms(2) by (simp add: second_of_def whole_second_def offset_text_id stamp_of_text_def)
  have "last (butlast (format_utc_instant t)) \<noteq> CHR ''Z''" using z(1,2) by (metis last_in_set)
  then show "second_of (JStr (format_utc (Naive t))) = None" by (simp add: second_of_def whole_second_def)
qed

lemma second_of_whole: "second_of v = Some t \<Longrightarrow> stamp_micros t mod micros = 0"
  by (auto simp: second_of_def whole_second_def split: json.splits option.splits if_splits)

lemma freeze_end_read:
  assumes "second_of v = Some start" and "stamp_plus start n = Inr until" and "second_of (JStr (format_utc until)) = Some t"
  shows "t = until" and "is_aware until"
proof -
  have w: "stamp_micros start mod micros = 0" by (rule second_of_whole [OF assms(1)])
  have u: "representable (stamp_micros until)" "stamp_micros until mod micros = 0" "is_aware until = is_aware start"
    using assms(2) w by (cases start; auto simp: res_simps add_seconds_def mod_add_eq [symmetric] split: if_splits)+
  show "t = until" "is_aware until"
    using assms(3) second_of_format [OF u(1,2)] by (cases until; auto)+
qed

subsection \<open>Locks derived from the base schedule\<close>

lemma collect_res_weaken:
  assumes "collect_res f xs = Inr ys" and "\<And>x zs. x \<in> set xs \<Longrightarrow> f x = Inr zs \<Longrightarrow> g x = Inr zs"
  shows "collect_res g xs = Inr ys"
proof -
  have "map_res f xs = Inr zss \<Longrightarrow> map_res g xs = Inr zss" for zss
    using assms(2) by (induction xs arbitrary: zss) (auto simp: res_simps)
  then show ?thesis using assms(1) by (auto simp: collect_res_def res_simps)
qed

lemma derived_lock_agrees:
  assumes "read_entry (i, a)"
  shows "pc_derived_lock digest a base p (rf_freeze_policy_fingerprint r) (rf_freeze_policy_id r)
    = derived_lock digest (tuple_from_assignment a) base p r"
proof -
  have a: "dict_get a ''operation_id'' = JStr (pt_operation_id (tuple_from_assignment a))"
    "spelled a (tuple_from_assignment a)" "set (map fst a) = set assignment_field_names"
    using assms by (auto simp: read_entry_def tuple_from_assignment_def text_of_def)
  have "dict_item a k = Inr (dict_get a k)" if "k \<in> set assignment_field_names" for k
    using dict_item_present [of k a] that a(3) by simp
  then have "dict_item a ''operation_id'' = Inr (JStr (pt_operation_id (tuple_from_assignment a)))"
    "dict_item a ''resource_id'' = Inr (JStr (pt_resource_id (tuple_from_assignment a)))"
    "dict_item a ''start_at_utc'' = Inr (JStr (pt_start_at_utc (tuple_from_assignment a)))"
    "dict_item a ''end_at_utc'' = Inr (JStr (pt_end_at_utc (tuple_from_assignment a)))"
    using a(1,2) by (simp_all add: assignment_field_names_def spelled_def)
  then show ?thesis by (simp add: pc_derived_lock_def derived_lock_def)
qed

lemma derive_agrees:
  assumes e: "read_entry (i, a)"
    and ok: "fp_derive digest base p r cutoff freeze_end stop completed (xl_tuples x) (i, a) = Inr ys"
  shows "pc_derive digest base p (rf_freeze_policy_fingerprint r) (rf_freeze_policy_id r) cutoff freeze_end stop completed
    (rl_tuples (raw_explicit x)) (i, a) = Inr ys"
proof -
  have sp: "spelled a (tuple_from_assignment a)" using e by (simp add: read_entry_def)
  then have raw: "raw_tuple a = raw_values (tuple_from_assignment a)" by (simp add: spelled_tuple raw_values_def)
  have hard: "(case map_of (rl_tuples (raw_explicit x)) i of None \<Rightarrow> True | Some u \<Rightarrow> py_eq (raw_tuple a) u)
      \<longleftrightarrow> (case map_of (xl_tuples x) i of None \<Rightarrow> True | Some u \<Rightarrow> tuple_values u = tuple_values (tuple_from_assignment a))"
    unfolding raw raw_explicit_tuple by (auto split: option.split)
  have "value_of (pc_derive digest base p (rf_freeze_policy_fingerprint r) (rf_freeze_policy_id r) cutoff freeze_end stop completed
      (rl_tuples (raw_explicit x)) (i, a))
    = value_of (fp_derive digest base p r cutoff freeze_end stop completed (xl_tuples x) (i, a))"
    unfolding pc_derive_def fp_derive_def prod.case derived_lock_agrees [OF e] hard
    by (cases "operation_by_id p i")
      (simp_all add: value_simps protected_agrees [OF sp, where failure = "''FREEZE_LOCK_CONFLICT''"] cong: if_cong)
  then show ?thesis unfolding ok by (simp add: value_of_Some_iff)
qed

subsection \<open>The approved policy\<close>

lemma py_eq_member:
  assumes "py_eq (JObj a) (JObj b)" and "map_of b k = Some w"
  obtains v where "map_of a k = Some v" "py_eq v w"
proof -
  have "k \<in> fst ` set b" using assms(2) by (force dest: map_of_SomeD)
  then have "k \<in> fst ` set a" using assms(1) by simp
  then obtain v where v: "map_of a k = Some v" by (metis map_of_eq_None_iff not_None_eq)
  then have "py_eq v w" using assms by (fastforce dest: map_of_SomeD)
  then show ?thesis using that v by blast
qed

lemma py_eq_int: "py_eq v (JInt n) \<Longrightarrow> 1 < n \<Longrightarrow> v = JInt n"
  by (cases v) (auto split: if_splits)

lemma py_eq_object: "py_eq v (JObj b) \<Longrightarrow> \<exists>a. v = JObj a"
  by (cases v) auto

lemma py_eq_texts:
  assumes eq: "py_eq (JObj a) (JObj b)" and d: "distinct (map fst a)" "distinct (map fst b)"
    and texts: "\<And>k w. (k, w) \<in> set b \<Longrightarrow> \<exists>s. w = JStr s"
  shows "mset a = mset b"
proof -
  have "map_of a k = map_of b k" for k
  proof (cases "map_of b k")
    case None
    then have "k \<notin> fst ` set a" using eq by (auto simp: map_of_eq_None_iff)
    then show ?thesis using None by (metis map_of_eq_None_iff)
  next
    case (Some w)
    obtain v where "map_of a k = Some v" "py_eq v w" by (rule py_eq_member [OF eq Some])
    moreover have "\<exists>s. w = JStr s" using texts Some by (blast dest: map_of_SomeD)
    ultimately show ?thesis using Some by auto
  qed
  then have "map_of a = map_of b" by (simp add: fun_eq_iff)
  then have "set a = set b" using d by (simp add: map_of_inject_set)
  then show ?thesis using d by (simp add: set_eq_iff_mset_eq_distinct distinct_map)
qed

lemma policy_read:
  assumes eq: "py_eq (JObj policy) (JObj replan_policy_document)" and keys: "distinct_keys (JObj policy)"
  obtains fz src where "dict_item policy ''freeze_policy'' = Inr (JObj fz)" "dict_item fz ''source'' = Inr (JObj src)"
    "dict_item policy ''policy_id'' = Inr (JStr ''POLICY-P4-SIM-DYNAMIC-FREEZE-001'')"
    "dict_item policy ''policy_revision'' = Inr (JStr ''1.0.0'')"
    "dict_item fz ''freeze_policy_id'' = Inr (JStr ''FREEZE-POLICY-P4-SIM-001'')"
    "dict_item fz ''freeze_policy_revision'' = Inr (JStr ''1.0.0'')"
    "dict_get fz ''window_seconds'' = JInt 900" "mset src = mset (object_of synthetic_source)"
proof -
  obtain fv where fv: "map_of policy ''freeze_policy'' = Some fv"
    "py_eq fv (the (map_of replan_policy_document ''freeze_policy''))"
    by (rule py_eq_member [OF eq, of "''freeze_policy''"]) (simp_all add: replan_policy_document_def)
  then obtain fz where fz: "fv = JObj fz" using py_eq_object by (fastforce simp: replan_policy_document_def)
  have feq: "py_eq (JObj fz) (JObj [(''freeze_policy_version'', JStr ''freeze-policy.v1''),
         (''freeze_policy_id'', JStr ''FREEZE-POLICY-P4-SIM-001''), (''freeze_policy_revision'', JStr ''1.0.0''),
         (''source'', synthetic_source), (''window_seconds'', JInt 900), (''interval_semantics'', JStr interval_semantics)])"
    using fv(2) fz by (simp add: replan_policy_document_def del: py_eq.simps)
  obtain sv where sv: "map_of fz ''source'' = Some sv" "py_eq sv synthetic_source" by (rule py_eq_member [OF feq, of "''source''"]) simp_all
  then obtain src where src: "sv = JObj src" using py_eq_object by (fastforce simp: synthetic_source_def)
  have seq: "py_eq (JObj src) (JObj (object_of synthetic_source))" using sv(2) src by (simp add: synthetic_source_def object_of_def del: py_eq.simps)
  have dk: "distinct_keys (JObj fz)" using keys fv(1) fz by (force dest: map_of_SomeD)
  then have ds: "distinct (map fst src)" using sv(1) src by (force dest: map_of_SomeD)
  have "mset src = mset (object_of synthetic_source)"
    by (rule py_eq_texts [OF seq ds]) (auto simp: synthetic_source_def object_of_def)
  moreover have "dict_item policy k = Inr w" if "map_of replan_policy_document k = Some w" "w = JStr s" for k w s
    using py_eq_member [OF eq that(1)] that(2) by (metis dict_item_def option.simps(5) py_eq_text(1))
  moreover have "dict_item fz k = Inr w" if "map_of [(''freeze_policy_id'', JStr ''FREEZE-POLICY-P4-SIM-001''),
       (''freeze_policy_revision'', JStr ''1.0.0'')] k = Some w" for k w
    by (rule py_eq_member [OF feq, of k w]) (use that in \<open>auto simp: dict_item_def split: if_splits\<close>)
  moreover have "dict_get fz ''window_seconds'' = JInt 900"
    by (rule py_eq_member [OF feq, of "''window_seconds''" "JInt 900"])
      (use py_eq_int [of _ 900] in \<open>auto simp: dict_get_def simp del: py_eq.simps\<close>)
  ultimately show ?thesis
    using that [of fz src] fv(1) fz sv(1) src by (simp add: dict_item_def replan_policy_document_def)
qed

end
