(* ===== verification/Freeze_Report.thy ===== *)
theory Freeze_Report
  imports Freeze_Correct
begin

section \<open>The precheck passes the projection and nothing else\<close>

subsection \<open>Objects that differ in the order of a nested object\<close>

lemma mset_map_of:
  assumes "mset a = mset b" and "distinct (map fst b)"
  shows "map_of a = map_of b"
proof -
  have "distinct (map fst a)" using assms by (metis mset_eq_imp_distinct_iff mset_map)
  then show ?thesis using assms mset_eq_setD [OF assms(1)] by (simp add: map_of_inject_set)
qed

lemma mset_py_eq:
  assumes "mset a = mset b" and "distinct_keys (JObj a)"
  shows "py_eq (JObj a) (JObj b)"
proof -
  have "map_of b = map_of a" by (rule mset_map_of [OF assms(1) [symmetric]]) (use assms(2) in simp)
  then have "case map_of b (fst kv) of None \<Rightarrow> False | Some w \<Rightarrow> py_eq (snd kv) w" if "kv \<in> set a" for kv
    using that py_eq_refl [OF assms(2)] by auto
  moreover have "set (map fst a) = set (map fst b)" using assms(1) by (metis mset_eq_setD mset_map)
  ultimately show ?thesis by simp
qed

lemma dict_set_members: "distinct (map fst kvs) \<Longrightarrow> kv \<in> set (dict_set kvs k v) \<Longrightarrow> kv = (k, v) \<or> kv \<in> set kvs \<and> fst kv \<noteq> k"
  by (induction kvs) (auto split: if_splits)

lemma py_eq_dict_set:
  assumes keys: "distinct_keys (JObj a)" and k: "map_of a k = Some u"
  shows "py_eq v u \<Longrightarrow> py_eq (JObj (dict_set a k v)) (JObj a)" and "py_eq u v \<Longrightarrow> py_eq (JObj a) (JObj (dict_set a k v))"
proof -
  have d: "distinct (map fst a)" using keys by simp
  have self: "map_of a (fst kv) = Some (snd kv) \<and> py_eq (snd kv) (snd kv)" if "kv \<in> set a" for kv
    using that keys by (cases kv) (auto intro: map_of_is_SomeI py_eq_refl)
  have "k \<in> fst ` set a" using k by (force dest: map_of_SomeD)
  then have dom: "set (map fst (dict_set a k v)) = set (map fst a)" by auto
  show "py_eq (JObj (dict_set a k v)) (JObj a)" if "py_eq v u"
    unfolding py_eq.simps dom using dict_set_members [OF d] self k that by (fastforce split: option.split)
  show "py_eq (JObj a) (JObj (dict_set a k v))" if "py_eq u v"
    unfolding py_eq.simps dom map_of_dict_set using self k that by (fastforce split: option.split)
qed

lemma json_dumps_dict_set:
  assumes "map_of kvs k = Some u" and "json_dumps v = json_dumps u"
  shows "json_dumps (JObj (dict_set kvs k v)) = json_dumps (JObj kvs)"
proof -
  have "map (\<lambda>(k, v). (k, json_dumps v)) (dict_set kvs k v) = map (\<lambda>(k, v). (k, json_dumps v)) kvs"
    using assms by (induction kvs) (auto split: if_splits)
  then show ?thesis by (simp only: json_dumps.simps)
qed

subsection \<open>The steps of the projector\<close>

definition projected where
  "projected digest ck sn ip base policy lp r cutoff freeze_end stop idx completed running explicit outcomes base_ref \<longleftrightarrow>
    ck_snapshot ck sn = Inr () \<and> verify_problem_v2 digest ip = Inr () \<and> require_base_schedule digest ck base = Inr ()
    \<and> resolve_simulation_freeze_policy digest ck policy sn = Inr r \<and> sn_data_plane sn = SIMULATION_PLANE
    \<and> (p_snapshot_id (ip_document ip) = sn_snapshot_id sn \<and> p_horizon_start_utc (ip_document ip) = sn_cutoff_at_utc sn)
    \<and> second_of (JStr (sn_cutoff_at_utc sn)) = Some cutoff \<and> second_of (JStr (rf_effective_until_utc r)) = Some freeze_end
    \<and> second_of (JStr (p_horizon_end_utc (ip_document ip))) = Some stop
    \<and> assignment_index base (p_tick_seconds (ip_document ip)) = Inr idx \<and> fp_active_universe sn (ip_document ip) = Inr ()
    \<and> require_problem_snapshot_projection sn (ip_document ip) cutoff = Inr () \<and> fp_completed sn = Inr completed
    \<and> fp_check_anchors sn (ip_document ip) completed = Inr () \<and> fp_running sn (ip_document ip) cutoff stop = Inr running
    \<and> fp_explicit (ip_document ip) cutoff stop = Inr explicit \<and> fp_check_running_locks (xl_tuples explicit) running = Inr ()
    \<and> collect_res (fp_derive digest base (ip_document ip) r cutoff freeze_end stop (map fst completed) (xl_tuples explicit))
        (sort_key fst idx) = Inr outcomes
    \<and> base_reference base = Inr base_ref
    \<and> \<lparr>lp_document = projection_document sn ip base_ref r (map fst idx) completed running explicit outcomes
       @ [(''projection_fingerprint'', JStr (contract_fingerprint digest
           (JObj (projection_document sn ip base_ref r (map fst idx) completed running explicit outcomes))))],
       lp_projection_fingerprint = contract_fingerprint digest
           (JObj (projection_document sn ip base_ref r (map fst idx) completed running explicit outcomes))\<rparr> = lp"

lemma projection_steps:
  assumes "project_effective_locks digest ck sn ip base policy = Inr lp"
  shows "\<exists>r cutoff freeze_end stop idx completed running explicit outcomes base_ref.
    projected digest ck sn ip base policy lp r cutoff freeze_end stop idx completed running explicit outcomes base_ref"
  using assms unfolding project_effective_locks_def projected_def Let_def bind_res_Inr_iff rewrap_Inr_iff require_or_Inr_iff
    utc_second_of sum.inject
  by (elim exE conjE, intro exI conjI) (assumption | simp)+

definition approved_resolution :: "(string \<Rightarrow> string) \<Rightarrow> json_object \<Rightarrow> json_object \<Rightarrow> planning_snapshot \<Rightarrow> stamp \<Rightarrow> resolved_freeze_policy" where
  "approved_resolution digest policy fz sn until =
     \<lparr>rf_policy_id = JStr ''POLICY-P4-SIM-DYNAMIC-FREEZE-001'', rf_policy_revision = JStr ''1.0.0'',
       rf_policy_fingerprint = contract_fingerprint digest (JObj policy),
       rf_freeze_policy_id = JStr ''FREEZE-POLICY-P4-SIM-001'', rf_freeze_policy_revision = JStr ''1.0.0'',
       rf_freeze_policy_fingerprint = contract_fingerprint digest (JObj fz),
       rf_source_system = JStr ''plantnexus-synthetic-policy'', rf_source_version = JStr ''1.0.0'',
       rf_source_record_id = JStr ''SIM-P4-FREEZE-001'', rf_window_seconds = 900,
       rf_effective_from_utc = sn_cutoff_at_utc sn, rf_effective_until_utc = format_utc until\<rparr>"

lemma resolved_form:
  assumes r: "resolve_simulation_freeze_policy digest ck policy sn = Inr r" and keys: "distinct_keys (JObj policy)"
  obtains fz src start until where "require_p4_document digest (ck_p4 ck) policy = Inr ()"
    "simulation_replan_policy digest ck = Inr replan_policy_document" "py_eq (JObj policy) (JObj replan_policy_document)"
    "dict_item policy ''freeze_policy'' = Inr (JObj fz)" "dict_item fz ''source'' = Inr (JObj src)"
    "mset src = mset (object_of synthetic_source)" "dict_get fz ''window_seconds'' = JInt 900"
    "dict_item policy ''policy_id'' = Inr (rf_policy_id r)" "dict_item policy ''policy_revision'' = Inr (rf_policy_revision r)"
    "dict_item fz ''freeze_policy_id'' = Inr (rf_freeze_policy_id r)" "dict_item fz ''freeze_policy_revision'' = Inr (rf_freeze_policy_revision r)"
    "second_of (JStr (sn_cutoff_at_utc sn)) = Some start" "stamp_plus start 900 = Inr until"
    "r = approved_resolution digest policy fz sn until"
proof -
  have pre: "require_p4_document digest (ck_p4 ck) policy = Inr ()" and app: "simulation_replan_policy digest ck = Inr replan_policy_document"
    and eq: "py_eq (JObj policy) (JObj replan_policy_document)"
    using r unfolding resolve_simulation_freeze_policy_def bind_res_Inr_iff rewrap_Inr_iff require_or_Inr_iff
    by (auto simp: simulation_replan_policy_def res_simps simp del: py_eq.simps)
  have anchor: "freeze_anchor v f = Inr t \<longleftrightarrow> second_of v = Some t" for v f t
    by (simp add: freeze_anchor_def Let_def whole_second_iff)
  obtain fz src where p: "dict_item policy ''freeze_policy'' = Inr (JObj fz)" "dict_item fz ''source'' = Inr (JObj src)"
    "dict_item policy ''policy_id'' = Inr (JStr ''POLICY-P4-SIM-DYNAMIC-FREEZE-001'')"
    "dict_item policy ''policy_revision'' = Inr (JStr ''1.0.0'')"
    "dict_item fz ''freeze_policy_id'' = Inr (JStr ''FREEZE-POLICY-P4-SIM-001'')"
    "dict_item fz ''freeze_policy_revision'' = Inr (JStr ''1.0.0'')"
    "dict_get fz ''window_seconds'' = JInt 900" "mset src = mset (object_of synthetic_source)"
    by (rule policy_read [OF eq keys])
  have "map_of src = map_of (object_of synthetic_source)"
    by (rule mset_map_of [OF p(8)]) (simp add: synthetic_source_def object_of_def)
  then have s: "dict_item src ''source_system'' = Inr (JStr ''plantnexus-synthetic-policy'')"
    "dict_item src ''source_version'' = Inr (JStr ''1.0.0'')" "dict_item src ''source_record_id'' = Inr (JStr ''SIM-P4-FREEZE-001'')"
    by (simp_all add: dict_item_def synthetic_source_def object_of_def)
  obtain start until where "second_of (JStr (sn_cutoff_at_utc sn)) = Some start" "stamp_plus start 900 = Inr until"
    "r = approved_resolution digest policy fz sn until"
    using r p s unfolding resolve_simulation_freeze_policy_def bind_res_Inr_iff rewrap_Inr_iff require_or_Inr_iff anchor Let_def
    by (auto simp: object_of_def res_simps approved_resolution_def simp del: py_eq.simps)
  with pre app eq p show ?thesis by (intro that [of fz src start until]) (simp_all add: approved_resolution_def)
qed

subsection \<open>The recomputed document\<close>

lemma source_dumps:
  assumes "mset src = mset (object_of synthetic_source)"
  shows "json_dumps (JObj src) = json_dumps synthetic_source" and "py_eq (JObj src) synthetic_source" and "py_eq synthetic_source (JObj src)"
proof -
  have o: "synthetic_source = JObj (object_of synthetic_source)" "distinct_keys (JObj (object_of synthetic_source))"
    by (auto simp: synthetic_source_def object_of_def)
  have d: "distinct (map fst src)"
    using assms o(2) by (metis distinct_keys.simps(2) mset_eq_imp_distinct_iff mset_map)
  then have k: "distinct_keys (JObj src)" using assms o(2) mset_eq_setD [OF assms] by simp
  show "json_dumps (JObj src) = json_dumps synthetic_source" using json_dumps_perm [OF assms d] o(1) by simp
  show "py_eq (JObj src) synthetic_source" using mset_py_eq [OF assms k] o(1) by metis
  show "py_eq synthetic_source (JObj src)" using mset_py_eq [OF assms [symmetric] o(2)] o(1) by metis
qed

definition resolution_with :: "json_object \<Rightarrow> json \<Rightarrow> json" where
  "resolution_with src v = JObj (dict_set (object_of v) ''source'' (JObj src))"

lemma expected_document_form:
  assumes r: "r = approved_resolution digest policy fz sn until"
    and "dict_item fz ''source'' = Inr (JObj src)" and "base_reference base = Inr base_ref"
    and "dict_item policy ''policy_id'' = Inr (rf_policy_id r)" "dict_item policy ''policy_revision'' = Inr (rf_policy_revision r)"
    and "dict_item fz ''freeze_policy_id'' = Inr (rf_freeze_policy_id r)" "dict_item fz ''freeze_policy_revision'' = Inr (rf_freeze_policy_revision r)"
    and raw: "\<And>t j. (t, j) \<in> set running \<Longrightarrow> \<exists>v. j = JObj v"
    and P: "P = projection_document sn ip base_ref r ids completed running explicit outcomes"
  shows "expected_document digest sn ip base policy fz 900 until ids completed (map raw_entry running) (raw_explicit explicit) outcomes
    = Inr (dict_set P ''freeze_resolution'' (resolution_with src (dict_get P ''freeze_resolution'')))"
proof -
  have run: "map (JObj \<circ> snd) (map raw_entry running) = map snd running"
    using raw by (force simp: raw_entry_def object_of_def)
  obtain version version_id fp where b: "dict_item base ''schedule_version_version'' = Inr version"
    "dict_item base ''schedule_version_id'' = Inr version_id" "dict_item base ''content_fingerprint'' = Inr fp"
    "base_ref = JObj [(''schedule_version_version'', version), (''schedule_version_id'', version_id), (''state'', JStr ''PUBLISHED''),
        (''content_fingerprint'', fp)]"
    using assms(3) by (auto simp: base_reference_def res_simps)
  show ?thesis
    unfolding expected_document_def Let_def run b(1,2,3) assms(2,4-7) bind_res_simps P projection_document_def
    by (simp add: r approved_resolution_def b(4) dict_get_def resolution_with_def object_of_def freeze_resolution_document_def policy_reference_def
        synthetic_source_def raw_explicit_def)
qed

lemma fact_evidence_keys: "fact_evidence ef = Inr ev \<Longrightarrow> distinct_keys ev"
  by (auto simp: fact_evidence_def res_simps optional_field_def source_json_def split: option.splits)

lemma running_operation_form:
  assumes "fp_running_operation sn p cutoff stop i = Inr ys" and "(t, j) \<in> set ys"
  shows "\<exists>op ref ev. operation_by_id p i = Some op \<and> op_status op = RUNNING \<and> pt_operation_id t = i
    \<and> j = protection_document t ''RUNNING_EXECUTION_FACT'' 1 ref ev \<and> distinct_keys ev"
proof -
  obtain op where op: "operation_by_id p i = Some op" using assms(1) by (auto simp: fp_running_operation_def res_simps)
  have run: "op_status op = RUNNING" using assms op by (auto simp: fp_running_operation_def split: if_splits)
  obtain x where x: "instance_by_id sn i = Some x" using assms(1) op run by (auto simp: fp_running_operation_def res_simps)
  obtain ref ef where f: "in_execution_fact_id x = Some ref" "fact_by_id sn ref = Some ef"
    using assms(1) op run x by (auto simp: fp_running_operation_def split: option.splits)
  show ?thesis
    using assms op run x f by (auto simp: fp_running_operation_def Let_def res_simps) (blast intro: fact_evidence_keys)
qed

lemma running_form:
  assumes "fp_running sn p cutoff stop = Inr running" and "(t, j) \<in> set running"
  shows "\<exists>op ref ev. operation_by_id p (pt_operation_id t) = Some op \<and> op_status op = RUNNING
    \<and> j = protection_document t ''RUNNING_EXECUTION_FACT'' 1 ref ev \<and> distinct_keys ev"
proof -
  obtain i ys where "fp_running_operation sn p cutoff stop i = Inr ys" "(t, j) \<in> set ys"
    by (rule collect_res_mem [OF assms [unfolded fp_running_def]])
  from running_operation_form [OF this] show ?thesis by blast
qed

lemma protection_facts:
  "\<exists>v. protection_document t kind n ref ev = JObj v \<and> raw_tuple v = raw_values t \<and> dict_get v ''operation_id'' = JStr (pt_operation_id t)"
  "distinct_keys ev \<Longrightarrow> distinct_keys (protection_document t kind n ref ev)"
  by (simp_all add: protection_document_def raw_tuple_def raw_values_def dict_get_def)

subsection \<open>Documents without double keys\<close>

lemma set_sort_by_field [simp]: "set (sort_by_field k vs) = set vs"
  by (simp add: sort_by_field_def)

lemma dict_item_keys: "distinct_keys (JObj kvs) \<Longrightarrow> dict_item kvs k = Inr v \<Longrightarrow> distinct_keys v"
  by (auto simp: dict_item_def split: option.splits dest!: map_of_SomeD)

lemma distinct_keys_texts [simp]: "distinct_keys (jstrs ss)"
  by (auto simp: jstrs_def)

lemma completed_form:
  assumes "fp_completed sn = Inr completed" and "(i, ef, j) \<in> set completed"
  shows "\<exists>t ref ev. j = protection_document t ''COMPLETED_EXECUTION_FACT'' 1 ref ev \<and> distinct_keys ev \<and> pt_operation_id t = i"
proof -
  obtain k ys where "fp_completed_instance sn k = Inr ys" "(i, ef, j) \<in> set ys"
    by (rule collect_res_mem [OF assms [unfolded fp_completed_def]])
  then show ?thesis
    by (auto simp: fp_completed_instance_def res_simps split: if_splits option.splits)
      (metis fact_evidence_keys protected_tuple.select_convs(1))
qed

lemma lock_document_keys [simp]: "distinct_keys (lock_document l kind n)"
  by (simp add: lock_document_def)

lemma explicit_from_form:
  assumes "fp_explicit_from p cutoff stop acc ls = Inr x"
  shows "xl_hard x = xl_hard acc @ map (\<lambda>l. lock_document l ''EXPLICIT_HARD_LOCK'' 2) (filter (\<lambda>l. l_lock_type l = HARD_LOCK) ls)"
    and "xl_soft x = xl_soft acc @ map (\<lambda>l. lock_document l ''SOFT_LOCK'' 4) (filter (\<lambda>l. l_lock_type l = SOFT_LOCK) ls)"
proof -
  have "xl_hard x = xl_hard acc @ map (\<lambda>l. lock_document l ''EXPLICIT_HARD_LOCK'' 2) (filter (\<lambda>l. l_lock_type l = HARD_LOCK) ls)
    \<and> xl_soft x = xl_soft acc @ map (\<lambda>l. lock_document l ''SOFT_LOCK'' 4) (filter (\<lambda>l. l_lock_type l = SOFT_LOCK) ls)"
    using assms
  proof (induction ls arbitrary: acc)
    case (Cons l ls)
    have t: "l_lock_type l = HARD_LOCK \<longleftrightarrow> l_lock_type l \<noteq> SOFT_LOCK" by (cases "l_lock_type l") auto
    show ?case
    proof (cases "l_lock_type l = SOFT_LOCK")
      case True
      with Cons.prems have "fp_explicit_from p cutoff stop (acc\<lparr>xl_soft := xl_soft acc @ [lock_document l ''SOFT_LOCK'' 4]\<rparr>) ls = Inr x"
        by (auto simp: res_simps)
      from Cons.IH [OF this] show ?thesis using True by simp
    next
      case False
      with Cons.prems have "fp_explicit_from p cutoff stop (acc\<lparr>xl_tuples := (l_operation_id l, tuple_from_lock l) # xl_tuples acc,
          xl_hard := xl_hard acc @ [lock_document l ''EXPLICIT_HARD_LOCK'' 2]\<rparr>) ls = Inr x"
        by (auto simp: res_simps)
      from Cons.IH [OF this] show ?thesis using False t by simp
    qed
  qed simp
  then show "xl_hard x = xl_hard acc @ map (\<lambda>l. lock_document l ''EXPLICIT_HARD_LOCK'' 2) (filter (\<lambda>l. l_lock_type l = HARD_LOCK) ls)"
    "xl_soft x = xl_soft acc @ map (\<lambda>l. lock_document l ''SOFT_LOCK'' 4) (filter (\<lambda>l. l_lock_type l = SOFT_LOCK) ls)" by simp_all
qed

lemma explicit_form:
  assumes "fp_explicit p cutoff stop = Inr x"
  shows "xl_hard x = map (\<lambda>l. lock_document l ''EXPLICIT_HARD_LOCK'' 2) (filter (\<lambda>l. l_lock_type l = HARD_LOCK) (p_locks p))"
    and "xl_soft x = map (\<lambda>l. lock_document l ''SOFT_LOCK'' 4) (filter (\<lambda>l. l_lock_type l = SOFT_LOCK) (p_locks p))"
  using explicit_from_form [OF assms [unfolded fp_explicit_def]] by simp_all

lemma derived_lock_facts:
  assumes "derived_lock digest t base p r = Inr j"
  shows "\<exists>v. j = JObj v \<and> raw_tuple v = raw_values t \<and> dict_get v ''operation_id'' = JStr (pt_operation_id t)"
    and "distinct_keys (JObj base) \<Longrightarrow> distinct_keys (rf_freeze_policy_id r) \<Longrightarrow> distinct_keys j"
  using assms dict_item_keys [of base]
  by (auto simp: derived_lock_def res_simps Let_def raw_tuple_def raw_values_def dict_get_def)

lemma set_rights [simp]: "y \<in> set (rights xs) \<longleftrightarrow> Inr y \<in> set xs" and set_lefts [simp]: "x \<in> set (lefts xs) \<longleftrightarrow> Inl x \<in> set xs"
  by (force simp: rights_def lefts_def split: sum.splits)+

lemma derive_form:
  assumes "fp_derive digest base p r cutoff freeze_end stop completed hard (i, a) = Inr ys" and "y \<in> set ys"
  shows "\<exists>op start. i \<notin> set completed \<and> operation_by_id p i = Some op \<and> op_status op = NOT_STARTED
    \<and> second_of (dict_get a ''start_at_utc'') = Some start \<and> stamp_less start cutoff = Inr False
    \<and> (y = Inl i \<and> stamp_less start freeze_end = Inr False
       \<or> stamp_less start freeze_end = Inr True \<and> (\<exists>j. y = Inr j \<and> derived_lock digest (tuple_from_assignment a) base p r = Inr j)
         \<and> (\<forall>u. map_of hard i = Some u \<longrightarrow> tuple_values u = tuple_values (tuple_from_assignment a)))"
proof -
  obtain op where op: "i \<notin> set completed" "operation_by_id p i = Some op" "op_status op \<noteq> RUNNING"
    using assms by (cases "operation_by_id p i") (auto simp: fp_derive_def split: if_splits)
  then have "op_status op = NOT_STARTED" by (cases "op_status op") simp_all
  with op show ?thesis
    using assms by (auto simp: fp_derive_def res_simps utc_second_of split: if_splits option.splits)
qed

lemma outcomes_form:
  assumes "collect_res (fp_derive digest base p r cutoff freeze_end stop completed hard) (sort_key fst idx) = Inr outcomes"
    and "y \<in> set outcomes"
  obtains i a ys where "(i, a) \<in> set idx" "fp_derive digest base p r cutoff freeze_end stop completed hard (i, a) = Inr ys" "y \<in> set ys"
proof -
  obtain e ys where "e \<in> set (sort_key fst idx)" "fp_derive digest base p r cutoff freeze_end stop completed hard e = Inr ys" "y \<in> set ys"
    by (rule collect_res_mem [OF assms])
  then show ?thesis using that [of "fst e" "snd e" ys] by simp
qed

lemma projection_keys:
  assumes "base_reference base = Inr base_ref" and "distinct_keys (JObj base)"
    and r: "resolve_simulation_freeze_policy digest ck policy sn = Inr r" "distinct_keys (JObj policy)"
    and c: "fp_completed sn = Inr completed" and run: "fp_running sn p cutoff stop = Inr running"
    and x: "fp_explicit p cutoff stop = Inr explicit"
    and o: "collect_res (fp_derive digest base p r cutoff freeze_end stop (map fst completed) hard) (sort_key fst idx) = Inr outcomes"
  shows "distinct_keys (JObj (projection_document sn ip base_ref r ids completed running explicit outcomes))"
proof -
  have b: "distinct_keys base_ref"
    using assms(1,2) dict_item_keys [OF assms(2)] by (auto simp: base_reference_def res_simps)
  have pol: "distinct_keys (policy_reference r)" "distinct_keys (freeze_resolution_document r ls)" "distinct_keys (rf_freeze_policy_id r)" for ls
    by (rule resolved_form [OF r], simp add: approved_resolution_def policy_reference_def freeze_resolution_document_def)+
  have "distinct_keys j" if "j \<in> snd ` snd ` set completed" for j
    using that completed_form [OF c] protection_facts(2) by fastforce
  moreover have "distinct_keys j" if "j \<in> snd ` set running" for j
    using that running_form [OF run] protection_facts(2) by fastforce
  moreover have "distinct_keys j" if j: "Inr j \<in> set outcomes" for j
  proof -
    obtain i a ys where "fp_derive digest base p r cutoff freeze_end stop (map fst completed) hard (i, a) = Inr ys" "Inr j \<in> set ys"
      by (rule outcomes_form [OF o j])
    then show ?thesis using derive_form derived_lock_facts(2) [OF _ assms(2) pol(3)] by fastforce
  qed
  ultimately show ?thesis
    using b pol explicit_form [OF x] by (auto simp: projection_document_def Let_def artifact_reference_def image_comp)
qed

subsection \<open>The recomputation\<close>

text \<open>Each step of the projector that succeeded is a step of the precheck that succeeds.\<close>

lemma precheck_steps:
  assumes pr: "projected digest ck sn ip base policy lp r cutoff freeze_end stop idx completed running explicit outcomes base_ref"
    and idx: "list_all read_entry idx"
  shows "pc_active_universe sn (ip_document ip) = Inr ()"
    and "require_snapshot_problem_equivalence sn (ip_document ip) cutoff = Inr ()"
    and "pc_completed sn = Inr completed" and "pc_check_anchors sn (ip_document ip) completed = Inr ()"
    and "pc_running sn (ip_document ip) cutoff stop = Inr (map raw_entry running)"
    and "pc_explicit (ip_document ip) cutoff stop = Inr (raw_explicit explicit)"
    and "pc_check_running_locks (rl_tuples (raw_explicit explicit)) (map raw_entry running) = Inr ()"
    and "collect_res (pc_derive digest base (ip_document ip) (rf_freeze_policy_fingerprint r) (rf_freeze_policy_id r) cutoff freeze_end stop
      (map fst completed) (rl_tuples (raw_explicit explicit))) (sort_key fst idx) = Inr outcomes"
proof -
  show "pc_active_universe sn (ip_document ip) = Inr ()"
    using pr by (simp add: projected_def pc_active_universe_def fp_active_universe_def require_or_Inr_iff)
  show "require_snapshot_problem_equivalence sn (ip_document ip) cutoff = Inr ()"
    using pr by (simp add: projected_def equivalence_agrees flip: value_of_Some_iff)
  show "pc_completed sn = Inr completed" "pc_check_anchors sn (ip_document ip) completed = Inr ()"
    using pr by (simp_all add: projected_def completed_agrees anchors_agree flip: value_of_Some_iff)
  have run: "fp_running sn (ip_document ip) cutoff stop = Inr running" using pr by (simp add: projected_def)
  then show "pc_running sn (ip_document ip) cutoff stop = Inr (map raw_entry running)"
    by (simp add: running_agrees flip: value_of_Some_iff)
  show "pc_explicit (ip_document ip) cutoff stop = Inr (raw_explicit explicit)"
    using pr by (intro explicit_agrees) (simp add: projected_def)
  show "pc_check_running_locks (rl_tuples (raw_explicit explicit)) (map raw_entry running) = Inr ()"
  proof (rule running_locks_agree)
    show "fp_check_running_locks (xl_tuples explicit) running = Inr ()" using pr by (simp add: projected_def)
    show "raw_tuple (object_of j) = raw_values t" if tj: "(t, j) \<in> set running" for t j
    proof -
      obtain ref ev where "j = protection_document t ''RUNNING_EXECUTION_FACT'' 1 ref ev" using running_form [OF run tj] by blast
      then show ?thesis using protection_facts(1) [of t "''RUNNING_EXECUTION_FACT''" 1 ref ev] by (auto simp: object_of_def)
    qed
  qed
  have "collect_res (fp_derive digest base (ip_document ip) r cutoff freeze_end stop (map fst completed) (xl_tuples explicit))
      (sort_key fst idx) = Inr outcomes" using pr by (simp add: projected_def)
  then show "collect_res (pc_derive digest base (ip_document ip) (rf_freeze_policy_fingerprint r) (rf_freeze_policy_id r) cutoff freeze_end
      stop (map fst completed) (rl_tuples (raw_explicit explicit))) (sort_key fst idx) = Inr outcomes"
  proof (rule collect_res_weaken)
    fix e ys
    assume "e \<in> set (sort_key fst idx)"
      and ok: "fp_derive digest base (ip_document ip) r cutoff freeze_end stop (map fst completed) (xl_tuples explicit) e = Inr ys"
    then have "read_entry (fst e, snd e)" using idx by (simp add: list_all_iff)
    from derive_agrees [OF this] ok
    show "pc_derive digest base (ip_document ip) (rf_freeze_policy_fingerprint r) (rf_freeze_policy_id r) cutoff freeze_end stop
      (map fst completed) (rl_tuples (raw_explicit explicit)) e = Inr ys" by simp
  qed
qed

text \<open>The two documents: \<open>doc\<close> of the projector, \<open>expected\<close> of the precheck.\<close>

definition agreeing :: "(string \<Rightarrow> string) \<Rightarrow> json_object \<Rightarrow> json_object \<Rightarrow> bool" where
  "agreeing digest expected doc \<longleftrightarrow> (\<exists>P src fr. doc = P @ [(''projection_fingerprint'', JStr (contract_fingerprint digest (JObj P)))]
     \<and> expected = dict_set P ''freeze_resolution'' (JObj (dict_set fr ''source'' (JObj src)))
         @ [(''projection_fingerprint'', JStr (contract_fingerprint digest (JObj P)))]
     \<and> map fst P = butlast projection_root_fields \<and> distinct_keys (JObj P)
     \<and> dict_get P ''freeze_resolution'' = JObj fr \<and> map_of fr ''source'' = Some synthetic_source
     \<and> mset src = mset (object_of synthetic_source)
     \<and> dict_get P ''effective_lock_projection_version'' = JStr ''effective-lock-projection.v1''
     \<and> dict_get P ''canonicalization_version'' = JStr ''canonical-json.v1'' \<and> dict_get P ''data_plane'' = JStr ''SIMULATION'')"

lemma projection_document_shape:
  assumes "P = projection_document sn ip base_ref (approved_resolution digest policy fz sn until) ids completed running explicit outcomes"
  obtains fr where "dict_get P ''freeze_resolution'' = JObj fr" "map_of fr ''source'' = Some synthetic_source"
    "map fst P = butlast projection_root_fields" "map_of P ''freeze_resolution'' = Some (JObj fr)"
    "dict_get P ''effective_lock_projection_version'' = JStr ''effective-lock-projection.v1''"
    "dict_get P ''canonicalization_version'' = JStr ''canonical-json.v1''" "dict_get P ''data_plane'' = JStr ''SIMULATION''"
  by (rule that [of "object_of (dict_get P ''freeze_resolution'')"])
    (simp_all add: assms projection_document_def Let_def freeze_resolution_document_def approved_resolution_def dict_get_def object_of_def
      synthetic_source_def projection_root_fields_def)

lemma expected_projection_outcome:
  assumes ok: "project_effective_locks digest ck sn ip base policy = Inr lp"
    and idx: "assignment_index base (p_tick_seconds (ip_document ip)) = Inr idx"
    and keys: "distinct_keys (JObj base)" "distinct_keys (JObj policy)"
  shows "if \<forall>e \<in> set idx. whole_ticks (snd e)
    then \<exists>expected. expected_projection digest ck sn ip base policy = Inr expected \<and> agreeing digest expected (lp_document lp)
    else expected_projection digest ck sn ip base policy = Inl (input_error ''INVALID_ASSIGNMENT'' ''assignment.duration_seconds'')"
proof -
  obtain r cutoff freeze_end stop idx' completed running explicit outcomes base_ref where
    "projected digest ck sn ip base policy lp r cutoff freeze_end stop idx' completed running explicit outcomes base_ref"
    using projection_steps [OF ok] by blast
  then have pr: "projected digest ck sn ip base policy lp r cutoff freeze_end stop idx completed running explicit outcomes base_ref"
    using idx by (simp add: projected_def)
  then have st: "require_base_schedule digest ck base = Inr ()" "resolve_simulation_freeze_policy digest ck policy sn = Inr r"
    "second_of (JStr (sn_cutoff_at_utc sn)) = Some cutoff" "second_of (JStr (rf_effective_until_utc r)) = Some freeze_end"
    "base_reference base = Inr base_ref" "fp_completed sn = Inr completed" "fp_running sn (ip_document ip) cutoff stop = Inr running"
    "fp_explicit (ip_document ip) cutoff stop = Inr explicit"
    "collect_res (fp_derive digest base (ip_document ip) r cutoff freeze_end stop (map fst completed) (xl_tuples explicit))
        (sort_key fst idx) = Inr outcomes" by (simp_all add: projected_def)
  obtain fz src start until where
    p: "require_p4_document digest (ck_p4 ck) policy = Inr ()"
    "simulation_replan_policy digest ck = Inr replan_policy_document" "py_eq (JObj policy) (JObj replan_policy_document)"
    "dict_item policy ''freeze_policy'' = Inr (JObj fz)" "dict_item fz ''source'' = Inr (JObj src)"
    "mset src = mset (object_of synthetic_source)" "dict_get fz ''window_seconds'' = JInt 900"
    "dict_item policy ''policy_id'' = Inr (rf_policy_id r)" "dict_item policy ''policy_revision'' = Inr (rf_policy_revision r)"
    "dict_item fz ''freeze_policy_id'' = Inr (rf_freeze_policy_id r)" "dict_item fz ''freeze_policy_revision'' = Inr (rf_freeze_policy_revision r)"
    "second_of (JStr (sn_cutoff_at_utc sn)) = Some start" "stamp_plus start 900 = Inr until"
    and r: "r = approved_resolution digest policy fz sn until"
    by (rule resolved_form [OF st(2) keys(2)])
  have fe: "freeze_end = until" "start = cutoff"
    using freeze_end_read(1) [OF p(12,13)] st(3,4) p(12) r by (simp_all add: approved_resolution_def)
  have fp: "rf_freeze_policy_fingerprint r = contract_fingerprint digest (JObj fz)" using r by (simp add: approved_resolution_def)
  note index = assignment_index_agrees [OF idx st(1)]
  note steps = precheck_steps [OF pr index(1)]
  define P where "P = projection_document sn ip base_ref r (map fst idx) completed running explicit outcomes"
  obtain fr where shape: "dict_get P ''freeze_resolution'' = JObj fr" "map_of fr ''source'' = Some synthetic_source"
    "map fst P = butlast projection_root_fields" "map_of P ''freeze_resolution'' = Some (JObj fr)"
    "dict_get P ''effective_lock_projection_version'' = JStr ''effective-lock-projection.v1''"
    "dict_get P ''canonicalization_version'' = JStr ''canonical-json.v1''" "dict_get P ''data_plane'' = JStr ''SIMULATION''"
    by (rule projection_document_shape [OF P_def [unfolded r]])
  have raw: "\<exists>v. j = JObj v" if "(t, j) \<in> set running" for t j
    using running_form [OF st(7) that] protection_facts(1) by metis
  have doc: "expected_document digest sn ip base policy fz 900 until (map fst idx) completed (map raw_entry running) (raw_explicit explicit)
      outcomes = Inr (dict_set P ''freeze_resolution'' (JObj (dict_set fr ''source'' (JObj src))))"
    using expected_document_form [OF r p(5) st(5) p(8,9,10,11) raw P_def] by (simp add: shape(1) resolution_with_def object_of_def)
  have same: "contract_fingerprint digest (JObj (dict_set P ''freeze_resolution'' (JObj (dict_set fr ''source'' (JObj src)))))
      = contract_fingerprint digest (JObj P)"
    unfolding contract_fingerprint_def
    by (simp only: json_dumps_dict_set [OF shape(4) json_dumps_dict_set [OF shape(2) source_dumps(1) [OF p(6)]]])
  have checks: "check_seq [ck_snapshot ck sn, verify_problem_v2 digest ip, require_p4_document digest (ck_p4 ck) policy] = Inr ()"
    "sn_data_plane sn = SIMULATION_PLANE"
    "p_snapshot_id (ip_document ip) = sn_snapshot_id sn" "p_horizon_start_utc (ip_document ip) = sn_cutoff_at_utc sn"
    "pc_utc (JStr (sn_cutoff_at_utc sn)) f = Inr cutoff" "pc_utc (JStr (p_horizon_end_utc (ip_document ip))) f = Inr stop" for f
    using pr p(1) by (simp_all add: projected_def check_seq_ok_iff utc_second_of)
  have keep: "distinct_keys (JObj P)"
    unfolding P_def by (rule projection_keys [OF st(5) keys(1) st(2) keys(2) st(6-9)])
  show ?thesis
  proof (cases "\<forall>e \<in> set idx. whole_ticks (snd e)")
    case True
    then have "base_assignments digest ck base = Inr idx" using index(3) by (simp add: list_all_iff)
    then have "expected_projection digest ck sn ip base policy = Inr (dict_set P ''freeze_resolution'' (JObj (dict_set fr ''source'' (JObj src)))
         @ [(''projection_fingerprint'', JStr (contract_fingerprint digest (JObj P)))])"
      using checks p(2,3,4,7,10,13) steps doc same fe fp
      by (simp add: expected_projection_def Let_def object_of_def del: py_eq.simps)
    moreover have "lp_document lp = P @ [(''projection_fingerprint'', JStr (contract_fingerprint digest (JObj P)))]"
      using pr by (auto simp: projected_def P_def)
    ultimately show ?thesis using True shape keep p(6) unfolding agreeing_def by auto
  next
    case False
    then have "base_assignments digest ck base = Inl (input_error ''INVALID_ASSIGNMENT'' ''assignment.duration_seconds'')"
      using index(3) by (auto simp: list_all_iff)
    then show ?thesis using False checks p(2,3) by (simp add: expected_projection_def Let_def del: py_eq.simps)
  qed
qed

subsection \<open>The comparison\<close>

lemma projection_violations_Nil:
  "projection_violations digest expected doc = [] \<longleftrightarrow> set (map fst doc) = set projection_root_fields
    \<and> (\<forall>(c, f) \<in> set projection_checks. py_eq (dict_get doc f) (dict_get expected f))
    \<and> py_eq (projection_header doc) expected_header
    \<and> py_eq (dict_get doc ''projection_fingerprint'')
        (JStr (contract_fingerprint digest (JObj (dict_without doc ''projection_fingerprint''))))
    \<and> py_eq (dict_get doc ''projection_fingerprint'') (dict_get expected ''projection_fingerprint'')"
  unfolding projection_violations_def Let_def by (auto simp: filter_empty_conv simp del: py_eq.simps py_eq_text)

lemma check_fields: "set projection_root_fields = snd ` set projection_checks \<union>
    {''effective_lock_projection_version'', ''canonicalization_version'', ''data_plane'', ''projection_fingerprint''}"
  by (auto simp: projection_root_fields_def projection_checks_def)

lemma agreeing_fields:
  assumes "agreeing digest expected doc"
  shows "set (map fst doc) = set projection_root_fields" and "distinct_keys (JObj doc)"
    and "f \<in> set projection_root_fields \<Longrightarrow> py_eq (dict_get doc f) (dict_get expected f) \<and> py_eq (dict_get expected f) (dict_get doc f)"
    and "dict_get doc ''projection_fingerprint'' = JStr (contract_fingerprint digest (JObj (dict_without doc ''projection_fingerprint'')))"
    and "dict_get doc ''effective_lock_projection_version'' = JStr ''effective-lock-projection.v1''"
      "dict_get doc ''canonicalization_version'' = JStr ''canonical-json.v1''" "dict_get doc ''data_plane'' = JStr ''SIMULATION''"
proof -
  obtain P src fr where doc: "doc = P @ [(''projection_fingerprint'', JStr (contract_fingerprint digest (JObj P)))]"
    and expected: "expected = dict_set P ''freeze_resolution'' (JObj (dict_set fr ''source'' (JObj src)))
         @ [(''projection_fingerprint'', JStr (contract_fingerprint digest (JObj P)))]"
    and P: "map fst P = butlast projection_root_fields" "distinct_keys (JObj P)" "dict_get P ''freeze_resolution'' = JObj fr"
    and src: "map_of fr ''source'' = Some synthetic_source" "mset src = mset (object_of synthetic_source)"
    and hdr: "dict_get P ''effective_lock_projection_version'' = JStr ''effective-lock-projection.v1''"
      "dict_get P ''canonicalization_version'' = JStr ''canonical-json.v1''" "dict_get P ''data_plane'' = JStr ''SIMULATION''"
    using assms unfolding agreeing_def by blast
  have keys: "fst ` set P = set (butlast projection_root_fields)" using P(1) by (metis set_map)
  have new: "''projection_fingerprint'' \<notin> fst ` set P" unfolding keys by (simp add: projection_root_fields_def)
  have roots: "set projection_root_fields = insert ''projection_fingerprint'' (fst ` set P)"
    unfolding keys by (simp add: projection_root_fields_def insert_commute)
  have res: "''freeze_resolution'' \<in> fst ` set P" unfolding keys by (simp add: projection_root_fields_def)
  show "set (map fst doc) = set projection_root_fields" unfolding roots by (simp add: doc)
  show "distinct_keys (JObj doc)" using P(2) new by (simp add: doc)
  have "filter (\<lambda>(k, _). k \<noteq> ''projection_fingerprint'') P = P" using new by (force intro!: filter_True)
  then show "dict_get doc ''projection_fingerprint'' = JStr (contract_fingerprint digest (JObj (dict_without doc ''projection_fingerprint'')))"
    using new by (simp add: doc dict_get_append dict_without_def) (simp add: dict_get_def)
  have in_P: "k \<in> fst ` set P" if "k \<in> set (butlast projection_root_fields)" for k using that keys by simp
  show "dict_get doc ''effective_lock_projection_version'' = JStr ''effective-lock-projection.v1''"
    "dict_get doc ''canonicalization_version'' = JStr ''canonical-json.v1''" "dict_get doc ''data_plane'' = JStr ''SIMULATION''"
    using hdr in_P by (simp_all add: doc dict_get_append projection_root_fields_def)
  have fr: "distinct_keys (JObj fr)" using distinct_keys_get [OF P(2), of "''freeze_resolution''"] P(3) by simp
  note both = py_eq_dict_set [OF fr src(1), of "JObj src"]
  show "py_eq (dict_get doc f) (dict_get expected f) \<and> py_eq (dict_get expected f) (dict_get doc f)" if f: "f \<in> set projection_root_fields"
  proof (cases "f = ''freeze_resolution''")
    case True
    then have "dict_get doc f = JObj fr" "dict_get expected f = JObj (dict_set fr ''source'' (JObj src))"
      using res P(3) by (simp_all add: doc expected dict_get_append)
    then show ?thesis using both source_dumps(2,3) [OF src(2)] by (simp del: py_eq.simps)
  next
    case False
    then have "dict_get expected f = dict_get doc f" using res f roots by (auto simp: doc expected dict_get_append)
    moreover have "distinct_keys (dict_get doc f)" by (rule distinct_keys_get) (use P(2) new in \<open>simp add: doc\<close>)
    ultimately show ?thesis using py_eq_refl by simp
  qed
qed

lemma agreeing_passes:
  assumes "agreeing digest expected doc" shows "projection_violations digest expected doc = []"
proof -
  note f = agreeing_fields [OF assms]
  have "py_eq (dict_get doc g) (dict_get expected g)" if "(c, g) \<in> set projection_checks" for c g
  proof -
    have "g \<in> snd ` set projection_checks" using that by (intro image_eqI [of _ _ "(c, g)"]) simp_all
    then have "g \<in> set projection_root_fields" unfolding check_fields by (rule UnI1)
    then show ?thesis using f(3) by blast
  qed
  moreover have "py_eq (projection_header doc) expected_header"
    using f(5-7) by (simp add: projection_header_def expected_header_def)
  moreover have "''projection_fingerprint'' \<in> set projection_root_fields" unfolding check_fields by simp
  then have "py_eq (dict_get doc ''projection_fingerprint'') (dict_get expected ''projection_fingerprint'')" using f(3) by blast
  moreover have "py_eq (dict_get doc ''projection_fingerprint'')
      (JStr (contract_fingerprint digest (JObj (dict_without doc ''projection_fingerprint''))))"
    unfolding f(4) by simp
  ultimately show ?thesis unfolding projection_violations_Nil using f(1) by blast
qed

lemma agreeing_unique:
  assumes "agreeing digest expected doc" and "projection_violations digest expected other = []" and keys: "distinct_keys (JObj other)"
  shows "py_eq (JObj other) (JObj doc)"
proof -
  note f = agreeing_fields [OF assms(1)]
  note v = assms(2) [unfolded projection_violations_Nil]
  have header: "py_eq (dict_get other g) (dict_get doc g)"
    if "g \<in> {''effective_lock_projection_version'', ''canonicalization_version'', ''data_plane''}" for g
    using v f(5-7) that by (auto simp: projection_header_def expected_header_def)
  have same: "py_eq (dict_get other g) (dict_get doc g)" if "g \<in> set projection_root_fields" for g
  proof (cases "g \<in> {''effective_lock_projection_version'', ''canonicalization_version'', ''data_plane''}")
    case False
    then have "py_eq (dict_get other g) (dict_get expected g)" using v that unfolding check_fields by fastforce
    then show ?thesis using f(3) [OF that] py_eq_trans by blast
  qed (rule header)
  have present: "map_of doc k = Some (dict_get doc k)" if "k \<in> set projection_root_fields" for k
    using that f(1) by (cases "map_of doc k") (auto simp: dict_get_def map_of_eq_None_iff)
  have "case map_of doc (fst kv) of None \<Rightarrow> False | Some w \<Rightarrow> py_eq (snd kv) w" if "kv \<in> set other" for kv
  proof -
    have "map_of other (fst kv) = Some (snd kv)" using that keys by (intro map_of_is_SomeI) simp_all
    then have "dict_get other (fst kv) = snd kv" by (simp add: dict_get_def)
    moreover have k: "fst kv \<in> set projection_root_fields"
      unfolding conjunct1 [OF v, symmetric] set_map by (rule imageI) (rule that)
    ultimately have "py_eq (snd kv) (dict_get doc (fst kv))" using same [OF k] by simp
    then show ?thesis unfolding present [OF k] option.case .
  qed
  then show ?thesis using v f(1) by simp
qed

lemma precheck_outcome:
  assumes ok: "project_effective_locks digest ck sn ip base policy = Inr lp"
    and idx: "assignment_index base (p_tick_seconds (ip_document ip)) = Inr idx"
    and keys: "distinct_keys (JObj base)" "distinct_keys (JObj policy)"
  shows "if \<forall>e \<in> set idx. whole_ticks (snd e)
    then (\<exists>report. validate_freeze_window_projection digest ck sn ip base policy (lp_document lp) = Inr report
        \<and> dict_get report ''status'' = JStr ''PASS'')
      \<and> (\<forall>doc report. distinct_keys (JObj doc) \<and> validate_freeze_window_projection digest ck sn ip base policy doc = Inr report
          \<and> dict_get report ''status'' = JStr ''PASS'' \<longrightarrow> py_eq (JObj doc) (JObj (lp_document lp)))
    else \<forall>doc. validate_freeze_window_projection digest ck sn ip base policy doc
      = Inl (input_error ''INVALID_ASSIGNMENT'' ''assignment.duration_seconds'')"
proof (cases "\<forall>e \<in> set idx. whole_ticks (snd e)")
  case True
  then obtain expected where e: "expected_projection digest ck sn ip base policy = Inr expected" "agreeing digest expected (lp_document lp)"
    using expected_projection_outcome [OF assms] by auto
  have status: "\<exists>report. validate_freeze_window_projection digest ck sn ip base policy doc = Inr report
      \<and> (dict_get report ''status'' = JStr ''PASS'' \<longleftrightarrow> projection_violations digest expected doc = [])" for doc
    unfolding validate_freeze_window_projection_def e(1) bind_res_simps Let_def
    by (intro exI conjI, rule refl) (simp add: dict_get_Cons sort_key_Nil_iff)
  show ?thesis using True status agreeing_passes [OF e(2)] agreeing_unique [OF e(2)] by (metis sum.inject(2))
next
  case False
  then show ?thesis using expected_projection_outcome [OF assms] by (auto simp: validate_freeze_window_projection_def)
qed

end
