(* ===== verification/Freeze_Window.thy ===== *)
theory Freeze_Window
  imports Freeze_Report
begin

section \<open>The freeze window and the protections\<close>

text \<open>
  What a consumer of the projection relies on: the window is half open, so that every assignment of
  an operation that has not started is either frozen or free, and the protections of an operation
  never contradict each other.
\<close>

definition entries_of :: "json_object \<Rightarrow> string \<Rightarrow> json list" where
  "entries_of doc k = (case dict_get doc k of JArr vs \<Rightarrow> vs | _ \<Rightarrow> [])"

text \<open>The protections that bind the next schedule, in the order of their priority.\<close>

definition effective_protections :: "json_object \<Rightarrow> json list" where
  "effective_protections doc =
     concat (map (entries_of doc) [''running_protections'', ''explicit_hard_locks'', ''freeze_derived_hard_locks''])"

lemma projection_entries:
  assumes "projected digest ck sn ip base policy lp r cutoff freeze_end stop idx completed running explicit outcomes base_ref"
  shows "set (entries_of (lp_document lp) ''outside_freeze_operation_ids'') = {JStr i |i. Inl i \<in> set outcomes}"
    and "set (entries_of (lp_document lp) ''freeze_derived_hard_locks'') = {j. Inr j \<in> set outcomes}"
    and "set (entries_of (lp_document lp) ''running_protections'') = snd ` set running"
    and "set (entries_of (lp_document lp) ''explicit_hard_locks'') = set (xl_hard explicit)"
proof -
  have "lp_document lp = projection_document sn ip base_ref r (map fst idx) completed running explicit outcomes
     @ [(''projection_fingerprint'', JStr (lp_projection_fingerprint lp))]"
    using assms by (auto simp: projected_def)
  then show "set (entries_of (lp_document lp) ''outside_freeze_operation_ids'') = {JStr i |i. Inl i \<in> set outcomes}"
    "set (entries_of (lp_document lp) ''freeze_derived_hard_locks'') = {j. Inr j \<in> set outcomes}"
    "set (entries_of (lp_document lp) ''running_protections'') = snd ` set running"
    "set (entries_of (lp_document lp) ''explicit_hard_locks'') = set (xl_hard explicit)"
    by (auto simp: entries_of_def projection_document_def Let_def dict_get_Cons jstrs_def)
qed

subsection \<open>The window\<close>

lemma derive_value:
  assumes "fp_derive digest base p r cutoff freeze_end stop completed hard (i, a) = Inr ys"
    and "i \<notin> set completed" "operation_by_id p i = Some op" "op_status op = NOT_STARTED"
  shows "\<exists>start. second_of (dict_get a ''start_at_utc'') = Some start \<and> stamp_less start cutoff = Inr False
    \<and> (ys = [Inl i] \<and> stamp_less start freeze_end = Inr False
       \<or> (\<exists>j. ys = [Inr j] \<and> stamp_less start freeze_end = Inr True \<and> derived_lock digest (tuple_from_assignment a) base p r = Inr j))"
  using assms by (auto simp: fp_derive_def res_simps utc_second_of split: if_splits)

lemma active_not_completed:
  assumes "fp_active_universe sn p = Inr ()" "fp_completed sn = Inr completed" "operation_by_id p i = Some op"
  shows "i \<notin> set (map fst completed)"
proof
  assume "i \<in> set (map fst completed)"
  then obtain ef j where "(i, ef, j) \<in> set completed" by auto
  then obtain k ys where k: "fp_completed_instance sn k = Inr ys" "(i, ef, j) \<in> set ys"
    by (rule collect_res_mem [OF assms(2) [unfolded fp_completed_def]])
  then have c: "k = i \<and> (\<exists>x. instance_by_id sn i = Some x \<and> in_status x = ''COMPLETED'')"
    by (auto simp: fp_completed_instance_def res_simps split: if_splits option.splits)
  have "i \<in> set (operation_ids p)" using operation_by_id_Some [OF assms(3)] by (auto simp: operation_ids_def)
  then show False using assms(1) c by (auto simp: fp_active_universe_def res_simps)
qed

lemma stamp_less_Inr_iff: "stamp_less a b = Inr c \<longleftrightarrow> is_aware a = is_aware b \<and> c = (stamp_micros a < stamp_micros b)"
  by (cases a; cases b) auto

lemma derived_entry:
  assumes "collect_res (fp_derive digest base p r cutoff freeze_end stop completed hard) (sort_key fst idx) = Inr outcomes"
    and "list_all read_entry idx" "Inr j \<in> set outcomes"
  shows "\<exists>i a v op. (i, a) \<in> set idx \<and> operation_by_id p i = Some op \<and> op_status op = NOT_STARTED \<and> j = JObj v
    \<and> dict_get v ''operation_id'' = JStr i \<and> raw_tuple v = raw_values (tuple_from_assignment a)
    \<and> fp_derive digest base p r cutoff freeze_end stop completed hard (i, a) = Inr [Inr j]
    \<and> (\<forall>u. map_of hard i = Some u \<longrightarrow> tuple_values u = tuple_values (tuple_from_assignment a))"
proof -
  obtain i a ys where i: "(i, a) \<in> set idx" "fp_derive digest base p r cutoff freeze_end stop completed hard (i, a) = Inr ys" "Inr j \<in> set ys"
    by (rule outcomes_form [OF assms(1,3)])
  obtain op where op: "i \<notin> set completed" "operation_by_id p i = Some op" "op_status op = NOT_STARTED"
    and j: "derived_lock digest (tuple_from_assignment a) base p r = Inr j"
    and h: "\<forall>u. map_of hard i = Some u \<longrightarrow> tuple_values u = tuple_values (tuple_from_assignment a)"
    using derive_form [OF i(2,3)] by auto
  have "ys = [Inr j]" using derive_value [OF i(2) op] i(3) by auto
  moreover have "pt_operation_id (tuple_from_assignment a) = i"
    using assms(2) i(1) by (auto simp: list_all_iff read_entry_def tuple_from_assignment_def text_of_def)
  ultimately show ?thesis using i op h derived_lock_facts(1) [OF j] by blast
qed

lemma window_outcome:
  assumes ok: "project_effective_locks digest ck sn ip base policy = Inr lp" and keys: "distinct_keys (JObj policy)"
    and idx: "assignment_index base (p_tick_seconds (ip_document ip)) = Inr idx" and i: "(i, a) \<in> set idx"
    and op: "operation_by_id (ip_document ip) i = Some op" "op_status op = NOT_STARTED"
  shows "\<exists>cutoff start. second_of (JStr (sn_cutoff_at_utc sn)) = Some cutoff \<and> second_of (dict_get a ''start_at_utc'') = Some start
    \<and> stamp_micros cutoff \<le> stamp_micros start
    \<and> (JStr i \<in> set (entries_of (lp_document lp) ''outside_freeze_operation_ids'')
        \<longleftrightarrow> stamp_micros cutoff + 900 * micros \<le> stamp_micros start)
    \<and> ((\<exists>v. JObj v \<in> set (entries_of (lp_document lp) ''freeze_derived_hard_locks'') \<and> dict_get v ''operation_id'' = JStr i
            \<and> raw_tuple v = raw_tuple a)
        \<longleftrightarrow> stamp_micros start < stamp_micros cutoff + 900 * micros)"
proof -
  obtain r cutoff freeze_end stop idx' completed running explicit outcomes base_ref where
    "projected digest ck sn ip base policy lp r cutoff freeze_end stop idx' completed running explicit outcomes base_ref"
    using projection_steps [OF ok] by blast
  then have pr: "projected digest ck sn ip base policy lp r cutoff freeze_end stop idx completed running explicit outcomes base_ref"
    using idx by (simp add: projected_def)
  then have st: "require_base_schedule digest ck base = Inr ()" "resolve_simulation_freeze_policy digest ck policy sn = Inr r"
    "second_of (JStr (sn_cutoff_at_utc sn)) = Some cutoff" "second_of (JStr (rf_effective_until_utc r)) = Some freeze_end"
    "fp_active_universe sn (ip_document ip) = Inr ()" "fp_completed sn = Inr completed"
    and out: "collect_res (fp_derive digest base (ip_document ip) r cutoff freeze_end stop (map fst completed) (xl_tuples explicit))
        (sort_key fst idx) = Inr outcomes" by (simp_all add: projected_def)
  note index = assignment_index_agrees(1,2) [OF idx st(1)]
  have fe: "stamp_micros freeze_end = stamp_micros cutoff + 900 * micros"
  proof (rule resolved_form [OF st(2) keys])
    fix fz src start until
    assume s: "second_of (JStr (sn_cutoff_at_utc sn)) = Some start" "stamp_plus start 900 = Inr until"
      and r: "r = approved_resolution digest policy fz sn until"
    then have "freeze_end = until" "start = cutoff"
      using freeze_end_read(1) [OF s] st(3,4) by (simp_all add: approved_resolution_def)
    then show ?thesis using s(2) by (cases cutoff) (auto simp: res_simps add_seconds_def split: if_splits)
  qed
  obtain ys where ys: "fp_derive digest base (ip_document ip) r cutoff freeze_end stop (map fst completed) (xl_tuples explicit) (i, a) = Inr ys"
    "set ys \<subseteq> set outcomes"
    using out i by (fastforce simp: collect_res_Inr_iff is_ok_iff)
  obtain start where s: "second_of (dict_get a ''start_at_utc'') = Some start" "stamp_less start cutoff = Inr False"
    and cases: "ys = [Inl i] \<and> stamp_less start freeze_end = Inr False
       \<or> (\<exists>j. ys = [Inr j] \<and> stamp_less start freeze_end = Inr True
            \<and> derived_lock digest (tuple_from_assignment a) base (ip_document ip) r = Inr j)"
    using derive_value [OF ys(1) active_not_completed [OF st(5,6) op(1)] op] by blast
  have same: "a' = a" if "(i, a') \<in> set idx" for a' using that i index(2) by (metis eq_key_imp_eq_value)
  have a: "raw_values (tuple_from_assignment a) = raw_tuple a" "pt_operation_id (tuple_from_assignment a) = i"
    using index(1) i spelled_tuple by (fastforce simp: list_all_iff read_entry_def raw_values_def tuple_from_assignment_def text_of_def)+
  have inside: "ys = [Inr j]" if "Inr j \<in> set outcomes" "j = JObj v" "dict_get v ''operation_id'' = JStr i" for j v
    using derived_entry [OF out index(1) that(1)] that(2,3) same ys(1) by auto
  have outside: "ys = [Inl i]" if free: "Inl i \<in> set outcomes"
  proof -
    obtain i' a' zs where z: "(i', a') \<in> set idx"
      "fp_derive digest base (ip_document ip) r cutoff freeze_end stop (map fst completed) (xl_tuples explicit) (i', a') = Inr zs" "Inl i \<in> set zs"
      by (rule outcomes_form [OF out free])
    then have "i' = i" using derive_form [OF z(2,3)] by auto
    then show ?thesis using z same ys(1) cases by auto
  qed
  have "JStr i \<in> set (entries_of (lp_document lp) ''outside_freeze_operation_ids'') \<longleftrightarrow> ys = [Inl i]"
    unfolding projection_entries(1) [OF pr] using outside ys(2) by auto
  moreover have "(\<exists>v. JObj v \<in> set (entries_of (lp_document lp) ''freeze_derived_hard_locks'') \<and> dict_get v ''operation_id'' = JStr i
      \<and> raw_tuple v = raw_tuple a) \<longleftrightarrow> (\<exists>j. ys = [Inr j])"
  proof
    assume "\<exists>j. ys = [Inr j]"
    then obtain j where j: "ys = [Inr j]" "derived_lock digest (tuple_from_assignment a) base (ip_document ip) r = Inr j" using cases by auto
    from derived_lock_facts(1) [OF this(2)] show "\<exists>v. JObj v \<in> set (entries_of (lp_document lp) ''freeze_derived_hard_locks'')
        \<and> dict_get v ''operation_id'' = JStr i \<and> raw_tuple v = raw_tuple a"
      unfolding projection_entries(2) [OF pr] using ys(2) j(1) a by auto
  next
    assume "\<exists>v. JObj v \<in> set (entries_of (lp_document lp) ''freeze_derived_hard_locks'') \<and> dict_get v ''operation_id'' = JStr i
      \<and> raw_tuple v = raw_tuple a"
    then show "\<exists>j. ys = [Inr j]" unfolding projection_entries(2) [OF pr] using inside by blast
  qed
  ultimately show ?thesis using st(3) s cases fe by (auto simp: stamp_less_Inr_iff not_less)
qed

subsection \<open>The protections\<close>

definition agreeing_tuples :: "(string \<times> protected_tuple) list \<Rightarrow> bool" where
  "agreeing_tuples hard \<longleftrightarrow> (\<forall>i t. (i, t) \<in> set hard \<longrightarrow> (\<exists>u. map_of hard i = Some u \<and> tuple_values u = tuple_values t))"

lemma explicit_tuples:
  assumes "fp_explicit_from p cutoff stop acc ls = Inr x" and "agreeing_tuples (xl_tuples acc)"
    and "\<And>j. j \<in> set (xl_hard acc) \<Longrightarrow> \<exists>l. j = lock_document l ''EXPLICIT_HARD_LOCK'' 2 \<and> (l_operation_id l, tuple_from_lock l) \<in> set (xl_tuples acc)"
  shows "agreeing_tuples (xl_tuples x)
    \<and> (\<forall>j \<in> set (xl_hard x). \<exists>l. j = lock_document l ''EXPLICIT_HARD_LOCK'' 2 \<and> (l_operation_id l, tuple_from_lock l) \<in> set (xl_tuples x))"
  using assms
proof (induction ls arbitrary: acc)
  case (Cons l ls)
  show ?case
  proof (cases "l_lock_type l = SOFT_LOCK")
    case True
    then have "fp_explicit_from p cutoff stop (acc\<lparr>xl_soft := xl_soft acc @ [lock_document l ''SOFT_LOCK'' 4]\<rparr>) ls = Inr x"
      using Cons.prems(1) by (auto simp: res_simps)
    from Cons.IH [OF this] show ?thesis using Cons.prems(2,3) by simp
  next
    case False
    let ?acc = "acc\<lparr>xl_tuples := (l_operation_id l, tuple_from_lock l) # xl_tuples acc,
        xl_hard := xl_hard acc @ [lock_document l ''EXPLICIT_HARD_LOCK'' 2]\<rparr>"
    have rec: "fp_explicit_from p cutoff stop ?acc ls = Inr x"
      and new: "\<And>u. map_of (xl_tuples acc) (l_operation_id l) = Some u \<Longrightarrow> tuple_values u = tuple_values (tuple_from_lock l)"
      using Cons.prems(1) False by (auto simp: res_simps)
    have "agreeing_tuples (xl_tuples ?acc)"
      using Cons.prems(2) new by (fastforce simp: agreeing_tuples_def)
    then show ?thesis using Cons.IH [OF rec] Cons.prems(3) by auto
  qed
qed simp

lemma lock_document_facts:
  "\<exists>v. lock_document l kind n = JObj v \<and> dict_get v ''operation_id'' = JStr (l_operation_id l) \<and> raw_tuple v = raw_values (tuple_from_lock l)"
  by (simp add: lock_document_def dict_get_def raw_tuple_def raw_values_def tuple_from_lock_def)

lemma running_unique:
  assumes "fp_running sn p cutoff stop = Inr running" and "(t, j) \<in> set running" "(u, k) \<in> set running" "pt_operation_id t = pt_operation_id u"
  shows "t = u"
proof -
  obtain i ys where i: "fp_running_operation sn p cutoff stop i = Inr ys" "(t, j) \<in> set ys"
    by (rule collect_res_mem [OF assms(1,2) [unfolded fp_running_def]])
  obtain i' zs where i': "fp_running_operation sn p cutoff stop i' = Inr zs" "(u, k) \<in> set zs"
    by (rule collect_res_mem [OF assms(1,3) [unfolded fp_running_def]])
  have "i = i'" using running_operation_form [OF i] running_operation_form [OF i'] assms(4) by auto
  then have "zs = ys" using i(1) i'(1) by simp
  moreover have "length ys \<le> 1"
  proof -
    obtain op x where *: "operation_by_id p i = Some op" "op_status op = RUNNING" "instance_by_id sn i = Some x"
      using i running_operation_form [OF i] by (auto simp: fp_running_operation_def res_simps)
    then obtain ref ef where "in_execution_fact_id x = Some ref" "fact_by_id sn ref = Some ef"
      using i(1) by (auto simp: fp_running_operation_def split: option.splits)
    then show ?thesis using i(1) * by (auto simp: fp_running_operation_def res_simps Let_def)
  qed
  ultimately show ?thesis using i(2) i'(2) by (cases ys) auto
qed


text \<open>Where the tuple of a protection comes from.\<close>

definition protects where
  "protects p running hard idx i t \<longleftrightarrow>
     (\<exists>j. (t, j) \<in> set running \<and> pt_operation_id t = i) \<or> (i, t) \<in> set hard
     \<or> (\<exists>a op. (i, a) \<in> set idx \<and> t = tuple_from_assignment a \<and> operation_by_id p i = Some op \<and> op_status op = NOT_STARTED
          \<and> (\<forall>u. map_of hard i = Some u \<longrightarrow> tuple_values u = tuple_values t))"

lemma protects_agree:
  assumes r: "fp_running sn p cutoff stop = Inr running" and h: "agreeing_tuples hard" "fp_check_running_locks hard running = Inr ()"
    and d: "distinct (map fst idx)" and t: "protects p running hard idx i t" "protects p running hard idx i u"
  shows "tuple_values t = tuple_values u"
proof -
  have hh: "tuple_values t = tuple_values u" if "(i, t) \<in> set hard" "(i, u) \<in> set hard" for t u
    using that h(1) unfolding agreeing_tuples_def by (metis option.inject)
  have rr: "t = u" if "(t, j) \<in> set running" "(u, k) \<in> set running" "pt_operation_id t = i" "pt_operation_id u = i" for t u j k
    using running_unique [OF r that(1,2)] that(3,4) by simp
  have run: "\<exists>op. operation_by_id p i = Some op \<and> op_status op = RUNNING" if "(t, j) \<in> set running" "pt_operation_id t = i" for t j
    using running_form [OF r that(1)] that(2) by auto
  have rh: "tuple_values t = tuple_values u" if rt: "(t, j) \<in> set running" "pt_operation_id t = i" and hu: "(i, u) \<in> set hard" for t u j
  proof -
    have "last_with (\<lambda>(t, _). pt_operation_id t = i) running \<noteq> None" using rt by (auto simp: last_with_None_iff)
    then obtain t' j' where l: "last_with (\<lambda>(t, _). pt_operation_id t = i) running = Some (t', j')" by auto
    then have "t' = t" using rr rt last_with_Some [OF l] by auto
    then have "map_option tuple_values (map_of hard i) = Some (tuple_values t)"
      using h(2) hu l by (fastforce simp: fp_check_running_locks_def res_simps list_all_iff)
    then show ?thesis using h(1) hu by (fastforce simp: agreeing_tuples_def)
  qed
  have dh: "tuple_values t = tuple_values u" if "\<forall>w. map_of hard i = Some w \<longrightarrow> tuple_values w = tuple_values t" "(i, u) \<in> set hard" for t u
    using that h(1) by (fastforce simp: agreeing_tuples_def)
  have dd: "a = b" if "(i, a) \<in> set idx" "(i, b) \<in> set idx" for a b
    using that d by (metis eq_key_imp_eq_value)
  from t(1) [unfolded protects_def] show ?thesis
  proof (elim disjE exE conjE)
    fix j assume tj: "(t, j) \<in> set running" "pt_operation_id t = i"
    from t(2) [unfolded protects_def] show ?thesis
      using rr [OF tj(1) _ tj(2)] rh [OF tj] run [OF tj] by (elim disjE exE conjE) simp_all
  next
    assume th: "(i, t) \<in> set hard"
    from t(2) [unfolded protects_def] show ?thesis
      using hh [OF th] rh [OF _ _ th, symmetric] dh [OF _ th, symmetric] by (elim disjE exE conjE) simp_all
  next
    fix a op assume ta: "(i, a) \<in> set idx" "t = tuple_from_assignment a" "operation_by_id p i = Some op" "op_status op = NOT_STARTED"
      "\<forall>u. map_of hard i = Some u \<longrightarrow> tuple_values u = tuple_values t"
    from t(2) [unfolded protects_def] show ?thesis
    proof (elim disjE exE conjE)
      fix j assume "(u, j) \<in> set running" "pt_operation_id u = i"
      from run [OF this] show ?thesis using ta(3,4) by simp
    next
      assume "(i, u) \<in> set hard"
      then show ?thesis by (rule dh [OF ta(5)])
    next
      fix b assume "(i, b) \<in> set idx" "u = tuple_from_assignment b"
      then show ?thesis using dd [OF ta(1)] ta(2) by simp
    qed
  qed
qed

lemma protection_source:
  assumes pr: "projected digest ck sn ip base policy lp r cutoff freeze_end stop idx completed running explicit outcomes base_ref"
    and v: "v \<in> set (effective_protections (lp_document lp))"
  shows "\<exists>kvs i t. v = JObj kvs \<and> dict_get kvs ''operation_id'' = JStr i \<and> raw_tuple kvs = raw_values t
    \<and> protects (ip_document ip) running (xl_tuples explicit) idx i t"
proof -
  have base: "require_base_schedule digest ck base = Inr ()" and idx: "assignment_index base (p_tick_seconds (ip_document ip)) = Inr idx"
    and run: "fp_running sn (ip_document ip) cutoff stop = Inr running" and x: "fp_explicit (ip_document ip) cutoff stop = Inr explicit"
    and out: "collect_res (fp_derive digest base (ip_document ip) r cutoff freeze_end stop (map fst completed) (xl_tuples explicit))
        (sort_key fst idx) = Inr outcomes" using pr by (simp_all add: projected_def)
  consider (running) t where "(t, v) \<in> set running" | (hard) "v \<in> set (xl_hard explicit)" | (derived) "Inr v \<in> set outcomes"
    using v projection_entries(2-4) [OF pr] by (auto simp: effective_protections_def)
  then show ?thesis
  proof cases
    case running
    then show ?thesis using running_form [OF run running] protection_facts(1) unfolding protects_def by metis
  next
    case hard
    have "\<exists>l. v = lock_document l ''EXPLICIT_HARD_LOCK'' 2 \<and> (l_operation_id l, tuple_from_lock l) \<in> set (xl_tuples explicit)"
      using explicit_tuples [OF x [unfolded fp_explicit_def]] hard by (auto simp: agreeing_tuples_def)
    then show ?thesis using lock_document_facts unfolding protects_def by metis
  next
    case derived
    show ?thesis
      using derived_entry [OF out assignment_index_agrees(1) [OF idx base] derived] unfolding protects_def by blast
  qed
qed

lemma protections_agree:
  assumes ok: "project_effective_locks digest ck sn ip base policy = Inr lp"
    and v: "JObj v \<in> set (effective_protections (lp_document lp))" and w: "JObj w \<in> set (effective_protections (lp_document lp))"
    and eq: "dict_get v ''operation_id'' = dict_get w ''operation_id''"
  shows "raw_tuple v = raw_tuple w"
proof -
  obtain r cutoff freeze_end stop idx completed running explicit outcomes base_ref where
    pr: "projected digest ck sn ip base policy lp r cutoff freeze_end stop idx completed running explicit outcomes base_ref"
    using projection_steps [OF ok] by blast
  then have st: "require_base_schedule digest ck base = Inr ()" "assignment_index base (p_tick_seconds (ip_document ip)) = Inr idx"
    "fp_running sn (ip_document ip) cutoff stop = Inr running" "fp_explicit (ip_document ip) cutoff stop = Inr explicit"
    "fp_check_running_locks (xl_tuples explicit) running = Inr ()" by (simp_all add: projected_def)
  have h: "agreeing_tuples (xl_tuples explicit)"
    using explicit_tuples [OF st(4) [unfolded fp_explicit_def]] by (simp add: agreeing_tuples_def)
  obtain i t u where "dict_get v ''operation_id'' = JStr i" "raw_tuple v = raw_values t" "raw_tuple w = raw_values u"
    "protects (ip_document ip) running (xl_tuples explicit) idx i t" "protects (ip_document ip) running (xl_tuples explicit) idx i u"
    using protection_source [OF pr v] protection_source [OF pr w] eq by auto
  moreover from this have "tuple_values t = tuple_values u"
    using protects_agree [OF st(3) h st(5) assignment_index_agrees(2) [OF st(2,1)]] by blast
  ultimately show ?thesis by (simp add: raw_values_def tuple_values_def)
qed

end
