(* ===== verification/Freeze_Example.thy ===== *)
theory Freeze_Example
  imports Freeze_Window Example
begin

section \<open>A concrete projection\<close>

text \<open>
  A snapshot and a published base schedule for the problem of the other examples: the first operation
  is completed, the second runs, the third starts exactly at the end of the freeze window and the
  fourth, which has a hard lock, inside it.
\<close>

definition sample_checks :: contract_checks where
  "sample_checks = \<lparr>ck_snapshot = (\<lambda>_. Inr ()), ck_workspace = (\<lambda>_ _. Inr ()), ck_p4 = (\<lambda>_ _. Inr ())\<rparr>"

definition sample_instance :: "operation_doc \<Rightarrow> string list \<Rightarrow> string option \<Rightarrow> instance_doc" where
  "sample_instance op locks ef =
     \<lparr>in_operation_instance_id = op_id op, in_demand_order_id = op_demand_order_id op, in_status = status_text (op_status op),
      in_release_at_utc = op_release_at_utc op, in_material_ready_at_utc = op_material_ready_at_utc op,
      in_required_capabilities = op_required_capabilities op,
      in_resource_options = map (\<lambda>opt. option_doc.extend opt (snapshot_option_doc.fields ''opt'')) (op_resource_options op),
      in_lock_ids = locks, in_execution_fact_id = ef\<rparr>"

definition sample_source :: "string \<Rightarrow> source_doc" where
  "sample_source s = \<lparr>s_source_system = s, s_source_version = ''1'', s_source_record_id = ''r''\<rparr>"

definition sample_fact :: "string \<Rightarrow> string \<Rightarrow> string \<Rightarrow> string option \<Rightarrow> int option \<Rightarrow> execution_fact_doc" where
  "sample_fact i status start end remaining =
     \<lparr>ef_execution_fact_id = i, ef_status = status, ef_observed_at_utc = ''2026-01-05T08:00:00Z'', ef_quantity_unit = ''pcs'',
      ef_source = sample_source ''mes'', ef_resource_id = Some ''m-1'', ef_actual_start_at_utc = Some start,
      ef_actual_end_at_utc = end, ef_completed_quantity = Some 1, ef_remaining_quantity = None, ef_remaining_seconds = remaining\<rparr>"

definition sample_snapshot :: planning_snapshot where
  "sample_snapshot =
     \<lparr>sn_snapshot_id = ''snap'', sn_snapshot_hash = ''sha256:d0'', sn_data_plane = SIMULATION_PLANE,
      sn_cutoff_at_utc = ''2026-01-05T08:00:00Z'', sn_synthetic = True,
      sn_execution_facts = [sample_fact ''fact-0'' ''COMPLETED'' ''2026-01-05T07:00:00Z'' (Some ''2026-01-05T07:55:00Z'') None,
        sample_fact ''fact-1'' ''RUNNING'' ''2026-01-05T07:55:00Z'' None (Some 90)],
      sn_operation_locks = [\<lparr>sl_lock_id = ''lock-1'', sl_lock_type = HARD_LOCK, sl_resource_id = ''m-2'',
        sl_start_at_utc = ''2026-01-05T08:05:00Z'', sl_end_at_utc = ''2026-01-05T08:07:00Z'', sl_source = sample_source ''aps''\<rparr>],
      sn_operation_instances =
        [(sample_instance (ex_operation ''op-0'' ''d-1'' []) [] (Some ''fact-0''))\<lparr>in_status := ''COMPLETED''\<rparr>,
         sample_instance ex_running [] (Some ''fact-1''),
         sample_instance (ex_operation ''op-2'' ''d-1'' [choice ''m-1'' 60, choice ''m-2'' 30]) [] None,
         sample_instance (ex_operation ''op-3'' ''d-1'' [choice ''m-2'' 100]) [''lock-1''] None],
      sn_operation_precedence_edges =
        [\<lparr>ie_predecessor_operation_instance_id = ''op-0'', ie_successor_operation_instance_id = ''op-1''\<rparr>,
         \<lparr>ie_predecessor_operation_instance_id = ''op-1'', ie_successor_operation_instance_id = ''op-2''\<rparr>]\<rparr>"

definition sample_problem :: "string \<Rightarrow> immutable_problem" where
  "sample_problem bytes = \<lparr>ip_canonical_bytes = bytes, ip_problem_hash = ''sha256:d0'',
     ip_snapshot_id = ''snap'', ip_problem_builder_version = ''planning-problem-builder.v2'', ip_document = ex_problem\<rparr>"

definition base_assignment :: "string \<Rightarrow> string \<Rightarrow> string \<Rightarrow> string \<Rightarrow> int \<Rightarrow> int \<Rightarrow> int \<Rightarrow> json" where
  "base_assignment i r start end start_tick ticks seconds = JObj
     [(''operation_id'', JStr i), (''resource_id'', JStr r), (''start_at_utc'', JStr start), (''end_at_utc'', JStr end),
      (''duration_seconds'', JInt seconds), (''start_tick'', JInt start_tick), (''end_tick'', JInt (start_tick + ticks)),
      (''duration_ticks'', JInt ticks), (''lock_ids'', JArr []), (''execution_fact_ids'', JArr [])]"

text \<open>The base schedule, with the duration in seconds of its last assignment.\<close>

definition base_schedule :: "int \<Rightarrow> json_object" where
  "base_schedule seconds =
     [(''schedule_version_version'', JStr ''schedule-version.v1''), (''schema_set_version'', JStr ''2.6.0''),
      (''canonicalization_version'', JStr ''canonical-json.v1''), (''schedule_version_id'', JStr ''sv-1''),
      (''state'', JStr ''PUBLISHED''), (''data_plane'', JStr ''SIMULATION''), (''synthetic'', JBool True),
      (''environment'', JStr ''TEST''), (''content_fingerprint'', JStr ''sha256:d0''),
      (''lineage'', JObj [(''validation_report'', JNull)]), (''validation'', JObj [(''validation_report'', JNull)]),
      (''content'', JObj [(''assignments'', JArr
        [base_assignment ''op-2'' ''m-2'' ''2026-01-05T08:15:00Z'' ''2026-01-05T08:16:00Z'' 15 1 60,
         base_assignment ''op-3'' ''m-2'' ''2026-01-05T08:05:00Z'' ''2026-01-05T08:07:00Z'' 5 2 seconds])])]"

abbreviation sample_projection :: "string \<Rightarrow> int \<Rightarrow> effective_lock_projection res" where
  "sample_projection bytes seconds \<equiv> project_effective_locks sample_digest sample_checks sample_snapshot (sample_problem bytes)
     (base_schedule seconds) replan_policy_document"

lemma sample_verified: "verify_problem_v2 sample_digest (sample_problem (canonical_problem_v2_bytes ex_problem)) = Inr ()"
  using ex_accepted ex_hash
  by (simp add: verify_problem_v2_def sample_problem_def accepted_def Let_def) (simp add: ex_problem_def)

text \<open>The values of the steps.\<close>

definition sample_cutoff :: stamp where
  "sample_cutoff = projr (fp_utc_second (JStr ''2026-01-05T08:00:00Z'') [])"

definition sample_stop :: stamp where
  "sample_stop = projr (fp_utc_second (JStr ''2026-01-05T08:20:00Z'') [])"

definition sample_freeze_end :: stamp where
  "sample_freeze_end = projr (fp_utc_second (JStr ''2026-01-05T08:15:00Z'') [])"

definition sample_resolved :: resolved_freeze_policy where
  "sample_resolved = approved_resolution sample_digest replan_policy_document [] sample_snapshot sample_freeze_end"

definition sample_index :: "int \<Rightarrow> raw_index" where
  "sample_index seconds = projr (assignment_index (base_schedule seconds) 60)"

definition sample_completed :: "(string \<times> execution_fact_doc \<times> json) list" where
  "sample_completed = projr (fp_completed sample_snapshot)"

definition sample_running :: "(protected_tuple \<times> json) list" where
  "sample_running = projr (fp_running sample_snapshot ex_problem sample_cutoff sample_stop)"

definition sample_explicit :: explicit_locks where
  "sample_explicit = projr (fp_explicit ex_problem sample_cutoff sample_stop)"

lemma is_ok_projr: "is_ok m \<Longrightarrow> m = Inr (projr m)"
  by (auto simp: is_ok_iff)

lemma sample_fingerprint: "contract_fingerprint sample_digest v = ''sha256:d0''" "workspace_fingerprint sample_digest v = ''sha256:d0''"
  by (simp_all add: contract_fingerprint_def workspace_fingerprint_def sample_digest_def)

lemma sample_policy: "require_p4_document sample_digest (ck_p4 sample_checks) replan_policy_document = Inr ()"
  by code_simp

lemma sample_anchor: "freeze_anchor (JStr (sn_cutoff_at_utc sample_snapshot)) f = Inr sample_cutoff" "stamp_plus sample_cutoff 900 = Inr sample_freeze_end"
  by code_simp+

lemma sample_keys: "distinct_keys (JObj (base_schedule seconds))" "distinct_keys (JObj replan_policy_document)"
  by (simp_all add: base_schedule_def base_assignment_def replan_policy_document_def synthetic_source_def jstrs_def
      hard_constraint_ids_def stability_components_def)

lemma sample_resolution: "resolve_simulation_freeze_policy sample_digest sample_checks replan_policy_document sample_snapshot = Inr sample_resolved"
proof -
  have "py_eq (JObj replan_policy_document) (JObj replan_policy_document)" by (rule py_eq_refl) (rule sample_keys)
  then show ?thesis
    unfolding resolve_simulation_freeze_policy_def simulation_replan_policy_def sample_policy rewrap_ok bind_res_simps sample_anchor
    by (simp add: sample_checks_def sample_resolved_def approved_resolution_def sample_fingerprint sample_snapshot_def
      replan_policy_document_def synthetic_source_def dict_get_Cons dict_item_def object_of_def sample_anchor Let_def del: py_eq.simps)
qed

lemma sample_base_fields:
  "workspace_document_version (base_schedule n) = Inr ''schedule-version.v1''"
  "text_in (dict_get (base_schedule n) ''state'') (states_of SCHEDULE_VERSION) = Inr True"
  "check_no_secret_keys (JObj (base_schedule n)) ''$'' = Inr ()"
  "fp_identifier (dict_get (base_schedule n) ''schedule_version_id'') f = Inr ''sv-1''"
  "text_in (dict_get (base_schedule n) ''environment'') isolated_environments = Inr True"
  by code_simp+

lemma sample_base: "require_base_schedule sample_digest sample_checks (base_schedule n) = Inr ()"
  unfolding require_base_schedule_def require_workspace_document_def precheck_schedule_def sample_fingerprint sample_base_fields
    bind_res_simps Let_def
  by (simp add: base_schedule_def dict_get_Cons document_schema_set_version_def)

lemma sample_times:
  "fp_utc_second (JStr (sn_cutoff_at_utc sample_snapshot)) f = Inr sample_cutoff"
  "fp_utc_second (JStr (rf_effective_until_utc sample_resolved)) f = Inr sample_freeze_end"
  "fp_utc_second (JStr (p_horizon_end_utc ex_problem)) f = Inr sample_stop"
  by code_simp+

lemma sample_steps:
  "fp_completed sample_snapshot = Inr sample_completed"
  "fp_running sample_snapshot ex_problem sample_cutoff sample_stop = Inr sample_running"
  "fp_explicit ex_problem sample_cutoff sample_stop = Inr sample_explicit"
  unfolding sample_completed_def sample_running_def sample_explicit_def by (rule is_ok_projr, code_simp)+

lemma sample_snapshot_checks:
  "fp_active_universe sample_snapshot ex_problem = Inr ()"
  "require_problem_snapshot_projection sample_snapshot ex_problem sample_cutoff = Inr ()"
  "fp_check_anchors sample_snapshot ex_problem sample_completed = Inr ()"
  "fp_check_running_locks (xl_tuples sample_explicit) sample_running = Inr ()"
  by code_simp+

definition sample_base_ok :: "int \<Rightarrow> bool" where
  "sample_base_ok seconds \<longleftrightarrow> is_ok (assignment_index (base_schedule seconds) 60)
     \<and> is_ok (collect_res (fp_derive sample_digest (base_schedule seconds) ex_problem sample_resolved sample_cutoff sample_freeze_end
         sample_stop (map fst sample_completed) (xl_tuples sample_explicit)) (sort_key fst (sample_index seconds)))"

lemma sample_base_120: "sample_base_ok 120"
  by code_simp

lemma sample_base_100: "sample_base_ok 100"
  by code_simp

abbreviation sample_ip :: immutable_problem where
  "sample_ip \<equiv> sample_problem (canonical_problem_v2_bytes ex_problem)"

lemma sample_fields:
  "ip_document (sample_problem bytes) = ex_problem" "p_tick_seconds ex_problem = 60" "sn_data_plane sample_snapshot = SIMULATION_PLANE"
  "p_snapshot_id ex_problem = sn_snapshot_id sample_snapshot" "p_horizon_start_utc ex_problem = sn_cutoff_at_utc sample_snapshot"
  "ck_snapshot sample_checks sample_snapshot = Inr ()"
  by (simp_all add: sample_problem_def ex_problem_def sample_snapshot_def sample_checks_def)

lemma sample_projects:
  assumes "sample_base_ok seconds"
  shows "\<exists>lp. project_effective_locks sample_digest sample_checks sample_snapshot sample_ip (base_schedule seconds) replan_policy_document = Inr lp"
    and "assignment_index (base_schedule seconds) (p_tick_seconds (ip_document sample_ip)) = Inr (sample_index seconds)"
proof -
  obtain base_ref outcomes where b: "assignment_index (base_schedule seconds) 60 = Inr (sample_index seconds)"
    "base_reference (base_schedule seconds) = Inr base_ref"
    "collect_res (fp_derive sample_digest (base_schedule seconds) ex_problem sample_resolved sample_cutoff sample_freeze_end
       sample_stop (map fst sample_completed) (xl_tuples sample_explicit)) (sort_key fst (sample_index seconds)) = Inr outcomes"
    using assms
    by (auto simp: sample_base_ok_def is_ok_iff sample_index_def base_reference_def base_schedule_def dict_item_def)
  show "\<exists>lp. project_effective_locks sample_digest sample_checks sample_snapshot sample_ip (base_schedule seconds) replan_policy_document = Inr lp"
    unfolding project_effective_locks_def Let_def sample_verified sample_fields sample_base sample_resolution b sample_steps sample_times sample_snapshot_checks
      rewrap_ok bind_res_simps by simp
  show "assignment_index (base_schedule seconds) (p_tick_seconds (ip_document sample_ip)) = Inr (sample_index seconds)"
    unfolding sample_fields by (rule b)
qed

lemma whole_ticks_code [code]:
  "whole_ticks a \<longleftrightarrow> (case (second_of (dict_get a ''start_at_utc''), second_of (dict_get a ''end_at_utc''), dict_get a ''duration_seconds'') of
     (Some start, Some end, JInt d) \<Rightarrow> (case stamp_seconds end start of Inr n \<Rightarrow> n = d | Inl _ \<Rightarrow> False) | _ \<Rightarrow> False)"
  by (auto simp: whole_ticks_def split: option.split json.split sum.split)

lemma sample_ticks: "\<forall>e \<in> set (sample_index 120). whole_ticks (snd e)" "\<not> (\<forall>e \<in> set (sample_index 100). whole_ticks (snd e))"
  by code_simp+

definition free_assignment :: json_object where
  "free_assignment = object_of (base_assignment ''op-2'' ''m-2'' ''2026-01-05T08:15:00Z'' ''2026-01-05T08:16:00Z'' 15 1 60)"

definition frozen_assignment :: json_object where
  "frozen_assignment = object_of (base_assignment ''op-3'' ''m-2'' ''2026-01-05T08:05:00Z'' ''2026-01-05T08:07:00Z'' 5 2 120)"

lemma sample_entries: "(''op-2'', free_assignment) \<in> set (sample_index 120)" "(''op-3'', frozen_assignment) \<in> set (sample_index 120)"
  by code_simp+

definition open_operation :: "string \<Rightarrow> bool" where
  "open_operation i = (case operation_by_id ex_problem i of None \<Rightarrow> False | Some op \<Rightarrow> op_status op = NOT_STARTED)"

lemma sample_open:
  "\<exists>op. operation_by_id (ip_document sample_ip) ''op-2'' = Some op \<and> op_status op = NOT_STARTED"
  "\<exists>op. operation_by_id (ip_document sample_ip) ''op-3'' = Some op \<and> op_status op = NOT_STARTED"
proof -
  have "open_operation ''op-2''" "open_operation ''op-3''" by code_simp+
  then show "\<exists>op. operation_by_id (ip_document sample_ip) ''op-2'' = Some op \<and> op_status op = NOT_STARTED"
    "\<exists>op. operation_by_id (ip_document sample_ip) ''op-3'' = Some op \<and> op_status op = NOT_STARTED"
    unfolding sample_fields by (auto simp: open_operation_def split: option.splits)
qed

lemma sample_starts:
  "second_of (JStr (sn_cutoff_at_utc sample_snapshot)) = Some sample_cutoff"
  "second_of (dict_get free_assignment ''start_at_utc'') = Some sample_freeze_end"
  "stamp_micros sample_cutoff + 900 * micros = stamp_micros sample_freeze_end"
  by code_simp+

text \<open>The explicit lock of the last operation and the lock derived for it.\<close>

lemma sample_protections:
  assumes ok: "project_effective_locks sample_digest sample_checks sample_snapshot sample_ip (base_schedule 120) replan_policy_document = Inr lp"
  shows "\<exists>v. JObj v \<in> set (entries_of (lp_document lp) ''explicit_hard_locks'') \<and> dict_get v ''operation_id'' = JStr ''op-3''"
    and "\<exists>v. JObj v \<in> set (entries_of (lp_document lp) ''freeze_derived_hard_locks'') \<and> dict_get v ''operation_id'' = JStr ''op-3''"
proof -
  obtain r cutoff freeze_end stop idx completed running explicit outcomes base_ref where
    pr: "projected sample_digest sample_checks sample_snapshot sample_ip (base_schedule 120) replan_policy_document lp r cutoff freeze_end stop
      idx completed running explicit outcomes base_ref"
    using projection_steps [OF ok] by blast
  then have "fp_explicit ex_problem cutoff stop = Inr explicit" by (simp add: projected_def sample_fields)
  from explicit_form(1) [OF this] have "\<exists>l. l_operation_id l = ''op-3'' \<and> lock_document l ''EXPLICIT_HARD_LOCK'' 2 \<in> set (xl_hard explicit)"
    by (intro exI [of _ "hd (p_locks ex_problem)"]) (simp add: ex_problem_def)
  then show "\<exists>v. JObj v \<in> set (entries_of (lp_document lp) ''explicit_hard_locks'') \<and> dict_get v ''operation_id'' = JStr ''op-3''"
    unfolding projection_entries(4) [OF pr] using lock_document_facts by metis
  obtain op where op: "operation_by_id (ip_document sample_ip) ''op-3'' = Some op" "op_status op = NOT_STARTED" using sample_open(2) by blast
  have "(case second_of (dict_get frozen_assignment ''start_at_utc'') of None \<Rightarrow> False
      | Some start \<Rightarrow> stamp_micros start < stamp_micros sample_cutoff + 900 * micros)" by code_simp
  then show "\<exists>v. JObj v \<in> set (entries_of (lp_document lp) ''freeze_derived_hard_locks'') \<and> dict_get v ''operation_id'' = JStr ''op-3''"
    using window_outcome [OF ok sample_keys(2) sample_projects(2) [OF sample_base_120] sample_entries(2) op] sample_starts(1)
    by (auto split: option.splits)
qed

end
