(* ===== verification/Spec2Isabelle.thy ===== *)
theory Spec2Isabelle
  imports Example Lifecycle_Documents Problem_Identity Run_Example Kpi_Example Stability_Example Freeze_Example
begin

text \<open>
  PlantNexus APS: an advanced planning and scheduling backend (Python, under
  \<open>backend/app\<close>). This development models its planning core and proves what makes it correct.

  Parts and theories, in the order of the code.

  \<^item> \<open>Prelude\<close>: errors as values (\<open>py_exn\<close>, the result type \<open>res\<close> with \<open>bind_res\<close>, loops that
    stop at the first exception), sorting by key and by identifier, rounding of ticks.
  \<^item> \<open>Instants\<close>: \<open>domain/types.py\<close>, UTC instants over Python's proleptic calendar, durations, ticks
    and canonical identifiers.
  \<^item> \<open>Json\<close>: the JSON values the documents are made of and \<open>json.dumps\<close> in canonical form.
  \<^item> \<open>Dag\<close>: the Kahn traversal of \<open>planning/problem/hashing.py\<close>, correct for any finite graph.
  \<^item> \<open>Problem\<close>: the documents of \<open>planning/problem/contracts.py\<close> as records, the contract of
    \<open>domain/validation.py\<close> check by check in its order, \<open>domain/capabilities.py\<close>, and the acceptance
    test \<open>validate_built_problem_v2\<close>. \<open>Problem_Wellformed\<close> states a well-formed problem on its
    collections alone and shows that the acceptance test decides it.
  \<^item> \<open>Problem_Hash\<close>: the canonical document, the hash projection and the hash of
    \<open>planning/problem/hashing.py\<close>. The canonical document is shown to be the only reordering of an
    accepted problem in the canonical order.
  \<^item> \<open>Json_Text\<close> and \<open>Problem_Identity\<close>: canonical JSON text is an injective encoding, and the hash
    of an accepted problem determines its canonical document.
  \<^item> \<open>Schedule_Validator\<close>: the whole of \<open>planning/validation/problem_schedule_validator.py\<close>, which
    reads a candidate document and evaluates the hard constraints C-001 to C-011. \<open>Validator_Rules\<close>
    and \<open>Validator_Sweep\<close> give each evaluation its declarative rule, \<open>Feasibility\<close> states what a
    feasible schedule is without reference to the code, \<open>Validator_Correct\<close> relates the two, and
    \<open>Validator_Report\<close> covers the report, the error envelope, their completeness and the exceptions.
  \<^item> \<open>Reference_Scheduler\<close>: \<open>simulation/baselines/reference_schedulers.py\<close>, the five dispatch
    heuristics with fixed work, earliest-placement search, metrics and result documents.
    \<open>Scheduler_Steps\<close>, \<open>Scheduler_Loops\<close>, \<open>Scheduler_Search\<close>, \<open>Scheduler_Correct\<close>,
    \<open>Scheduler_Discard\<close> and \<open>Scheduler_Total\<close> prove that the placements stay sound, that the search
    finds the best feasible placement or that there is none, that the built candidate passes the
    validator, except with a horizon that starts at a fraction of a second, and that a result is returned.
  \<^item> \<open>Schedule_Kpi\<close>: the key figures of \<open>planning/reporting/kpi.py\<close>, with the ratios as the doubles
    Python computes (\<open>Float_Ratio\<close>). \<open>Kpi_Correct\<close> shows that they are the figures of the schedule,
    that a feasible schedule is never rejected, and that they agree with the scheduler's own metrics.
  \<^item> \<open>Stability\<close>: the stability objective of \<open>planning/reporting/stability.py\<close>, which compares a new
    schedule with the one it replaces. \<open>Stability_Correct\<close> shows that the vector counts what changed
    and which soft locks are broken, does not depend on the order of its inputs, and when it is returned. \<open>Stamps\<close> holds the naive and
    aware instants of \<open>datetime.fromisoformat\<close> that the reports and the documents of runs compare.
  \<^item> \<open>Contract_Documents\<close> and \<open>Snapshot_Documents\<close>: the contract checks of schedule versions and
    policies (\<open>domain/workspace_contracts.py\<close>, \<open>domain/execution_contracts.py\<close>), the snapshot a
    replanning run starts from and the verification of an immutable problem.
  \<^item> \<open>Freeze_Policy\<close>, \<open>Freeze_Projection\<close> and \<open>Freeze_Precheck\<close>: \<open>planning/policy/freeze_window.py\<close>,
    \<open>planning/problem/freeze_projection.py\<close> and \<open>planning/validation/freeze_window_precheck.py\<close>: what a
    replanning run may not move, and the second computation that checks it. \<open>Freeze_Agreement\<close>
    compares the two step by step through \<open>value_of\<close>, which forgets the errors, \<open>Freeze_Correct\<close> covers
    the window, the derived locks and the policy, \<open>Freeze_Report\<close> shows that the precheck passes the
    projection and nothing else, and \<open>Freeze_Window\<close> what the projection guarantees: a half-open
    window and protections that agree.
  \<^item> \<open>State_Machines\<close> and \<open>Lifecycle_Documents\<close>: \<open>domain/state_machines\<close>, the transition tables of
    planning runs, schedule versions and export jobs, and the guards that let a stored document be
    replaced. Histories of accepted replacements keep the content of a schedule version and the
    attempt, lease and expiry of an export job consistent.
  \<^item> \<open>Planning_Run\<close>: \<open>domain/planning_run.py\<close> and \<open>jobs/planning_run_work_item.py\<close>, the checks of
    stored planning runs, attempts, work items and commands, and the builders of attempts and work
    items. \<open>Run_History\<close> and \<open>Attempt_History\<close> show what every sequence of verified replacements
    keeps and that the builder of the next attempt document succeeds whenever it should;
    \<open>Run_Example\<close> holds a run and an attempt for the witnesses.
  \<^item> \<open>Example\<close>, \<open>Kpi_Example\<close>, \<open>Stability_Example\<close> and \<open>Freeze_Example\<close>: the concrete inputs the witnesses evaluate.

  How the parts interact: a problem document is checked (\<open>Problem\<close>), identified (\<open>Problem_Hash\<close>),
  scheduled (\<open>Reference_Scheduler\<close>) and the candidate is validated against the same problem
  (\<open>Schedule_Validator\<close>). The validator and the scheduler restate the constraints independently;
  the theorems below connect both to \<open>feasible\<close>. A published schedule is stored under the
  \<open>State_Machines\<close>; replanning projects it on the next problem (\<open>Freeze_Projection\<close>) and compares
  the new schedule with it (\<open>Stability\<close>).

  Interfaces: the locale \<open>rule_check\<close> is the contract between one constraint evaluation and the
  report, interpreted on every row-wise evaluation of the validator; the locale \<open>selection_rule\<close> is what the
  dispatch loop needs of the algorithm that selects the next placement, interpreted on
  \<open>select_placement\<close>; the locales \<open>lifecycle\<close> and \<open>staged\<close> are what a transition table promises,
  interpreted on the tables of the code.

  Conventions. Documents are records, so the exact-field checks of the code hold by typing; what is
  left of them (the fields a running operation needs) is a definition. Text is compared by
  character code as Python does. Python integers are \<open>int\<close>. A \<open>datetime\<close> is a number of
  microseconds, and leaving the years 1 to 9999 is the exception \<open>RaiseOverflow\<close>. SHA-256 is not
  code of the repository: the definitions that hash take \<open>digest\<close> as an argument, and only the
  theorems that hashes identify problems and that the fingerprint protects a schedule version assume it
  free of collisions. The JSON Schema catalogue is
  the argument \<open>schema_ok\<close>, and \<open>verify_snapshot\<close> with the contract checks of other kinds of document
  the argument \<open>ck\<close>: the theorems hold for every such check. Documents of runs and jobs are decoded JSON, compared by Python's
  equality (\<open>py_eq\<close>). Wall-clock runtimes of the results are left out. Loops are structural
  recursions or have a termination proof; no fuel is used.

  Not modelled here: the HTTP API, the database repositories, importers, exporters, the CP-SAT
  solver binding, duration prediction, the demo and the gate scripts, because they are input and
  output, third-party code or evidence about it; and, of the planning core, the problem builder, the
  normalization that precedes a snapshot, the change and solver reports and the application services,
  which connect the parts above to the database.
\<close>

section \<open>Properties\<close>

subsection \<open>The validator\<close>

text \<open>
  C1. The formal validator decides feasibility. It returns a report with status \<open>PASS\<close> exactly when
  the problem is accepted, declares its own hash, and the candidate document writes down a schedule
  that satisfies the hard constraints \<open>feasible\<close> states on problems and schedules alone. Both
  directions: no infeasible candidate passes, and no correctly written feasible schedule is refused.
\<close>
theorem validator_decides_feasibility:
  "(\<exists>rep. validate_problem_schedule digest p cand = Inr rep \<and> rep_status rep = PASS) \<longleftrightarrow>
     accepted p \<and> p_problem_hash p = problem_v2_hash_for digest p
     \<and> (\<exists>\<sigma>. represents p cand \<sigma> \<and> feasible p \<sigma>)"
  by (rule validate_pass_iff)

text \<open>
  C13. The report is complete constraint by constraint: once the candidate is read, a constraint is
  listed among the violations exactly when reading the document already objected to it or when the
  declarative rule of that constraint fails on the assignments read.
\<close>
theorem violations_name_broken_rules:
  assumes "collect_violations p cand = Inr vs" and "materialize_assignments p cand = (as, ms)"
    and "endpoint_maps p (singles_of (groups_of as)) = Inr eps"
  shows "reported vs c \<longleftrightarrow> reported ms c \<or> \<not> rule_holds p as eps c"
  using assms by (rule collect_violations_reported)

theorem violations_name_broken_rules_witness:
  "\<exists>vs as ms eps. collect_violations ex_problem [] = Inr vs
     \<and> materialize_assignments ex_problem [] = (as, ms)
     \<and> endpoint_maps ex_problem (singles_of (groups_of as)) = Inr eps
     \<and> (reported vs C001 \<longleftrightarrow> reported ms C001 \<or> \<not> rule_holds ex_problem as eps C001)"
proof -
  obtain vs where v: "collect_violations ex_problem [] = Inr vs" using empty_candidate by blast
  obtain as ms eps where "materialize_assignments ex_problem [] = (as, ms)"
    "endpoint_maps ex_problem (singles_of (groups_of as)) = Inr eps"
    using collect_violations_parts [OF v] by metis
  then show ?thesis using v violations_name_broken_rules [OF v] by blast
qed

text \<open>
  C14. The sweep of constraint C-004 over the assignments sorted by start, which stops at the first
  assignment that starts after the current one ends, lists exactly the pairs an exhaustive
  comparison of all pairs on the resource finds, in the same order.
\<close>
theorem overlap_sweep_is_exhaustive:
  "evaluate_c004 p as =
     concat (map (\<lambda>r. map (\<lambda>(a, b). c004_violation r a b)
         (overlapping_pairs (sort_key overlap_key
           (filter (\<lambda>a. as_resource_id a = Some r) (filter (on_unit_resource p) as)))))
       (sorted_ids (List.map_filter as_resource_id (filter (on_unit_resource p) as))))"
  by (rule evaluate_c004_eq)

text \<open>
  C32. Nothing is lost between the constraints and the error envelope handed to the caller. The report
  holds the collected violations, each as often as it was collected, sorted by the report's key, and each
  names an entity (the envelope takes the first one, which would raise \<open>IndexError\<close> otherwise). No
  envelope is made exactly when no constraint is broken, and otherwise the constraint identifiers in
  the envelope's details are exactly those of the constraints the document or the schedule breaks.
\<close>
theorem error_envelope_names_broken_rules:
  assumes "validate_problem_schedule digest p cand = Inr rep" and "materialize_assignments p cand = (as, ms)"
    and "endpoint_maps p (singles_of (groups_of as)) = Inr eps"
  shows "sorted (map violation_sort_key (rep_violations rep))
    \<and> (\<exists>vs. collect_violations p cand = Inr vs \<and> mset (rep_violations rep) = mset vs)
    \<and> list_all (\<lambda>v. v_entity_ids v \<noteq> []) (rep_violations rep)
    \<and> (case validation_error_from_problem_report rep of
         None \<Rightarrow> \<forall>c. \<not> reported ms c \<and> rule_holds p as eps c
       | Some err \<Rightarrow> (\<exists>c. reported ms c \<or> \<not> rule_holds p as eps c)
           \<and> (\<forall>c. JStr (constraint_text c) \<in> detail_constraint ` set (err_details err)
                \<longleftrightarrow> reported ms c \<or> \<not> rule_holds p as eps c))"
proof (intro conjI)
  show "sorted (map violation_sort_key (rep_violations rep))" by (rule validate_report_shape(3) [OF assms(1)])
  show "\<exists>vs. collect_violations p cand = Inr vs \<and> mset (rep_violations rep) = mset vs"
    using validate_report_shape(5) [OF assms(1)] by metis
  show "list_all (\<lambda>v. v_entity_ids v \<noteq> []) (rep_violations rep)"
    using validate_report_shape [OF assms(1)] by (simp add: list_all_iff)
qed (rule envelope_names_broken_rules [OF assms])

theorem error_envelope_names_broken_rules_witness:
  "\<exists>rep err. validate_problem_schedule sample_digest ex_problem [] = Inr rep
     \<and> validation_error_from_problem_report rep = Some err
     \<and> JStr ''C-001'' \<in> detail_constraint ` set (err_details err)"
proof -
  obtain vs where vs: "collect_violations ex_problem [] = Inr vs" using empty_candidate by blast
  obtain as ms eps where m: "materialize_assignments ex_problem [] = (as, ms)"
    "endpoint_maps ex_problem (singles_of (groups_of as)) = Inr eps"
    using collect_violations_parts [OF vs] by metis
  obtain rep where rep: "validate_problem_schedule sample_digest ex_problem [] = Inr rep"
    using vs by (simp add: validate_problem_schedule_def ex_validated Let_def)
  have "reported vs C001" using vs empty_candidate_incomplete by simp
  then have broken: "reported ms C001 \<or> \<not> rule_holds ex_problem as eps C001"
    using collect_violations_reported [OF vs m] by blast
  note named = conjunct2 [OF conjunct2 [OF conjunct2 [OF error_envelope_names_broken_rules [OF rep m]]]]
  show ?thesis
  proof (cases "validation_error_from_problem_report rep")
    case None
    then show ?thesis using named broken by (auto dest: spec [of _ C001])
  next
    case (Some err)
    then have "JStr (constraint_text C001) \<in> detail_constraint ` set (err_details err)"
      using named broken by (simp only: option.case)
    then show ?thesis using rep Some by simp
  qed
qed

text \<open>
  C33. What the validator may raise: an input error for a problem it does not accept, and on an
  accepted problem nothing but the \<open>OverflowError\<close> of \<open>datetime\<close> arithmetic.
\<close>
theorem validator_raises_only:
  assumes "validate_problem_schedule digest p cand = Inl e"
  shows "(\<exists>field. e = RaiseInput field) \<or> accepted p \<and> e = RaiseOverflow"
  using assms by (rule validate_raises)

theorem validator_raises_only_witness:
  "\<exists>e. validate_problem_schedule sample_digest (ex_problem\<lparr>p_problem_hash := ''sha256:other''\<rparr>) [] = Inl e
     \<and> ((\<exists>field. e = RaiseInput field) \<or> e = RaiseOverflow)"
proof -
  have "problem_v2_hash_for sample_digest (ex_problem\<lparr>p_problem_hash := ''sha256:other''\<rparr>) = ''sha256:d0''"
    by (simp add: problem_v2_hash_for_def sample_digest_def)
  then have "validated_problem sample_digest (ex_problem\<lparr>p_problem_hash := ''sha256:other''\<rparr>) \<noteq> Inr ()"
    by (simp add: validated_problem_ok_iff)
  then obtain e where "validate_problem_schedule sample_digest (ex_problem\<lparr>p_problem_hash := ''sha256:other''\<rparr>) [] = Inl e"
    by (cases "validated_problem sample_digest (ex_problem\<lparr>p_problem_hash := ''sha256:other''\<rparr>)")
      (auto simp: validate_problem_schedule_def)
  then show ?thesis using validator_raises_only by blast
qed

text \<open>
  C34. The overflow does happen: a candidate with one readable, well-ordered assignment whose end tick
  lies past the years \<open>datetime\<close> covers makes the validator raise instead of reporting a violation.
\<close>
theorem far_tick_raises_overflow:
  assumes "accepted p" and "p_problem_hash p = problem_v2_hash_for digest p"
    and "materialize_assignments p cand = (as, ms)" and "a \<in> set as"
    and "as_resource_id a \<noteq> None" and "as_start_tick a = Some s" and "as_end_tick a = Some t" and "s < t"
    and "\<not> representable (tick_instant p t)"
  shows "validate_problem_schedule digest p cand = Inl RaiseOverflow"
  using assms by (rule validate_overflow)

definition far_tick :: json_object where
  "far_tick = [(''assignments'', JArr [JObj
     [(''operation_id'', JStr ''op-2''), (''resource_id'', JStr ''m-1''), (''start_tick'', JInt 0),
      (''end_tick'', JInt 1000000000000)]])]"

theorem far_tick_raises_overflow_witness:
  "validate_problem_schedule sample_digest ex_problem far_tick = Inl RaiseOverflow"
proof -
  obtain as ms where m: "materialize_assignments ex_problem far_tick = (as, ms)" by fastforce
  have "map (\<lambda>a. (as_resource_id a, as_start_tick a, as_end_tick a)) (fst (materialize_assignments ex_problem far_tick))
      = [(Some ''m-1'', Some 0, Some 1000000000000)]" by code_simp
  then obtain a where a: "a \<in> set as" "as_resource_id a = Some ''m-1''" "as_start_tick a = Some 0"
    "as_end_tick a = Some 1000000000000" using m by (cases as) auto
  have "\<not> representable (tick_instant ex_problem 1000000000000)" by code_simp
  then show ?thesis
    using far_tick_raises_overflow [OF ex_accepted ex_hash m a(1) _ a(3,4)] a(2) by simp
qed

subsection \<open>The reference schedulers\<close>

text \<open>
  C2. The schedulers return. On an accepted problem that declares its hash, whose identifiers are
  canonical and whose horizon starts at a whole second (\<open>readable\<close>), whose timestamps are whole seconds
  and whose demands all have an operation, every reference algorithm returns a result, and it is
  either a schedule or a heuristic failure: no exception, no refused problem and no discarded
  candidate.
\<close>
theorem reference_scheduler_returns:
  assumes "accepted p" and "p_problem_hash p = problem_v2_hash_for digest p"
    and "readable p" and "whole_seconds p" and "all_served p"
  shows "\<exists>res. schedule_reference digest p algorithm = Inr res
    \<and> (rr_status res = FEASIBLE \<or> rr_status res = HEURISTIC_FAILURE)"
  using assms by (rule schedule_reference_total)

theorem reference_scheduler_returns_witness:
  "\<exists>res. schedule_reference sample_digest ex_problem SPT = Inr res
     \<and> (rr_status res = FEASIBLE \<or> rr_status res = HEURISTIC_FAILURE)"
  by (rule reference_scheduler_returns [OF ex_accepted ex_hash ex_readable ex_whole_seconds ex_all_served])

text \<open>
  C3. A result with status \<open>FEASIBLE\<close> carries a candidate, and the candidate writes down a schedule
  that satisfies every hard constraint of the problem.
\<close>
theorem feasible_result_is_feasible:
  assumes "schedule_reference digest p algorithm = Inr res" and "rr_status res = FEASIBLE"
  shows "\<exists>cand \<sigma>. rr_candidate res = Some cand \<and> represents p (candidate_json cand) \<sigma> \<and> feasible p \<sigma>"
  using assms by (rule schedule_reference_feasible)

theorem feasible_result_is_feasible_witness:
  "\<exists>res cand \<sigma>. schedule_reference sample_digest ex_problem EDD = Inr res \<and> rr_candidate res = Some cand
     \<and> represents ex_problem (candidate_json cand) \<sigma> \<and> feasible ex_problem \<sigma>"
  using ex_feasible feasible_result_is_feasible by blast

text \<open>
  C4. When the built candidate is discarded. On a problem whose operation and resource identifiers are
  canonical (\<open>readable_identifiers\<close>: nonempty, without surrounding blanks), whatever algorithm selects
  the placements, a returned result has status \<open>VALIDATION_FAILED\<close> exactly when the dispatch loop built
  a candidate with at least one assignment and the horizon starts at a fraction of a second. With a
  horizon that starts at a whole second the loop is right by construction: every candidate it builds
  passes the formal validator. With a fractional start every candidate is discarded, for its
  timestamps are written without the fraction.
\<close>
theorem built_candidate_discarded_iff:
  assumes "readable_identifiers p" and "schedule_reference digest p algorithm = Inr res"
  shows "rr_status res = VALIDATION_FAILED \<longleftrightarrow>
    (\<exists>cx cand. checked_context digest p = Inr cx \<and> build_schedule cx algorithm = Inr (Inr cand))
    \<and> p_operations p \<noteq> [] \<and> horizon_start p mod micros \<noteq> 0"
  using assms by (rule discarded_iff)

theorem built_candidate_discarded_iff_witness:
  "(\<exists>res. schedule_reference sample_digest ex_problem FCFS = Inr res \<and> rr_status res \<noteq> VALIDATION_FAILED)
   \<and> (\<exists>res. schedule_reference sample_digest half_second EDD = Inr res \<and> rr_status res = VALIDATION_FAILED)"
proof
  have r: "readable_identifiers ex_problem" "horizon_start ex_problem mod micros = 0"
    using ex_readable by (simp_all add: readable_def)
  obtain res where res: "schedule_reference sample_digest ex_problem FCFS = Inr res"
    using schedule_reference_total [OF ex_accepted ex_hash ex_readable ex_whole_seconds ex_all_served] by blast
  then have "rr_status res \<noteq> VALIDATION_FAILED" using built_candidate_discarded_iff [OF r(1) res] r(2) by simp
  then show "\<exists>res. schedule_reference sample_digest ex_problem FCFS = Inr res \<and> rr_status res \<noteq> VALIDATION_FAILED"
    using res by blast
  show "\<exists>res. schedule_reference sample_digest half_second EDD = Inr res \<and> rr_status res = VALIDATION_FAILED"
    using half_second_returns built_candidate_discarded_iff [OF half_second_identifiers(1)]
      half_second_checked half_second_built half_second_identifiers(2,3) by blast
qed

text \<open>
  C9. A heuristic failure is one of the five defects of the fixed work or the absence of a hard
  feasible placement. The loop never gives up for want of a ready operation: the precedence
  relation of an accepted problem is acyclic.
\<close>
theorem heuristic_failure_codes:
  assumes "schedule_reference digest p algorithm = Inr res" and "rr_status res = HEURISTIC_FAILURE"
  shows "\<exists>f. rr_failure res = Some f \<and> fd_code f \<in> {''NO_HARD_FEASIBLE_PLACEMENT'',
    ''FIXED_ASSIGNMENT_CONFLICT'', ''FIXED_ASSIGNMENT_OFF_GRID'', ''FIXED_RESOURCE_NOT_ALLOWED'',
    ''FIXED_ASSIGNMENT_VIOLATION'', ''FIXED_PRECEDENCE_VIOLATION''}"
  using schedule_reference_failure_code [OF assms] by (auto simp: fixed_codes_def)

theorem heuristic_failure_codes_witness:
  "\<exists>res f. schedule_reference sample_digest off_grid EDD = Inr res \<and> rr_failure res = Some f
     \<and> fd_code f \<noteq> ''NO_READY_OPERATION''"
proof -
  obtain res where res: "schedule_reference sample_digest off_grid EDD = Inr res" "rr_status res = HEURISTIC_FAILURE"
    using off_grid_fails by blast
  then show ?thesis using heuristic_failure_codes [OF res] by fastforce
qed

text \<open>
  C5. The search for a placement is exact, given that the placements made so far are sound. When it
  finds a placement, that placement is feasible beside them, it puts the operation on one of its
  options, and no feasible placement of the operation on any of its options at any tick has a smaller
  key (end, then start, then resource): the gaps the search skips contain no better one. When it
  finds none, no option is feasible at any tick.
\<close>
theorem earliest_placement_is_optimal:
  assumes "good_context cx" and "partial_ok cx pls" and "earliest_placement cx op pls = Inr found"
  shows "case found of
      None \<Rightarrow> \<forall>opt \<in> set (op_resource_options op). \<forall>u. placement_is_feasible cx op (candidate_at cx op opt u) pls \<noteq> Inr True
    | Some pl \<Rightarrow> placement_is_feasible cx op pl pls = Inr True
        \<and> (\<exists>opt \<in> set (op_resource_options op). \<exists>t. pl = candidate_at cx op opt t)
        \<and> (\<forall>opt \<in> set (op_resource_options op). \<forall>u. placement_is_feasible cx op (candidate_at cx op opt u) pls = Inr True
            \<longrightarrow> placement_key pl \<le> placement_key (candidate_at cx op opt u))"
  using assms by (rule earliest_placement_exact)

theorem earliest_placement_is_optimal_witness:
  "\<exists>pl. earliest_placement \<lparr>cx_problem = ex_problem, cx_horizon_ticks = 20\<rparr>
       (ex_operation ''op-3'' ''d-1'' [choice ''m-2'' 100]) [] = Inr (Some pl)
     \<and> placement_is_feasible \<lparr>cx_problem = ex_problem, cx_horizon_ticks = 20\<rparr>
         (ex_operation ''op-3'' ''d-1'' [choice ''m-2'' 100]) pl [] = Inr True
     \<and> placement_key pl \<le> placement_key (candidate_at \<lparr>cx_problem = ex_problem, cx_horizon_ticks = 20\<rparr>
         (ex_operation ''op-3'' ''d-1'' [choice ''m-2'' 100]) (choice ''m-2'' 100) 7)"
proof -
  let ?cx = "\<lparr>cx_problem = ex_problem, cx_horizon_ticks = 20\<rparr>"
  let ?op = "ex_operation ''op-3'' ''d-1'' [choice ''m-2'' 100]"
  have "is_ok (earliest_placement ?cx ?op [])" by code_simp
  then obtain found where e: "earliest_placement ?cx ?op [] = Inr found" by (auto simp: is_ok_iff)
  have o: "choice ''m-2'' 100 \<in> set (op_resource_options ?op)" by (simp add: ex_operation_def)
  have f: "placement_is_feasible ?cx ?op (candidate_at ?cx ?op (choice ''m-2'' 100) 7) [] = Inr True"
    by code_simp
  show ?thesis
    using earliest_placement_is_optimal [OF ex_good partial_ok_Nil [OF ex_good] e] o f e by (cases found) auto
qed

text \<open>
  C35. The metrics need every demand to have an operation. On a problem with canonical identifiers, a
  horizon that starts at a whole second (\<open>readable\<close>) and timestamps in whole seconds, when a schedule is
  built and one of the demands has no operation left, \<open>max\<close> of an empty list raises \<open>ValueError\<close> and
  the scheduler returns no result although the schedule is feasible.
\<close>
theorem unserved_demand_raises:
  assumes "checked_context digest p = Inr cx" and "readable p" and "whole_seconds p"
    and "build_schedule cx algorithm = Inr (Inr cand)" and "demand \<in> set (p_demands p)"
    and "\<forall>op \<in> set (p_operations p). op_demand_order_id op \<noteq> d_demand_order_id demand"
  shows "schedule_reference digest p algorithm = Inl RaiseValue"
  using assms by (rule schedule_reference_unserved)

theorem unserved_demand_raises_witness:
  "schedule_reference sample_digest unserved EDD = Inl RaiseValue"
proof -
  obtain cand where "build_schedule \<lparr>cx_problem = unserved, cx_horizon_ticks = 20\<rparr> EDD = Inr (Inr cand)"
    using unserved_built by blast
  then show ?thesis
    by (rule unserved_demand_raises [OF unserved_checked unserved_readable, where demand = "ex_demand ''d-2'' ''2026-01-05T08:04:00Z''"])
      (auto simp: unserved_def ex_problem_def ex_demand_def ex_operation_def ex_running_def)
qed

subsection \<open>Problems and their identity\<close>

text \<open>
  C15. The Kahn traversal of the precedence edges accepts exactly the acyclic relations: the check
  succeeds when every edge joins operations or anchors of the problem and no cycle exists, and
  fails otherwise. (The traversal is a terminating function: it is total by definition.)
\<close>
theorem dag_check_decides_acyclicity:
  "validate_dag_v2 p = Inr () \<longleftrightarrow>
     set (edge_pairs p) \<subseteq> set (graph_nodes p) \<times> set (graph_nodes p) \<and> acyclic (set (edge_pairs p))"
  by (rule validate_dag_ok_iff)

text \<open>
  C18. Acceptance decides well-formedness. A problem document is accepted exactly when it is well formed
  as stated on its collections alone: the five versions, unique identifiers with operations disjoint
  from completed ones, a positive tick and a nonempty horizon, every demand, resource, option,
  operation, completed operation, edge, lock and calendar interval well formed with its references
  resolved (the resource of a lock among the options of its operation, the calendar of an interval
  that of its resource), acyclic precedence and only V1 capabilities. Edges and intervals are compared
  by their fields joined with U+0000, so the joined fields are assumed free of that character.
\<close>
theorem acceptance_decides_well_formedness:
  assumes "nul_free p"
  shows "accepted p \<longleftrightarrow> well_formed p"
  using assms by (rule accepted_iff)

theorem acceptance_decides_well_formedness_witness: "accepted ex_problem \<and> well_formed ex_problem"
  using acceptance_decides_well_formedness [OF ex_nul_free] ex_accepted by simp

text \<open>
  C39. The capability contract lets exactly the lists of distinct V1 capabilities through, unchanged.
\<close>
theorem capability_contract_decides:
  "require_v1_capability_contract names = Inr names' \<longleftrightarrow>
     names' = names \<and> distinct names \<and> set names \<subseteq> set v1_supported_names"
  by (rule capability_contract_ok_iff)

text \<open>
  C16. The identity of an accepted problem does not depend on the order of its collections: any
  reordering of demands, resources, operations, options, anchors, edges, locks, intervals and
  capabilities has the same hash, whatever hash it declares.
\<close>
theorem problem_hash_ignores_order:
  assumes "accepted p" and "reordered p q"
  shows "problem_v2_hash_for digest q = problem_v2_hash_for digest p"
  using assms by (rule reordered_hash)

theorem problem_hash_ignores_order_witness:
  "problem_v2_hash_for sample_digest (canonical_problem_document_v2 ex_problem) = problem_v2_hash_for sample_digest ex_problem"
  by (rule problem_hash_ignores_order [OF ex_accepted reordered_canonical_self])

text \<open>
  C38. The canonical document of an accepted problem is determined by its content: it is the only
  reordering of the problem, with the declared hash kept, all of whose collections are in the
  canonical order: demands, resources, operations, completed operations, edges and locks by identifier,
  options by resource, intervals by their composed key, and capabilities by text.
\<close>
theorem canonical_document_is_unique:
  assumes "accepted p"
  shows "q = canonical_problem_document_v2 p \<longleftrightarrow> reordered p q \<and> p_problem_hash q = p_problem_hash p \<and> in_order q"
  using assms by (rule canonical_unique)

theorem canonical_document_is_unique_witness:
  "reordered ex_problem (canonical_problem_document_v2 ex_problem) \<and> in_order (canonical_problem_document_v2 ex_problem)"
  using canonical_document_is_unique [OF ex_accepted, of "canonical_problem_document_v2 ex_problem"] by simp

text \<open>
  C36. Formatting and parsing instants are inverse on every whole second from year 1 to year 9999.
\<close>
theorem instant_round_trip:
  assumes "representable t" and "t mod micros = 0"
  shows "parse_utc_instant (format_utc_instant t) = Inr t"
  using assms by (rule parse_format_instant)

theorem instant_round_trip_witness:
  "parse_utc_instant (format_utc_instant (63903196800 * micros)) = Inr (63903196800 * micros)"
  by (rule instant_round_trip) (simp_all add: representable_def instant_bound_def max_ordinal_def day_seconds_def micros_def)

text \<open>
  C37. Durations become ticks by rounding up: the number of ticks is the least one that covers the
  duration, and a negative duration or a tick that is not positive is an error.
\<close>
theorem duration_ticks_round_up:
  "duration_to_ticks duration tick = Inr n \<longleftrightarrow>
     0 \<le> duration \<and> 0 < tick \<and> duration \<le> n * tick \<and> (n - 1) * tick < duration"
proof -
  have "(duration + tick - 1) div tick = n \<longleftrightarrow> duration \<le> n * tick \<and> (n - 1) * tick < duration" if "0 < tick"
    using that ceil_ticks_le_iff [of tick duration n] ceil_ticks_le_iff [of tick duration "n - 1"]
    by (auto simp: ceil_ticks_def)
  then show ?thesis
    by (auto simp: duration_to_ticks_def require_duration_seconds_def require_tick_seconds_def res_simps)
qed

text \<open>
  C40. Although the parser announces RFC 3339, it also takes the basic format of ISO 8601: for every whole
  second from year 1 to year 9999, the formatted instant with its dashes and colons removed is parsed
  to the same instant.
\<close>
theorem basic_format_is_parsed:
  assumes "representable t" and "t mod micros = 0"
  shows "parse_utc_instant (filter (\<lambda>c. c \<noteq> CHR ''-'' \<and> c \<noteq> CHR '':'') (format_utc_instant t)) = Inr t"
  using assms by (rule parse_basic_format)

theorem basic_format_is_parsed_witness: "parse_utc_instant ''20260105T080000Z'' = Inr (63903196800 * micros)"
proof -
  have "filter (\<lambda>c. c \<noteq> CHR ''-'' \<and> c \<noteq> CHR '':'') (format_utc_instant (63903196800 * micros)) = ''20260105T080000Z''"
    by code_simp
  then show ?thesis using basic_format_is_parsed [of "63903196800 * micros"]
    by (simp add: representable_def instant_bound_def max_ordinal_def day_seconds_def micros_def)
qed
subsection \<open>Canonical text\<close>

text \<open>
  C17. Canonical JSON text determines the value: \<open>json.dumps\<close> with sorted keys gives the same text for
  two values exactly when they agree up to the order of the keys of their objects. Every fingerprint
  of the code rests on this.
\<close>
theorem canonical_json_is_injective:
  "json_dumps v = json_dumps w \<longleftrightarrow> sorted_form v = sorted_form w"
  by (rule dumps_eq_iff)

text \<open>
  C6. The hash is an identity: when the digest has no collision, two accepted problems have the same
  hash exactly when their canonical documents are equal in everything but the hash they declare.
\<close>
theorem problem_hash_is_identity:
  assumes "inj digest" and "accepted p" and "accepted q"
  shows "problem_v2_hash_for digest p = problem_v2_hash_for digest q \<longleftrightarrow>
    without_hash (canonical_problem_document_v2 p) = without_hash (canonical_problem_document_v2 q)"
  using assms by (rule hash_eq_iff)

theorem problem_hash_is_identity_witness:
  "problem_v2_hash_for id ex_problem \<noteq> problem_v2_hash_for id unserved"
proof -
  have "length (p_demands (without_hash (canonical_problem_document_v2 ex_problem)))
      \<noteq> length (p_demands (without_hash (canonical_problem_document_v2 unserved)))"
    by (simp add: without_hash_def canonical_problem_document_v2_def unserved_def)
  then show ?thesis
    using problem_hash_is_identity [OF inj_on_id ex_accepted checked_context_ok(1) [OF unserved_checked]] by metis
qed

subsection \<open>Lifecycles\<close>

text \<open>
  C25. The three transition tables are sound lifecycles, seen through the guard \<open>require_transition\<close>:
  a state is terminal exactly when the guard refuses every transition out of it, every state is
  reached from the initial one, and from every state a terminal one can be reached.
\<close>
theorem lifecycle_tables_are_sound:
  assumes "s \<in> set (states_of m)"
  shows "(s \<in> set (terminal_states_of m) \<longleftrightarrow> (\<forall>t. require_transition (machine_text m) s t \<noteq> Inr ()))
    \<and> (initial_of m, s) \<in> {(a, b). require_transition (machine_text m) a b = Inr ()}\<^sup>*
    \<and> (\<exists>t. t \<in> set (terminal_states_of m)
         \<and> (s, t) \<in> {(a, b). require_transition (machine_text m) a b = Inr ()}\<^sup>*)"
proof -
  have "{(a, b). require_transition (machine_text m) a b = Inr ()} = set (transitions_of m)"
    by (auto simp: require_transition_iff)
  then show ?thesis
    using machine.terminal_iff_stuck [OF assms] machine.populated [OF assms] machine.escapes [OF assms]
    by (auto simp: require_transition_iff)
qed

theorem lifecycle_tables_are_sound_witness:
  "\<exists>t. t \<in> set (terminal_states_of EXPORT_JOB)
     \<and> (''EXPORT_FAILED'', t) \<in> {(a, b). require_transition (machine_text EXPORT_JOB) a b = Inr ()}\<^sup>*"
proof -
  have "''EXPORT_FAILED'' \<in> set (states_of EXPORT_JOB)" by (simp add: states_of_def job_states_def)
  then show ?thesis using lifecycle_tables_are_sound by blast
qed

text \<open>
  C26. Planning runs end: however the states of a run are chosen, a sequence of transitions the guard
  accepts has at most eight steps.
\<close>
theorem planning_run_terminates:
  assumes "successively (\<lambda>s t. require_transition ''PLANNING_RUN'' s t = Inr ()) (s # xs)"
  shows "length xs \<le> 8"
  using assms by (rule accepted_run_length)

theorem planning_run_terminates_witness:
  "successively (\<lambda>s t. require_transition ''PLANNING_RUN'' s t = Inr ()) [''CREATED'', ''INGESTING'', ''DATA_REJECTED'']
   \<and> length [''INGESTING'', ''DATA_REJECTED''] \<le> 8"
proof -
  have "successively (\<lambda>s t. require_transition ''PLANNING_RUN'' s t = Inr ()) [''CREATED'', ''INGESTING'', ''DATA_REJECTED'']"
    using require_transition_iff [of PLANNING_RUN]
    by (simp add: machine_text_def transitions_of_def pairs_of_def run_transitions_def)
  then show ?thesis using planning_run_terminates by blast
qed

text \<open>
  C24. The published content of a schedule version never changes: along every history of documents the
  persistence guard accepts, at most five of them, everything but the five state fields stays as in
  the first document (up to the order of the keys), when the digest has no collision.
\<close>
theorem schedule_version_content_is_immutable:
  assumes "version_history digest docs" and "inj digest" and "d \<in> set docs"
  shows "sorted_form (JObj (immutable_schedule_projection d))
      = sorted_form (JObj (immutable_schedule_projection (hd docs)))
    \<and> length docs \<le> 5"
proof -
  have "json_dumps (JObj (immutable_schedule_projection d)) = json_dumps (JObj (immutable_schedule_projection (hd docs)))"
    using version_history_fingerprint [OF assms(1,3)] injD [OF assms(2)]
    unfolding immutable_schedule_fingerprint_def by blast
  then show ?thesis using version_history_bounded [OF assms(1)] unfolding dumps_eq_iff by blast
qed

definition draft_version :: json_object where
  "draft_version = [(''schedule_version_id'', JStr ''v-1''), (''state'', JStr ''DRAFT'')]"

definition ready_version :: json_object where
  "ready_version = [(''state'', JStr ''READY_FOR_REVIEW''), (''schedule_version_id'', JStr ''v-1'')]"

theorem schedule_version_content_is_immutable_witness:
  "version_history id [draft_version, ready_version]
   \<and> sorted_form (JObj (immutable_schedule_projection ready_version))
      = sorted_form (JObj (immutable_schedule_projection draft_version))"
proof -
  have "require_schedule_version_transition id draft_version ready_version = Inr (''DRAFT'', ''READY_FOR_REVIEW'')"
    by (simp add: version_transition_iff draft_version_def ready_version_def dict_get_def transitions_of_def
        pairs_of_def version_transitions_def immutable_schedule_fingerprint_def immutable_schedule_projection_def
        mutable_state_fields_def)
  then have h: "version_history id [draft_version, ready_version]" by simp
  then show ?thesis using schedule_version_content_is_immutable [OF h inj_on_id, of ready_version] by simp
qed

text \<open>
  C23. Export jobs: after any history of accepted transitions and heartbeats the attempt counter is the
  number of claims, the job holds a lease and an expiry exactly while it is exporting, and its state
  is one the table reaches.
\<close>
theorem export_job_invariant:
  assumes "job_history doc expiry n"
  shows "dict_get doc ''attempt'' = JInt n \<and> 0 \<le> n
    \<and> (dict_get doc ''state'' = JStr ''EXPORTING'' \<longleftrightarrow> expiry \<noteq> None)
    \<and> (dict_get doc ''state'' = JStr ''EXPORTING'' \<longleftrightarrow> is_text (dict_get doc ''lease_reference''))
    \<and> (\<exists>s. dict_get doc ''state'' = JStr s \<and> (''CREATED'', s) \<in> (set (transitions_of EXPORT_JOB))\<^sup>*)"
  using assms by (rule job_history_invariant)

definition stored_job :: "string \<Rightarrow> int \<Rightarrow> json \<Rightarrow> json_object" where
  "stored_job state attempt lease =
     [(''state'', JStr state), (''attempt'', JInt attempt), (''lease_reference'', lease)]"

theorem export_job_invariant_witness:
  "job_history (stored_job ''EXPORTING'' 1 (JStr ''lease'')) (Some 5) 1
   \<and> dict_get (stored_job ''EXPORTING'' 1 (JStr ''lease'')) ''attempt'' = JInt 1"
proof -
  have "job_history (stored_job ''CREATED'' 0 JNull) None 0"
    by (rule job_history.created) (simp_all add: stored_job_def dict_get_def)
  moreover have "require_export_job_transition (stored_job ''CREATED'' 0 JNull)
      (stored_job ''EXPORTING'' 1 (JStr ''lease'')) (Some 5) = Inr (''CREATED'', ''EXPORTING'')"
    by (simp add: job_transition_iff stored_job_def dict_get_def attempt_of_def is_text_def transitions_of_def
        pairs_of_def job_transitions_def)
  ultimately have "job_history (stored_job ''EXPORTING'' 1 (JStr ''lease'')) (Some 5) (0 + 1)"
    by (rule job_history.claim)
  then have h: "job_history (stored_job ''EXPORTING'' 1 (JStr ''lease'')) (Some 5) 1" by simp
  then show ?thesis using export_job_invariant [OF h] by blast
qed

subsection \<open>Planning runs and their attempts\<close>

text \<open>
  C27. The state check of stored planning runs and the shared state-machine contract, two tables
  written down separately, accept exactly the same transitions.
\<close>
theorem run_guards_agree:
  "require_planning_run_transition s t = Inr () \<longleftrightarrow> require_transition ''PLANNING_RUN'' s t = Inr ()"
  using require_transition_iff [of PLANNING_RUN s t] by (simp add: planning_run_transition_iff machine_text_def)

text \<open>
  C19. The history of a stored run refines the state machine: when each run of a list verifies
  against the one before, their states are a path of the transition table, so the list has at most
  nine runs, and nothing follows a terminal run.
\<close>
theorem run_history_refines_machine:
  assumes "run_history digest schema_ok rs"
  shows "run_of (transitions_of PLANNING_RUN) (map run_state_text rs) \<and> length rs \<le> 9
    \<and> (\<forall>k < length rs. run_state_text (rs ! k) \<in> set (terminal_states_of PLANNING_RUN) \<longrightarrow> Suc k = length rs)"
  using run_history_table [OF assms] run_history_bounded [OF assms] terminal_run_is_last [OF assms] by blast

theorem run_history_refines_machine_witness:
  "run_of (transitions_of PLANNING_RUN) [''CREATED'', ''INGESTING'']"
proof -
  have "run_history ex_digest ex_schema_ok [ex_created, ex_ingesting]" using ex_run_step by simp
  from run_history_refines_machine [OF this] show ?thesis
    by (simp add: run_state_text_def ex_created_def ex_ingesting_def ex_run_get)
qed

text \<open>
  C20. What a run has recorded stays: along every sequence of verified replacements the revision
  counts the audit references, the audit history only grows at its end, and an artifact reference
  that was set keeps its value.
\<close>
theorem run_record_is_append_only:
  assumes "run_steps digest schema_ok r r'" and "run_ok digest schema_ok r"
  shows "run_revision r \<le> run_revision r' \<and> int (length (run_audits r)) = run_revision r
    \<and> (take (length (run_audits r)) (run_audits r') = run_audits r
       \<or> py_eq (JArr (take (length (run_audits r)) (run_audits r'))) (JArr (run_audits r)))
    \<and> (\<forall>name \<in> set artifact_fields. run_artifact r name = JNull
         \<or> run_artifact r' name = run_artifact r name \<or> py_eq (run_artifact r' name) (run_artifact r name))"
proof -
  have len: "int (length (run_audits r)) = run_revision r" using run_ok_facts [OF assms(2)] by simp
  then have "nat (run_revision r) = length (run_audits r)" by linarith
  then show ?thesis using run_steps_revision [OF assms(1)] run_steps_artifacts [OF assms(1)] len by auto
qed

theorem run_record_is_append_only_witness:
  "run_revision ex_created \<le> run_revision ex_ingesting \<and> length (run_audits ex_created) = 1"
proof -
  have "run_ok ex_digest ex_schema_ok ex_created" using ex_run_step by (simp add: run_step_def)
  from run_record_is_append_only [OF r_into_rtranclp [of "run_step ex_digest ex_schema_ok", OF ex_run_step] this]
  show ?thesis by (simp add: run_audits_def ex_created_def ex_run_get)
qed

text \<open>
  C22. The history of an attempt refines its status table and has at most four documents, the
  revision rises by one with each, the identity and the expectations on the run never change, the
  start is written once and so is each result reference.
\<close>
theorem attempt_history_is_sound:
  assumes "attempt_history digest (d # ds)" and "attempt_ok digest d" and "d' \<in> set ds"
  shows "run_of attempt_transitions (map attempt_status_of (d # ds)) \<and> length ds \<le> 3
    \<and> (\<forall>k \<le> length ds. attempt_revision ((d # ds) ! k) = attempt_revision d + int k)
    \<and> (\<forall>f \<in> set immutable_attempt_fields. dict_get d' f = dict_get d f \<or> py_eq (dict_get d' f) (dict_get d f))
    \<and> (dict_get d ''started_at_utc'' = JNull \<or> dict_get d' ''started_at_utc'' = dict_get d ''started_at_utc'')
    \<and> (\<forall>name \<in> set artifact_fields. attempt_result d name = JNull
         \<or> attempt_result d' name = attempt_result d name \<or> py_eq (attempt_result d' name) (attempt_result d name))"
proof -
  have steps: "attempt_steps digest d d'" using attempt_history_steps [OF assms(1)] assms(3) by blast
  have "length ds \<le> 3" using attempt_history_bounded [OF assms(1)] by simp
  then show ?thesis
    using attempt_history_table [OF assms(1)] attempt_revisions [OF assms(1)] attempt_steps_keep_field [OF steps]
      attempt_starts_once [OF steps assms(2)] attempt_steps_keep_result [OF steps] by blast
qed

theorem attempt_history_is_sound_witness:
  "\<exists>d. attempt_history ex_digest [ex_attempt, d] \<and> attempt_revision d = 2"
proof -
  let ?d = "next_attempt ex_digest ex_attempt ACTIVE ''2026-01-01T00:30:00Z'' (ex_audit ''a4'') None ex_artifacts"
  have h: "attempt_history ex_digest [ex_attempt, ?d]" using ex_attempt_step by simp
  have "attempt_ok ex_digest ex_attempt" using ex_attempt_step by (simp add: attempt_step_def)
  from attempt_history_is_sound [OF h this, of ?d]
  have "attempt_revision ([ex_attempt, ?d] ! 1) = attempt_revision ex_attempt + 1" by fastforce
  then show ?thesis using h by (intro exI [of _ ?d]) (simp add: attempt_revision_def ex_attempt_get)
qed

text \<open>
  C21. \<open>transition_attempt\<close> succeeds whenever it should: from a verified attempt, for a pair of the
  status table, an outcome and a moment that fit the new status, new audit evidence and results that
  keep those already recorded, it returns the next document, which verifies against the old one.
\<close>
theorem attempt_transition_succeeds:
  assumes "verify_attempt digest run d before = Inr ()" and "distinct_keys (JObj d)"
    and "dict_get d ''status'' = JStr (attempt_status_text s)" and "(s, s') \<in> set attempt_transitions"
    and "outcome_fits s' code" and "moment_fits d s' moment"
    and "require_audit_reference (JObj audit) ''planning_run_attempt.audit'' = Inr ()"
    and "\<not> py_eq (JObj audit) (dict_get d ''audit'')"
    and "set (map fst results) = set artifact_fields"
    and "\<forall>name \<in> set artifact_fields. attempt_result d name = JNull
      \<or> py_eq (dict_get results name) (attempt_result d name)"
  shows "\<exists>d'. transition_attempt digest run d s' moment audit code results = Inr d' \<and> attempt_step digest d d'
    \<and> dict_get d' ''status'' = JStr (attempt_status_text s') \<and> attempt_revision d' = attempt_revision d + 1
    \<and> dict_get d' ''failure_code'' = jopt JStr code \<and> dict_get d' ''result_references'' = JObj results
    \<and> (s' = ACTIVE \<longrightarrow> dict_get d ''started_at_utc'' = JNull \<longrightarrow> dict_get d' ''started_at_utc'' = JStr moment)
    \<and> (s' \<in> set attempt_terminal_statuses \<longrightarrow> dict_get d' ''finished_at_utc'' = JStr moment)"
proof -
  let ?d' = "next_attempt digest d s' moment audit code results"
  have t: "transition_attempt digest run d s' moment audit code results = Inr ?d'"
    using assms by (intro transition_attempt_accepted) auto
  moreover have "attempt_step digest d ?d'" using transition_attempt_sound [OF assms(1) t] by blast
  moreover have "attempt_revision ?d' = attempt_revision d + 1" by (simp add: attempt_revision_def [of ?d'])
  ultimately show ?thesis by (intro exI [of _ ?d']) simp
qed

theorem attempt_transition_succeeds_witness:
  "\<exists>d'. transition_attempt ex_digest ex_created ex_attempt ACTIVE ''2026-01-01T00:30:00Z'' (ex_audit ''a4'') None
     ex_artifacts = Inr d' \<and> dict_get d' ''started_at_utc'' = JStr ''2026-01-01T00:30:00Z''"
proof -
  have "outcome_fits ACTIVE None" "(QUEUED, ACTIVE) \<in> set attempt_transitions"
    by (simp_all add: outcome_fits_def attempt_transitions_def)
  moreover have "\<not> py_eq (JObj (ex_audit ''a4'')) (dict_get ex_attempt ''audit'')"
    "require_audit_reference (JObj (ex_audit ''a4'')) ''planning_run_attempt.audit'' = Inr ()"
    "\<forall>name \<in> set artifact_fields. attempt_result ex_attempt name = JNull
      \<or> py_eq (dict_get ex_artifacts name) (attempt_result ex_attempt name)"
    by (simp_all add: ex_attempt_get attempt_result_def object_of_def del: py_eq.simps(1))
  ultimately show ?thesis
    using attempt_transition_succeeds [OF ex_attempt_ok ex_attempt_distinct ex_attempt_get(5) _ _ ex_moment _ _ ex_artifact_keys]
      ex_attempt_get(13) by blast
qed

subsection \<open>Key figures\<close>

text \<open>
  C7. The key figures of a reference schedule exist and agree with the scheduler: for every FEASIBLE
  result over a calendar in whole seconds, \<open>calculate_schedule_kpi_metrics\<close> returns, every figure is
  the one of the schedule, and the weighted tardiness and the makespan are those of the result.
\<close>
theorem kpi_agrees_with_scheduler:
  assumes "schedule_reference digest p algorithm = Inr res" and "rr_status res = FEASIBLE" and "whole_calendar p"
  shows "\<exists>c \<sigma> m. rr_candidate res = Some c \<and> feasible p \<sigma> \<and> writes_down (cd_assignments c) \<sigma>
    \<and> calculate_schedule_kpi_metrics p (cd_assignments c) = Inr m \<and> kpi_ok p (cd_assignments c) \<sigma> m
    \<and> rr_weighted_tardiness_seconds res = Some (km_weighted_tardiness_seconds m)
    \<and> rr_makespan_seconds res = Some (km_makespan_seconds m)"
  using assms by (rule schedule_kpi)

theorem kpi_agrees_with_scheduler_witness:
  "\<exists>(c :: candidate_doc) m. calculate_schedule_kpi_metrics ex_problem (cd_assignments c) = Inr m \<and> km_order_count m = 1"
proof -
  obtain res where "schedule_reference sample_digest ex_problem EDD = Inr res" "rr_status res = FEASIBLE"
    using ex_feasible by blast
  from kpi_agrees_with_scheduler [OF this ex_whole_calendar(1)] obtain c :: candidate_doc and m \<sigma> where
    "calculate_schedule_kpi_metrics ex_problem (cd_assignments c) = Inr m" "kpi_ok ex_problem (cd_assignments c) \<sigma> m"
    by blast
  then show ?thesis by (intro exI [of _ c] exI [of _ m]) (simp add: kpi_ok_def ex_problem_def)
qed

text \<open>
  C8. The figures never fail on a valid schedule: when a feasible schedule of an accepted problem
  stays within the horizon, every demand is served and the timestamps are whole seconds, the busy
  time of each resource fits its available time, so no row is rejected, and each utilization lies
  between 0 and 1, within \<open>10 ^ -12\<close> of the exact quotient.
\<close>
theorem kpi_accepts_feasible_schedules:
  assumes "accepted p" and "feasible p \<sigma>" and "writes_down as \<sigma>" and "within_horizon p \<sigma>"
    and "all_served p" and "whole_calendar p" and "whole_dues p"
  shows "\<exists>m. calculate_schedule_kpi_metrics p as = Inr m
    \<and> list_all2 (resource_row_ok p as) (sort_key r_resource_id (p_resources p)) (km_resource_rows m)
    \<and> list_all2 (delivery_row_ok p \<sigma>) (sort_key d_demand_order_id (p_demands p)) (km_delivery_rows m)
    \<and> km_unscheduled_operation_count m = 0"
  using kpi_metrics_built [OF accepted_facts [OF assms(1)] assms(2-7)] by (auto simp: kpi_ok_def)

theorem kpi_accepts_feasible_schedules_witness:
  "\<exists>as m. calculate_schedule_kpi_metrics ex_problem as = Inr m \<and> km_unscheduled_operation_count m = 0"
proof -
  obtain as \<sigma> where "feasible ex_problem \<sigma>" "writes_down as \<sigma>" "within_horizon ex_problem \<sigma>" using ex_written by blast
  from kpi_accepts_feasible_schedules [OF ex_accepted this ex_all_served ex_whole_calendar] show ?thesis by blast
qed

text \<open>
  C28. Merging intervals measures their union: for intervals with whole-second ends
  \<open>_merged_interval_seconds\<close> returns the number of seconds that lie in at least one of them, however
  they overlap and in whatever order they are given.
\<close>
theorem merged_intervals_measure_union:
  assumes "\<forall>x \<in> set xs. fst x < snd x \<and> whole (fst x) \<and> whole (snd x)"
  shows "\<exists>n. merged_interval_seconds xs = Inr n \<and> n * micros = int (card (\<Union>(s, e) \<in> set xs. {s..<e}))"
  using merged_seconds_measure [OF assms] by (simp add: covered_def)

theorem merged_intervals_measure_union_witness:
  "\<exists>n. merged_interval_seconds [(0, 5 * micros), (3 * micros, 8 * micros)] = Inr n"
proof -
  have "\<forall>x \<in> set [(0, 5 * micros), (3 * micros, 8 * micros)]. fst x < snd x \<and> whole (fst x) \<and> whole (snd x)"
    by (simp add: whole_def micros_def)
  from merged_intervals_measure_union [OF this] show ?thesis by blast
qed


subsection \<open>Stability of a replanned schedule\<close>



text \<open>
  C30. The vector does not depend on the order of its inputs: any permutation of the base assignments,
  the new assignments, the active operations and the soft locks has the same vector.
\<close>
theorem stability_ignores_order:
  assumes "calculate_stability bs ns ids locks = Inr v"
    and "mset bs' = mset bs" and "mset ns' = mset ns" and "mset ids' = mset ids" and "mset locks' = mset locks"
  shows "calculate_stability bs' ns' ids' locks' = Inr v"
  using assms by (rule stability_perm)

theorem stability_ignores_order_witness:
  "\<exists>v. calculate_stability [ex_base_a, ex_b] [ex_b, ex_new_a] [''op-a'', ''op-b''] [] = Inr v
    \<and> stability_score v = (0, 1, 1, 3600)"
proof -
  have "calculate_stability [ex_base_a, ex_b] [ex_b, ex_new_a] [''op-a'', ''op-b''] [] = Inr
    \<lparr>sv_soft_lock_violations = 0, sv_changed_existing_operations = 1, sv_resource_changes = 1,
     sv_absolute_start_shift_seconds = 3600, sv_unchanged_existing = 1, sv_comparable_existing = 2\<rparr>"
    by (rule stability_ignores_order [OF ex_stability]) simp_all
  then show ?thesis by (auto simp: stability_score_def)
qed

text \<open>
  C31. When the two schedules and the active operations are accepted, the vector is returned if the
  soft locks are accepted, with one exception: an operation whose instants are dates in one schedule
  and times in the other passes every check and then raises \<open>TypeError\<close>, which is not a
  \<open>ChangeReportError\<close>.
\<close>
theorem stability_outcome_by_instants:
  assumes "index_assignments bs ''base_assignments'' = Inr base" and "index_assignments ns ''new_assignments'' = Inr new"
    and "active_ids ids = Inr (map fst new)"
  shows "if \<forall>i \<in> shared base new. kinds_agree (the (map_of base i)) (the (map_of new i))
    then (\<exists>v. calculate_stability bs ns ids locks = Inr v) \<longleftrightarrow> (\<exists>k. soft_locks_from new 0 [] locks = Inr k)
    else calculate_stability bs ns ids locks = Inl RaiseType"
  using assms by (rule stability_outcome)

theorem stability_outcome_by_instants_witness: "calculate_stability [ex_b] [ex_days_b] [''op-b''] [] = Inl RaiseType"
  using stability_outcome_by_instants [OF ex_index_base ex_index_days] ex_active ex_kinds
  by (simp add: shared_def kinds_agree_def)

subsection \<open>Freeze window and effective locks\<close>

text \<open>
  C10. The precheck is a second computation of the projection. It returns PASS for the document of the
  projector and for no other document that differs from it as a Python value, provided that every
  assignment of the base schedule fills its ticks. An assignment whose duration is rounded up to
  ticks, which the projector accepts, makes the precheck raise for every document.
\<close>
theorem freeze_precheck_passes_projection:
  assumes "project_effective_locks digest ck sn ip base policy = Inr lp"
    and "assignment_index base (p_tick_seconds (ip_document ip)) = Inr idx"
    and "distinct_keys (JObj base)" and "distinct_keys (JObj policy)"
  shows "if \<forall>e \<in> set idx. whole_ticks (snd e)
    then (\<exists>report. validate_freeze_window_projection digest ck sn ip base policy (lp_document lp) = Inr report
        \<and> dict_get report ''status'' = JStr ''PASS'')
      \<and> (\<forall>doc report. distinct_keys (JObj doc) \<and> validate_freeze_window_projection digest ck sn ip base policy doc = Inr report
          \<and> dict_get report ''status'' = JStr ''PASS'' \<longrightarrow> py_eq (JObj doc) (JObj (lp_document lp)))
    else \<forall>doc. validate_freeze_window_projection digest ck sn ip base policy doc
      = Inl (input_error ''INVALID_ASSIGNMENT'' ''assignment.duration_seconds'')"
  using assms by (rule precheck_outcome)

theorem freeze_precheck_passes_projection_witness:
  "(\<exists>lp report. project_effective_locks sample_digest sample_checks sample_snapshot sample_ip (base_schedule 120) replan_policy_document = Inr lp
      \<and> validate_freeze_window_projection sample_digest sample_checks sample_snapshot sample_ip (base_schedule 120)
          replan_policy_document (lp_document lp) = Inr report \<and> dict_get report ''status'' = JStr ''PASS'')
   \<and> validate_freeze_window_projection sample_digest sample_checks sample_snapshot sample_ip (base_schedule 100) replan_policy_document []
      = Inl (input_error ''INVALID_ASSIGNMENT'' ''assignment.duration_seconds'')"
proof -
  obtain lp where lp: "project_effective_locks sample_digest sample_checks sample_snapshot sample_ip (base_schedule 120) replan_policy_document = Inr lp"
    using sample_projects(1) [OF sample_base_120] by blast
  obtain lp' where lp': "project_effective_locks sample_digest sample_checks sample_snapshot sample_ip (base_schedule 100) replan_policy_document = Inr lp'"
    using sample_projects(1) [OF sample_base_100] by blast
  show ?thesis
    using lp sample_ticks freeze_precheck_passes_projection [OF lp sample_projects(2) [OF sample_base_120] sample_keys]
      freeze_precheck_passes_projection [OF lp' sample_projects(2) [OF sample_base_100] sample_keys]
    by simp
qed

text \<open>
  C12. The freeze window is \<open>[cutoff, cutoff + 900 s)\<close>: an assignment of the base schedule whose
  operation has not started begins at the cutoff or later, its operation is listed as outside the
  window exactly if it begins at the end of the window or later, and it is turned into a hard lock at
  its resource, start and end exactly if it begins before.
\<close>
theorem freeze_window_is_half_open:
  assumes "project_effective_locks digest ck sn ip base policy = Inr lp" and "distinct_keys (JObj policy)"
    and "assignment_index base (p_tick_seconds (ip_document ip)) = Inr idx" and "(i, a) \<in> set idx"
    and "operation_by_id (ip_document ip) i = Some op" and "op_status op = NOT_STARTED"
  shows "\<exists>cutoff start. second_of (JStr (sn_cutoff_at_utc sn)) = Some cutoff \<and> second_of (dict_get a ''start_at_utc'') = Some start
    \<and> stamp_micros cutoff \<le> stamp_micros start
    \<and> (JStr i \<in> set (entries_of (lp_document lp) ''outside_freeze_operation_ids'')
        \<longleftrightarrow> stamp_micros cutoff + 900 * micros \<le> stamp_micros start)
    \<and> ((\<exists>v. JObj v \<in> set (entries_of (lp_document lp) ''freeze_derived_hard_locks'') \<and> dict_get v ''operation_id'' = JStr i
            \<and> raw_tuple v = raw_tuple a)
        \<longleftrightarrow> stamp_micros start < stamp_micros cutoff + 900 * micros)"
  using assms by (rule window_outcome)

theorem freeze_window_is_half_open_witness:
  "\<exists>lp. project_effective_locks sample_digest sample_checks sample_snapshot sample_ip (base_schedule 120) replan_policy_document = Inr lp
    \<and> JStr ''op-2'' \<in> set (entries_of (lp_document lp) ''outside_freeze_operation_ids'')"
proof -
  obtain lp where lp: "project_effective_locks sample_digest sample_checks sample_snapshot sample_ip (base_schedule 120) replan_policy_document = Inr lp"
    using sample_projects(1) [OF sample_base_120] by blast
  obtain op where op: "operation_by_id (ip_document sample_ip) ''op-2'' = Some op" "op_status op = NOT_STARTED" using sample_open(1) by blast
  show ?thesis
    using lp freeze_window_is_half_open [OF lp sample_keys(2) sample_projects(2) [OF sample_base_120] sample_entries(1) op] sample_starts
    by auto
qed

text \<open>
  C11. The protections of a projection never contradict each other: two of the running, explicit and
  derived ones that name the same operation have the same resource, start and end.
\<close>
theorem effective_protections_agree:
  assumes "project_effective_locks digest ck sn ip base policy = Inr lp"
    and "JObj v \<in> set (effective_protections (lp_document lp))" and "JObj w \<in> set (effective_protections (lp_document lp))"
    and "dict_get v ''operation_id'' = dict_get w ''operation_id''"
  shows "raw_tuple v = raw_tuple w"
  using assms by (rule protections_agree)

theorem effective_protections_agree_witness:
  "\<exists>lp v w. project_effective_locks sample_digest sample_checks sample_snapshot sample_ip (base_schedule 120) replan_policy_document = Inr lp
    \<and> JObj v \<in> set (entries_of (lp_document lp) ''explicit_hard_locks'') \<and> JObj w \<in> set (entries_of (lp_document lp) ''freeze_derived_hard_locks'')
    \<and> raw_tuple v = raw_tuple w"
proof -
  obtain lp where lp: "project_effective_locks sample_digest sample_checks sample_snapshot sample_ip (base_schedule 120) replan_policy_document = Inr lp"
    using sample_projects(1) [OF sample_base_120] by blast
  obtain v w where v: "JObj v \<in> set (entries_of (lp_document lp) ''explicit_hard_locks'')" "dict_get v ''operation_id'' = JStr ''op-3''"
    and w: "JObj w \<in> set (entries_of (lp_document lp) ''freeze_derived_hard_locks'')" "dict_get w ''operation_id'' = JStr ''op-3''"
    using sample_protections [OF lp] by blast
  then have "raw_tuple v = raw_tuple w"
    by (intro effective_protections_agree [OF lp]) (simp_all add: effective_protections_def)
  then show ?thesis using lp v(1) w(1) by blast
qed
end
